(* ===== verification/Vgw_Prelude.thy ===== *)
theory Vgw_Prelude
  imports Main "HOL-Library.Word"
begin

text \<open>
  Shared vocabulary of the development: the C integer types as machine words, byte order
  (the module is built for x86-64, a little-endian target), the error codes of the C code as
  a datatype, and the combinators with which the state-passing models of the C functions are
  written. Generic facts about them are collected in \<open>byte_simps\<close> and \<open>act_simps\<close>.
\<close>

unbundle bit_operations_syntax

named_theorems byte_simps \<open>byte order and byte layout\<close>
named_theorems act_simps \<open>sequencing of fallible actions\<close>
named_theorems const_simps \<open>unfolding of the numeric constants of the kernel headers\<close>

section \<open>Integer types\<close>

type_synonym u8 = "8 word"
type_synonym u16 = "16 word"
type_synonym u32 = "32 word"
type_synonym u64 = "64 word"

text \<open>
  Conversions between widths: widening keeps the value, narrowing commutes with the ring
  operations.
\<close>

named_theorems width_simps \<open>conversions between integer widths\<close>

lemma down_ring [width_simps]:
  fixes x y :: u64
  shows "(ucast (x + y) :: u32) = ucast x + ucast y"
    and "(ucast (x - y) :: u32) = ucast x - ucast y"
    and "(ucast (x * y) :: u32) = ucast x * ucast y"
  by (transfer, subst (2) take_bit_add [symmetric], simp add: take_bit_add)
    (transfer, subst (2) take_bit_diff [symmetric], simp add: take_bit_diff,
     transfer, subst (2) take_bit_mult [symmetric], simp add: take_bit_mult)

lemma up_down [width_simps]:
  "(ucast (ucast (x :: u32) :: u64) :: u32) = x"
  "(ucast (ucast (b :: u8) :: u64) :: u32) = ucast b"
  by (rule bit_word_eqI, auto simp: bit_simps dest: bit_imp_le_length)+

lemma unat_bound: "unat (b :: u8) < 256" "unat (h :: u16) < 65536"
  using unsigned_less [where 'a = nat, of b] unsigned_less [where 'a = nat, of h] by simp_all

lemma unat_up [width_simps]:
  "unat (ucast (b :: u8) :: u32) = unat b"
  "unat (ucast (h :: u16) :: u32) = unat h"
  using unat_bound(1) [of b] unat_bound(2) [of h]
  by (simp_all add: unsigned_ucast_eq take_bit_nat_eq_self)

lemma unat_times4 [width_simps]: "unat (ucast (b :: u8) * 4 :: u32) = 4 * unat b"
  using unat_bound(1) [of b] by (simp add: unat_word_ariths width_simps)

section \<open>Errors\<close>

text \<open>
  A C function that returns \<open>0\<close> or a negative error code returns a value of \<open>errno + unit\<close>
  here. \<open>EFAIL\<close> is the bare \<open>-1\<close> of the \<open>nla_put_failure\<close> exits; \<open>EKERN\<close> is a code chosen by
  a kernel function the sources only call; \<open>OOPS\<close> is a dereference of a null or dangling
  pointer, which the C code does not return from.
\<close>

datatype errno =
    EFAIL | ENOENT | EAGAIN | ENOMEM | EBUSY | EEXIST | EINVAL | ENOSPC | ERANGE | ETIME
  | EMSGSIZE | EOPNOTSUPP | ENOBUFS | EKERN nat | OOPS

type_synonym 'a res = "errno + 'a"

section \<open>Fallible actions on a state\<close>

text \<open>
  A function that writes to a buffer and may fail: it returns its code together with the
  buffer, which keeps what was written before the failure.
\<close>

type_synonym 's action = "'s \<Rightarrow> unit res \<times> 's"

text \<open>\<open>if (a < 0 || b < 0 || ...) goto fail;\<close>: run in order, stop at the first failure.\<close>

fun run_acts :: "'s action list \<Rightarrow> 's action" where
  "run_acts [] s = (Inr (), s)"
| "run_acts (a # as) s = (case a s of (Inl e, s') \<Rightarrow> (Inl e, s') | (Inr _, s') \<Rightarrow> run_acts as s')"

text \<open>
  A failing exit that replaces the code of what failed (\<open>goto nla_put_failure; return -1\<close>). An
  \<open>OOPS\<close> is not a code: no exit is reached from it.
\<close>

definition exit_code :: "errno \<Rightarrow> errno \<Rightarrow> errno" where
  "exit_code e e0 = (if e0 = OOPS then OOPS else e)"

definition fail_with :: "errno \<Rightarrow> 's action \<Rightarrow> 's action" where
  "fail_with e a s =
     (case a s of (Inl e0, s') \<Rightarrow> (Inl (exit_code e e0), s') | (Inr _, s') \<Rightarrow> (Inr (), s'))"

text \<open>\<open>if (c) a\<close>: nothing is done, successfully, when the condition is false.\<close>

definition act_when :: "bool \<Rightarrow> 's action \<Rightarrow> 's action" where
  "act_when c a s = (if c then a s else (Inr (), s))"

text \<open>Sequencing of checks that only return a code.\<close>

fun bind_res :: "'a res \<Rightarrow> ('a \<Rightarrow> 'b res) \<Rightarrow> 'b res" where
  "bind_res (Inl e) f = Inl e"
| "bind_res (Inr x) f = f x"

lemma bind_res_Inr_iff [simp]: "bind_res r f = Inr y \<longleftrightarrow> (\<exists>x. r = Inr x \<and> f x = Inr y)"
  by (cases r) auto

lemma bind_res_assoc: "bind_res (bind_res r f) g = bind_res r (\<lambda>x. bind_res (f x) g)"
  by (cases r) auto

lemma run_acts_append [act_simps]:
  "run_acts (as @ bs) s = (case run_acts as s of (Inl e, s') \<Rightarrow> (Inl e, s') | (Inr _, s') \<Rightarrow> run_acts bs s')"
  by (induction as arbitrary: s) (auto split: prod.splits sum.splits)

lemma run_acts_Cons_ok [act_simps]:
  "run_acts (a # as) s = (Inr u, s') \<longleftrightarrow> (\<exists>s1. a s = (Inr (), s1) \<and> run_acts as s1 = (Inr (), s'))"
  by (auto split: prod.splits sum.splits)

lemma run_acts_Nil_ok [act_simps]: "run_acts [] s = (Inr u, s') \<longleftrightarrow> s' = s"
  by auto

lemma fail_with_ok [act_simps]: "fail_with e a s = (Inr u, s') \<longleftrightarrow> a s = (Inr (), s')"
  by (auto simp: fail_with_def split: prod.splits sum.splits)

lemma fail_with_err:
  "fail_with e a s = (Inl e', s') \<Longrightarrow> \<exists>e0. a s = (Inl e0, s') \<and> e' = exit_code e e0"
  by (auto simp: fail_with_def split: prod.splits sum.splits)

lemma act_when_ok [act_simps]:
  "act_when c a s = (Inr u, s') \<longleftrightarrow> (if c then a s = (Inr (), s') else s' = s)"
  by (auto simp: act_when_def)

text \<open>
  A relation kept by every step of a sequence is kept by the sequence: the rule behind every
  frame property of the attribute writers.
\<close>

lemma run_acts_preserves:
  assumes refl: "\<And>s. R s s"
    and trans: "\<And>s1 s2 s3. R s1 s2 \<Longrightarrow> R s2 s3 \<Longrightarrow> R s1 s3"
    and step: "\<And>a s. a \<in> set as \<Longrightarrow> R s (snd (a s))"
  shows "R s (snd (run_acts as s))"
  using step
proof (induction as arbitrary: s)
  case Nil
  then show ?case by (simp add: refl)
next
  case (Cons a as)
  obtain r s1 where a: "a s = (r, s1)" by (cases "a s")
  have one: "R s s1" using Cons.prems [of a s] a by simp
  have "R s1 (snd (run_acts as s1))" using Cons.IH Cons.prems by simp
  with one a show ?case by (cases r) (auto intro: trans)
qed

section \<open>Byte order\<close>

definition mk16 :: "u8 \<Rightarrow> u8 \<Rightarrow> u16" where
  "mk16 a b = ucast a OR push_bit 8 (ucast b)"

definition mk32 :: "u8 \<Rightarrow> u8 \<Rightarrow> u8 \<Rightarrow> u8 \<Rightarrow> u32" where
  "mk32 a b c d =
     ucast a OR push_bit 8 (ucast b) OR push_bit 16 (ucast c) OR push_bit 24 (ucast d)"

definition byte16 :: "nat \<Rightarrow> u16 \<Rightarrow> u8" where
  "byte16 i x = ucast (drop_bit (8 * i) x)"

definition byte32 :: "nat \<Rightarrow> u32 \<Rightarrow> u8" where
  "byte32 i x = ucast (drop_bit (8 * i) x)"

lemma mk16_bytes [byte_simps]: "mk16 (byte16 0 x) (byte16 (Suc 0) x) = x"
  unfolding mk16_def byte16_def
  by (rule bit_word_eqI) (auto simp: bit_simps not_less)

lemma byte16_mk16 [byte_simps]: "byte16 0 (mk16 a b) = a" "byte16 (Suc 0) (mk16 a b) = b"
  unfolding mk16_def byte16_def
  by (rule bit_word_eqI, auto simp: bit_simps dest: bit_imp_le_length)+

lemma mk32_bytes [byte_simps]: "mk32 (byte32 0 x) (byte32 (Suc 0) x) (byte32 2 x) (byte32 3 x) = x"
  unfolding mk32_def byte32_def
proof (rule bit_word_eqI)
  fix n :: nat
  assume "n < LENGTH(32)"
  then consider "n < 8" | "8 \<le> n" "n < 16" | "16 \<le> n" "n < 24" | "24 \<le> n" "n < 32"
    by fastforce
  then show "bit (ucast (ucast (drop_bit (8 * 0) x) :: u8) OR
      push_bit 8 (ucast (ucast (drop_bit (8 * Suc 0) x) :: u8)) OR
      push_bit 16 (ucast (ucast (drop_bit (8 * 2) x) :: u8)) OR
      push_bit 24 (ucast (ucast (drop_bit (8 * 3) x) :: u8)) :: u32) n = bit x n"
    by cases (auto simp: bit_simps)
qed

lemma byte32_mk32 [byte_simps]:
  "byte32 0 (mk32 a b c d) = a" "byte32 (Suc 0) (mk32 a b c d) = b"
  "byte32 2 (mk32 a b c d) = c" "byte32 3 (mk32 a b c d) = d"
  unfolding mk32_def byte32_def
  by (rule bit_word_eqI, auto simp: bit_simps dest: bit_imp_le_length)+

text \<open>\<open>ntohs\<close>, \<open>htons\<close>, \<open>ntohl\<close>, \<open>htonl\<close> on a little-endian machine swap the bytes.\<close>

definition bswap16 :: "u16 \<Rightarrow> u16" where
  "bswap16 x = mk16 (byte16 1 x) (byte16 0 x)"

definition bswap32 :: "u32 \<Rightarrow> u32" where
  "bswap32 x = mk32 (byte32 3 x) (byte32 2 x) (byte32 1 x) (byte32 0 x)"

abbreviation htons :: "u16 \<Rightarrow> u16" where "htons \<equiv> bswap16"
abbreviation ntohs :: "u16 \<Rightarrow> u16" where "ntohs \<equiv> bswap16"
abbreviation htonl :: "u32 \<Rightarrow> u32" where "htonl \<equiv> bswap32"
abbreviation ntohl :: "u32 \<Rightarrow> u32" where "ntohl \<equiv> bswap32"

text \<open>\<open>cpu_to_be64\<close>: the halves are swapped, and the bytes inside each.\<close>

definition bswap64 :: "u64 \<Rightarrow> u64" where
  "bswap64 x = ucast (bswap32 (ucast (drop_bit 32 x))) OR push_bit 32 (ucast (bswap32 (ucast x)))"

abbreviation cpu_to_be64 :: "u64 \<Rightarrow> u64" where "cpu_to_be64 \<equiv> bswap64"

lemma bswap16_bswap16 [simp]: "bswap16 (bswap16 x) = x"
  by (simp add: bswap16_def byte_simps)

lemma bswap32_bswap32 [simp]: "bswap32 (bswap32 x) = x"
  by (simp add: bswap32_def byte_simps)

lemma halves64 [byte_simps]:
  "(ucast (ucast (a :: u32) OR push_bit 32 (ucast (b :: u32)) :: u64) :: u32) = a"
  "(ucast (drop_bit 32 (ucast (a :: u32) OR push_bit 32 (ucast (b :: u32)) :: u64)) :: u32) = b"
  "ucast (ucast x :: u32) OR push_bit 32 (ucast (ucast (drop_bit 32 x) :: u32)) = (x :: u64)"
  by (rule bit_word_eqI, auto simp: bit_simps not_less dest: bit_imp_le_length)+

lemma bswap64_bswap64 [simp]: "bswap64 (bswap64 x) = x"
  by (simp only: bswap64_def halves64 bswap32_bswap32)

lemma bswap32_zero [simp]: "bswap32 0 = 0"
  by (simp add: bswap32_def mk32_def byte32_def)

lemma bswap16_inject [simp]: "bswap16 x = bswap16 y \<longleftrightarrow> x = y"
  by (metis bswap16_bswap16)

lemma bswap32_inject [simp]: "bswap32 x = bswap32 y \<longleftrightarrow> x = y"
  by (metis bswap32_bswap32)

text \<open>
  Memory layout of the integer fields of a C struct, in declaration order.
\<close>

definition le16 :: "u16 \<Rightarrow> u8 list" where
  "le16 x = [byte16 0 x, byte16 1 x]"

definition le32 :: "u32 \<Rightarrow> u8 list" where
  "le32 x = [byte32 0 x, byte32 1 x, byte32 2 x, byte32 3 x]"

definition le64 :: "u64 \<Rightarrow> u8 list" where
  "le64 x = le32 (ucast x) @ le32 (ucast (drop_bit 32 x))"

lemma length_le64 [simp]: "length (le64 x) = 8"
  by (simp add: le64_def le32_def)

lemma length_le16 [simp]: "length (le16 x) = 2"
  by (simp add: le16_def)

lemma length_le32 [simp]: "length (le32 x) = 4"
  by (simp add: le32_def)

text \<open>
  Reading an integer at an offset of a byte buffer; \<open>None\<close> is a read past its end.
\<close>

definition rd8 :: "u8 list \<Rightarrow> nat \<Rightarrow> u8 option" where
  "rd8 bs i = (if i < length bs then Some (bs ! i) else None)"

definition rd16 :: "u8 list \<Rightarrow> nat \<Rightarrow> u16 option" where
  "rd16 bs i = (if i + 1 < length bs then Some (mk16 (bs ! i) (bs ! (i + 1))) else None)"

definition rd32 :: "u8 list \<Rightarrow> nat \<Rightarrow> u32 option" where
  "rd32 bs i = (if i + 3 < length bs
     then Some (mk32 (bs ! i) (bs ! (i + 1)) (bs ! (i + 2)) (bs ! (i + 3))) else None)"

text \<open>Fields laid out one after the other are read back at their offsets.\<close>

lemma rd_here [byte_simps]:
  "rd8 (x # bs) 0 = Some x"
  "rd16 (le16 y @ bs) 0 = Some y"
  "rd32 (le32 z @ bs) 0 = Some z"
  using mk16_bytes [of y] mk32_bytes [of z]
  by (simp_all add: rd8_def rd16_def rd32_def le16_def le32_def numeral_eq_Suc)

lemma rd_skip [byte_simps]:
  assumes "length xs \<le> i"
  shows "rd8 (xs @ bs) i = rd8 bs (i - length xs)"
    and "rd16 (xs @ bs) i = rd16 bs (i - length xs)"
    and "rd32 (xs @ bs) i = rd32 bs (i - length xs)"
proof -
  from assms obtain k where i: "i = length xs + k" by (auto simp: le_iff_add)
  show "rd8 (xs @ bs) i = rd8 bs (i - length xs)"
    and "rd16 (xs @ bs) i = rd16 bs (i - length xs)"
    and "rd32 (xs @ bs) i = rd32 bs (i - length xs)"
    by (auto simp: i rd8_def rd16_def rd32_def nth_append)
qed

lemma rd_skip_Cons [byte_simps]:
  assumes "0 < i"
  shows "rd8 (x # bs) i = rd8 bs (i - 1)"
    and "rd16 (x # bs) i = rd16 bs (i - 1)"
    and "rd32 (x # bs) i = rd32 bs (i - 1)"
  using rd_skip [of "[x]" i bs] assms by simp_all

text \<open>A field at the end of a layout.\<close>

lemma rd_last [byte_simps]:
  "rd16 (le16 y) 0 = Some y"
  "rd32 (le32 z) 0 = Some z"
  using rd_here(2) [of y "[]"] rd_here(3) [of z "[]"] by simp_all

end
