(* ===== verification/Nf_Types.thy ===== *)
theory Nf_Types
  imports Vgw_Prelude
begin

text \<open>
  The kernel data structures the module works on, with the fields of the kernel the module is
  built for (\<open>cli/pkg/bpf/src/vmlinux-5.14.0-362.8.1.el9_3.h\<close>), and the numeric constants of
  the netlink and conntrack interfaces. The attribute numbers are the ones
  \<open>cli/vendor/github.com/ti-mo/conntrack/enum.go\<close> lists; \<open>CTA_FILTER\<close> and
  \<open>CTA_STATUS_MASK\<close> follow \<open>CTA_SYNPROXY\<close> in the same enumeration.
\<close>

section \<open>Addresses, tuples and zones\<close>

text \<open>
  \<open>union nf_inet_addr\<close> is four 32-bit words in network byte order; its member \<open>ip\<close> is the
  first of them, its member \<open>in6\<close> is all four.
\<close>

record nf_inet_addr =
  all0 :: u32
  all1 :: u32
  all2 :: u32
  all3 :: u32

abbreviation (input) addr_ip :: "nf_inet_addr \<Rightarrow> u32" where
  "addr_ip a \<equiv> all0 a"

definition any_addr :: nf_inet_addr where
  "any_addr = \<lparr>all0 = 0, all1 = 0, all2 = 0, all3 = 0\<rparr>"

text \<open>
  \<open>union nf_conntrack_man_proto\<close> is one 16-bit word in network byte order under several names
  (port, icmp id, key). The destination's union adds the icmp type and code, its two bytes.
\<close>

record nf_conntrack_tuple =
  src_u3 :: nf_inet_addr
  src_u :: u16
  src_l3num :: u16
  dst_u3 :: nf_inet_addr
  dst_u :: u16
  dst_protonum :: u8
  dst_dir :: u8

definition icmp_type :: "u16 \<Rightarrow> u8" where
  "icmp_type u = byte16 0 u"

definition icmp_code :: "u16 \<Rightarrow> u8" where
  "icmp_code u = byte16 1 u"

text \<open>\<open>memset(tuple, 0, sizeof)\<close>.\<close>

definition zero_tuple :: nf_conntrack_tuple where
  "zero_tuple = \<lparr>src_u3 = any_addr, src_u = 0, src_l3num = 0,
     dst_u3 = any_addr, dst_u = 0, dst_protonum = 0, dst_dir = 0\<rparr>"

record nf_conntrack_zone =
  zone_id :: u16
  zone_flags :: u8
  zone_dir :: u8

section \<open>Connections\<close>

record ip_ct_tcp_state =
  td_end :: u32
  td_maxend :: u32
  td_maxwin :: u32
  td_maxack :: u32
  td_scale :: u8
  tcp_flags :: u8

record ip_ct_tcp =
  seen0 :: ip_ct_tcp_state
  seen1 :: ip_ct_tcp_state
  tcp_state :: u8
  last_dir :: u8
  retrans :: u8
  last_index :: u8
  last_seq :: u32
  last_ack :: u32
  last_end :: u32
  last_win :: u16
  last_wscale :: u8
  last_flags :: u8

record nf_conn_counter =
  ctr_packets :: u64
  ctr_bytes :: u64

record nf_conn_tstamp =
  ts_start :: u64
  ts_stop :: u64

record nf_ct_seqadj =
  correction_pos :: u32
  offset_before :: u32
  offset_after :: u32

record nf_conn_synproxy =
  sp_isn :: u32
  sp_its :: u32
  sp_tsoff :: u32

text \<open>
  A helper is a kernel object: \<open>hlp_ptr\<close> is its address, which the code compares.
\<close>

record nf_conntrack_helper =
  hlp_ptr :: nat
  hlp_name :: string
  expect_class_max :: u32

text \<open>\<open>nfct_help(ct)\<close>: the extension area, whose \<open>helper\<close> pointer may be null.\<close>

record nf_conn_help =
  help_helper :: "nf_conntrack_helper option"

text \<open>
  A connection. Pointers to other connections are addresses in a store. The extension areas
  (accounting, timestamp, labels, ...) are pointers that may be null: \<open>None\<close>. The member
  \<open>proto\<close> is the union \<open>nf_conntrack_proto\<close> read as its TCP member, the only one the
  sources read.
\<close>

record nf_conn =
  ct_use :: nat
  ct_timeout :: u32
  ct_zone :: nf_conntrack_zone
  tuple_orig :: nf_conntrack_tuple
  tuple_reply :: nf_conntrack_tuple
  ct_status :: u64
  ct_net :: nat
  ct_master :: "nat option"
  ct_mark :: u32
  ct_secmark :: u32
  ct_proto :: ip_ct_tcp
  ext_help :: "nf_conn_help option"
  ext_acct :: "(nf_conn_counter \<times> nf_conn_counter) option"
  ext_tstamp :: "nf_conn_tstamp option"
  ext_labels :: "(u64 \<times> u64) option"
  ext_seqadj :: "(nf_ct_seqadj \<times> nf_ct_seqadj) option"
  ext_synproxy :: "nf_conn_synproxy option"

text \<open>The kernel memory that holds connections: addresses to live objects.\<close>

type_synonym ct_store = "nat \<Rightarrow> nf_conn option"

text \<open>\<open>nf_ct_l3num\<close>, \<open>nf_ct_protonum\<close> and \<open>nf_ct_tuple\<close> read the original tuple.\<close>

abbreviation ct_l3num :: "nf_conn \<Rightarrow> u16" where
  "ct_l3num ct \<equiv> src_l3num (tuple_orig ct)"

abbreviation ct_protonum :: "nf_conn \<Rightarrow> u8" where
  "ct_protonum ct \<equiv> dst_protonum (tuple_orig ct)"

section \<open>Constants\<close>

subsection \<open>Protocols, directions, zones\<close>

abbreviation (input) NFPROTO_IPV4 :: u16 where "NFPROTO_IPV4 \<equiv> 2"
abbreviation (input) NFPROTO_IPV6 :: u16 where "NFPROTO_IPV6 \<equiv> 10"
abbreviation (input) IPPROTO_ICMP :: u8 where "IPPROTO_ICMP \<equiv> 1"
abbreviation (input) IPPROTO_TCP :: u8 where "IPPROTO_TCP \<equiv> 6"
abbreviation (input) IPPROTO_UDP :: u8 where "IPPROTO_UDP \<equiv> 17"
abbreviation (input) IPPROTO_ICMPV6 :: u8 where "IPPROTO_ICMPV6 \<equiv> 58"
abbreviation (input) IP_CT_DIR_ORIGINAL :: u8 where "IP_CT_DIR_ORIGINAL \<equiv> 0"
abbreviation (input) IP_CT_DIR_REPLY :: u8 where "IP_CT_DIR_REPLY \<equiv> 1"
abbreviation (input) NF_CT_DEFAULT_ZONE_ID :: u16 where "NF_CT_DEFAULT_ZONE_ID \<equiv> 0"
abbreviation (input) NF_CT_ZONE_DIR_ORIG :: u8 where "NF_CT_ZONE_DIR_ORIG \<equiv> 1"
abbreviation (input) NF_CT_ZONE_DIR_REPL :: u8 where "NF_CT_ZONE_DIR_REPL \<equiv> 2"
abbreviation (input) NF_CT_DEFAULT_ZONE_DIR :: u8 where "NF_CT_DEFAULT_ZONE_DIR \<equiv> 3"

subsection \<open>\<open>enum tcp_conntrack\<close>, \<open>enum ip_conntrack_info\<close>, \<open>enum ip_conntrack_status\<close>\<close>

abbreviation (input) TCP_CONNTRACK_NONE :: u8 where "TCP_CONNTRACK_NONE \<equiv> 0"
abbreviation (input) TCP_CONNTRACK_SYN_SENT :: u8 where "TCP_CONNTRACK_SYN_SENT \<equiv> 1"
abbreviation (input) TCP_CONNTRACK_SYN_RECV :: u8 where "TCP_CONNTRACK_SYN_RECV \<equiv> 2"
abbreviation (input) TCP_CONNTRACK_ESTABLISHED :: u8 where "TCP_CONNTRACK_ESTABLISHED \<equiv> 3"
abbreviation (input) TCP_CONNTRACK_CLOSE_WAIT :: u8 where "TCP_CONNTRACK_CLOSE_WAIT \<equiv> 5"
abbreviation (input) TCP_CONNTRACK_CLOSE :: u8 where "TCP_CONNTRACK_CLOSE \<equiv> 8"
abbreviation (input) TCP_CONNTRACK_MAX :: u8 where "TCP_CONNTRACK_MAX \<equiv> 10"

abbreviation (input) IP_CT_ESTABLISHED :: nat where "IP_CT_ESTABLISHED \<equiv> 0"
abbreviation (input) IP_CT_UNTRACKED :: nat where "IP_CT_UNTRACKED \<equiv> 7"

abbreviation (input) IPS_EXPECTED :: u64 where "IPS_EXPECTED \<equiv> 1"
abbreviation (input) IPS_SEEN_REPLY :: u64 where "IPS_SEEN_REPLY \<equiv> 2"
abbreviation (input) IPS_ASSURED :: u64 where "IPS_ASSURED \<equiv> 4"
abbreviation (input) IPS_CONFIRMED :: u64 where "IPS_CONFIRMED \<equiv> 8"
abbreviation (input) IPS_NAT_MASK :: u64 where "IPS_NAT_MASK \<equiv> 48"
abbreviation (input) IPS_SEQ_ADJUST :: u64 where "IPS_SEQ_ADJUST \<equiv> 64"
abbreviation (input) IPS_HELPER :: u64 where "IPS_HELPER \<equiv> 8192"
abbreviation (input) IPS_OFFLOAD :: u64 where "IPS_OFFLOAD \<equiv> 16384"

text \<open>\<open>status & flag\<close> as a C condition, and \<open>test_bit\<close> on the same word.\<close>

definition has_flag :: "u64 \<Rightarrow> u64 \<Rightarrow> bool" where
  "has_flag s f \<longleftrightarrow> s AND f \<noteq> 0"

subsection \<open>Attribute numbers\<close>

abbreviation (input) CTA_TUPLE_ORIG :: nat where "CTA_TUPLE_ORIG \<equiv> 1"
abbreviation (input) CTA_TUPLE_REPLY :: nat where "CTA_TUPLE_REPLY \<equiv> 2"
abbreviation (input) CTA_STATUS :: nat where "CTA_STATUS \<equiv> 3"
abbreviation (input) CTA_PROTOINFO :: nat where "CTA_PROTOINFO \<equiv> 4"
abbreviation (input) CTA_HELP :: nat where "CTA_HELP \<equiv> 5"
abbreviation (input) CTA_NAT_SRC :: nat where "CTA_NAT_SRC \<equiv> 6"
abbreviation (input) CTA_TIMEOUT :: nat where "CTA_TIMEOUT \<equiv> 7"
abbreviation (input) CTA_MARK :: nat where "CTA_MARK \<equiv> 8"
abbreviation (input) CTA_COUNTERS_ORIG :: nat where "CTA_COUNTERS_ORIG \<equiv> 9"
abbreviation (input) CTA_COUNTERS_REPLY :: nat where "CTA_COUNTERS_REPLY \<equiv> 10"
abbreviation (input) CTA_USE :: nat where "CTA_USE \<equiv> 11"
abbreviation (input) CTA_ID :: nat where "CTA_ID \<equiv> 12"
abbreviation (input) CTA_NAT_DST :: nat where "CTA_NAT_DST \<equiv> 13"
abbreviation (input) CTA_TUPLE_MASTER :: nat where "CTA_TUPLE_MASTER \<equiv> 14"
abbreviation (input) CTA_SEQ_ADJ_ORIG :: nat where "CTA_SEQ_ADJ_ORIG \<equiv> 15"
abbreviation (input) CTA_SEQ_ADJ_REPLY :: nat where "CTA_SEQ_ADJ_REPLY \<equiv> 16"
abbreviation (input) CTA_ZONE :: nat where "CTA_ZONE \<equiv> 18"
abbreviation (input) CTA_SECCTX :: nat where "CTA_SECCTX \<equiv> 19"
abbreviation (input) CTA_TIMESTAMP :: nat where "CTA_TIMESTAMP \<equiv> 20"
abbreviation (input) CTA_MARK_MASK :: nat where "CTA_MARK_MASK \<equiv> 21"
abbreviation (input) CTA_LABELS :: nat where "CTA_LABELS \<equiv> 22"
abbreviation (input) CTA_LABELS_MASK :: nat where "CTA_LABELS_MASK \<equiv> 23"
abbreviation (input) CTA_SYNPROXY :: nat where "CTA_SYNPROXY \<equiv> 24"
abbreviation (input) CTA_FILTER :: nat where "CTA_FILTER \<equiv> 25"
abbreviation (input) CTA_STATUS_MASK :: nat where "CTA_STATUS_MASK \<equiv> 26"
abbreviation (input) CTA_MAX :: nat where "CTA_MAX \<equiv> 26"

abbreviation (input) CTA_TUPLE_IP :: nat where "CTA_TUPLE_IP \<equiv> 1"
abbreviation (input) CTA_TUPLE_PROTO :: nat where "CTA_TUPLE_PROTO \<equiv> 2"
abbreviation (input) CTA_TUPLE_ZONE :: nat where "CTA_TUPLE_ZONE \<equiv> 3"
abbreviation (input) CTA_TUPLE_MAX :: nat where "CTA_TUPLE_MAX \<equiv> 3"

abbreviation (input) CTA_IP_V4_SRC :: nat where "CTA_IP_V4_SRC \<equiv> 1"
abbreviation (input) CTA_IP_V4_DST :: nat where "CTA_IP_V4_DST \<equiv> 2"
abbreviation (input) CTA_IP_V6_SRC :: nat where "CTA_IP_V6_SRC \<equiv> 3"
abbreviation (input) CTA_IP_V6_DST :: nat where "CTA_IP_V6_DST \<equiv> 4"
abbreviation (input) CTA_IP_MAX :: nat where "CTA_IP_MAX \<equiv> 4"

abbreviation (input) CTA_PROTO_NUM :: nat where "CTA_PROTO_NUM \<equiv> 1"
abbreviation (input) CTA_PROTO_SRC_PORT :: nat where "CTA_PROTO_SRC_PORT \<equiv> 2"
abbreviation (input) CTA_PROTO_DST_PORT :: nat where "CTA_PROTO_DST_PORT \<equiv> 3"
abbreviation (input) CTA_PROTO_MAX :: nat where "CTA_PROTO_MAX \<equiv> 9"

abbreviation (input) CTA_PROTOINFO_TCP :: nat where "CTA_PROTOINFO_TCP \<equiv> 1"
abbreviation (input) CTA_PROTOINFO_DCCP :: nat where "CTA_PROTOINFO_DCCP \<equiv> 2"
abbreviation (input) CTA_PROTOINFO_SCTP :: nat where "CTA_PROTOINFO_SCTP \<equiv> 3"
abbreviation (input) CTA_PROTOINFO_MAX :: nat where "CTA_PROTOINFO_MAX \<equiv> 3"

abbreviation (input) CTA_PROTOINFO_TCP_STATE :: nat where "CTA_PROTOINFO_TCP_STATE \<equiv> 1"
abbreviation (input) CTA_PROTOINFO_TCP_WSCALE_ORIGINAL :: nat where
  "CTA_PROTOINFO_TCP_WSCALE_ORIGINAL \<equiv> 2"
abbreviation (input) CTA_PROTOINFO_TCP_WSCALE_REPLY :: nat where
  "CTA_PROTOINFO_TCP_WSCALE_REPLY \<equiv> 3"
abbreviation (input) CTA_PROTOINFO_TCP_FLAGS_ORIGINAL :: nat where
  "CTA_PROTOINFO_TCP_FLAGS_ORIGINAL \<equiv> 4"
abbreviation (input) CTA_PROTOINFO_TCP_FLAGS_REPLY :: nat where
  "CTA_PROTOINFO_TCP_FLAGS_REPLY \<equiv> 5"

abbreviation (input) CTA_HELP_NAME :: nat where "CTA_HELP_NAME \<equiv> 1"
abbreviation (input) CTA_HELP_INFO :: nat where "CTA_HELP_INFO \<equiv> 2"
abbreviation (input) CTA_HELP_MAX :: nat where "CTA_HELP_MAX \<equiv> 2"

abbreviation (input) CTA_COUNTERS_PACKETS :: nat where "CTA_COUNTERS_PACKETS \<equiv> 1"
abbreviation (input) CTA_COUNTERS_BYTES :: nat where "CTA_COUNTERS_BYTES \<equiv> 2"

abbreviation (input) CTA_TIMESTAMP_START :: nat where "CTA_TIMESTAMP_START \<equiv> 1"
abbreviation (input) CTA_TIMESTAMP_STOP :: nat where "CTA_TIMESTAMP_STOP \<equiv> 2"

abbreviation (input) CTA_SECCTX_NAME :: nat where "CTA_SECCTX_NAME \<equiv> 1"

abbreviation (input) CTA_SEQADJ_CORRECTION_POS :: nat where "CTA_SEQADJ_CORRECTION_POS \<equiv> 1"
abbreviation (input) CTA_SEQADJ_OFFSET_BEFORE :: nat where "CTA_SEQADJ_OFFSET_BEFORE \<equiv> 2"
abbreviation (input) CTA_SEQADJ_OFFSET_AFTER :: nat where "CTA_SEQADJ_OFFSET_AFTER \<equiv> 3"
abbreviation (input) CTA_SEQADJ_MAX :: nat where "CTA_SEQADJ_MAX \<equiv> 3"

abbreviation (input) CTA_SYNPROXY_ISN :: nat where "CTA_SYNPROXY_ISN \<equiv> 1"
abbreviation (input) CTA_SYNPROXY_ITS :: nat where "CTA_SYNPROXY_ITS \<equiv> 2"
abbreviation (input) CTA_SYNPROXY_TSOFF :: nat where "CTA_SYNPROXY_TSOFF \<equiv> 3"
abbreviation (input) CTA_SYNPROXY_MAX :: nat where "CTA_SYNPROXY_MAX \<equiv> 3"

abbreviation (input) CTA_FILTER_ORIG_FLAGS :: nat where "CTA_FILTER_ORIG_FLAGS \<equiv> 1"
abbreviation (input) CTA_FILTER_REPLY_FLAGS :: nat where "CTA_FILTER_REPLY_FLAGS \<equiv> 2"
abbreviation (input) CTA_FILTER_MAX :: nat where "CTA_FILTER_MAX \<equiv> 2"

abbreviation (input) CTA_EXPECT_MASTER :: nat where "CTA_EXPECT_MASTER \<equiv> 1"
abbreviation (input) CTA_EXPECT_TUPLE :: nat where "CTA_EXPECT_TUPLE \<equiv> 2"
abbreviation (input) CTA_EXPECT_MASK :: nat where "CTA_EXPECT_MASK \<equiv> 3"

subsection \<open>Request flags and events\<close>

abbreviation (input) NLM_F_EXCL :: u32 where "NLM_F_EXCL \<equiv> 0x200"
abbreviation (input) NLM_F_CREATE :: u32 where "NLM_F_CREATE \<equiv> 0x400"

text \<open>\<open>enum ip_conntrack_events\<close>, as bits.\<close>

abbreviation (input) IPCT_NEW_BIT :: u32 where "IPCT_NEW_BIT \<equiv> 0x001"
abbreviation (input) IPCT_RELATED_BIT :: u32 where "IPCT_RELATED_BIT \<equiv> 0x002"
abbreviation (input) IPCT_DESTROY_BIT :: u32 where "IPCT_DESTROY_BIT \<equiv> 0x004"
abbreviation (input) IPCT_REPLY_BIT :: u32 where "IPCT_REPLY_BIT \<equiv> 0x008"
abbreviation (input) IPCT_ASSURED_BIT :: u32 where "IPCT_ASSURED_BIT \<equiv> 0x010"
abbreviation (input) IPCT_PROTOINFO_BIT :: u32 where "IPCT_PROTOINFO_BIT \<equiv> 0x020"
abbreviation (input) IPCT_HELPER_BIT :: u32 where "IPCT_HELPER_BIT \<equiv> 0x040"
abbreviation (input) IPCT_MARK_BIT :: u32 where "IPCT_MARK_BIT \<equiv> 0x080"
abbreviation (input) IPCT_SEQADJ_BIT :: u32 where "IPCT_SEQADJ_BIT \<equiv> 0x100"
abbreviation (input) IPCT_SECMARK_BIT :: u32 where "IPCT_SECMARK_BIT \<equiv> 0x200"
abbreviation (input) IPCT_LABEL_BIT :: u32 where "IPCT_LABEL_BIT \<equiv> 0x400"
abbreviation (input) IPCT_SYNPROXY_BIT :: u32 where "IPCT_SYNPROXY_BIT \<equiv> 0x800"

section \<open>Sample objects\<close>

text \<open>
  A TCP connection from 10.0.0.1 port 12345 to 10.0.0.2 port 80 in zone 100, with accounting and
  timestamps, on which the concrete instances of the properties are evaluated.
\<close>

definition sample_tuple :: nf_conntrack_tuple where
  "sample_tuple = \<lparr>src_u3 = any_addr\<lparr>all0 := 0x0100000A\<rparr>, src_u = 0x3930, src_l3num = NFPROTO_IPV4,
     dst_u3 = any_addr\<lparr>all0 := 0x0200000A\<rparr>, dst_u = 0x5000, dst_protonum = IPPROTO_TCP,
     dst_dir = IP_CT_DIR_ORIGINAL\<rparr>"

definition sample_tcp :: ip_ct_tcp where
  "sample_tcp =
     (let d = \<lparr>td_end = 1000, td_maxend = 2000, td_maxwin = 3, td_maxack = 4, td_scale = 7,
               tcp_flags = 0\<rparr>
      in \<lparr>seen0 = d, seen1 = d\<lparr>td_scale := 5\<rparr>, tcp_state = TCP_CONNTRACK_ESTABLISHED,
          last_dir = 0, retrans = 0, last_index = 2, last_seq = 1000, last_ack = 77,
          last_end = 1010, last_win = 512, last_wscale = 0, last_flags = 0\<rparr>)"

definition sample_ct :: nf_conn where
  "sample_ct = \<lparr>ct_use = 1, ct_timeout = 5000,
     ct_zone = \<lparr>zone_id = 100, zone_flags = 0, zone_dir = NF_CT_DEFAULT_ZONE_DIR\<rparr>,
     tuple_orig = sample_tuple,
     tuple_reply = \<lparr>src_u3 = dst_u3 sample_tuple, src_u = dst_u sample_tuple,
       src_l3num = NFPROTO_IPV4, dst_u3 = src_u3 sample_tuple, dst_u = src_u sample_tuple,
       dst_protonum = IPPROTO_TCP, dst_dir = IP_CT_DIR_REPLY\<rparr>,
     ct_status = IPS_CONFIRMED, ct_net = 0, ct_master = None, ct_mark = 1, ct_secmark = 0,
     ct_proto = sample_tcp, ext_help = None,
     ext_acct = Some (\<lparr>ctr_packets = 3, ctr_bytes = 180\<rparr>, \<lparr>ctr_packets = 2, ctr_bytes = 120\<rparr>),
     ext_tstamp = Some \<lparr>ts_start = 9, ts_stop = 0\<rparr>, ext_labels = None,
     ext_seqadj = None, ext_synproxy = None\<rparr>"

lemmas sample_defs = sample_ct_def sample_tuple_def sample_tcp_def any_addr_def

end
