(* ===== verification/Flow.thy ===== *)
theory Flow
  imports Nf_Types
begin

text \<open>
  The Open vSwitch flow key (\<open>kmod/flow.h\<close>), with the fields the module's code reads or
  writes, the inline functions of that header, and the part of
  \<open>struct ovs_conntrack_info\<close> (\<open>kmod/compatibility.h\<close>) the tracker uses.
\<close>

record sw_flow_key =
  key_mac_proto :: u8
  key_recirc_id :: u32
  key_eth_type :: u16
  key_ct_state :: u8
  key_ip_proto :: u8
  key_tp_src :: u16
  key_tp_dst :: u16

record ovs_conntrack_info =
  info_zone :: nf_conntrack_zone
  info_family :: u16

text \<open>The \<open>OVS_CS_F_*\<close> flags of \<open>ct_state\<close>.\<close>

abbreviation (input) OVS_CS_F_ESTABLISHED :: u8 where "OVS_CS_F_ESTABLISHED \<equiv> 0x02"
abbreviation (input) OVS_CS_F_INVALID :: u8 where "OVS_CS_F_INVALID \<equiv> 0x10"

abbreviation (input) MAC_PROTO_ETHERNET :: u8 where "MAC_PROTO_ETHERNET \<equiv> 1"
abbreviation (input) SW_FLOW_KEY_INVALID :: u8 where "SW_FLOW_KEY_INVALID \<equiv> 0x80"

definition sw_flow_key_is_nd :: "sw_flow_key \<Rightarrow> bool" where
  "sw_flow_key_is_nd key \<longleftrightarrow>
     key_eth_type key = htons 0x86DD \<and>
     key_ip_proto key = 58 \<and>
     key_tp_dst key = 0 \<and>
     (key_tp_src key = htons 135 \<or> key_tp_src key = htons 136)"

definition ovs_key_mac_proto :: "sw_flow_key \<Rightarrow> u8" where
  "ovs_key_mac_proto key = key_mac_proto key AND NOT SW_FLOW_KEY_INVALID"

definition ovs_mac_header_len_of :: "u8 \<Rightarrow> u16" where
  "ovs_mac_header_len_of mac_proto = (if mac_proto = MAC_PROTO_ETHERNET then 14 else 0)"

definition ovs_mac_header_len :: "sw_flow_key \<Rightarrow> u16" where
  "ovs_mac_header_len key = ovs_mac_header_len_of (ovs_key_mac_proto key)"

record sw_flow_id =
  ufid_len :: u32

definition ovs_identifier_is_ufid :: "sw_flow_id \<Rightarrow> bool" where
  "ovs_identifier_is_ufid sfid \<longleftrightarrow> ufid_len sfid \<noteq> 0"

definition ovs_identifier_is_key :: "sw_flow_id \<Rightarrow> bool" where
  "ovs_identifier_is_key sfid \<longleftrightarrow> \<not> ovs_identifier_is_ufid sfid"

text \<open>
  The invalid mark is one bit of the stored protocol: marking a key as invalid does not
  change the header length computed from it.
\<close>

lemma mac_header_len_ignores_invalid:
  "ovs_mac_header_len (key\<lparr>key_mac_proto := key_mac_proto key OR SW_FLOW_KEY_INVALID\<rparr>) =
   ovs_mac_header_len key"
proof -
  have "(m OR 0x80) AND NOT 0x80 = m AND NOT (0x80 :: u8)" for m :: u8
    by (rule bit_word_eqI) (auto simp: bit_simps)
  then show ?thesis
    by (simp add: ovs_mac_header_len_def ovs_key_mac_proto_def)
qed

end
