(* ===== verification/Tcp_Track.thy ===== *)
theory Tcp_Track
  imports Flow
begin

text \<open>
  The TCP tracker: \<open>kmod/tcp_track.c\<close>, the flags of \<open>kmod/tcp_session.h\<close>, the
  kretprobe of \<open>kmod/kprobe.c\<close> and the eBPF program of
  \<open>cli/pkg/bpf/src/tcp_track_bpf.c\<close>. The kernel functions it calls (packet access,
  conntrack lookup, reference counts, timeouts) are the fields of a record \<open>ct_kernel\<close>
  that every definition takes as an argument; the locale \<open>ct_kernel_laws\<close> states what
  their documentation promises and the tracker relies on.
\<close>

section \<open>Module parameters\<close>

record tcptrack_params =
  tcptrack_flags :: u32
  zone_min :: u32
  zone_max :: u32

definition default_params :: tcptrack_params where
  "default_params = \<lparr>tcptrack_flags = 0x02, zone_min = 100, zone_max = 2099\<rparr>"

definition is_enable_tcp_track :: "tcptrack_params \<Rightarrow> bool" where
  "is_enable_tcp_track P \<longleftrightarrow> tcptrack_flags P AND 0x01 \<noteq> 0"

definition is_enable_zone_filter :: "tcptrack_params \<Rightarrow> bool" where
  "is_enable_zone_filter P \<longleftrightarrow> tcptrack_flags P AND 0x02 \<noteq> 0"

definition is_enable_export_tcp_track :: "tcptrack_params \<Rightarrow> bool" where
  "is_enable_export_tcp_track P \<longleftrightarrow> tcptrack_flags P AND 0x04 \<noteq> 0"

definition is_enable_dump_packet :: "tcptrack_params \<Rightarrow> bool" where
  "is_enable_dump_packet P \<longleftrightarrow> tcptrack_flags P AND 0x08 \<noteq> 0"

text \<open>The 16-bit zone is widened to 32 bits for the comparison with the range.\<close>

definition check_zone_id :: "tcptrack_params \<Rightarrow> u16 \<Rightarrow> bool" where
  "check_zone_id P zid =
     (if \<not> is_enable_zone_filter P then True
      else if zone_min P \<le> ucast zid \<and> ucast zid \<le> zone_max P then True
      else False)"

section \<open>Packet headers\<close>

record iphdr =
  iph_ihl :: u8
  iph_id :: u16
  iph_frag_off :: u16
  iph_protocol :: u8
  iph_saddr :: u32
  iph_daddr :: u32

record tcphdr =
  th_source :: u16
  th_dest :: u16
  th_seq :: u32
  th_ack_seq :: u32
  th_doff :: u8
  th_fin :: bool
  th_syn :: bool
  th_rst :: bool
  th_ack :: bool

text \<open>
  The overlay of \<open>struct iphdr\<close> (20 bytes) and \<open>struct tcphdr\<close> (20 bytes) on packet
  bytes; multi-byte fields stay in network byte order, bit-fields start at the low bit.
\<close>

definition iphdr_of :: "u8 list \<Rightarrow> iphdr" where
  "iphdr_of b = \<lparr>iph_ihl = (b ! 0) AND 0x0F, iph_id = mk16 (b ! 4) (b ! 5),
     iph_frag_off = mk16 (b ! 6) (b ! 7), iph_protocol = b ! 9,
     iph_saddr = mk32 (b ! 12) (b ! 13) (b ! 14) (b ! 15),
     iph_daddr = mk32 (b ! 16) (b ! 17) (b ! 18) (b ! 19)\<rparr>"

definition tcphdr_of :: "u8 list \<Rightarrow> tcphdr" where
  "tcphdr_of b = \<lparr>th_source = mk16 (b ! 0) (b ! 1), th_dest = mk16 (b ! 2) (b ! 3),
     th_seq = mk32 (b ! 4) (b ! 5) (b ! 6) (b ! 7),
     th_ack_seq = mk32 (b ! 8) (b ! 9) (b ! 10) (b ! 11),
     th_doff = drop_bit 4 (b ! 12), th_fin = bit (b ! 13) 0, th_syn = bit (b ! 13) 1,
     th_rst = bit (b ! 13) 2, th_ack = bit (b ! 13) 4\<rparr>"

abbreviation (input) sizeof_iphdr :: nat where "sizeof_iphdr \<equiv> 20"
abbreviation (input) sizeof_tcphdr :: nat where "sizeof_tcphdr \<equiv> 20"

section \<open>The kernel functions the tracker calls\<close>

text \<open>
  \<open>k_header_pointer\<close> is \<open>skb_header_pointer\<close> (the bytes, or null), \<open>k_ct_get\<close> is
  \<open>nf_ct_get\<close> (connection and \<open>ctinfo\<close>), \<open>k_get_tuplepr\<close> is \<open>nf_ct_get_tuplepr\<close>,
  \<open>k_find_get\<close> is \<open>nf_conntrack_find_get\<close> followed by
  \<open>nf_ct_tuplehash_to_ctrack\<close>, \<open>k_put\<close> is \<open>nf_ct_put\<close>, \<open>k_timeout_lookup\<close> is
  \<open>nf_ct_timeout_lookup\<close>, \<open>k_tcp_timeouts\<close> is \<open>nf_tcp_pernet(net)->timeouts\<close>, and
  \<open>k_refresh_acct\<close> is \<open>__nf_ct_refresh_acct(ct, IP_CT_ESTABLISHED, NULL, timeout, false)\<close>.
\<close>

record 'skb ct_kernel =
  k_len :: "'skb \<Rightarrow> u32"
  k_network_offset :: "'skb \<Rightarrow> u32"
  k_header_pointer :: "'skb \<Rightarrow> u32 \<Rightarrow> nat \<Rightarrow> u8 list option"
  k_ct_get :: "'skb \<Rightarrow> nat option \<times> nat"
  k_get_tuplepr :: "'skb \<Rightarrow> u32 \<Rightarrow> u8 \<Rightarrow> nat \<Rightarrow> nf_conntrack_tuple option"
  k_find_get :: "ct_store \<Rightarrow> nat \<Rightarrow> nf_conntrack_zone \<Rightarrow> nf_conntrack_tuple \<Rightarrow> nat option \<times> ct_store"
  k_put :: "ct_store \<Rightarrow> nat \<Rightarrow> ct_store"
  k_timeout_lookup :: "nf_conn \<Rightarrow> (u8 \<Rightarrow> u32) option"
  k_tcp_timeouts :: "nat \<Rightarrow> u8 \<Rightarrow> u32"
  k_refresh_acct :: "nf_conn \<Rightarrow> u64 \<Rightarrow> nf_conn"

section \<open>Helpers of the tracker\<close>

definition get_skb_ct :: "'skb ct_kernel \<Rightarrow> 'skb \<Rightarrow> nat option \<times> nat" where
  "get_skb_ct K skb =
     (let (ct, ctinfo) = k_ct_get K skb
      in if ct = None \<or> ctinfo = IP_CT_UNTRACKED then (None, ctinfo) else (ct, ctinfo))"

definition lookup_conntrack_by_skb ::
  "'skb ct_kernel \<Rightarrow> ct_store \<Rightarrow> nat \<Rightarrow> nf_conntrack_zone \<Rightarrow> u8 \<Rightarrow> 'skb \<Rightarrow> nat option \<times> ct_store" where
  "lookup_conntrack_by_skb K st net zone l3num skb =
     (case k_get_tuplepr K skb (k_network_offset K skb) l3num net of
        None \<Rightarrow> (None, st)
      | Some tuple \<Rightarrow> k_find_get K st net zone tuple)"

text \<open>
  The offset of the transport header, as the bits of the returned \<open>int\<close> (\<open>-1\<close> is the
  error), and the protocol number if it was written.
\<close>

definition ipv4_get_l4proto :: "'skb ct_kernel \<Rightarrow> 'skb \<Rightarrow> u32 \<Rightarrow> u32 \<times> u8 option" where
  "ipv4_get_l4proto K skb nhoff =
     (case k_header_pointer K skb nhoff sizeof_iphdr of
        None \<Rightarrow> (-1, None)
      | Some b \<Rightarrow>
          (let iph = iphdr_of b in
           if iph_frag_off iph AND htons 0x1FFF \<noteq> 0 then (-1, None)
           else
             let dataoff = nhoff + push_bit 2 (ucast (iph_ihl iph));
                 protonum = iph_protocol iph
             in if dataoff > k_len K skb then (-1, Some protonum)
                else (dataoff, Some protonum)))"

definition tcp_error :: "'skb ct_kernel \<Rightarrow> tcphdr \<Rightarrow> 'skb \<Rightarrow> u32 \<Rightarrow> bool" where
  "tcp_error K th skb dataoff =
     (let tcplen = k_len K skb - dataoff;
          hlen = ucast (th_doff th) * 4
      in hlen < (20 :: u32) \<or> tcplen < hlen)"

text \<open>The sum is computed in \<open>size_t\<close> (64 bits) and returned in 32.\<close>

definition segment_seq_plus_len :: "u32 \<Rightarrow> u64 \<Rightarrow> u32 \<Rightarrow> tcphdr \<Rightarrow> u32" where
  "segment_seq_plus_len seq len dataoff tcph =
     ucast ((ucast seq :: u64) + len - ucast dataoff - ucast (th_doff tcph) * 4
       + (if th_syn tcph then 1 else 0) + (if th_fin tcph then 1 else 0))"

definition set_ct_timeout :: "'skb ct_kernel \<Rightarrow> nat \<Rightarrow> nf_conn \<Rightarrow> u8 \<Rightarrow> nf_conn" where
  "set_ct_timeout K net ct new_state =
     (let timeouts = (case k_timeout_lookup K ct of
                        None \<Rightarrow> k_tcp_timeouts K net
                      | Some t \<Rightarrow> t)
      in k_refresh_acct K ct (ucast (timeouts new_state)))"

definition set_ct_state :: "'skb ct_kernel \<Rightarrow> nat \<Rightarrow> nf_conn \<Rightarrow> u8 \<Rightarrow> nf_conn" where
  "set_ct_state K net ct new_state =
     (if tcp_state (ct_proto ct) = new_state then ct
      else set_ct_timeout K net
             (ct\<lparr>ct_proto := (ct_proto ct)\<lparr>tcp_state := new_state\<rparr>\<rparr>) new_state)"

section \<open>Log lines\<close>

text \<open>
  What \<open>dump_skb_ct\<close> and \<open>dump_skb\<close> print (the kernel address of the packet is left out),
  and the line at the exit of the tracker.
\<close>

datatype trk_log =
    NoIpHdr
  | NotPrepared
  | NoTcpHdr
  | TrackLine u16 u8 u32 u16 u32 u16 bool u32 bool u32 bool bool nat u64 u8 u16 u32
  | DumpLine string u16 u8 u32 u16 u32 u16 bool u32 bool u32 bool bool
  | DoneLine int

definition dump_skb_ct ::
  "'skb ct_kernel \<Rightarrow> 'skb \<Rightarrow> nf_conn \<Rightarrow> nat \<Rightarrow> u16 \<Rightarrow> sw_flow_key \<Rightarrow> trk_log" where
  "dump_skb_ct K skb ct ctinfo zone key =
     (let nhoff = k_network_offset K skb in
      case k_header_pointer K skb nhoff sizeof_iphdr of
        None \<Rightarrow> NoIpHdr
      | Some ib \<Rightarrow>
          (let iph = iphdr_of ib; (dataoff, protonum) = ipv4_get_l4proto K skb nhoff in
           if sint dataoff \<le> 0 then NotPrepared
           else case k_header_pointer K skb dataoff sizeof_tcphdr of
                  None \<Rightarrow> NoTcpHdr
                | Some tb \<Rightarrow>
                    (let th = tcphdr_of tb in
                     TrackLine (ntohs (iph_id iph)) (the protonum)
                       (iph_saddr iph) (ntohs (th_source th)) (iph_daddr iph) (ntohs (th_dest th))
                       (th_syn th) (ntohl (th_seq th)) (th_ack th) (ntohl (th_ack_seq th))
                       (th_fin th) (th_rst th) ctinfo (ct_status ct) (key_ct_state key)
                       zone (key_recirc_id key))))"

definition dump_skb :: "'skb ct_kernel \<Rightarrow> string \<Rightarrow> 'skb \<Rightarrow> trk_log" where
  "dump_skb K msg skb =
     (let nhoff = k_network_offset K skb in
      case k_header_pointer K skb nhoff sizeof_iphdr of
        None \<Rightarrow> NoIpHdr
      | Some ib \<Rightarrow>
          (let iph = iphdr_of ib; (dataoff, protonum) = ipv4_get_l4proto K skb nhoff in
           if sint dataoff \<le> 0 then NotPrepared
           else case k_header_pointer K skb dataoff sizeof_tcphdr of
                  None \<Rightarrow> NoTcpHdr
                | Some tb \<Rightarrow>
                    (let th = tcphdr_of tb in
                     DumpLine msg (ntohs (iph_id iph)) (the protonum)
                       (iph_saddr iph) (ntohs (th_source th)) (iph_daddr iph) (ntohs (th_dest th))
                       (th_syn th) (ntohl (th_seq th)) (th_ack th) (ntohl (th_ack_seq th))
                       (th_fin th) (th_rst th))))"

section \<open>The tracker\<close>

text \<open>The state change a segment causes.\<close>

definition tcp_state_step :: "'skb ct_kernel \<Rightarrow> nat \<Rightarrow> nf_conn \<Rightarrow> tcphdr \<Rightarrow> nf_conn" where
  "tcp_state_step K net ct th =
     (let state = tcp_state (ct_proto ct) in
      if th_syn th \<and> state \<noteq> TCP_CONNTRACK_ESTABLISHED
      then set_ct_state K net ct TCP_CONNTRACK_SYN_RECV
      else if th_ack th \<and> state < TCP_CONNTRACK_ESTABLISHED
      then set_ct_state K net ct TCP_CONNTRACK_ESTABLISHED
      else if th_fin th then set_ct_state K net ct TCP_CONNTRACK_CLOSE_WAIT
      else if th_rst th then set_ct_state K net ct TCP_CONNTRACK_CLOSE
      else ct)"

definition adjust_ct_state :: "nat \<Rightarrow> sw_flow_key \<Rightarrow> sw_flow_key" where
  "adjust_ct_state ctinfo key =
     (if ctinfo = IP_CT_ESTABLISHED
      then let key1 = (if key_ct_state key AND OVS_CS_F_INVALID \<noteq> 0
                       then key\<lparr>key_ct_state := key_ct_state key AND NOT OVS_CS_F_INVALID\<rparr>
                       else key)
           in (if key_ct_state key1 AND OVS_CS_F_ESTABLISHED = 0
               then key1\<lparr>key_ct_state := key_ct_state key1 OR OVS_CS_F_ESTABLISHED\<rparr>
               else key1)
      else key)"

definition record_seq :: "ip_ct_tcp \<Rightarrow> u32 \<Rightarrow> u32 \<Rightarrow> u32 \<Rightarrow> ip_ct_tcp" where
  "record_seq p seq ack seg_end =
     (let p1 = p\<lparr>last_seq := seq, last_end := seg_end\<rparr>
      in if ack \<noteq> 0 then p1\<lparr>last_ack := ack\<rparr> else p1)"

text \<open>
  The outcome of one call: the local \<open>ret\<close> (the function itself always returns 0), the
  connections, the flow key, and what was logged.
\<close>

record tcptrack_out =
  out_ret :: int
  out_store :: ct_store
  out_key :: sw_flow_key
  out_log :: "trk_log list"

definition done_log :: "tcptrack_params \<Rightarrow> int \<Rightarrow> trk_log list" where
  "done_log P ret = (if is_enable_dump_packet P \<and> ret \<noteq> -10 then [DoneLine ret] else [])"

definition tcptrack_exit ::
  "tcptrack_params \<Rightarrow> int \<Rightarrow> ct_store \<Rightarrow> sw_flow_key \<Rightarrow> tcptrack_out" where
  "tcptrack_exit P r st key =
     \<lparr>out_ret = r, out_store = st, out_key = key, out_log = done_log P r\<rparr>"

text \<open>
  From the connection found to the exit label: state change, flow key, sequence numbers. The
  connection lives at address \<open>p\<close> of the store.
\<close>

definition tcptrack_update ::
  "'skb ct_kernel \<Rightarrow> tcptrack_params \<Rightarrow> nat \<Rightarrow> 'skb \<Rightarrow> sw_flow_key \<Rightarrow> u16 \<Rightarrow> tcphdr \<Rightarrow> u32 \<Rightarrow> nat
   \<Rightarrow> ct_store \<Rightarrow> nat \<Rightarrow> nf_conn \<Rightarrow> tcptrack_out" where
  "tcptrack_update K P net skb key zone th dataoff ctinfo st p ct =
     (let seq = ntohl (th_seq th);
          ack = ntohl (th_ack_seq th);
          ct1 = tcp_state_step K net ct th;
          key1 = adjust_ct_state ctinfo key
      in if seq = last_seq (ct_proto ct1) \<and> ack = last_ack (ct_proto ct1)
         then \<lparr>out_ret = -10, out_store = st(p \<mapsto> ct1), out_key = key1,
                out_log = done_log P (-10)\<rparr>
         else
           let log = (if is_enable_dump_packet P
                      then [dump_skb_ct K skb ct1 ctinfo zone key1] else []);
               ct2 = ct1\<lparr>ct_proto := record_seq (ct_proto ct1) seq ack
                            (segment_seq_plus_len seq (ucast (k_len K skb)) dataoff th)\<rparr>
           in \<lparr>out_ret = 0, out_store = st(p \<mapsto> ct2), out_key = key1,
                out_log = log @ done_log P 0\<rparr>)"

text \<open>
  The stack variable \<open>nf_zone\<close> has its \<open>flags\<close> member left unset: its content is the
  argument \<open>junk\<close>. A connection pointer that is not live is an \<open>OOPS\<close>.
\<close>

definition vgw_tcptrack_main ::
  "'skb ct_kernel \<Rightarrow> tcptrack_params \<Rightarrow> u8 \<Rightarrow> nat \<Rightarrow> 'skb \<Rightarrow> sw_flow_key \<Rightarrow> ovs_conntrack_info
   \<Rightarrow> ct_store \<Rightarrow> tcptrack_out res" where
  "vgw_tcptrack_main K P junk net skb key info st =
     (let family = info_family info;
          zone = zone_id (info_zone info)
      in
      if \<not> is_enable_tcp_track P then Inr (tcptrack_exit P (-1) st key)
      else if \<not> check_zone_id P zone then Inr (tcptrack_exit P (-2) st key)
      else
        let nhoff = k_network_offset K skb in
        case k_header_pointer K skb nhoff sizeof_iphdr of
          None \<Rightarrow> Inr (tcptrack_exit P (-3) st key)
        | Some _ \<Rightarrow>
            (let (dataoff, protonum) = ipv4_get_l4proto K skb nhoff in
             if sint dataoff \<le> 0 then Inr (tcptrack_exit P (-4) st key)
             else if protonum \<noteq> Some IPPROTO_TCP then Inr (tcptrack_exit P (-5) st key)
             else
               case k_header_pointer K skb dataoff sizeof_tcphdr of
                 None \<Rightarrow> Inr (tcptrack_exit P (-6) st key)
               | Some tb \<Rightarrow>
                   (let th = tcphdr_of tb in
                    if tcp_error K th skb dataoff then Inr (tcptrack_exit P (-7) st key)
                    else
                      case get_skb_ct K skb of
                        (Some p, ctinfo) \<Rightarrow>
                          (case st p of
                             None \<Rightarrow> Inl OOPS
                           | Some ct \<Rightarrow>
                               Inr (tcptrack_update K P net skb key zone th dataoff ctinfo st p ct))
                      | (None, ctinfo) \<Rightarrow>
                          (let nf_zone = \<lparr>zone_id = zone, zone_flags = junk,
                                          zone_dir = NF_CT_DEFAULT_ZONE_DIR\<rparr> in
                           case lookup_conntrack_by_skb K st net nf_zone (ucast family) skb of
                             (None, st1) \<Rightarrow> Inr (tcptrack_exit P (-8) st1 key)
                           | (Some p, st1) \<Rightarrow>
                               (case st1 p of
                                  None \<Rightarrow> Inl OOPS
                                | Some ct \<Rightarrow>
                                    (let out = tcptrack_update K P net skb key zone th dataoff
                                                 ctinfo st1 p ct
                                     in Inr (out\<lparr>out_store := k_put K (out_store out) p\<rparr>)))))))"

section \<open>The probes\<close>

text \<open>
  The kretprobe on \<open>ovs_ct_execute\<close>: the entry handler saves the argument registers, the
  return handler runs the tracker on them. The flow key and the action are objects in memory,
  so that what the probed function writes to them in between is seen.
\<close>

record 'skb pt_regs =
  reg_di :: nat
  reg_si :: 'skb
  reg_dx :: nat
  reg_cx :: nat
  reg_ax :: u64

record 'skb func_args =
  fa_net :: nat
  fa_skb :: 'skb
  fa_key :: nat
  fa_info :: nat

record kmem =
  mem_keys :: "nat \<Rightarrow> sw_flow_key option"
  mem_infos :: "nat \<Rightarrow> ovs_conntrack_info option"
  mem_cts :: ct_store

definition kretprobe_entry_handler :: "'skb pt_regs \<Rightarrow> 'skb func_args" where
  "kretprobe_entry_handler regs =
     \<lparr>fa_net = reg_di regs, fa_skb = reg_si regs, fa_key = reg_dx regs, fa_info = reg_cx regs\<rparr>"

definition kretprobe_return_handler ::
  "'skb ct_kernel \<Rightarrow> tcptrack_params \<Rightarrow> u8 \<Rightarrow> 'skb func_args \<Rightarrow> 'skb pt_regs \<Rightarrow> kmem \<Rightarrow> kmem res" where
  "kretprobe_return_handler K P junk args regs mem =
     (if reg_ax regs \<noteq> 0 then Inr mem
      else
        case mem_keys mem (fa_key args) of
          None \<Rightarrow> Inl OOPS
        | Some key \<Rightarrow>
            (if key_recirc_id key \<noteq> 0 then Inr mem
             else
               case mem_infos mem (fa_info args) of
                 None \<Rightarrow> Inl OOPS
               | Some info \<Rightarrow>
                   bind_res
                     (vgw_tcptrack_main K P junk (fa_net args) (fa_skb args) key info (mem_cts mem))
                     (\<lambda>out. Inr (mem\<lparr>mem_keys := (mem_keys mem)(fa_key args \<mapsto> out_key out),
                                     mem_cts := out_store out\<rparr>))))"

text \<open>
  The eBPF program attached to the exit of \<open>ovs_ct_execute\<close>; \<open>upd\<close> is the kernel function
  \<open>bpf_vgw_update_tcp_ct\<close> it calls.
\<close>

definition bpf_ovs_ct_execute ::
  "(nat \<Rightarrow> 'skb \<Rightarrow> u16 \<Rightarrow> u16 \<Rightarrow> 'w \<Rightarrow> 'w) \<Rightarrow> nat \<Rightarrow> 'skb \<Rightarrow> ovs_conntrack_info \<Rightarrow> int \<Rightarrow> 'w \<Rightarrow> 'w" where
  "bpf_ovs_ct_execute upd net skb info ret w =
     (if ret \<noteq> 0 then w
      else upd net skb (info_family info) (zone_id (info_zone info)) w)"

end
