(* ===== verification/Tcp_Track_Spec.thy ===== *)
theory Tcp_Track_Spec
  imports Tcp_Track
begin

text \<open>
  What the tracker of theory \<open>Tcp_Track\<close> does: the effect of one segment on its connection as a
  specification (\<open>seg_effect\<close>), the state after all segments of a connection in closed form
  (\<open>life_state\<close>), the laws of the kernel functions as a locale with a reference implementation,
  and the properties of \<open>vgw_tcptrack_main\<close> and of the two probe handlers.
\<close>

section \<open>Specification\<close>

text \<open>
  The next state as a function of the flags of a segment and of the state alone: what the proofs
  compute with once the kernel functions are out of the way.
\<close>

definition tcp_next :: "tcphdr \<Rightarrow> u8 \<Rightarrow> u8" where
  "tcp_next th s =
     (if th_syn th \<and> s \<noteq> TCP_CONNTRACK_ESTABLISHED then TCP_CONNTRACK_SYN_RECV
      else if th_ack th \<and> s < TCP_CONNTRACK_ESTABLISHED then TCP_CONNTRACK_ESTABLISHED
      else if th_fin th then TCP_CONNTRACK_CLOSE_WAIT
      else if th_rst th then TCP_CONNTRACK_CLOSE
      else s)"

text \<open>What the kernel functions promise.\<close>

locale ct_kernel_laws =
  fixes K :: "'skb ct_kernel"
  assumes header_length: "k_header_pointer K skb off n = Some b \<Longrightarrow> length b = n"
    and find_none: "k_find_get K st net z t = (None, st') \<Longrightarrow> st' = st"
    and find_some: "k_find_get K st net z t = (Some p, st') \<Longrightarrow>
      \<exists>ct. st p = Some ct \<and> st' = st(p \<mapsto> ct\<lparr>ct_use := Suc (ct_use ct)\<rparr>)"
    and put_live: "st p = Some ct \<Longrightarrow> 1 < ct_use ct \<Longrightarrow>
      k_put K st p = st(p \<mapsto> ct\<lparr>ct_use := ct_use ct - 1\<rparr>)"
    and refresh_frame: "\<exists>t. k_refresh_acct K ct x = ct\<lparr>ct_timeout := t\<rparr>"

definition live :: "ct_store \<Rightarrow> bool" where
  "live st \<longleftrightarrow> (\<forall>p ct. st p = Some ct \<longrightarrow> 0 < ct_use ct)"

text \<open>A connection attached to a packet is live: the packet holds a reference to it.\<close>

definition skb_ct_live :: "'skb ct_kernel \<Rightarrow> 'skb \<Rightarrow> ct_store \<Rightarrow> bool" where
  "skb_ct_live K skb st =
     (case fst (k_ct_get K skb) of None \<Rightarrow> True | Some p \<Rightarrow> st p \<noteq> None)"

text \<open>The reference counts of all connections, and what the tracker may change of one.\<close>

definition ref_counts :: "ct_store \<Rightarrow> nat \<Rightarrow> nat option" where
  "ref_counts st = (\<lambda>p. map_option ct_use (st p))"

definition same_but_tracking :: "nf_conn \<Rightarrow> nf_conn \<Rightarrow> bool" where
  "same_but_tracking ct ct' \<longleftrightarrow>
     ct'\<lparr>ct_timeout := ct_timeout ct,
         ct_proto := (ct_proto ct')\<lparr>tcp_state := tcp_state (ct_proto ct),
           last_seq := last_seq (ct_proto ct), last_ack := last_ack (ct_proto ct),
           last_end := last_end (ct_proto ct)\<rparr>\<rparr> = ct"

text \<open>
  What one tracked segment does to its connection, as a specification: the new TCP state; and
  unless the segment repeats the recorded sequence and acknowledgement numbers (result
  \<open>-10\<close>), the recorded numbers. Everything else but the timeout stays.
\<close>

definition seg_effect :: "tcphdr \<Rightarrow> u32 \<Rightarrow> nf_conn \<Rightarrow> nf_conn \<Rightarrow> int \<Rightarrow> bool" where
  "seg_effect th seg_end ct ct' r \<longleftrightarrow>
     same_but_tracking ct ct' \<and>
     tcp_state (ct_proto ct') = tcp_next th (tcp_state (ct_proto ct)) \<and>
     (if last_seq (ct_proto ct) = ntohl (th_seq th) \<and> last_ack (ct_proto ct) = ntohl (th_ack_seq th)
      then r = -10 \<and> last_seq (ct_proto ct') = last_seq (ct_proto ct) \<and>
         last_ack (ct_proto ct') = last_ack (ct_proto ct) \<and>
         last_end (ct_proto ct') = last_end (ct_proto ct)
      else r = 0 \<and> last_seq (ct_proto ct') = ntohl (th_seq th) \<and>
         last_ack (ct_proto ct') =
           (if th_ack_seq th = 0 then last_ack (ct_proto ct) else ntohl (th_ack_seq th)) \<and>
         last_end (ct_proto ct') = seg_end)"

text \<open>A reference held during the update does not show in the effect.\<close>

lemma seg_effect_unref:
  assumes "seg_effect th e (ct\<lparr>ct_use := Suc (ct_use ct)\<rparr>) ct' r"
  shows "ct_use ct' = Suc (ct_use ct)"
    and "seg_effect th e ct (ct'\<lparr>ct_use := ct_use ct\<rparr>) r"
proof -
  let ?f = "\<lambda>c. c\<lparr>ct_timeout := ct_timeout ct, ct_proto := (ct_proto c)\<lparr>tcp_state := tcp_state (ct_proto ct),
           last_seq := last_seq (ct_proto ct), last_ack := last_ack (ct_proto ct),
           last_end := last_end (ct_proto ct)\<rparr>\<rparr> :: nf_conn"
  from assms have s: "?f ct' = ct\<lparr>ct_use := Suc (ct_use ct)\<rparr>"
    by (simp add: seg_effect_def same_but_tracking_def)
  from arg_cong [OF s, of ct_use] show "ct_use ct' = Suc (ct_use ct)" by simp
  have "?f (ct'\<lparr>ct_use := ct_use ct\<rparr>) = (?f ct')\<lparr>ct_use := ct_use ct\<rparr>" by simp
  also have "\<dots> = ct" by (simp add: s)
  finally have "same_but_tracking ct (ct'\<lparr>ct_use := ct_use ct\<rparr>)"
    by (simp add: same_but_tracking_def)
  with assms show "seg_effect th e ct (ct'\<lparr>ct_use := ct_use ct\<rparr>) r"
    by (simp add: seg_effect_def)
qed

context ct_kernel_laws
begin

lemma set_ct_state_eq:
  "\<exists>t. set_ct_state K net ct s =
     ct\<lparr>ct_timeout := t, ct_proto := (ct_proto ct)\<lparr>tcp_state := s\<rparr>\<rparr>"
proof (cases "tcp_state (ct_proto ct) = s")
  case True
  then have "set_ct_state K net ct s =
      ct\<lparr>ct_timeout := ct_timeout ct, ct_proto := (ct_proto ct)\<lparr>tcp_state := s\<rparr>\<rparr>"
    by (simp add: set_ct_state_def)
  then show ?thesis ..
next
  case False
  obtain t where "set_ct_timeout K net (ct\<lparr>ct_proto := (ct_proto ct)\<lparr>tcp_state := s\<rparr>\<rparr>) s =
      ct\<lparr>ct_proto := (ct_proto ct)\<lparr>tcp_state := s\<rparr>, ct_timeout := t\<rparr>"
    unfolding set_ct_timeout_def Let_def using refresh_frame by blast
  with False have "set_ct_state K net ct s =
      ct\<lparr>ct_timeout := t, ct_proto := (ct_proto ct)\<lparr>tcp_state := s\<rparr>\<rparr>"
    by (simp add: set_ct_state_def)
  then show ?thesis ..
qed

lemma tcp_state_step_eq:
  "\<exists>t. tcp_state_step K net ct th =
     ct\<lparr>ct_timeout := t,
        ct_proto := (ct_proto ct)\<lparr>tcp_state := tcp_next th (tcp_state (ct_proto ct))\<rparr>\<rparr>"
proof -
  have stay: "\<exists>t. ct = ct\<lparr>ct_timeout := t, ct_proto := (ct_proto ct)\<lparr>tcp_state := tcp_state (ct_proto ct)\<rparr>\<rparr>"
    by (rule exI [of _ "ct_timeout ct"]) simp
  show ?thesis
    using set_ct_state_eq [of net ct] stay
    by (auto simp: tcp_state_step_def tcp_next_def Let_def)
qed

lemma tcp_state_step_fields:
  "ct_use (tcp_state_step K net ct th) = ct_use ct"
  "ct_proto (tcp_state_step K net ct th) =
     (ct_proto ct)\<lparr>tcp_state := tcp_next th (tcp_state (ct_proto ct))\<rparr>"
  using tcp_state_step_eq [of net ct th] by auto

lemma same_but_tracking_use: "same_but_tracking ct ct' \<Longrightarrow> ct_use ct' = ct_use ct"
  unfolding same_but_tracking_def by (drule arg_cong [where f = ct_use]) simp

lemma tcptrack_update_conn:
  assumes "out = tcptrack_update K P net skb key zone th dataoff ctinfo st p ct"
  shows "\<exists>ct'. out_store out = st(p \<mapsto> ct') \<and> out_key out = adjust_ct_state ctinfo key \<and>
      seg_effect th (segment_seq_plus_len (ntohl (th_seq th)) (ucast (k_len K skb)) dataoff th)
        ct ct' (out_ret out)"
proof -
  obtain t where t: "tcp_state_step K net ct th =
     ct\<lparr>ct_timeout := t,
        ct_proto := (ct_proto ct)\<lparr>tcp_state := tcp_next th (tcp_state (ct_proto ct))\<rparr>\<rparr>"
    using tcp_state_step_eq by blast
  have z: "ntohl (th_ack_seq th) = 0 \<longleftrightarrow> th_ack_seq th = 0"
    using bswap32_inject [of "th_ack_seq th" 0] by (simp add: bswap32_zero)
  show ?thesis
    unfolding assms tcptrack_update_def Let_def t
    by (split if_split, intro conjI impI; rule exI, intro conjI, simp,
        auto simp: seg_effect_def same_but_tracking_def record_seq_def z Let_def)
qed

end

section \<open>Which segments are tracked\<close>

text \<open>
  The guards of the tracker as one function: the offset of the TCP header and the header, for
  the segments it goes on with.
\<close>

definition tcp_segment ::
  "'skb ct_kernel \<Rightarrow> tcptrack_params \<Rightarrow> 'skb \<Rightarrow> u16 \<Rightarrow> (u32 \<times> tcphdr) option" where
  "tcp_segment K P skb zone =
     (if is_enable_tcp_track P \<and> check_zone_id P zone \<and>
         k_header_pointer K skb (k_network_offset K skb) sizeof_iphdr \<noteq> None
      then let (dataoff, protonum) = ipv4_get_l4proto K skb (k_network_offset K skb) in
           if 0 < sint dataoff \<and> protonum = Some IPPROTO_TCP
           then case k_header_pointer K skb dataoff sizeof_tcphdr of
                  None \<Rightarrow> None
                | Some tb \<Rightarrow> (if tcp_error K (tcphdr_of tb) skb dataoff then None
                              else Some (dataoff, tcphdr_of tb))
           else None
      else None)"

text \<open>The connection a segment belongs to, and the store with the reference taken for it.\<close>

definition seg_conn ::
  "'skb ct_kernel \<Rightarrow> u8 \<Rightarrow> nat \<Rightarrow> 'skb \<Rightarrow> ovs_conntrack_info \<Rightarrow> ct_store \<Rightarrow> nat option \<times> bool \<times> ct_store" where
  "seg_conn K junk net skb info st =
     (case fst (get_skb_ct K skb) of
        Some p \<Rightarrow> (Some p, False, st)
      | None \<Rightarrow>
          (let (p, st1) = lookup_conntrack_by_skb K st net
             \<lparr>zone_id = zone_id (info_zone info), zone_flags = junk, zone_dir = NF_CT_DEFAULT_ZONE_DIR\<rparr>
             (ucast (info_family info)) skb
           in (p, True, st1)))"

lemma main_rejects:
  assumes "tcp_segment K P skb (zone_id (info_zone info)) = None"
  shows "\<exists>r. r \<in> {-7..-1} \<and>
    vgw_tcptrack_main K P junk net skb key info st = Inr (tcptrack_exit P r st key)"
proof -
  let ?nh = "k_network_offset K skb" and ?z = "zone_id (info_zone info)"
  obtain off pn where l4: "ipv4_get_l4proto K skb ?nh = (off, pn)" by fastforce
  note defs = vgw_tcptrack_main_def tcp_segment_def Let_def l4
  consider "\<not> is_enable_tcp_track P" | "is_enable_tcp_track P" "\<not> check_zone_id P ?z"
    | "is_enable_tcp_track P" "check_zone_id P ?z" "k_header_pointer K skb ?nh 20 = None"
    | ib where "is_enable_tcp_track P" "check_zone_id P ?z" "k_header_pointer K skb ?nh 20 = Some ib"
        "sint off \<le> 0"
    | ib where "is_enable_tcp_track P" "check_zone_id P ?z" "k_header_pointer K skb ?nh 20 = Some ib"
        "0 < sint off" "pn \<noteq> Some 6"
    | ib where "is_enable_tcp_track P" "check_zone_id P ?z" "k_header_pointer K skb ?nh 20 = Some ib"
        "0 < sint off" "pn = Some 6" "k_header_pointer K skb off 20 = None"
    | ib tb where "is_enable_tcp_track P" "check_zone_id P ?z"
        "k_header_pointer K skb ?nh 20 = Some ib" "0 < sint off" "pn = Some 6"
        "k_header_pointer K skb off 20 = Some tb"
    by (metis not_Some_eq not_less)
  then show ?thesis
  proof cases
    case 1
    then show ?thesis by (intro exI [of _ "-1"]) (simp add: defs)
  next
    case 2
    then show ?thesis by (intro exI [of _ "-2"]) (simp add: defs)
  next
    case 3
    then show ?thesis by (intro exI [of _ "-3"]) (simp add: defs)
  next
    case 4
    then show ?thesis by (intro exI [of _ "-4"]) (simp add: defs)
  next
    case 5
    then show ?thesis by (intro exI [of _ "-5"]) (simp add: defs)
  next
    case 6
    then show ?thesis by (intro exI [of _ "-6"]) (simp add: defs)
  next
    case 7
    with assms have "tcp_error K (tcphdr_of tb) skb off"
      by (simp add: defs split: if_splits)
    with 7 show ?thesis by (intro exI [of _ "-7"]) (simp add: defs)
  qed
qed

lemma main_tracks:
  assumes "tcp_segment K P skb (zone_id (info_zone info)) = Some (dataoff, th)"
  shows "vgw_tcptrack_main K P junk net skb key info st =
    (case seg_conn K junk net skb info st of
       (None, _, st1) \<Rightarrow> Inr (tcptrack_exit P (-8) st1 key)
     | (Some p, taken, st1) \<Rightarrow>
         (case st1 p of
            None \<Rightarrow> Inl OOPS
          | Some ct \<Rightarrow>
              (let out = tcptrack_update K P net skb key (zone_id (info_zone info)) th dataoff
                           (snd (get_skb_ct K skb)) st1 p ct
               in Inr (if taken then out\<lparr>out_store := k_put K (out_store out) p\<rparr> else out))))"
  using assms unfolding vgw_tcptrack_main_def tcp_segment_def seg_conn_def Let_def
  by (auto split: if_splits option.splits prod.splits)

lemma tcp_segment_bounds:
  assumes "tcp_segment K P skb zone = Some (dataoff, th)"
  shows "20 \<le> 4 * unat (th_doff th)"
    and "unat dataoff + 4 * unat (th_doff th) \<le> unat (k_len K skb)"
proof -
  from assms have l4: "fst (ipv4_get_l4proto K skb (k_network_offset K skb)) = dataoff"
    and pos: "0 < sint dataoff" and ok: "\<not> tcp_error K th skb dataoff"
    unfolding tcp_segment_def Let_def by (auto split: if_splits option.splits prod.splits)
  from l4 pos have "dataoff \<le> k_len K skb"
    unfolding ipv4_get_l4proto_def Let_def by (auto split: if_splits option.splits)
  then have sub: "unat (k_len K skb - dataoff) = unat (k_len K skb) - unat dataoff"
    and le: "unat dataoff \<le> unat (k_len K skb)"
    by (simp_all add: unat_sub word_le_nat_alt)
  from ok have "\<not> unat (ucast (th_doff th) * 4 :: u32) < 20"
    and "\<not> unat (k_len K skb - dataoff) < unat (ucast (th_doff th) * 4 :: u32)"
    by (simp_all add: tcp_error_def word_less_nat_alt Let_def)
  then show "20 \<le> 4 * unat (th_doff th)"
    and "unat dataoff + 4 * unat (th_doff th) \<le> unat (k_len K skb)"
    using sub le by (simp_all add: width_simps)
qed

text \<open>
  Inside those bounds the end of a segment is its sequence number plus the payload, plus one
  for SYN and one for FIN, modulo 2 to the 32.
\<close>

lemma segment_end_eq:
  fixes len :: u32
  assumes "unat dataoff + 4 * unat (th_doff th) \<le> unat len"
  shows "segment_seq_plus_len seq (ucast len) dataoff th =
    seq + of_nat (unat len - (unat dataoff + 4 * unat (th_doff th)))
        + of_bool (th_syn th) + of_bool (th_fin th)"
proof -
  have "of_nat (unat len - (unat dataoff + 4 * unat (th_doff th))) =
      (of_nat (unat len) - (of_nat (unat dataoff) + of_nat (4 * unat (th_doff th))) :: u32)"
    using assms by (simp add: of_nat_diff)
  also have "\<dots> = len - (dataoff + ucast (th_doff th) * 4)"
    by (simp add: mult.commute)
  finally have pay: "of_nat (unat len - (unat dataoff + 4 * unat (th_doff th))) =
      len - (dataoff + ucast (th_doff th) * 4)" .
  have "segment_seq_plus_len seq (ucast len) dataoff th =
      seq + len - dataoff - ucast (th_doff th) * 4 + of_bool (th_syn th) + of_bool (th_fin th)"
    unfolding segment_seq_plus_len_def
    by (cases "th_syn th"; cases "th_fin th") (simp_all only: down_ring up_down, simp_all)
  also have "\<dots> = seq + (len - (dataoff + ucast (th_doff th) * 4))
      + of_bool (th_syn th) + of_bool (th_fin th)"
    by (simp add: algebra_simps)
  finally show ?thesis unfolding pay .
qed

section \<open>References\<close>

text \<open>
  Inside the laws: the tracker never follows a dead pointer, gives back the reference it
  takes, and touches one connection only.
\<close>

context ct_kernel_laws
begin

lemma lookup_cases:
  assumes "lookup_conntrack_by_skb K st net z l3 skb = (r, st1)"
  shows "(r = None \<and> st1 = st) \<or>
    (\<exists>p ct. r = Some p \<and> st p = Some ct \<and> st1 = st(p \<mapsto> ct\<lparr>ct_use := Suc (ct_use ct)\<rparr>))"
  using assms find_none find_some
  by (cases r) (auto simp: lookup_conntrack_by_skb_def split: option.splits)

lemma seg_conn_cases:
  assumes "skb_ct_live K skb st"
  shows "seg_conn K junk net skb info st = (None, True, st) \<or>
    (\<exists>p ct. st p = Some ct \<and>
       (seg_conn K junk net skb info st = (Some p, False, st) \<or>
        seg_conn K junk net skb info st =
          (Some p, True, st(p \<mapsto> ct\<lparr>ct_use := Suc (ct_use ct)\<rparr>))))"
proof (cases "fst (get_skb_ct K skb)")
  case None
  let ?z = "\<lparr>zone_id = zone_id (info_zone info), zone_flags = junk, zone_dir = 3\<rparr>"
  obtain r st1 where l: "lookup_conntrack_by_skb K st net ?z (ucast (info_family info)) skb = (r, st1)"
    by fastforce
  from lookup_cases [OF l] None l show ?thesis
    by (auto simp: seg_conn_def)
next
  case (Some p)
  then have "fst (k_ct_get K skb) = Some p"
    by (auto simp: get_skb_ct_def split: prod.splits if_splits)
  with assms Some show ?thesis
    by (auto simp: seg_conn_def skb_ct_live_def)
qed

text \<open>
  One summary of a tracked segment: the connection it belongs to, and the connection left in
  the store.
\<close>

lemma main_conn:
  assumes seg: "tcp_segment K P skb (zone_id (info_zone info)) = Some (dataoff, th)"
    and ptr: "skb_ct_live K skb st"
    and live: "live st"
  shows "vgw_tcptrack_main K P junk net skb key info st = Inr (tcptrack_exit P (-8) st key) \<or>
    (\<exists>out p ct ct'. vgw_tcptrack_main K P junk net skb key info st = Inr out \<and>
       st p = Some ct \<and> out_store out = st(p \<mapsto> ct') \<and>
       out_key out = adjust_ct_state (snd (get_skb_ct K skb)) key \<and>
       seg_effect th (segment_seq_plus_len (ntohl (th_seq th)) (ucast (k_len K skb)) dataoff th)
         ct ct' (out_ret out))"
    (is "_ \<or> (\<exists>out p ct ct'. _ \<and> _ \<and> _ \<and> _ \<and> seg_effect th ?e ct ct' (out_ret out))")
proof -
  let ?upd = "\<lambda>st p ct. tcptrack_update K P net skb key (zone_id (info_zone info)) th dataoff
                (snd (get_skb_ct K skb)) st p ct"
  note main = main_tracks [OF seg, of junk net key st]
  from seg_conn_cases [OF ptr, of junk net info] show ?thesis
  proof (elim disjE exE conjE)
    assume "seg_conn K junk net skb info st = (None, True, st)"
    then show ?thesis by (simp add: main)
  next
    fix p ct
    assume sp: "st p = Some ct" and sc: "seg_conn K junk net skb info st = (Some p, False, st)"
    from tcptrack_update_conn [OF refl, of P net skb key "zone_id (info_zone info)" th dataoff
        "snd (get_skb_ct K skb)" st p ct]
    show ?thesis using sp sc by (auto simp: main Let_def)
  next
    fix p :: nat and ct :: nf_conn
    let ?ct1 = "ct\<lparr>ct_use := Suc (ct_use ct)\<rparr>"
    assume sp: "st p = Some ct"
      and sc: "seg_conn K junk net skb info st = (Some p, True, st(p \<mapsto> ?ct1))"
    let ?u = "?upd (st(p \<mapsto> ?ct1)) p ?ct1"
    obtain ct1 where u: "out_store ?u = st(p \<mapsto> ct1)" "out_key ?u = adjust_ct_state (snd (get_skb_ct K skb)) key"
      and eff: "seg_effect th ?e ?ct1 ct1 (out_ret ?u)"
      using tcptrack_update_conn [OF refl, of P net skb key "zone_id (info_zone info)" th dataoff
          "snd (get_skb_ct K skb)" "st(p \<mapsto> ?ct1)" p ?ct1] by auto
    from seg_effect_unref [OF eff] have use1: "ct_use ct1 = Suc (ct_use ct)"
      and eff': "seg_effect th ?e ct (ct1\<lparr>ct_use := ct_use ct\<rparr>) (out_ret ?u)" .
    have "0 < ct_use ct" using live sp by (simp add: live_def)
    then have "k_put K (st(p \<mapsto> ct1)) p = st(p \<mapsto> ct1\<lparr>ct_use := ct_use ct\<rparr>)"
      by (subst put_live [of _ _ ct1]) (simp_all add: use1)
    then show ?thesis using sp sc u eff' by (auto simp: main Let_def)
  qed
qed

end

section \<open>A reference kernel\<close>

text \<open>
  An implementation of the kernel functions that satisfies the laws: a packet is its bytes
  from the network header on, with the connection attached to it; connections live at the
  first four addresses.
\<close>

type_synonym pkt = "u8 list \<times> nat option \<times> nat"

definition pkt_tuple :: "u8 list \<Rightarrow> u8 \<Rightarrow> nf_conntrack_tuple" where
  "pkt_tuple b l3 = zero_tuple\<lparr>src_l3num := ucast l3,
     src_u3 := any_addr\<lparr>all0 := mk32 (b ! 12) (b ! 13) (b ! 14) (b ! 15)\<rparr>,
     dst_u3 := any_addr\<lparr>all0 := mk32 (b ! 16) (b ! 17) (b ! 18) (b ! 19)\<rparr>,
     src_u := mk16 (b ! 20) (b ! 21), dst_u := mk16 (b ! 22) (b ! 23), dst_protonum := b ! 9\<rparr>"

definition ref_find :: "ct_store \<Rightarrow> nat \<Rightarrow> nf_conntrack_zone \<Rightarrow> nf_conntrack_tuple \<Rightarrow> nat option" where
  "ref_find st net z t =
     List.find (\<lambda>p. case st p of None \<Rightarrow> False
                      | Some ct \<Rightarrow> ct_net ct = net \<and> zone_id (ct_zone ct) = zone_id z \<and> tuple_orig ct = t)
       [0, 1, 2, 3]"

lemma ref_find_live: "ref_find st net z t = Some p \<Longrightarrow> \<exists>ct. st p = Some ct"
  unfolding ref_find_def find_Some_iff by (metis (no_types, lifting) option.case_eq_if option.exhaust_sel)

definition ref_find_get ::
  "ct_store \<Rightarrow> nat \<Rightarrow> nf_conntrack_zone \<Rightarrow> nf_conntrack_tuple \<Rightarrow> nat option \<times> ct_store" where
  "ref_find_get st net z t =
     (case ref_find st net z t of
        None \<Rightarrow> (None, st)
      | Some p \<Rightarrow> (Some p, st(p := map_option (\<lambda>ct. ct\<lparr>ct_use := Suc (ct_use ct)\<rparr>) (st p))))"

definition ref_put :: "ct_store \<Rightarrow> nat \<Rightarrow> ct_store" where
  "ref_put st p =
     (case st p of
        None \<Rightarrow> st
      | Some ct \<Rightarrow> (if 1 < ct_use ct then st(p \<mapsto> ct\<lparr>ct_use := ct_use ct - 1\<rparr>) else st(p := None)))"

definition ref_kernel :: "pkt ct_kernel" where
  "ref_kernel = \<lparr>
     k_len = (\<lambda>(b, _). of_nat (length b)),
     k_network_offset = (\<lambda>_. 0),
     k_header_pointer = (\<lambda>(b, _) off n.
       if unat off + n \<le> length b then Some (take n (drop (unat off) b)) else None),
     k_ct_get = (\<lambda>(_, ct, ctinfo). (ct, ctinfo)),
     k_get_tuplepr = (\<lambda>(b, _) off l3 net. if 24 \<le> length b then Some (pkt_tuple b l3) else None),
     k_find_get = ref_find_get,
     k_put = ref_put,
     k_timeout_lookup = (\<lambda>_. None),
     k_tcp_timeouts = (\<lambda>_ s. if s = TCP_CONNTRACK_ESTABLISHED then 432000 else 60),
     k_refresh_acct = (\<lambda>ct t. ct\<lparr>ct_timeout := ucast t\<rparr>)\<rparr>"

interpretation ref_k: ct_kernel_laws ref_kernel
proof unfold_locales
  show "length b = n" if "k_header_pointer ref_kernel skb off n = Some b" for skb off n b
    using that by (cases skb) (auto simp: ref_kernel_def split: if_splits)
  show "st' = st" if "k_find_get ref_kernel st net z t = (None, st')" for st net z t st'
    using that by (auto simp: ref_kernel_def ref_find_get_def split: option.splits)
  show "\<exists>ct. st p = Some ct \<and> st' = st(p \<mapsto> ct\<lparr>ct_use := Suc (ct_use ct)\<rparr>)"
    if "k_find_get ref_kernel st net z t = (Some p, st')" for st net z t p st'
    using that
    by (auto simp: ref_kernel_def ref_find_get_def dest: ref_find_live split: option.splits)
  show "k_put ref_kernel st p = st(p \<mapsto> ct\<lparr>ct_use := ct_use ct - 1\<rparr>)"
    if "st p = Some ct" "1 < ct_use ct" for st p ct
    using that by (simp add: ref_kernel_def ref_put_def)
  show "\<exists>t. k_refresh_acct ref_kernel ct x = ct\<lparr>ct_timeout := t\<rparr>" for ct x
    by (auto simp: ref_kernel_def)
qed

text \<open>A tracked connection at address 1 and a SYN segment of it, for the witnesses.\<close>

definition demo_tcp :: ip_ct_tcp where
  "demo_tcp =
     (let d = \<lparr>td_end = 0, td_maxend = 0, td_maxwin = 1, td_maxack = 0, td_scale = 7, tcp_flags = 0\<rparr>
      in \<lparr>seen0 = d, seen1 = d, tcp_state = TCP_CONNTRACK_SYN_SENT, last_dir = 0, retrans = 0,
          last_index = 0, last_seq = 0, last_ack = 0, last_end = 0, last_win = 0,
          last_wscale = 0, last_flags = 0\<rparr>)"

definition demo_seg :: "u8 \<Rightarrow> u8 \<Rightarrow> u8 list" where
  "demo_seg ack flags =
     [0x45, 0, 0, 40, 0, 1, 0, 0, 64, 6, 0, 0, 10, 0, 0, 1, 10, 0, 0, 2,
      0x30, 0x39, 0, 80, 0, 0, 3, 232, 0, 0, 0, ack, 0x50, flags, 0xFF, 0xFF, 0, 0, 0, 0]"

definition demo_zone :: nf_conntrack_zone where
  "demo_zone = \<lparr>zone_id = 100, zone_flags = 0, zone_dir = NF_CT_DEFAULT_ZONE_DIR\<rparr>"

definition demo_ct :: nf_conn where
  "demo_ct = \<lparr>ct_use = 1, ct_timeout = 0, ct_zone = demo_zone,
     tuple_orig = pkt_tuple (demo_seg 0 2) 2,
     tuple_reply = (pkt_tuple (demo_seg 0 2) 2)\<lparr>dst_dir := IP_CT_DIR_REPLY\<rparr>,
     ct_status = IPS_CONFIRMED, ct_net = 0, ct_master = None, ct_mark = 0, ct_secmark = 0,
     ct_proto = demo_tcp, ext_help = None, ext_acct = None, ext_tstamp = None, ext_labels = None,
     ext_seqadj = None, ext_synproxy = None\<rparr>"

definition demo_store :: ct_store where
  "demo_store = [1 \<mapsto> demo_ct]"

definition demo_key :: sw_flow_key where
  "demo_key = \<lparr>key_mac_proto = 1, key_recirc_id = 0, key_eth_type = 8, key_ct_state = 0x30,
     key_ip_proto = 6, key_tp_src = 0, key_tp_dst = 0\<rparr>"

definition demo_info :: ovs_conntrack_info where
  "demo_info = \<lparr>info_zone = demo_zone, info_family = 2\<rparr>"

definition demo_params :: tcptrack_params where
  "demo_params = default_params\<lparr>tcptrack_flags := 0x03\<rparr>"

lemmas demo_defs = demo_tcp_def demo_seg_def demo_zone_def demo_ct_def demo_store_def
  demo_key_def demo_info_def demo_params_def default_params_def

lemma demo_live: "live demo_store" "skb_ct_live ref_kernel (demo_seg a f, Some 1, i) demo_store"
  by (simp_all add: live_def skb_ct_live_def ref_kernel_def demo_store_def demo_ct_def)

section \<open>Properties\<close>

lemma seg_effect_use: "seg_effect th e ct ct' r \<Longrightarrow> ct_use ct' = ct_use ct"
  unfolding seg_effect_def same_but_tracking_def
  by (drule conjunct1, drule arg_cong [where f = ct_use]) simp

lemma seg_effect_refs:
  "st p = Some ct \<Longrightarrow> seg_effect th e ct ct' r \<Longrightarrow> ref_counts (st(p \<mapsto> ct')) = ref_counts st"
  by (auto simp: ref_counts_def fun_eq_iff dest: seg_effect_use)

lemma seg_effect_ret: "seg_effect th e ct ct' r \<Longrightarrow> r = 0 \<or> r = -10"
  by (auto simp: seg_effect_def split: if_splits)

lemma tcptrack_main_balanced:
  assumes "ct_kernel_laws K" and "live st" and "skb_ct_live K skb st"
  shows "\<exists>out. vgw_tcptrack_main K P junk net skb key info st = Inr out \<and>
    ref_counts (out_store out) = ref_counts st"
proof (cases "tcp_segment K P skb (zone_id (info_zone info))")
  case None
  from main_rejects [OF None, of junk net key st] show ?thesis
    by (auto simp: tcptrack_exit_def)
next
  case (Some seg)
  obtain dataoff th where seg: "tcp_segment K P skb (zone_id (info_zone info)) = Some (dataoff, th)"
    using Some by (cases seg) auto
  from ct_kernel_laws.main_conn [OF assms(1) seg assms(3,2), of junk net key] show ?thesis
    by (auto simp: tcptrack_exit_def seg_effect_refs)
qed

lemma tcptrack_main_total:
  assumes "ct_kernel_laws K" and "live st" and "skb_ct_live K skb st"
  shows "\<exists>out. vgw_tcptrack_main K P junk net skb key info st = Inr out"
  using tcptrack_main_balanced [OF assms] by blast

text \<open>
  C1. Whatever the packet, a call of the tracker on a live store ends without following a dead
  pointer and leaves the reference count of every connection as it was: the reference taken
  by the lookup is given back on every path.
\<close>

theorem tcptrack_refs_balanced:
  assumes "ct_kernel_laws K" and "live st" and "skb_ct_live K skb st"
  shows "\<exists>out. vgw_tcptrack_main K P junk net skb key info st = Inr out \<and>
    ref_counts (out_store out) = ref_counts st"
  using assms by (rule tcptrack_main_balanced)

theorem tcptrack_refs_balanced_witness:
  "\<exists>out. vgw_tcptrack_main ref_kernel demo_params 0 0 (demo_seg 0 2, None, 0) demo_key demo_info
      demo_store = Inr out \<and> ref_counts (out_store out) = ref_counts demo_store"
  by (rule tcptrack_refs_balanced [OF ref_k.ct_kernel_laws_axioms demo_live(1)])
    (simp add: skb_ct_live_def ref_kernel_def)

text \<open>
  C3. A packet that is not tracked changes nothing: when the tracker ends with any of its
  eight early exits, connections and flow key are as before.
\<close>

theorem tcptrack_early_exit_inert:
  assumes "ct_kernel_laws K" and "live st" and "skb_ct_live K skb st"
    and "vgw_tcptrack_main K P junk net skb key info st = Inr out"
    and "out_ret out \<noteq> 0" and "out_ret out \<noteq> -10"
  shows "out_ret out \<in> {-8..-1} \<and> out_store out = st \<and> out_key out = key"
proof (cases "tcp_segment K P skb (zone_id (info_zone info))")
  case None
  from main_rejects [OF None, of junk net key st] assms(4) show ?thesis
    by (auto simp: tcptrack_exit_def)
next
  case (Some seg)
  obtain dataoff th where seg: "tcp_segment K P skb (zone_id (info_zone info)) = Some (dataoff, th)"
    using Some by (cases seg) auto
  from ct_kernel_laws.main_conn [OF assms(1) seg assms(3,2), of junk net key] assms(4-6)
  show ?thesis
    by (auto simp: tcptrack_exit_def dest: seg_effect_ret)
qed

theorem tcptrack_early_exit_inert_witness:
  "case vgw_tcptrack_main ref_kernel default_params 0 0 (demo_seg 0 2, None, 0) demo_key demo_info
      demo_store of
     Inl _ \<Rightarrow> False
   | Inr out \<Rightarrow> out_ret out \<in> {-8..-1} \<and> out_store out = demo_store \<and> out_key out = demo_key"
proof -
  let ?m = "vgw_tcptrack_main ref_kernel default_params 0 0 (demo_seg 0 2, None, 0) demo_key
    demo_info demo_store"
  let ?out = "tcptrack_exit default_params (-1) demo_store demo_key"
  have m: "?m = Inr ?out"
    by (simp add: vgw_tcptrack_main_def is_enable_tcp_track_def default_params_def)
  have "skb_ct_live ref_kernel (demo_seg 0 2, None, 0) demo_store"
    by (simp add: skb_ct_live_def ref_kernel_def)
  from tcptrack_early_exit_inert [OF ref_k.ct_kernel_laws_axioms demo_live(1) this m]
  show ?thesis unfolding m by (simp add: tcptrack_exit_def)
qed

text \<open>
  C2. A tracked segment that is not a repetition records its numbers: the sequence number, the
  acknowledgement number unless it is zero, and as end of the segment the sequence number
  plus the payload length, plus one for SYN and one for FIN, modulo 2 to the 32. The header
  lies inside the packet, so that the payload length does not wrap around. No other field
  but TCP state and timeout, and no other connection, changes.
\<close>

theorem tcptrack_records_segment:
  assumes "ct_kernel_laws K" and "live st" and "skb_ct_live K skb st"
    and "tcp_segment K P skb (zone_id (info_zone info)) = Some (dataoff, th)"
    and "vgw_tcptrack_main K P junk net skb key info st = Inr out" and "out_ret out = 0"
  shows "unat dataoff + 4 * unat (th_doff th) \<le> unat (k_len K skb) \<and>
    (\<exists>p ct ct'. st p = Some ct \<and> out_store out = st(p \<mapsto> ct') \<and> same_but_tracking ct ct' \<and>
       last_seq (ct_proto ct') = ntohl (th_seq th) \<and>
       last_ack (ct_proto ct') =
         (if th_ack_seq th = 0 then last_ack (ct_proto ct) else ntohl (th_ack_seq th)) \<and>
       last_end (ct_proto ct') = ntohl (th_seq th)
         + of_nat (unat (k_len K skb) - (unat dataoff + 4 * unat (th_doff th)))
         + of_bool (th_syn th) + of_bool (th_fin th))"
proof -
  note bounds = tcp_segment_bounds [OF assms(4)]
  from ct_kernel_laws.main_conn [OF assms(1,4,3,2), of junk net key] assms(5,6)
  obtain p ct ct' where st: "st p = Some ct" "out_store out = st(p \<mapsto> ct')"
    and eff: "seg_effect th (segment_seq_plus_len (ntohl (th_seq th)) (ucast (k_len K skb)) dataoff th)
      ct ct' 0"
    by (auto simp: tcptrack_exit_def)
  from eff have "same_but_tracking ct ct'" "last_seq (ct_proto ct') = ntohl (th_seq th)"
    "last_ack (ct_proto ct') =
       (if th_ack_seq th = 0 then last_ack (ct_proto ct) else ntohl (th_ack_seq th))"
    "last_end (ct_proto ct') =
       segment_seq_plus_len (ntohl (th_seq th)) (ucast (k_len K skb)) dataoff th"
    unfolding seg_effect_def by (simp_all split: if_splits)
  then show ?thesis
    using bounds st unfolding segment_end_eq [OF bounds(2)] by blast
qed

theorem tcptrack_records_segment_witness:
  "\<exists>out p ct ct'. vgw_tcptrack_main ref_kernel demo_params 0 0 (demo_seg 0 2, None, 0) demo_key
      demo_info demo_store = Inr out \<and>
    demo_store p = Some ct \<and> out_store out = demo_store(p \<mapsto> ct') \<and>
    last_seq (ct_proto ct') = 1000 \<and> last_end (ct_proto ct') = 1001"
proof -
  let ?pkt = "(demo_seg 0 2, None, 0) :: pkt"
  let ?th = "tcphdr_of (drop 20 (demo_seg 0 2))"
  have live: "skb_ct_live ref_kernel ?pkt demo_store"
    by (simp add: skb_ct_live_def ref_kernel_def)
  have seg: "tcp_segment ref_kernel demo_params ?pkt (zone_id (info_zone demo_info)) = Some (20, ?th)"
    by code_simp
  obtain out where out: "vgw_tcptrack_main ref_kernel demo_params 0 0 ?pkt demo_key demo_info
      demo_store = Inr out"
    using tcptrack_main_total [OF ref_k.ct_kernel_laws_axioms demo_live(1) live] by blast
  have ret: "map_sum id out_ret (vgw_tcptrack_main ref_kernel demo_params 0 0 ?pkt demo_key demo_info
      demo_store) = Inr 0"
    by code_simp
  have vals: "ntohl (th_seq ?th) = 1000" "th_syn ?th" "\<not> th_fin ?th" "th_doff ?th = 5"
    "k_len ref_kernel ?pkt = 40"
    by code_simp+
  from tcptrack_records_segment [OF ref_k.ct_kernel_laws_axioms demo_live(1) live seg out] ret out
  show ?thesis by (fastforce simp: vals)
qed

text \<open>
  C4. The same segment again is recognised: if a segment with a non-zero acknowledgement number
  was processed for the connection attached to the packet, processing it a second time ends
  with \<open>-10\<close> and keeps the recorded numbers.
\<close>

theorem tcptrack_repetition:
  assumes "ct_kernel_laws K" and "live st"
    and "k_ct_get K skb = (Some p, ctinfo)" and "ctinfo \<noteq> IP_CT_UNTRACKED"
    and "tcp_segment K P skb (zone_id (info_zone info)) = Some (dataoff, th)"
    and "th_ack_seq th \<noteq> 0" and "st p = Some ct"
  shows "\<exists>out out2 ct1 ct2. vgw_tcptrack_main K P junk net skb key info st = Inr out \<and>
    vgw_tcptrack_main K P junk net skb (out_key out) info (out_store out) = Inr out2 \<and>
    out_ret out2 = -10 \<and> out_store out p = Some ct1 \<and> out_store out2 p = Some ct2 \<and>
    last_seq (ct_proto ct2) = ntohl (th_seq th) \<and> last_ack (ct_proto ct2) = ntohl (th_ack_seq th) \<and>
    last_end (ct_proto ct2) = last_end (ct_proto ct1)"
proof -
  let ?e = "segment_seq_plus_len (ntohl (th_seq th)) (ucast (k_len K skb)) dataoff th"
  have g: "get_skb_ct K skb = (Some p, ctinfo)"
    using assms(3,4) by (simp add: get_skb_ct_def)
  have once: "\<exists>out ct'. vgw_tcptrack_main K P junk net skb k info s = Inr out \<and>
      out_store out = s(p \<mapsto> ct') \<and> seg_effect th ?e c ct' (out_ret out)"
    if "s p = Some c" for s c k
    using ct_kernel_laws.tcptrack_update_conn [OF assms(1) refl,
        of P net skb k "zone_id (info_zone info)" th dataoff ctinfo s p c] that
    by (auto simp: main_tracks [OF assms(5)] seg_conn_def g Let_def)
  obtain out ct1 where 1: "vgw_tcptrack_main K P junk net skb key info st = Inr out"
      "out_store out = st(p \<mapsto> ct1)" "seg_effect th ?e ct ct1 (out_ret out)"
    using once [of st ct, OF assms(7)] by blast
  obtain out2 ct2 where 2: "vgw_tcptrack_main K P junk net skb (out_key out) info (out_store out) = Inr out2"
      "out_store out2 = (out_store out)(p \<mapsto> ct2)" "seg_effect th ?e ct1 ct2 (out_ret out2)"
    using once [of "out_store out" ct1 "out_key out"] 1(2) by auto
  have "last_seq (ct_proto ct1) = ntohl (th_seq th) \<and> last_ack (ct_proto ct1) = ntohl (th_ack_seq th)"
    using 1(3) assms(6) by (auto simp: seg_effect_def split: if_splits)
  then show ?thesis
    using 1 2 by (auto simp: seg_effect_def)
qed

theorem tcptrack_repetition_witness:
  "\<exists>out out2 ct1 ct2. vgw_tcptrack_main ref_kernel demo_params 0 0 (demo_seg 9 16, Some 1, 0)
      demo_key demo_info demo_store = Inr out \<and>
    vgw_tcptrack_main ref_kernel demo_params 0 0 (demo_seg 9 16, Some 1, 0) (out_key out) demo_info
      (out_store out) = Inr out2 \<and>
    out_ret out2 = -10 \<and> out_store out 1 = Some ct1 \<and> out_store out2 1 = Some ct2 \<and>
    last_seq (ct_proto ct2) = 1000 \<and> last_ack (ct_proto ct2) = 9 \<and>
    last_end (ct_proto ct2) = last_end (ct_proto ct1)"
proof -
  let ?pkt = "(demo_seg 9 16, Some 1, 0) :: pkt"
  let ?th = "tcphdr_of (drop 20 (demo_seg 9 16))"
  have ct: "k_ct_get ref_kernel ?pkt = (Some 1, 0)" by (simp add: ref_kernel_def)
  have seg: "tcp_segment ref_kernel demo_params ?pkt (zone_id (info_zone demo_info)) = Some (20, ?th)"
    by code_simp
  have vals: "ntohl (th_seq ?th) = 1000" "ntohl (th_ack_seq ?th) = 9" "th_ack_seq ?th \<noteq> 0"
    by code_simp+
  have "demo_store 1 = Some demo_ct" by (simp add: demo_store_def)
  from tcptrack_repetition [OF ref_k.ct_kernel_laws_axioms demo_live(1) ct _ seg vals(3) this]
  show ?thesis by (simp add: vals)
qed

definition track_run :: "'skb ct_kernel \<Rightarrow> nat \<Rightarrow> nf_conn \<Rightarrow> tcphdr list \<Rightarrow> nf_conn" where
  "track_run K net ct ths = fold (\<lambda>th c. tcp_state_step K net c th) ths ct"

text \<open>
  The packets of one connection, one call of the tracker after the other; every packet comes with
  its own flow key.
\<close>

fun track_packets ::
  "'skb ct_kernel \<Rightarrow> tcptrack_params \<Rightarrow> u8 \<Rightarrow> nat \<Rightarrow> ovs_conntrack_info \<Rightarrow> ('skb \<times> sw_flow_key) list \<Rightarrow>
   ct_store \<Rightarrow> ct_store res" where
  "track_packets K P junk net info [] st = Inr st"
| "track_packets K P junk net info ((skb, key) # pkts) st =
     bind_res (vgw_tcptrack_main K P junk net skb key info st)
       (\<lambda>out. track_packets K P junk net info pkts (out_store out))"

text \<open>The packet is the TCP segment \<open>th\<close>, inside the tracked zones, of the connection at \<open>p\<close>.\<close>

definition segment_of ::
  "'skb ct_kernel \<Rightarrow> tcptrack_params \<Rightarrow> ovs_conntrack_info \<Rightarrow> nat \<Rightarrow> 'skb \<times> sw_flow_key \<Rightarrow> tcphdr \<Rightarrow> bool" where
  "segment_of K P info p pkt th \<longleftrightarrow>
     fst (get_skb_ct K (fst pkt)) = Some p \<and>
     map_option snd (tcp_segment K P (fst pkt) (zone_id (info_zone info))) = Some th"

text \<open>
  The state after one life of a connection, from the segments that follow its SYN, without
  stepping through the states: the first segment with ACK, FIN or RST decides whether the
  connection was established, and the last one with FIN or RST after that how it was closed. The
  first acknowledgement establishes the connection whatever else that segment carries.
\<close>

definition life_state :: "tcphdr list \<Rightarrow> u8" where
  "life_state ths =
     (case dropWhile (\<lambda>th. \<not> (th_ack th \<or> th_fin th \<or> th_rst th)) ths of
        [] \<Rightarrow> TCP_CONNTRACK_SYN_RECV
      | th # rest \<Rightarrow>
          (let closing = filter (\<lambda>th. th_fin th \<or> th_rst th) (if th_ack th then rest else th # rest)
           in if closing = [] then TCP_CONNTRACK_ESTABLISHED
              else if th_fin (last closing) then TCP_CONNTRACK_CLOSE_WAIT
              else TCP_CONNTRACK_CLOSE))"

lemma fold_not_opening:
  assumes "\<forall>th\<in>set ths. \<not> th_syn th" "TCP_CONNTRACK_ESTABLISHED \<le> s"
  shows "fold tcp_next ths s =
    (let closing = filter (\<lambda>th. th_fin th \<or> th_rst th) ths in
     if closing = [] then s
     else if th_fin (last closing) then TCP_CONNTRACK_CLOSE_WAIT else TCP_CONNTRACK_CLOSE)"
  using assms
proof (induction ths arbitrary: s)
  case (Cons th ths)
  from Cons.prems have "\<not> th_syn th" "\<not> s < TCP_CONNTRACK_ESTABLISHED" by auto
  then have next_s: "tcp_next th s = (if th_fin th then TCP_CONNTRACK_CLOSE_WAIT
      else if th_rst th then TCP_CONNTRACK_CLOSE else s)"
    by (simp add: tcp_next_def)
  then have "TCP_CONNTRACK_ESTABLISHED \<le> tcp_next th s" using Cons.prems(2) by simp
  from Cons.IH [OF _ this] Cons.prems(1) next_s show ?case
    by (simp add: Let_def)
qed simp

lemma fold_opening:
  "\<forall>th\<in>set ths. \<not> th_syn th \<Longrightarrow> fold tcp_next ths TCP_CONNTRACK_SYN_RECV = life_state ths"
proof (induction ths)
  case (Cons th ths)
  show ?case
  proof (cases "th_ack th \<or> th_fin th \<or> th_rst th")
    case True
    let ?s = "if th_ack th then TCP_CONNTRACK_ESTABLISHED
      else if th_fin th then TCP_CONNTRACK_CLOSE_WAIT else TCP_CONNTRACK_CLOSE"
    have "tcp_next th TCP_CONNTRACK_SYN_RECV = ?s"
      using Cons.prems True by (auto simp: tcp_next_def)
    moreover have "\<forall>th\<in>set ths. \<not> th_syn th" using Cons.prems by simp
    ultimately show ?thesis
      using True fold_not_opening [of ths ?s] by (auto simp: life_state_def Let_def)
  next
    case False
    with Cons show ?thesis by (simp add: tcp_next_def life_state_def)
  qed
qed (simp add: life_state_def)

lemma same_but_tracking_trans:
  assumes "same_but_tracking a b" "same_but_tracking b c"
  shows "same_but_tracking a c"
proof -
  let ?f = "\<lambda>a c. c\<lparr>ct_timeout := ct_timeout a, ct_proto := (ct_proto c)\<lparr>tcp_state := tcp_state (ct_proto a),
    last_seq := last_seq (ct_proto a), last_ack := last_ack (ct_proto a), last_end := last_end (ct_proto a)\<rparr>\<rparr> :: nf_conn"
  from assms have "?f b c = b" "?f a b = a" by (simp_all add: same_but_tracking_def)
  then have "?f a (?f b c) = a" by simp
  then show ?thesis by (simp add: same_but_tracking_def)
qed

lemma same_but_tracking_refl: "same_but_tracking ct ct"
  by (simp add: same_but_tracking_def)

context ct_kernel_laws
begin

text \<open>One packet of the connection at \<open>p\<close>, and a run of them.\<close>

lemma main_attached:
  assumes "fst (get_skb_ct K skb) = Some p" "st p = Some ct"
    and "tcp_segment K P skb (zone_id (info_zone info)) = Some (off, th)"
  shows "\<exists>out ct'. vgw_tcptrack_main K P junk net skb key info st = Inr out \<and>
    out_store out = st(p \<mapsto> ct') \<and> out_key out = adjust_ct_state (snd (get_skb_ct K skb)) key \<and>
    seg_effect th (segment_seq_plus_len (ntohl (th_seq th)) (ucast (k_len K skb)) off th) ct ct' (out_ret out)"
  using tcptrack_update_conn [OF refl, of P net skb key "zone_id (info_zone info)" th off
      "snd (get_skb_ct K skb)" st p ct] assms(1,2)
  by (auto simp: main_tracks [OF assms(3)] seg_conn_def Let_def)

lemma track_packets_fold:
  assumes "list_all2 (segment_of K P info p) pkts ths" "st p = Some ct"
  shows "\<exists>ct'. track_packets K P junk net info pkts st = Inr (st(p \<mapsto> ct')) \<and> same_but_tracking ct ct' \<and>
    tcp_state (ct_proto ct') = fold tcp_next ths (tcp_state (ct_proto ct))"
  using assms
proof (induction pkts ths arbitrary: st ct rule: list_all2_induct)
  case Nil
  then have "st = st(p \<mapsto> ct)" by auto
  then show ?case using same_but_tracking_refl [of ct] by (intro exI [of _ ct]) simp
next
  case (Cons pkt pkts th ths)
  obtain skb key where pkt: "pkt = (skb, key)" by fastforce
  from Cons.hyps(1) obtain off where "fst (get_skb_ct K skb) = Some p"
    "tcp_segment K P skb (zone_id (info_zone info)) = Some (off, th)"
    by (auto simp: segment_of_def pkt)
  from main_attached [where st = st and ct = ct, OF this(1) Cons.prems this(2), of junk net key] obtain out ct1 where
    out: "vgw_tcptrack_main K P junk net skb key info st = Inr out" "out_store out = st(p \<mapsto> ct1)"
    "same_but_tracking ct ct1" "tcp_state (ct_proto ct1) = tcp_next th (tcp_state (ct_proto ct))"
    by (auto simp: seg_effect_def)
  have "(st(p \<mapsto> ct1)) p = Some ct1" by simp
  from Cons.IH [where st = "st(p \<mapsto> ct1)" and ct = ct1, OF this] obtain ct2 where
    "track_packets K P junk net info pkts (st(p \<mapsto> ct1)) = Inr (st(p \<mapsto> ct2))"
    "same_but_tracking ct1 ct2" "tcp_state (ct_proto ct2) = fold tcp_next ths (tcp_state (ct_proto ct1))"
    unfolding fun_upd_upd by blast
  with out show ?case
    by (intro exI [of _ ct2]) (auto simp: pkt intro: same_but_tracking_trans)
qed

end

text \<open>
  C5. One life of a connection, seen through the tracker: when the packets of a
  connection that is not established are a SYN and then segments without SYN, every call of the
  tracker returns, and afterwards the recorded TCP state is the one \<open>life_state\<close> reads off the
  segments: still \<open>SYN_RECV\<close> if none of them carried ACK, FIN or RST, otherwise established or
  closed by what followed the first acknowledgement. No other connection changes, and of this
  one only state, timeout and recorded numbers.
\<close>

theorem tracked_life:
  assumes "ct_kernel_laws K" and "st p = Some ct" and "tcp_state (ct_proto ct) \<noteq> TCP_CONNTRACK_ESTABLISHED"
    and "list_all2 (segment_of K P info p) pkts (syn # ths)"
    and "th_syn syn" and "\<forall>th\<in>set ths. \<not> th_syn th"
  shows "\<exists>ct'. track_packets K P junk net info pkts st = Inr (st(p \<mapsto> ct')) \<and> same_but_tracking ct ct' \<and>
    tcp_state (ct_proto ct') = life_state ths"
proof -
  have "fold tcp_next (syn # ths) (tcp_state (ct_proto ct)) = life_state ths"
    using assms(3,5) fold_opening [OF assms(6)] by (simp add: tcp_next_def)
  with ct_kernel_laws.track_packets_fold [where st = st and ct = ct, OF assms(1,4,2), of junk net] show ?thesis by simp
qed

text \<open>A SYN, an acknowledgement and a FIN; and a SYN that is answered by a reset with acknowledgement.\<close>

theorem tracked_life_witness:
  "(\<exists>ct'. track_packets ref_kernel demo_params 0 0 demo_info
      (map (\<lambda>f. ((demo_seg 9 f, Some 1, 0), demo_key)) [2, 16, 17]) demo_store = Inr (demo_store(1 \<mapsto> ct')) \<and>
      tcp_state (ct_proto ct') = TCP_CONNTRACK_CLOSE_WAIT) \<and>
   (\<exists>ct'. track_packets ref_kernel demo_params 0 0 demo_info
      (map (\<lambda>f. ((demo_seg 9 f, Some 1, 0), demo_key)) [2, 20]) demo_store = Inr (demo_store(1 \<mapsto> ct')) \<and>
      tcp_state (ct_proto ct') = TCP_CONNTRACK_ESTABLISHED)"
proof -
  let ?th = "\<lambda>f. tcphdr_of (drop 20 (demo_seg 9 f))"
  have ct: "demo_store 1 = Some demo_ct" "tcp_state (ct_proto demo_ct) \<noteq> TCP_CONNTRACK_ESTABLISHED"
    by (simp_all add: demo_store_def demo_ct_def demo_tcp_def Let_def)
  have seg: "\<forall>f\<in>{2, 16, 17, 20}. segment_of ref_kernel demo_params demo_info 1
      ((demo_seg 9 f, Some 1, 0), demo_key) (?th f)"
    by code_simp
  have flags: "th_syn (?th 2)" "\<forall>f\<in>{16, 17, 20}. \<not> th_syn (?th f)" by code_simp+
  have life: "life_state [?th 16, ?th 17] = TCP_CONNTRACK_CLOSE_WAIT"
    "life_state [?th 20] = TCP_CONNTRACK_ESTABLISHED" by code_simp+
  have "list_all2 (segment_of ref_kernel demo_params demo_info 1)
      (map (\<lambda>f. ((demo_seg 9 f, Some 1, 0), demo_key)) [2, 16, 17]) [?th 2, ?th 16, ?th 17]"
    "list_all2 (segment_of ref_kernel demo_params demo_info 1)
      (map (\<lambda>f. ((demo_seg 9 f, Some 1, 0), demo_key)) [2, 20]) [?th 2, ?th 20]"
    using seg by simp_all
  from tracked_life [where st = demo_store and ct = demo_ct, OF ref_k.ct_kernel_laws_axioms ct this(1) flags(1)]
    tracked_life [where st = demo_store and ct = demo_ct, OF ref_k.ct_kernel_laws_axioms ct this(2) flags(1)]
    flags(2) life
  show ?thesis by (simp only: list.set ball_simps) blast
qed

definition seg_flags :: "bool \<Rightarrow> bool \<Rightarrow> bool \<Rightarrow> bool \<Rightarrow> tcphdr" where
  "seg_flags syn ack fin rst = \<lparr>th_source = 0, th_dest = 0, th_seq = 0, th_ack_seq = 0, th_doff = 5,
     th_fin = fin, th_syn = syn, th_rst = rst, th_ack = ack\<rparr>"

lemma seg_flags_simps [simp]:
  "th_syn (seg_flags s a f r) = s" "th_ack (seg_flags s a f r) = a"
  "th_fin (seg_flags s a f r) = f" "th_rst (seg_flags s a f r) = r"
  by (simp_all add: seg_flags_def)

lemma demo_ct_state [simp]: "tcp_state (ct_proto demo_ct) = TCP_CONNTRACK_SYN_SENT"
  by (simp add: demo_ct_def demo_tcp_def Let_def)

text \<open>
  C6. An established connection leaves that state only through a segment with FIN or RST, and a
  one-sided handshake (SYN, then ACK without SYN, FIN or RST) establishes a connection from any
  other state, which is what the asymmetric gateway needs since it never sees the SYN-ACK.
\<close>

theorem tracker_established:
  assumes "ct_kernel_laws K"
  shows "(tcp_state (ct_proto ct) = TCP_CONNTRACK_ESTABLISHED \<and> \<not> th_fin th \<and> \<not> th_rst th \<longrightarrow>
      tcp_state (ct_proto (tcp_state_step K net ct th)) = TCP_CONNTRACK_ESTABLISHED) \<and>
    (tcp_state (ct_proto ct) \<noteq> TCP_CONNTRACK_ESTABLISHED \<and> th_syn th1 \<and> th_ack th2 \<and> \<not> th_syn th2 \<longrightarrow>
      tcp_state (ct_proto (track_run K net ct [th1, th2])) = TCP_CONNTRACK_ESTABLISHED)"
  unfolding track_run_def
  by (simp add: ct_kernel_laws.tcp_state_step_fields [OF assms] tcp_next_def)

theorem tracker_established_witness:
  "tcp_state (ct_proto (track_run ref_kernel 0 demo_ct
     [seg_flags True False False False, seg_flags False True True False])) =
   TCP_CONNTRACK_ESTABLISHED"
  using tracker_established [OF ref_k.ct_kernel_laws_axioms, of demo_ct
      "seg_flags False True False False" 0 "seg_flags True False False False"
      "seg_flags False True True False"]
  by simp

text \<open>
  The branch for ACK comes before the one for RST: a reset that acknowledges (the answer of
  a closed port) received before the connection is established moves it to
  \<open>ESTABLISHED\<close>, not to \<open>CLOSE\<close>.
\<close>

theorem tracker_reset_ack_establishes:
  assumes "ct_kernel_laws K" and "tcp_state (ct_proto ct) < TCP_CONNTRACK_ESTABLISHED"
    and "th_rst th" and "th_ack th" and "\<not> th_syn th"
  shows "tcp_state (ct_proto (tcp_state_step K net ct th)) = TCP_CONNTRACK_ESTABLISHED"
  using assms(2-) by (simp add: ct_kernel_laws.tcp_state_step_fields [OF assms(1)] tcp_next_def)

theorem tracker_reset_ack_establishes_witness:
  "tcp_state (ct_proto (tcp_state_step ref_kernel 0 demo_ct (seg_flags False True False True))) =
   TCP_CONNTRACK_ESTABLISHED"
  by (rule tracker_reset_ack_establishes [OF ref_k.ct_kernel_laws_axioms])
    simp_all

lemma flag_bits:
  fixes x :: u8
  shows "x AND 0x10 = 0 \<longleftrightarrow> \<not> bit x 4" and "x AND 0x02 = 0 \<longleftrightarrow> \<not> bit x 1"
    and "bit (0x10 :: u8) i \<longleftrightarrow> i = 4" and "bit (0x02 :: u8) i \<longleftrightarrow> i = 1"
  using and_exp_eq_0_iff_not_bit [of x 4] and_exp_eq_0_iff_not_bit [of x 1]
    bit_exp_iff [of 4 i, where 'a = u8] bit_exp_iff [of 1 i, where 'a = u8]
  by auto

lemma flag_updates:
  fixes x :: u8
  shows "x AND 0x10 = 0 \<Longrightarrow> x AND NOT 0x10 = x" and "x AND 0x02 \<noteq> 0 \<Longrightarrow> x OR 0x02 = x"
    and "bit ((x AND NOT 0x10) OR 0x02) i \<longleftrightarrow> i = 1 \<or> (i \<noteq> 4 \<and> bit x i)"
proof -
  show "x AND NOT 0x10 = x" if "x AND 0x10 = 0"
    using that unfolding flag_bits
    by (intro bit_word_eqI) (auto simp only: bit_and_iff bit_not_iff flag_bits possible_bit_word)
  show "x OR 0x02 = x" if "x AND 0x02 \<noteq> 0"
    using that unfolding flag_bits by (intro bit_word_eqI) (auto simp only: bit_or_iff flag_bits)
  show "bit ((x AND NOT 0x10) OR 0x02) i \<longleftrightarrow> i = 1 \<or> (i \<noteq> 4 \<and> bit x i)"
    by (simp only: bit_and_iff bit_or_iff bit_not_iff flag_bits)
      (auto dest: bit_imp_le_length simp: possible_bit_word)
qed

lemma adjust_ct_state_eq:
  "key_ct_state (adjust_ct_state IP_CT_ESTABLISHED key) =
     (key_ct_state key AND NOT OVS_CS_F_INVALID) OR OVS_CS_F_ESTABLISHED"
proof -
  have a: "(if x AND 0x10 \<noteq> 0 then x AND NOT 0x10 else x) = x AND NOT 0x10" for x :: u8
    using flag_updates(1) by auto
  have b: "(if x AND 0x02 = 0 then x OR 0x02 else x) = x OR 0x02" for x :: u8
    using flag_updates(2) by auto
  have "key_ct_state (adjust_ct_state 0 key) =
      (let x = (if key_ct_state key AND 0x10 \<noteq> 0 then key_ct_state key AND NOT 0x10 else key_ct_state key)
       in if x AND 0x02 = 0 then x OR 0x02 else x)"
    by (simp add: adjust_ct_state_def Let_def)
  then show ?thesis by (simp only: Let_def a b)
qed

text \<open>
  C7. The flow key: for a packet in the original direction of an established connection the
  tracker sets the established flag and clears the invalid flag and touches no other bit; for
  any other packet the key is unchanged.
\<close>

theorem adjust_ct_state_bits:
  "(\<forall>i. bit (key_ct_state (adjust_ct_state IP_CT_ESTABLISHED key)) i \<longleftrightarrow>
      i = 1 \<or> (i \<noteq> 4 \<and> bit (key_ct_state key) i)) \<and>
   (adjust_ct_state ctinfo key)\<lparr>key_ct_state := key_ct_state key\<rparr> = key \<and>
   (ctinfo \<noteq> IP_CT_ESTABLISHED \<longrightarrow> adjust_ct_state ctinfo key = key)"
  unfolding adjust_ct_state_eq flag_updates(3) by (simp add: adjust_ct_state_def Let_def)

theorem adjust_ct_state_bits_witness:
  "key_ct_state (adjust_ct_state IP_CT_ESTABLISHED demo_key) = 0x22 \<and>
   adjust_ct_state 2 demo_key = demo_key"
  using adjust_ct_state_bits [of demo_key 2]
  by (simp add: adjust_ct_state_def Let_def demo_key_def)

text \<open>What the tracker does to the flow key, whatever the packet.\<close>

definition key_kept :: "sw_flow_key \<Rightarrow> sw_flow_key \<Rightarrow> bool" where
  "key_kept key key' \<longleftrightarrow> key'\<lparr>key_ct_state := key_ct_state key\<rparr> = key \<and>
     (\<forall>i. i \<noteq> 1 \<and> i \<noteq> 4 \<longrightarrow> bit (key_ct_state key') i = bit (key_ct_state key) i)"

lemma key_kept_adjust: "key_kept key (adjust_ct_state ctinfo key)"
proof (cases "ctinfo = IP_CT_ESTABLISHED")
  case True
  then show ?thesis unfolding key_kept_def True adjust_ct_state_eq flag_updates(3)
    by (simp add: adjust_ct_state_def Let_def)
qed (simp add: key_kept_def adjust_ct_state_def)

lemma key_kept_refl: "key_kept key key"
  by (simp add: key_kept_def)

lemma adjust_established:
  "bit (key_ct_state (adjust_ct_state IP_CT_ESTABLISHED key)) 1"
  "\<not> bit (key_ct_state (adjust_ct_state IP_CT_ESTABLISHED key)) 4"
  unfolding adjust_ct_state_eq flag_updates(3) by simp_all

lemma seg_effect_seq: "seg_effect th e ct ct' r \<Longrightarrow> last_seq (ct_proto ct') = ntohl (th_seq th)"
  by (auto simp: seg_effect_def split: if_splits)

text \<open>The two ways through the return handler.\<close>

lemma probe_idle:
  assumes "mem_keys mem (reg_dx regs) = Some key" "mem_infos mem (reg_cx regs) = Some info"
    and "reg_ax ret_regs \<noteq> 0 \<or> key_recirc_id key \<noteq> 0 \<or>
      tcp_segment K P (reg_si regs) (zone_id (info_zone info)) = None"
  shows "kretprobe_return_handler K P junk (kretprobe_entry_handler regs) ret_regs mem = Inr mem"
proof (cases "reg_ax ret_regs = 0 \<and> key_recirc_id key = 0")
  case True
  with assms(3) have "tcp_segment K P (reg_si regs) (zone_id (info_zone info)) = None" by blast
  from main_rejects [OF this, of junk "reg_di regs" key "mem_cts mem"] True assms(1,2)
  show ?thesis
    by (auto simp: kretprobe_return_handler_def kretprobe_entry_handler_def tcptrack_exit_def
        fun_upd_idem intro!: kmem.equality)
qed (use assms(1) in \<open>auto simp: kretprobe_return_handler_def kretprobe_entry_handler_def\<close>)

lemma probe_runs:
  assumes "mem_keys mem (reg_dx regs) = Some key" "mem_infos mem (reg_cx regs) = Some info"
    and "reg_ax ret_regs = 0" "key_recirc_id key = 0"
    and "vgw_tcptrack_main K P junk (reg_di regs) (reg_si regs) key info (mem_cts mem) = Inr out"
  shows "kretprobe_return_handler K P junk (kretprobe_entry_handler regs) ret_regs mem =
    Inr (mem\<lparr>mem_keys := (mem_keys mem)(reg_dx regs \<mapsto> out_key out), mem_cts := out_store out\<rparr>)"
  using assms by (simp add: kretprobe_return_handler_def kretprobe_entry_handler_def)

text \<open>One segment, whether or not its packet has a connection attached.\<close>

lemma main_segment:
  assumes "ct_kernel_laws K" "live st" "skb_ct_live K skb st"
    and seg: "tcp_segment K P skb (zone_id (info_zone info)) = Some (off, th)"
  shows "\<exists>out. vgw_tcptrack_main K P junk net skb key info st = Inr out \<and>
    ref_counts (out_store out) = ref_counts st \<and> key_kept key (out_key out) \<and>
    (\<forall>p. fst (get_skb_ct K skb) = Some p \<longrightarrow>
      (\<exists>ct ct'. st p = Some ct \<and> out_store out = st(p \<mapsto> ct') \<and> same_but_tracking ct ct' \<and>
         last_seq (ct_proto ct') = ntohl (th_seq th)) \<and>
      (snd (get_skb_ct K skb) = IP_CT_ESTABLISHED \<longrightarrow>
         bit (key_ct_state (out_key out)) 1 \<and> \<not> bit (key_ct_state (out_key out)) 4))"
proof (cases "fst (get_skb_ct K skb)")
  case None
  from ct_kernel_laws.main_conn [OF assms(1) seg assms(3,2), of junk net key] None show ?thesis
    by (auto simp: tcptrack_exit_def key_kept_refl key_kept_adjust seg_effect_refs)
next
  case (Some p)
  with assms(3) obtain ct where ct: "st p = Some ct"
    by (auto simp: skb_ct_live_def get_skb_ct_def split: prod.splits if_splits)
  from ct_kernel_laws.main_attached [where st = st and ct = ct, OF assms(1) Some ct seg, of junk net key]
  obtain out ct' where out: "vgw_tcptrack_main K P junk net skb key info st = Inr out"
    "out_store out = st(p \<mapsto> ct')" "out_key out = adjust_ct_state (snd (get_skb_ct K skb)) key"
    and eff: "seg_effect th (segment_seq_plus_len (ntohl (th_seq th)) (ucast (k_len K skb)) off th)
      ct ct' (out_ret out)" by blast
  have "same_but_tracking ct ct'" using eff by (simp add: seg_effect_def)
  with out ct Some seg_effect_seq [OF eff] seg_effect_refs [of st, OF ct eff] adjust_established [of key]
  show ?thesis by (intro exI [of _ out]) (auto simp: key_kept_adjust)
qed

text \<open>
  C8. The probe on \<open>ovs_ct_execute\<close>, entry and return together: on live
  memory it returns without a fault, leaves the reference counts, the actions and every flow key
  but that of the call as they are, and of that key all but the two bits of the connection
  state. A call that failed, a recirculated packet, or a packet that is no tracked TCP
  segment leaves the whole memory unchanged. For a successful call on a segment of a connection
  the packet is attached to, the sequence number of the segment is recorded in that connection
  and nowhere else, and if the packet is in the original direction of an established connection
  its key says established and not invalid.
\<close>

theorem kretprobe_runs_tracker:
  assumes "ct_kernel_laws K" and "live (mem_cts mem)" and "skb_ct_live K (reg_si regs) (mem_cts mem)"
    and "mem_keys mem (reg_dx regs) = Some key" and "mem_infos mem (reg_cx regs) = Some info"
  shows "\<exists>mem' key'.
    kretprobe_return_handler K P junk (kretprobe_entry_handler regs) ret_regs mem = Inr mem' \<and>
    mem_infos mem' = mem_infos mem \<and> ref_counts (mem_cts mem') = ref_counts (mem_cts mem) \<and>
    mem_keys mem' = (mem_keys mem)(reg_dx regs \<mapsto> key') \<and> key_kept key key' \<and>
    (reg_ax ret_regs \<noteq> 0 \<or> key_recirc_id key \<noteq> 0 \<or>
       tcp_segment K P (reg_si regs) (zone_id (info_zone info)) = None \<longrightarrow> mem' = mem) \<and>
    (\<forall>p off th. reg_ax ret_regs = 0 \<and> key_recirc_id key = 0 \<and>
       fst (get_skb_ct K (reg_si regs)) = Some p \<and>
       tcp_segment K P (reg_si regs) (zone_id (info_zone info)) = Some (off, th) \<longrightarrow>
       (\<exists>ct ct'. mem_cts mem p = Some ct \<and> mem_cts mem' = (mem_cts mem)(p \<mapsto> ct') \<and>
          same_but_tracking ct ct' \<and> last_seq (ct_proto ct') = ntohl (th_seq th)) \<and>
       (snd (get_skb_ct K (reg_si regs)) = IP_CT_ESTABLISHED \<longrightarrow>
          bit (key_ct_state key') 1 \<and> \<not> bit (key_ct_state key') 4))"
    (is "\<exists>mem' key'. ?goal mem' key'")
proof (cases "reg_ax ret_regs \<noteq> 0 \<or> key_recirc_id key \<noteq> 0 \<or>
    tcp_segment K P (reg_si regs) (zone_id (info_zone info)) = None")
  case True
  have "mem_keys mem = (mem_keys mem)(reg_dx regs \<mapsto> key)" using assms(4) by auto
  with probe_idle [OF assms(4,5) True] True show ?thesis
    by (intro exI [of _ mem] exI [of _ key]) (auto simp: key_kept_refl)
next
  case False
  then obtain off th where run: "reg_ax ret_regs = 0" "key_recirc_id key = 0"
    and seg: "tcp_segment K P (reg_si regs) (zone_id (info_zone info)) = Some (off, th)" by auto
  from main_segment [OF assms(1-3) seg, of junk "reg_di regs" key] obtain out where
    out: "vgw_tcptrack_main K P junk (reg_di regs) (reg_si regs) key info (mem_cts mem) = Inr out"
    and eff: "ref_counts (out_store out) = ref_counts (mem_cts mem)" "key_kept key (out_key out)"
      "\<forall>p. fst (get_skb_ct K (reg_si regs)) = Some p \<longrightarrow>
        (\<exists>ct ct'. mem_cts mem p = Some ct \<and> out_store out = (mem_cts mem)(p \<mapsto> ct') \<and>
           same_but_tracking ct ct' \<and> last_seq (ct_proto ct') = ntohl (th_seq th)) \<and>
        (snd (get_skb_ct K (reg_si regs)) = IP_CT_ESTABLISHED \<longrightarrow>
           bit (key_ct_state (out_key out)) 1 \<and> \<not> bit (key_ct_state (out_key out)) 4)" by blast
  from probe_runs [OF assms(4,5) run out] eff run seg show ?thesis
    by (intro exI [of _ "mem\<lparr>mem_keys := (mem_keys mem)(reg_dx regs \<mapsto> out_key out), mem_cts := out_store out\<rparr>"]
        exI [of _ "out_key out"]) simp
qed

text \<open>
  A SYN on the sample connection, attached to the packet as one of an established connection: its
  number 1000 is recorded and the key, which said invalid, now says established; and the same call
  with an error code, which changes nothing.
\<close>

theorem kretprobe_runs_tracker_witness:
  "let pkt = (demo_seg 9 16, Some 1, IP_CT_ESTABLISHED);
       regs = (\<lambda>ax. \<lparr>reg_di = 0, reg_si = pkt, reg_dx = 7, reg_cx = 9, reg_ax = ax\<rparr>);
       mem = \<lparr>mem_keys = [7 \<mapsto> demo_key], mem_infos = [9 \<mapsto> demo_info], mem_cts = demo_store\<rparr>;
       probe = (\<lambda>ax. kretprobe_return_handler ref_kernel demo_params 0 (kretprobe_entry_handler (regs 0)) (regs ax) mem)
   in probe 5 = Inr mem \<and>
     (\<exists>mem' key' ct'. probe 0 = Inr mem' \<and> mem_keys mem' = [7 \<mapsto> key'] \<and>
        bit (key_ct_state key') 1 \<and> \<not> bit (key_ct_state key') 4 \<and>
        mem_cts mem' = [1 \<mapsto> ct'] \<and> last_seq (ct_proto ct') = 1000)"
proof -
  let ?pkt = "(demo_seg 9 16, Some 1, 0) :: pkt"
  let ?regs = "\<lambda>ax. \<lparr>reg_di = 0, reg_si = ?pkt, reg_dx = 7, reg_cx = 9, reg_ax = ax\<rparr>"
  let ?probe = "\<lambda>ax. kretprobe_return_handler ref_kernel demo_params 0 (kretprobe_entry_handler (?regs 0)) (?regs ax)"
  let ?mem = "\<lparr>mem_keys = [7 \<mapsto> demo_key], mem_infos = [9 \<mapsto> demo_info], mem_cts = demo_store\<rparr>"
  let ?th = "tcphdr_of (drop 20 (demo_seg 9 16))"
  have seg: "tcp_segment ref_kernel demo_params ?pkt (zone_id (info_zone demo_info)) = Some (20, ?th)"
    and seq: "ntohl (th_seq ?th) = 1000" by code_simp+
  have g: "get_skb_ct ref_kernel ?pkt = (Some 1, 0)" by (simp add: get_skb_ct_def ref_kernel_def)
  have r: "key_recirc_id demo_key = 0" by (simp add: demo_key_def)
  have live: "live (mem_cts ?mem)" "skb_ct_live ref_kernel (reg_si (?regs 0)) (mem_cts ?mem)"
    "mem_keys ?mem (reg_dx (?regs 0)) = Some demo_key" "mem_infos ?mem (reg_cx (?regs 0)) = Some demo_info"
    using demo_live by simp_all
  note * = kretprobe_runs_tracker [OF ref_k.ct_kernel_laws_axioms live, of demo_params 0]
  have "?probe 5 ?mem = Inr ?mem" using * [of "?regs 5"] by auto
  moreover obtain mem' key' where "?probe 0 ?mem = Inr mem'" "mem_keys mem' = (mem_keys ?mem)(7 \<mapsto> key')"
    "\<exists>ct ct'. mem_cts ?mem 1 = Some ct \<and> mem_cts mem' = (mem_cts ?mem)(1 \<mapsto> ct') \<and>
       last_seq (ct_proto ct') = 1000"
    "bit (key_ct_state key') 1" "\<not> bit (key_ct_state key') 4"
  proof -
    from * [of "?regs 0"] show thesis
      by (elim exE conjE allE [where x = 1] allE [where x = 20] allE [where x = ?th], intro that)
        (simp_all add: seg g r seq del: One_nat_def fun_upd_apply, blast+)
  qed
  ultimately show ?thesis
    by (auto simp: Let_def demo_store_def simp del: fun_upd_apply)
qed

text \<open>
  The zone filter with the built-in parameters accepts exactly the zones 100 to 2099, and
  with those parameters the tracker itself is off: the flag that enables it is not among the
  defaults.
\<close>

theorem default_zone_range:
  "(check_zone_id default_params z \<longleftrightarrow> 100 \<le> unat z \<and> unat z \<le> 2099) \<and>
   vgw_tcptrack_main K default_params junk net skb key info st =
     Inr (tcptrack_exit default_params (-1) st key)"
  by (simp add: check_zone_id_def is_enable_zone_filter_def default_params_def word_le_nat_alt
      width_simps vgw_tcptrack_main_def is_enable_tcp_track_def)

end
