(* ===== verification/Nl_Api.thy ===== *)
theory Nl_Api
  imports Nf_Types
begin

text \<open>
  The interface of the kernel's netlink message builder, as far as the module uses it. The
  functions are the fields of a record that every writing definition takes as an argument;
  the locale \<open>nl_writer_laws\<close> states what their documentation promises, through the
  attribute tree a buffer holds. An \<^emph>\<open>emitter\<close> is an action that writes a given list of
  attributes if they fit and fails otherwise; the rules in \<open>emit_intros\<close> compose emitters the
  way the code composes its writers.
\<close>

named_theorems emit_intros \<open>composition of attribute writers\<close>

section \<open>Attributes\<close>

text \<open>
  The payload of an attribute, by the function that writes it: \<open>nla_put_u8\<close>,
  \<open>nla_put_be16\<close>, \<open>nla_put_be32\<close>, \<open>nla_put_be64\<close>, \<open>nla_put_in_addr\<close>,
  \<open>nla_put_in6_addr\<close>, \<open>nla_put_string\<close>, and \<open>nla_put\<close> with raw bytes. The integers are
  the values handed to the function, that is, already in network byte order where the code
  converted them.
\<close>

datatype nla_val =
    V_u8 u8 | V_be16 u16 | V_be32 u32 | V_be64 u64 | V_in_addr u32 | V_in6_addr nf_inet_addr
  | V_string string | V_bin "u8 list"

datatype nlattr = Leaf nat nla_val | Nest nat "nlattr list"

fun val_len :: "nla_val \<Rightarrow> nat" where
  "val_len (V_u8 _) = 1"
| "val_len (V_be16 _) = 2"
| "val_len (V_be32 _) = 4"
| "val_len (V_be64 _) = 8"
| "val_len (V_in_addr _) = 4"
| "val_len (V_in6_addr _) = 16"
| "val_len (V_string s) = Suc (length s)"
| "val_len (V_bin b) = length b"

text \<open>
  The space an attribute takes: a header of four bytes and the payload, padded to a multiple
  of four (\<open>nla_total_size\<close>). On x86-64 a 64-bit payload needs no alignment attribute.
\<close>

definition nla_total_size :: "nat \<Rightarrow> nat" where
  "nla_total_size payload = (4 + payload + 3) div 4 * 4"

fun attr_size :: "nlattr \<Rightarrow> nat" where
  "attr_size (Leaf t v) = nla_total_size (val_len v)"
| "attr_size (Nest t as) = 4 + sum_list (map attr_size as)"

abbreviation attrs_size :: "nlattr list \<Rightarrow> nat" where
  "attrs_size as \<equiv> sum_list (map attr_size as)"

text \<open>The header \<open>nfnl_msg_put\<close> writes: 16 bytes of netlink header, 4 of \<open>nfgenmsg\<close>.\<close>

record nlmsg =
  msg_portid :: u32
  msg_seq :: u32
  msg_type :: nat
  msg_flags :: u32
  msg_family :: u16
  msg_version :: u8
  msg_res_id :: u16

abbreviation (input) NFNETLINK_V0 :: u8 where "NFNETLINK_V0 \<equiv> 0"
abbreviation (input) NFNL_HDR_SIZE :: nat where "NFNL_HDR_SIZE \<equiv> 20"

section \<open>The message builder\<close>

text \<open>
  \<open>w_put\<close> is the family \<open>nla_put*\<close>; \<open>w_nest_start\<close> and \<open>w_nest_end\<close> are
  \<open>nla_nest_start\<close> and \<open>nla_nest_end\<close> with the start of the attribute as a handle;
  \<open>w_msg_put\<close>, \<open>w_msg_end\<close> and \<open>w_msg_cancel\<close> are \<open>nfnl_msg_put\<close>, \<open>nlmsg_end\<close> and
  \<open>nlmsg_cancel\<close> (whose message pointer may be null); \<open>w_len\<close> is \<open>skb->len\<close>.
\<close>

record 'skb nl_writer =
  w_put :: "'skb \<Rightarrow> nat \<Rightarrow> nla_val \<Rightarrow> 'skb option"
  w_nest_start :: "'skb \<Rightarrow> nat \<Rightarrow> ('skb \<times> nat) option"
  w_nest_end :: "'skb \<Rightarrow> nat \<Rightarrow> 'skb"
  w_msg_put :: "'skb \<Rightarrow> nlmsg \<Rightarrow> ('skb \<times> nat) option"
  w_msg_end :: "'skb \<Rightarrow> nat \<Rightarrow> 'skb"
  w_msg_cancel :: "'skb \<Rightarrow> nat option \<Rightarrow> 'skb"
  w_len :: "'skb \<Rightarrow> nat"

text \<open>A single attribute; on failure the buffer is as before and the code is \<open>-EMSGSIZE\<close>.\<close>

definition put :: "('skb, 'x) nl_writer_scheme \<Rightarrow> nat \<Rightarrow> nla_val \<Rightarrow> 'skb action" where
  "put w t v skb = (case w_put w skb t v of None \<Rightarrow> (Inl EMSGSIZE, skb) | Some skb' \<Rightarrow> (Inr (), skb'))"

text \<open>
  The two shapes in which the code nests attributes: closing the nest only if the body
  succeeded, and closing it in any case before the code of the body is returned.
\<close>

definition nest :: "('skb, 'x) nl_writer_scheme \<Rightarrow> nat \<Rightarrow> 'skb action \<Rightarrow> 'skb action" where
  "nest w t body skb =
     (case w_nest_start w skb t of
        None \<Rightarrow> (Inl EFAIL, skb)
      | Some (skb1, h) \<Rightarrow>
          (case body skb1 of
             (Inl e, skb2) \<Rightarrow> (Inl e, skb2)
           | (Inr _, skb2) \<Rightarrow> (Inr (), w_nest_end w skb2 h)))"

definition nest_always :: "('skb, 'x) nl_writer_scheme \<Rightarrow> nat \<Rightarrow> 'skb action \<Rightarrow> 'skb action" where
  "nest_always w t body skb =
     (case w_nest_start w skb t of
        None \<Rightarrow> (Inl EFAIL, skb)
      | Some (skb1, h) \<Rightarrow> (let (r, skb2) = body skb1 in (r, w_nest_end w skb2 h)))"

text \<open>
  The third shape: a callback that runs after the code's own attributes and whose code is
  returned after the nest was closed.
\<close>

definition nest_cb ::
  "('skb, 'x) nl_writer_scheme \<Rightarrow> nat \<Rightarrow> 'skb action \<Rightarrow> 'skb action \<Rightarrow> 'skb action" where
  "nest_cb w t pre cb skb =
     (case w_nest_start w skb t of
        None \<Rightarrow> (Inl EFAIL, skb)
      | Some (skb1, h) \<Rightarrow>
          (case pre skb1 of
             (Inl e, skb2) \<Rightarrow> (Inl e, skb2)
           | (Inr _, skb2) \<Rightarrow> (let (r, skb3) = cb skb2 in (r, w_nest_end w skb3 h))))"

text \<open>A call whose code is not looked at.\<close>

definition ignore_code :: "'skb action \<Rightarrow> 'skb action" where
  "ignore_code a skb = (Inr (), snd (a skb))"

text \<open>
  A message: header, attributes, then \<open>nlmsg_end\<close>, or \<open>nlmsg_cancel\<close> when something failed
  (with a null pointer when already the header did not fit).
\<close>

definition message :: "('skb, 'x) nl_writer_scheme \<Rightarrow> nlmsg \<Rightarrow> 'skb action \<Rightarrow> 'skb \<Rightarrow> nat res \<times> 'skb" where
  "message w m body skb =
     (case w_msg_put w skb m of
        None \<Rightarrow> (Inl EFAIL, w_msg_cancel w skb None)
      | Some (skb1, h) \<Rightarrow>
          (case body skb1 of
             (Inl e, skb2) \<Rightarrow> if e = OOPS then (Inl OOPS, skb2)
                             else (Inl EFAIL, w_msg_cancel w skb2 (Some h))
           | (Inr _, skb2) \<Rightarrow> (let skb3 = w_msg_end w skb2 h in (Inr (w_len w skb3), skb3))))"

section \<open>Laws\<close>

text \<open>
  \<open>emits s as s'\<close>: \<open>s'\<close> is \<open>s\<close> followed by the complete attributes \<open>as\<close>;
  \<open>grows s s'\<close>: \<open>s'\<close> is \<open>s\<close> followed by anything, also by nests that are still open;
  \<open>room\<close> is the tailroom, \<open>msgs\<close> the complete messages of a buffer.
\<close>

locale nl_writer_laws =
  fixes w :: "('skb, 'x) nl_writer_scheme"
    and emits :: "'skb \<Rightarrow> nlattr list \<Rightarrow> 'skb \<Rightarrow> bool"
    and grows :: "'skb \<Rightarrow> 'skb \<Rightarrow> bool"
    and room :: "'skb \<Rightarrow> nat"
    and msgs :: "'skb \<Rightarrow> (nlmsg \<times> nlattr list) list"
  assumes emits_refl: "emits s [] s"
    and emits_trans: "emits s as s' \<Longrightarrow> emits s' bs s'' \<Longrightarrow> emits s (as @ bs) s''"
    and emits_grows: "emits s as s' \<Longrightarrow> grows s s'"
    and emits_room: "emits s as s' \<Longrightarrow> room s = room s' + attrs_size as"
    and grows_trans: "grows s s' \<Longrightarrow> grows s' s'' \<Longrightarrow> grows s s''"
    and put_none: "w_put w s t v = None \<longleftrightarrow> room s < nla_total_size (val_len v)"
    and put_some: "w_put w s t v = Some s' \<Longrightarrow> emits s [Leaf t v] s'"
    and nest_none: "w_nest_start w s t = None \<longleftrightarrow> room s < 4"
    and nest_some: "w_nest_start w s t = Some (s1, h) \<Longrightarrow> grows s s1 \<and> room s = room s1 + 4"
    and nest_emits: "w_nest_start w s t = Some (s1, h) \<Longrightarrow> emits s1 as s2 \<Longrightarrow>
      emits s [Nest t as] (w_nest_end w s2 h)"
    and nest_grows: "w_nest_start w s t = Some (s1, h) \<Longrightarrow> grows s1 s2 \<Longrightarrow>
      grows s (w_nest_end w s2 h)"
    and msg_none: "w_msg_put w s m = None \<longleftrightarrow> room s < NFNL_HDR_SIZE"
    and msg_some: "w_msg_put w s m = Some (s1, h) \<Longrightarrow> room s = room s1 + NFNL_HDR_SIZE"
    and msg_emits: "w_msg_put w s m = Some (s1, h) \<Longrightarrow> emits s1 as s2 \<Longrightarrow>
      msgs (w_msg_end w s2 h) = msgs s @ [(m, as)] \<and>
      room (w_msg_end w s2 h) = room s2 \<and> 0 < w_len w (w_msg_end w s2 h)"
    and msg_cancel: "w_msg_put w s m = Some (s1, h) \<Longrightarrow> grows s1 s2 \<Longrightarrow>
      w_msg_cancel w s2 (Some h) = s"
    and msg_cancel_null: "w_msg_cancel w s None = s"

text \<open>
  An emitter of \<open>as\<close> writes exactly \<open>as\<close> when they fit into the tailroom. When they do not, a
  \<open>strict\<close> emitter fails, leaving only unfinished content behind; one that is not strict may also
  succeed with other attributes (it contains a callback whose failure the code ignores).
\<close>

definition emitter ::
  "('skb \<Rightarrow> nlattr list \<Rightarrow> 'skb \<Rightarrow> bool) \<Rightarrow> ('skb \<Rightarrow> 'skb \<Rightarrow> bool) \<Rightarrow> ('skb \<Rightarrow> nat) \<Rightarrow> bool \<Rightarrow>
   'skb action \<Rightarrow> nlattr list \<Rightarrow> bool" where
  "emitter emits grows room strict a as \<longleftrightarrow>
     (\<forall>s. if attrs_size as \<le> room s then \<exists>s'. a s = (Inr (), s') \<and> emits s as s'
          else (\<exists>e s'. a s = (Inl e, s') \<and> grows s s' \<and> e \<noteq> OOPS) \<or>
               (\<not> strict \<and> (\<exists>s' bs. a s = (Inr (), s') \<and> emits s bs s')))"

context nl_writer_laws
begin

abbreviation "emt \<equiv> emitter emits grows room"

lemma grows_refl: "grows s s"
  using emits_refl emits_grows by blast

lemma emt_fits: "emt k a as \<Longrightarrow> attrs_size as \<le> room s \<Longrightarrow> \<exists>s'. a s = (Inr (), s') \<and> emits s as s'"
  by (simp add: emitter_def)

lemma emt_overflows:
  assumes "emt k a as" "\<not> attrs_size as \<le> room s"
  obtains (fails) e s' where "a s = (Inl e, s')" "grows s s'" "e \<noteq> OOPS"
  | (lossy) s' bs where "\<not> k" "a s = (Inr (), s')" "emits s bs s'"
  using assms unfolding emitter_def by (auto split: if_splits)

text \<open>Whatever the tailroom, an emitter ends in one of these two ways.\<close>

lemma emt_ends:
  assumes "emt k a as"
  obtains (ok) s' bs where "a s = (Inr (), s')" "emits s bs s'" "attrs_size as \<le> room s \<longrightarrow> bs = as"
    "k \<longrightarrow> attrs_size as \<le> room s"
  | (fails) e s' where "a s = (Inl e, s')" "grows s s'" "e \<noteq> OOPS" "\<not> attrs_size as \<le> room s"
  using assms unfolding emitter_def by (metis (full_types))

lemma emitterI:
  assumes "\<And>s. attrs_size as \<le> room s \<Longrightarrow> \<exists>s'. a s = (Inr (), s') \<and> emits s as s'"
    and "\<And>s. \<not> attrs_size as \<le> room s \<Longrightarrow>
      (\<exists>e s'. a s = (Inl e, s') \<and> grows s s' \<and> e \<noteq> OOPS) \<or>
      (\<not> k \<and> (\<exists>s' bs. a s = (Inr (), s') \<and> emits s bs s'))"
  shows "emt k a as"
  using assms by (simp add: emitter_def)

lemma emt_done [emit_intros]: "emt k (\<lambda>s. (Inr (), s)) []"
  by (rule emitterI) (auto simp: emits_refl)

lemma emt_weaken: "emt True a as \<Longrightarrow> emt k a as"
  unfolding emitter_def by meson

lemma emt_put [emit_intros]: "emt k (put w t v) [Leaf t v]"
proof (rule emitterI)
  fix s
  show "\<exists>s'. put w t v s = (Inr (), s') \<and> emits s [Leaf t v] s'"
    if "attrs_size [Leaf t v] \<le> room s"
    using that put_none [of s t v] put_some [of s t v]
    by (cases "w_put w s t v") (auto simp: put_def)
  show "(\<exists>e s'. put w t v s = (Inl e, s') \<and> grows s s' \<and> e \<noteq> OOPS) \<or>
      (\<not> k \<and> (\<exists>s' bs. put w t v s = (Inr (), s') \<and> emits s bs s'))"
    if "\<not> attrs_size [Leaf t v] \<le> room s"
    using that put_none [of s t v] grows_refl by (auto simp: put_def)
qed

lemma emt_when [emit_intros]: "(c \<Longrightarrow> emt k a as) \<Longrightarrow> emt k (act_when c a) (if c then as else [])"
  by (cases c) (simp_all add: act_when_def [abs_def] emt_done)

lemma emt_fail_with [emit_intros]:
  assumes "emt k a as" "e \<noteq> OOPS"
  shows "emt k (fail_with e a) as"
proof (rule emitterI)
  fix s
  show "\<exists>s'. fail_with e a s = (Inr (), s') \<and> emits s as s'" if "attrs_size as \<le> room s"
    using emt_fits [OF assms(1) that] by (auto simp: fail_with_def)
  show "(\<exists>e' s'. fail_with e a s = (Inl e', s') \<and> grows s s' \<and> e' \<noteq> OOPS) \<or>
      (\<not> k \<and> (\<exists>s' bs. fail_with e a s = (Inr (), s') \<and> emits s bs s'))"
    if "\<not> attrs_size as \<le> room s"
    using assms(2) by (cases rule: emt_overflows [OF assms(1) that])
      (auto simp: fail_with_def exit_code_def)
qed

lemma emt_acts_Nil [emit_intros]: "emt k (run_acts []) []"
  by (rule emitterI) (auto simp: emits_refl)

lemma emt_acts_Cons [emit_intros]:
  assumes a: "emt k a as" and rest: "emt k (run_acts acts) bs"
  shows "emt k (run_acts (a # acts)) (as @ bs)"
proof (rule emitterI)
  fix s
  assume fits: "attrs_size (as @ bs) \<le> room s"
  then have "attrs_size as \<le> room s" by simp
  from emt_fits [OF a this] obtain s1 where s1: "a s = (Inr (), s1)" "emits s as s1" by blast
  from emits_room [OF s1(2)] fits have "attrs_size bs \<le> room s1" by simp
  from emt_fits [OF rest this]
  obtain s2 where "run_acts acts s1 = (Inr (), s2)" "emits s1 bs s2" by blast
  with s1 show "\<exists>s'. run_acts (a # acts) s = (Inr (), s') \<and> emits s (as @ bs) s'"
    by (auto intro: emits_trans)
next
  fix s
  assume over: "\<not> attrs_size (as @ bs) \<le> room s"
  show "(\<exists>e s'. run_acts (a # acts) s = (Inl e, s') \<and> grows s s' \<and> e \<noteq> OOPS) \<or>
      (\<not> k \<and> (\<exists>s' cs. run_acts (a # acts) s = (Inr (), s') \<and> emits s cs s'))"
    using a
  proof (cases rule: emt_ends [where s = s])
    case (ok s1 cs)
    have lossy: "\<not> k" if "attrs_size bs \<le> room s1"
      using that ok over emits_room [OF ok(2)] by auto
    from rest show ?thesis
    proof (cases rule: emt_ends [where s = s1])
      case r: (ok s2 ds)
      have "\<not> k" using r(4) lossy by blast
      with ok r show ?thesis by (auto intro: emits_trans)
    next
      case (fails e s2)
      with ok show ?thesis by (auto intro: grows_trans emits_grows)
    qed
  qed auto
qed

lemma emt_nest_cases:
  assumes body: "emt k body as"
    and shape: "\<And>s s1 h. w_nest_start w s t = Some (s1, h) \<Longrightarrow>
      (\<forall>s2. body s1 = (Inr (), s2) \<longrightarrow> n s = (Inr (), w_nest_end w s2 h)) \<and>
      (\<forall>e s2. body s1 = (Inl e, s2) \<longrightarrow> n s = (Inl e, s2) \<or> n s = (Inl e, w_nest_end w s2 h))"
    and full: "\<And>s. w_nest_start w s t = None \<Longrightarrow> n s = (Inl EFAIL, s)"
  shows "emt k n [Nest t as]"
proof (rule emitterI)
  fix s
  assume fits: "attrs_size [Nest t as] \<le> room s"
  then obtain s1 h where start: "w_nest_start w s t = Some (s1, h)"
    using nest_none [of s t] by fastforce
  from nest_some [OF start] fits have "attrs_size as \<le> room s1" by simp
  from emt_fits [OF body this] obtain s2 where "body s1 = (Inr (), s2)" "emits s1 as s2" by blast
  with start shape show "\<exists>s'. n s = (Inr (), s') \<and> emits s [Nest t as] s'"
    by (blast intro: nest_emits)
next
  fix s
  assume over: "\<not> attrs_size [Nest t as] \<le> room s"
  show "(\<exists>e s'. n s = (Inl e, s') \<and> grows s s' \<and> e \<noteq> OOPS) \<or>
      (\<not> k \<and> (\<exists>s' bs. n s = (Inr (), s') \<and> emits s bs s'))"
  proof (cases "w_nest_start w s t")
    case None
    then show ?thesis using full [OF None] grows_refl by blast
  next
    case (Some sh)
    then obtain s1 h where start: "w_nest_start w s t = Some (s1, h)" by (cases sh) auto
    from nest_some [OF start] over have g: "grows s s1" and "\<not> attrs_size as \<le> room s1"
      by simp_all
    from body this(2) show ?thesis
    proof (cases rule: emt_overflows)
      case (fails e s2)
      then have "grows s s2" "grows s (w_nest_end w s2 h)"
        using g nest_grows [OF start] by (blast intro: grows_trans)+
      with fails shape [OF start] show ?thesis by metis
    next
      case (lossy s2 bs)
      with shape [OF start] nest_emits [OF start lossy(3)] show ?thesis by blast
    qed
  qed
qed

lemma emt_nest [emit_intros]: "emt k body as \<Longrightarrow> emt k (nest w t body) [Nest t as]"
  by (rule emt_nest_cases) (auto simp: nest_def)

lemma emt_nest_always [emit_intros]: "emt k body as \<Longrightarrow> emt k (nest_always w t body) [Nest t as]"
  by (rule emt_nest_cases) (auto simp: nest_always_def)

lemma emt_nest_cb [emit_intros]:
  assumes "emt k pre as" "emt k cb bs"
  shows "emt k (nest_cb w t pre cb) [Nest t (as @ bs)]"
proof (rule emt_nest_cases [where body = "run_acts [pre, cb]"])
  show "emt k (run_acts [pre, cb]) (as @ bs)"
    using emt_acts_Cons [OF assms(1) emt_acts_Cons [OF assms(2) emt_acts_Nil]] by simp
qed (auto simp: nest_cb_def split: prod.splits sum.splits)

lemma emt_if:
  "(c \<Longrightarrow> emt k a as) \<Longrightarrow> (\<not> c \<Longrightarrow> emt k b bs) \<Longrightarrow>
   emt k (if c then a else b) (if c then as else bs)"
  by simp

text \<open>
  A message whose attributes fit is complete in the buffer. One that does not fit leaves the
  buffer as it was, unless its body is not strict and went through.
\<close>

lemma message_fits:
  assumes "emt k body as" "NFNL_HDR_SIZE + attrs_size as \<le> room s"
  obtains s' where "message w m body s = (Inr (w_len w s'), s')" "0 < w_len w s'"
    "msgs s' = msgs s @ [(m, as)]" "room s = room s' + NFNL_HDR_SIZE + attrs_size as"
proof -
  from assms(2) obtain s1 h where start: "w_msg_put w s m = Some (s1, h)"
    using msg_none [of s m] by fastforce
  from msg_some [OF start] assms(2) have "attrs_size as \<le> room s1" by simp
  from emt_fits [OF assms(1) this] obtain s2 where s2: "body s1 = (Inr (), s2)" "emits s1 as s2"
    by blast
  show thesis
    using that [of "w_msg_end w s2 h"] start s2 msg_emits [OF start s2(2)] msg_some [OF start]
      emits_room [OF s2(2)]
    by (simp add: message_def Let_def)
qed

lemma message_overflows:
  assumes "emt k body as" "room s < NFNL_HDR_SIZE + attrs_size as"
  shows "message w m body s = (Inl EFAIL, s) \<or>
    (\<not> k \<and> (\<exists>s' bs. message w m body s = (Inr (w_len w s'), s') \<and> 0 < w_len w s' \<and>
       msgs s' = msgs s @ [(m, bs)]))"
proof (cases "w_msg_put w s m")
  case None
  then show ?thesis by (simp add: message_def msg_cancel_null)
next
  case (Some sh)
  then obtain s1 h where start: "w_msg_put w s m = Some (s1, h)" by (cases sh) auto
  from msg_some [OF start] assms(2) have "\<not> attrs_size as \<le> room s1" by simp
  from assms(1) this show ?thesis
  proof (cases rule: emt_overflows)
    case (fails e s2)
    then show ?thesis using start msg_cancel [OF start fails(2)] by (simp add: message_def)
  next
    case (lossy s2 bs)
    then show ?thesis using start msg_emits [OF start lossy(3)]
      by (auto simp: message_def Let_def)
  qed
qed

end

section \<open>A reference buffer\<close>

text \<open>
  A buffer as the list of what was written, with its tailroom. It satisfies the laws, so they
  are consistent, and it is executable: the concrete instances of the properties run on it.
\<close>

datatype token = T_leaf nat nla_val | T_open nat | T_close | M_begin nlmsg | M_end

record buf =
  b_room :: nat
  b_toks :: "token list"

fun tok_size :: "token \<Rightarrow> nat" where
  "tok_size (T_leaf t v) = nla_total_size (val_len v)"
| "tok_size (T_open t) = 4"
| "tok_size T_close = 0"
| "tok_size (M_begin m) = 20"
| "tok_size M_end = 0"

abbreviation toks_size :: "token list \<Rightarrow> nat" where
  "toks_size ts \<equiv> sum_list (map tok_size ts)"

definition b_add :: "buf \<Rightarrow> token \<Rightarrow> (buf \<times> nat) option" where
  "b_add b t = (if b_room b < tok_size t then None
     else Some (\<lparr>b_room = b_room b - tok_size t, b_toks = b_toks b @ [t]\<rparr>, length (b_toks b)))"

definition b_cancel :: "buf \<Rightarrow> nat option \<Rightarrow> buf" where
  "b_cancel b h = (case h of None \<Rightarrow> b
     | Some n \<Rightarrow> \<lparr>b_room = b_room b + toks_size (drop n (b_toks b)), b_toks = take n (b_toks b)\<rparr>)"

definition buf_writer :: "buf nl_writer" where
  "buf_writer = \<lparr>
     w_put = (\<lambda>b t v. map_option fst (b_add b (T_leaf t v))),
     w_nest_start = (\<lambda>b t. b_add b (T_open t)),
     w_nest_end = (\<lambda>b h. b\<lparr>b_toks := b_toks b @ [T_close]\<rparr>),
     w_msg_put = (\<lambda>b m. b_add b (M_begin m)),
     w_msg_end = (\<lambda>b h. b\<lparr>b_toks := b_toks b @ [M_end]\<rparr>),
     w_msg_cancel = b_cancel,
     w_len = (\<lambda>b. toks_size (b_toks b))\<rparr>"

fun toks :: "nlattr \<Rightarrow> token list" where
  "toks (Leaf t v) = [T_leaf t v]"
| "toks (Nest t as) = T_open t # concat (map toks as) @ [T_close]"

abbreviation all_toks :: "nlattr list \<Rightarrow> token list" where
  "all_toks as \<equiv> concat (map toks as)"

text \<open>Reading the messages back: a stack of unfinished messages and nests.\<close>

datatype frame = F_msg nlmsg | F_nest nat

type_synonym reader = "(nlmsg \<times> nlattr list) list \<times> (frame \<times> nlattr list) list"

definition add_top :: "nlattr \<Rightarrow> (frame \<times> nlattr list) list \<Rightarrow> (frame \<times> nlattr list) list" where
  "add_top a fr = (case fr of [] \<Rightarrow> [] | (h, as) # rest \<Rightarrow> (h, as @ [a]) # rest)"

fun rd_tok :: "token \<Rightarrow> reader \<Rightarrow> reader" where
  "rd_tok (T_leaf t v) (ms, fr) = (ms, add_top (Leaf t v) fr)"
| "rd_tok (T_open t) (ms, fr) = (ms, (F_nest t, []) # fr)"
| "rd_tok T_close (ms, fr) =
     (case fr of (F_nest t, as) # rest \<Rightarrow> (ms, add_top (Nest t as) rest) | _ \<Rightarrow> (ms, fr))"
| "rd_tok (M_begin m) (ms, fr) = (ms, [(F_msg m, [])])"
| "rd_tok M_end (ms, fr) = (case fr of [(F_msg m, as)] \<Rightarrow> (ms @ [(m, as)], []) | _ \<Rightarrow> (ms, []))"

definition buf_msgs :: "buf \<Rightarrow> (nlmsg \<times> nlattr list) list" where
  "buf_msgs b = fst (fold rd_tok (b_toks b) ([], []))"

definition buf_emits :: "buf \<Rightarrow> nlattr list \<Rightarrow> buf \<Rightarrow> bool" where
  "buf_emits b as b' \<longleftrightarrow> b_toks b' = b_toks b @ all_toks as \<and> b_room b = b_room b' + attrs_size as"

definition buf_grows :: "buf \<Rightarrow> buf \<Rightarrow> bool" where
  "buf_grows b b' \<longleftrightarrow> (\<exists>ts. b_toks b' = b_toks b @ ts \<and> b_room b = b_room b' + toks_size ts)"

lemma toks_size_toks: "toks_size (toks a) = attr_size a"
proof (induction a rule: toks.induct)
  case (2 t as)
  then have "toks_size (all_toks as) = attrs_size as"
    by (induction as) simp_all
  then show ?case by simp
qed simp

lemma toks_size_all: "toks_size (all_toks as) = attrs_size as"
  by (induction as) (simp_all add: toks_size_toks)

lemma rd_toks: "fold rd_tok (toks a) (ms, (h, as) # fr) = (ms, (h, as @ [a]) # fr)"
proof (induction a arbitrary: h as fr rule: toks.induct)
  case (2 t bs)
  have "fold rd_tok (all_toks bs) (ms, (F_nest t, cs) # f) = (ms, (F_nest t, cs @ bs) # f)" for cs f
    using 2 by (induction bs arbitrary: cs) simp_all
  then show ?case by (simp add: add_top_def)
qed (simp add: add_top_def)

lemma rd_all_toks: "fold rd_tok (all_toks as) (ms, (h, cs) # fr) = (ms, (h, cs @ as) # fr)"
  by (induction as arbitrary: cs) (simp_all add: rd_toks)

interpretation bufw: nl_writer_laws buf_writer buf_emits buf_grows b_room buf_msgs
proof (unfold_locales, goal_cases)
  case (3 s as s')
  then show ?case by (auto simp: buf_emits_def buf_grows_def toks_size_all)
next
  case (5 s s' s'')
  then show ?case by (auto simp: buf_grows_def)
next
  case (11 s t s1 h s2)
  then show ?case
    by (auto simp: buf_writer_def b_add_def buf_grows_def split: if_splits)
next
  case (14 s m s1 h as s2)
  obtain ms fr where f: "fold rd_tok (b_toks s) ([], []) = (ms, fr)" by fastforce
  from 14 f show ?case
    by (auto simp: buf_writer_def b_add_def buf_emits_def buf_msgs_def rd_all_toks split: if_splits)
qed (auto simp: buf_writer_def b_add_def b_cancel_def buf_emits_def buf_grows_def toks_size_all
    split: if_splits)

end
