(* ===== verification/Tcp_Session.thy ===== *)
theory Tcp_Session
  imports Nl_Api Tcp_Track
begin

text \<open>
  The export of the recorded TCP state (\<open>kmod/tcp_session.c\<close>): the structure
  \<open>ip_ct_tcp_vgw\<close> with its memory layout, its attribute writers, and the decoder of the
  command line tool (\<open>cli/vendor/github.com/ti-mo/conntrack/attribute_types.go\<close>), with which
  it forms a round trip.
\<close>

section \<open>The exported structure\<close>

record ip_ct_tcp_state_vgw =
  v_td_end :: u32
  v_td_maxend :: u32
  v_td_maxwin :: u32
  v_td_maxack :: u32
  v_td_scale :: u8
  v_flags :: u8
  v_seen_dummy :: u16

record ip_ct_tcp_vgw =
  v_seen0 :: ip_ct_tcp_state_vgw
  v_seen1 :: ip_ct_tcp_state_vgw
  v_state :: u8
  v_last_dir :: u8
  v_retrans :: u8
  v_last_index :: u8
  v_last_seq :: u32
  v_last_ack :: u32
  v_last_end :: u32
  v_last_win :: u16
  v_last_wscale :: u8
  v_last_flags :: u8
  v_dummy :: u32

text \<open>The memory of the two structures, field after field; neither has padding.\<close>

definition seen_vgw_bytes :: "ip_ct_tcp_state_vgw \<Rightarrow> u8 list" where
  "seen_vgw_bytes s = le32 (v_td_end s) @ le32 (v_td_maxend s) @ le32 (v_td_maxwin s) @
     le32 (v_td_maxack s) @ [v_td_scale s] @ [v_flags s] @ le16 (v_seen_dummy s)"

definition tcp_vgw_bytes :: "ip_ct_tcp_vgw \<Rightarrow> u8 list" where
  "tcp_vgw_bytes v = seen_vgw_bytes (v_seen0 v) @ seen_vgw_bytes (v_seen1 v) @
     [v_state v] @ [v_last_dir v] @ [v_retrans v] @ [v_last_index v] @
     le32 (v_last_seq v) @ le32 (v_last_ack v) @ le32 (v_last_end v) @
     le16 (v_last_win v) @ [v_last_wscale v] @ [v_last_flags v] @ le32 (v_dummy v)"

text \<open>The body of the copying loop, and the copies after it.\<close>

definition seen_to_vgw :: "ip_ct_tcp_state \<Rightarrow> ip_ct_tcp_state_vgw" where
  "seen_to_vgw s = \<lparr>v_td_end = td_end s, v_td_maxend = td_maxend s, v_td_maxwin = td_maxwin s,
     v_td_maxack = td_maxack s, v_td_scale = td_scale s, v_flags = tcp_flags s, v_seen_dummy = 0\<rparr>"

definition tcp_to_vgw :: "ip_ct_tcp \<Rightarrow> ip_ct_tcp_vgw" where
  "tcp_to_vgw t = \<lparr>v_seen0 = seen_to_vgw (seen0 t), v_seen1 = seen_to_vgw (seen1 t),
     v_state = tcp_state t, v_last_dir = last_dir t, v_retrans = retrans t,
     v_last_index = last_index t, v_last_seq = last_seq t, v_last_ack = last_ack t,
     v_last_end = last_end t, v_last_win = last_win t, v_last_wscale = last_wscale t,
     v_last_flags = last_flags t, v_dummy = 0\<rparr>"

section \<open>Attribute writers\<close>

abbreviation (input) CTA_PROTOINFO_TCP_SEQ_TRACK :: nat where
  "CTA_PROTOINFO_TCP_SEQ_TRACK \<equiv> 6"

text \<open>\<open>struct nf_ct_tcp_flags\<close> is the pair of a flags byte and a mask byte; the mask stays zero.\<close>

definition tcp_flags_bytes :: "u8 \<Rightarrow> u8 list" where
  "tcp_flags_bytes flags = [flags, 0]"

definition tcp_to_nlattr :: "('skb, 'x) nl_writer_scheme \<Rightarrow> nf_conn \<Rightarrow> bool \<Rightarrow> 'skb action" where
  "tcp_to_nlattr w ct destroy =
     fail_with EFAIL (nest w CTA_PROTOINFO_TCP (run_acts [
       put w CTA_PROTOINFO_TCP_STATE (V_u8 (tcp_state (ct_proto ct))),
       act_when (\<not> destroy) (run_acts [
         put w CTA_PROTOINFO_TCP_WSCALE_ORIGINAL (V_u8 (td_scale (seen0 (ct_proto ct)))),
         put w CTA_PROTOINFO_TCP_WSCALE_REPLY (V_u8 (td_scale (seen1 (ct_proto ct)))),
         put w CTA_PROTOINFO_TCP_FLAGS_ORIGINAL
           (V_bin (tcp_flags_bytes (tcp_flags (seen0 (ct_proto ct))))),
         put w CTA_PROTOINFO_TCP_FLAGS_REPLY
           (V_bin (tcp_flags_bytes (tcp_flags (seen1 (ct_proto ct))))),
         put w CTA_PROTOINFO_TCP_SEQ_TRACK
           (V_bin (tcp_vgw_bytes (tcp_to_vgw (ct_proto ct))))])]))"

definition vgw_dump_tcp_protoinfo ::
  "('skb, 'x) nl_writer_scheme \<Rightarrow> nf_conn \<Rightarrow> bool \<Rightarrow> 'skb action" where
  "vgw_dump_tcp_protoinfo w ct destroy skb =
     (if ct_protonum ct \<noteq> IPPROTO_TCP then (Inl EFAIL, skb)
      else nest_always w CTA_PROTOINFO (tcp_to_nlattr w ct destroy) skb)"

section \<open>The decoder of the command line tool\<close>

text \<open>
  \<open>native.Endian\<close> is little-endian on the same machine; an index past the end of a slice
  panics, here \<open>None\<close>.
\<close>

definition TcpSeen_unmarshal :: "u8 list \<Rightarrow> ip_ct_tcp_state_vgw option" where
  "TcpSeen_unmarshal data =
     (case (rd32 data 0, rd32 data 4, rd32 data 8, rd32 data 12, rd8 data 16, rd8 data 17,
            rd16 data 18) of
        (Some e, Some me, Some mw, Some ma, Some sc, Some fl, Some du) \<Rightarrow>
          Some \<lparr>v_td_end = e, v_td_maxend = me, v_td_maxwin = mw, v_td_maxack = ma,
            v_td_scale = sc, v_flags = fl, v_seen_dummy = du\<rparr>
      | _ \<Rightarrow> None)"

text \<open>A wrong length is an error (\<open>Inl EINVAL\<close> here), not a panic.\<close>

definition ProtoInfoTcpSeqTrack_unmarshal :: "u8 list \<Rightarrow> ip_ct_tcp_vgw res option" where
  "ProtoInfoTcpSeqTrack_unmarshal data =
     (if length data \<noteq> 64 then Some (Inl EINVAL)
      else case (TcpSeen_unmarshal data, TcpSeen_unmarshal (drop 20 data)) of
        (Some org, Some reply) \<Rightarrow>
          (case (rd8 data 40, rd8 data 41, rd8 data 42, rd8 data 43, rd32 data 44, rd32 data 48,
                 rd32 data 52, rd16 data 56, rd8 data 58, rd8 data 59, rd32 data 60) of
             (Some st, Some dir, Some re, Some ix, Some sq, Some ac, Some en, Some win, Some ws,
              Some fl, Some du) \<Rightarrow>
               Some (Inr \<lparr>v_seen0 = org, v_seen1 = reply, v_state = st, v_last_dir = dir,
                 v_retrans = re, v_last_index = ix, v_last_seq = sq, v_last_ack = ac,
                 v_last_end = en, v_last_win = win, v_last_wscale = ws, v_last_flags = fl,
                 v_dummy = du\<rparr>)
           | _ \<Rightarrow> None)
      | _ \<Rightarrow> None)"

section \<open>Properties\<close>

lemma length_seen_vgw_bytes [simp]: "length (seen_vgw_bytes s) = 20"
  by (simp add: seen_vgw_bytes_def)

lemma length_tcp_vgw_bytes [simp]: "length (tcp_vgw_bytes v) = 64"
  by (simp add: tcp_vgw_bytes_def)

text \<open>The fields of a structure followed by anything are read back at their offsets.\<close>

lemma TcpSeen_roundtrip: "TcpSeen_unmarshal (seen_vgw_bytes s @ rest) = Some s"
  unfolding TcpSeen_unmarshal_def seen_vgw_bytes_def
  by (simp add: byte_simps)

lemma seq_track_roundtrip: "ProtoInfoTcpSeqTrack_unmarshal (tcp_vgw_bytes v) = Some (Inr v)"
proof -
  let ?tail = "[v_state v] @ [v_last_dir v] @ [v_retrans v] @ [v_last_index v] @
     le32 (v_last_seq v) @ le32 (v_last_ack v) @ le32 (v_last_end v) @
     le16 (v_last_win v) @ [v_last_wscale v] @ [v_last_flags v] @ le32 (v_dummy v)"
  have d: "tcp_vgw_bytes v = seen_vgw_bytes (v_seen0 v) @ seen_vgw_bytes (v_seen1 v) @ ?tail"
    by (simp add: tcp_vgw_bytes_def)
  have len: "length (tcp_vgw_bytes v) = 64" by simp
  have s0: "TcpSeen_unmarshal (tcp_vgw_bytes v) = Some (v_seen0 v)"
    unfolding d by (rule TcpSeen_roundtrip)
  have s1: "TcpSeen_unmarshal (drop 20 (tcp_vgw_bytes v)) = Some (v_seen1 v)"
    unfolding d by (simp add: TcpSeen_roundtrip del: append_Cons)
  have tail: "rd8 (tcp_vgw_bytes v) (40 + i) = rd8 ?tail i"
    "rd16 (tcp_vgw_bytes v) (40 + i) = rd16 ?tail i"
    "rd32 (tcp_vgw_bytes v) (40 + i) = rd32 ?tail i" for i
    unfolding d by (simp_all add: rd_skip del: append_Cons)
  note t = tail [of 0] tail [of 1] tail [of 2] tail [of 3] tail [of 4] tail [of 8] tail [of 12]
    tail [of 16] tail [of 18] tail [of 19] tail [of 20]
  show ?thesis
    unfolding ProtoInfoTcpSeqTrack_unmarshal_def
    using t by (simp add: s0 s1 byte_simps)
qed

text \<open>The attributes the export consists of.\<close>

definition tcp_protoinfo_attrs :: "nf_conn \<Rightarrow> bool \<Rightarrow> nlattr list" where
  "tcp_protoinfo_attrs ct destroy =
     (let t = ct_proto ct in
      [Nest CTA_PROTOINFO_TCP
        (Leaf CTA_PROTOINFO_TCP_STATE (V_u8 (tcp_state t)) #
         (if destroy then [] else
          [Leaf CTA_PROTOINFO_TCP_WSCALE_ORIGINAL (V_u8 (td_scale (seen0 t))),
           Leaf CTA_PROTOINFO_TCP_WSCALE_REPLY (V_u8 (td_scale (seen1 t))),
           Leaf CTA_PROTOINFO_TCP_FLAGS_ORIGINAL (V_bin [tcp_flags (seen0 t), 0]),
           Leaf CTA_PROTOINFO_TCP_FLAGS_REPLY (V_bin [tcp_flags (seen1 t), 0]),
           Leaf CTA_PROTOINFO_TCP_SEQ_TRACK (V_bin (tcp_vgw_bytes (tcp_to_vgw t)))]))])"

context nl_writer_laws
begin

lemma emt_tcp_to_nlattr [emit_intros]:
  "emt k (tcp_to_nlattr w ct destroy) (tcp_protoinfo_attrs ct destroy)"
proof -
  have *: "emt k (tcp_to_nlattr w ct destroy)
    [Nest CTA_PROTOINFO_TCP ([Leaf CTA_PROTOINFO_TCP_STATE (V_u8 (tcp_state (ct_proto ct)))] @
       (if \<not> destroy then
          [Leaf CTA_PROTOINFO_TCP_WSCALE_ORIGINAL (V_u8 (td_scale (seen0 (ct_proto ct))))] @
          [Leaf CTA_PROTOINFO_TCP_WSCALE_REPLY (V_u8 (td_scale (seen1 (ct_proto ct))))] @
          [Leaf CTA_PROTOINFO_TCP_FLAGS_ORIGINAL
            (V_bin (tcp_flags_bytes (tcp_flags (seen0 (ct_proto ct)))))] @
          [Leaf CTA_PROTOINFO_TCP_FLAGS_REPLY
            (V_bin (tcp_flags_bytes (tcp_flags (seen1 (ct_proto ct)))))] @
          [Leaf CTA_PROTOINFO_TCP_SEQ_TRACK
            (V_bin (tcp_vgw_bytes (tcp_to_vgw (ct_proto ct))))] @ []
        else []) @ [])]"
    unfolding tcp_to_nlattr_def by (intro emit_intros) simp_all
  then show ?thesis
    by (simp add: tcp_protoinfo_attrs_def tcp_flags_bytes_def Let_def split: if_splits)
qed

lemma emt_vgw_dump_tcp_protoinfo:
  assumes "ct_protonum ct = IPPROTO_TCP"
  shows "emt k (vgw_dump_tcp_protoinfo w ct destroy)
    [Nest CTA_PROTOINFO (tcp_protoinfo_attrs ct destroy)]"
proof -
  have "vgw_dump_tcp_protoinfo w ct destroy =
      nest_always w CTA_PROTOINFO (tcp_to_nlattr w ct destroy)"
    using assms by (auto simp: vgw_dump_tcp_protoinfo_def)
  then show ?thesis by (simp add: emit_intros)
qed

end

text \<open>
  What the tool should see of a record: the value of every field the module records, field by
  field, and zero in the unused ones.
\<close>

definition seen_shown :: "ip_ct_tcp_state \<Rightarrow> ip_ct_tcp_state_vgw \<Rightarrow> bool" where
  "seen_shown s v \<longleftrightarrow> v_td_end v = td_end s \<and> v_td_maxend v = td_maxend s \<and>
     v_td_maxwin v = td_maxwin s \<and> v_td_maxack v = td_maxack s \<and> v_td_scale v = td_scale s \<and>
     v_flags v = tcp_flags s \<and> v_seen_dummy v = 0"

definition tcp_shown :: "ip_ct_tcp \<Rightarrow> ip_ct_tcp_vgw \<Rightarrow> bool" where
  "tcp_shown t v \<longleftrightarrow> seen_shown (seen0 t) (v_seen0 v) \<and> seen_shown (seen1 t) (v_seen1 v) \<and>
     v_state v = tcp_state t \<and> v_last_dir v = last_dir t \<and> v_retrans v = retrans t \<and>
     v_last_index v = last_index t \<and> v_last_seq v = last_seq t \<and> v_last_ack v = last_ack t \<and>
     v_last_end v = last_end t \<and> v_last_win v = last_win t \<and> v_last_wscale v = last_wscale t \<and>
     v_last_flags v = last_flags t \<and> v_dummy v = 0"

lemma tcp_to_vgw_shown: "tcp_shown t (tcp_to_vgw t)"
  by (simp add: tcp_shown_def seen_shown_def tcp_to_vgw_def seen_to_vgw_def)

text \<open>
  C9. For a TCP connection that is not being destroyed and a buffer
  with 116 bytes of tailroom, the export succeeds and writes one attribute tree of exactly that
  size, with state, window scales and flags as attributes of their own; and the command line
  tool decodes the 64 bytes of its last attribute to a record in which every field has the value
  the module recorded: both windows, state, last direction, retransmissions and the last sequence
  numbers. With less tailroom it fails.
\<close>

theorem export_seq_track_roundtrip:
  assumes "nl_writer_laws w emits grows room msgs"
    and "ct_protonum ct = IPPROTO_TCP" and "ct_proto ct = t"
  shows "if 116 \<le> room s
     then \<exists>s' b v. vgw_dump_tcp_protoinfo w ct False s = (Inr (), s') \<and>
        emits s [Nest CTA_PROTOINFO [Nest CTA_PROTOINFO_TCP
          [Leaf CTA_PROTOINFO_TCP_STATE (V_u8 (tcp_state t)),
           Leaf CTA_PROTOINFO_TCP_WSCALE_ORIGINAL (V_u8 (td_scale (seen0 t))),
           Leaf CTA_PROTOINFO_TCP_WSCALE_REPLY (V_u8 (td_scale (seen1 t))),
           Leaf CTA_PROTOINFO_TCP_FLAGS_ORIGINAL (V_bin [tcp_flags (seen0 t), 0]),
           Leaf CTA_PROTOINFO_TCP_FLAGS_REPLY (V_bin [tcp_flags (seen1 t), 0]),
           Leaf CTA_PROTOINFO_TCP_SEQ_TRACK (V_bin b)]]] s' \<and>
        room s = room s' + 116 \<and>
        ProtoInfoTcpSeqTrack_unmarshal b = Some (Inr v) \<and> tcp_shown t v
     else \<exists>e s'. vgw_dump_tcp_protoinfo w ct False s = (Inl e, s') \<and> grows s s' \<and> e \<noteq> OOPS"
proof -
  let ?as = "[Nest CTA_PROTOINFO (tcp_protoinfo_attrs ct False)]"
  have size: "attrs_size ?as = 116"
    by (simp add: tcp_protoinfo_attrs_def nla_total_size_def Let_def)
  note e = nl_writer_laws.emt_vgw_dump_tcp_protoinfo [OF assms(1,2), of True False]
  show ?thesis
  proof (cases "116 \<le> room s")
    case True
    with nl_writer_laws.emt_fits [OF assms(1) e] size
    obtain s' where s': "vgw_dump_tcp_protoinfo w ct False s = (Inr (), s')" "emits s ?as s'"
      by fastforce
    from nl_writer_laws.emits_room [OF assms(1) s'(2)] size have "room s = room s' + 116" by simp
    with s' True seq_track_roundtrip [of "tcp_to_vgw t"] tcp_to_vgw_shown [of t] show ?thesis
      by (auto simp: tcp_protoinfo_attrs_def assms(3) Let_def intro!: exI [of _ "tcp_vgw_bytes (tcp_to_vgw t)"])
  next
    case False
    with size have "\<not> attrs_size ?as \<le> room s" by simp
    with False show ?thesis
      by (cases rule: nl_writer_laws.emt_overflows [OF assms(1) e]) auto
  qed
qed

text \<open>The export of the sample connection into a buffer of 200 bytes, and into one of 100.\<close>

theorem export_seq_track_roundtrip_witness:
  "(\<exists>s' b v as. vgw_dump_tcp_protoinfo buf_writer sample_ct False \<lparr>b_room = 200, b_toks = []\<rparr> =
        (Inr (), s') \<and>
      buf_emits \<lparr>b_room = 200, b_toks = []\<rparr> [Nest CTA_PROTOINFO [Nest CTA_PROTOINFO_TCP
        (as @ [Leaf CTA_PROTOINFO_TCP_SEQ_TRACK (V_bin b)])]] s' \<and>
      ProtoInfoTcpSeqTrack_unmarshal b = Some (Inr v) \<and> v_state v = TCP_CONNTRACK_ESTABLISHED \<and>
      v_last_seq v = 1000 \<and> v_last_ack v = 77 \<and> v_last_end v = 1010 \<and> v_last_win v = 512 \<and>
      v_td_maxend (v_seen0 v) = 2000 \<and> v_td_scale (v_seen0 v) = 7 \<and> v_td_scale (v_seen1 v) = 5) \<and>
   (\<exists>e s'. vgw_dump_tcp_protoinfo buf_writer sample_ct False \<lparr>b_room = 100, b_toks = []\<rparr> =
      (Inl e, s'))"
proof -
  have tcp: "ct_protonum sample_ct = IPPROTO_TCP" "ct_proto sample_ct = sample_tcp"
    by (simp_all add: sample_ct_def sample_tuple_def)
  note * = export_seq_track_roundtrip [OF bufw.nl_writer_laws_axioms tcp]
  have room: "116 \<le> b_room \<lparr>b_room = 200, b_toks = []\<rparr>" "\<not> 116 \<le> b_room \<lparr>b_room = 100, b_toks = []\<rparr>"
    by simp_all
  from * [of "\<lparr>b_room = 200, b_toks = []\<rparr>", unfolded if_P [OF room(1)]] obtain s' b v where
    "vgw_dump_tcp_protoinfo buf_writer sample_ct False \<lparr>b_room = 200, b_toks = []\<rparr> = (Inr (), s')"
    "buf_emits \<lparr>b_room = 200, b_toks = []\<rparr> [Nest CTA_PROTOINFO [Nest CTA_PROTOINFO_TCP
      ([Leaf CTA_PROTOINFO_TCP_STATE (V_u8 (tcp_state sample_tcp)),
        Leaf CTA_PROTOINFO_TCP_WSCALE_ORIGINAL (V_u8 (td_scale (seen0 sample_tcp))),
        Leaf CTA_PROTOINFO_TCP_WSCALE_REPLY (V_u8 (td_scale (seen1 sample_tcp))),
        Leaf CTA_PROTOINFO_TCP_FLAGS_ORIGINAL (V_bin [tcp_flags (seen0 sample_tcp), 0]),
        Leaf CTA_PROTOINFO_TCP_FLAGS_REPLY (V_bin [tcp_flags (seen1 sample_tcp), 0])] @
       [Leaf CTA_PROTOINFO_TCP_SEQ_TRACK (V_bin b)])]] s'"
    "ProtoInfoTcpSeqTrack_unmarshal b = Some (Inr v)" "tcp_shown sample_tcp v"
    by (simp only: append.simps) blast
  moreover have "v_state v = TCP_CONNTRACK_ESTABLISHED" "v_last_seq v = 1000" "v_last_ack v = 77"
    "v_last_end v = 1010" "v_last_win v = 512" "v_td_maxend (v_seen0 v) = 2000"
    "v_td_scale (v_seen0 v) = 7" "v_td_scale (v_seen1 v) = 5"
    using \<open>tcp_shown sample_tcp v\<close> by (simp_all add: tcp_shown_def seen_shown_def sample_tcp_def Let_def)
  moreover note * [of "\<lparr>b_room = 100, b_toks = []\<rparr>", unfolded if_not_P [OF room(2)]]
  ultimately show ?thesis by blast
qed

end
