(* ===== verification/Ct_Dump.thy ===== *)
theory Ct_Dump
  imports Tcp_Session
begin

text \<open>
  The writers of a connection's attributes (\<open>kmod/vgw_ct_netlink.c\<close>, from
  \<open>ctnetlink_dump_tuples_proto\<close> to \<open>ctnetlink_fill_info\<close>), one definition per function, in
  the order of the file. All kernel configuration options the file tests are taken as set. Locks
  and RCU sections are not modelled: a writer runs on one snapshot of the connection.
\<close>

section \<open>What the writers call\<close>

text \<open>
  The message builder, and the kernel functions and callbacks the writers use: the L4 protocol
  found by \<open>nf_ct_l4proto_find\<close> with its optional callbacks and sizes, \<open>nf_ct_expires\<close>,
  the constant \<open>HZ\<close>, \<open>nf_ct_get_id\<close> of the connection at an address,
  \<open>helper->to_nlattr\<close>, \<open>security_secid_to_secctx\<close> with the context and its length, the
  memory in which a master connection is found, and the module's parameters.
\<close>

record 'skb dump_env = "'skb nl_writer" +
  l4_tuple_to_nlattr :: "u8 \<Rightarrow> (nf_conntrack_tuple \<Rightarrow> 'skb action) option"
  l4_to_nlattr :: "u8 \<Rightarrow> (nf_conn \<Rightarrow> bool \<Rightarrow> 'skb action) option"
  l4_nlattr_size :: "u8 \<Rightarrow> nat"
  l4_nlattr_tuple_size :: "u8 \<Rightarrow> nat option"
  nf_ct_expires :: "nf_conn \<Rightarrow> u64"
  env_HZ :: nat
  nf_ct_get_id :: "nat \<Rightarrow> nf_conn \<Rightarrow> u32"
  hlp_to_nlattr :: "nat \<Rightarrow> (nf_conn \<Rightarrow> 'skb action) option"
  secid_to_secctx :: "u32 \<Rightarrow> (string \<times> nat) option"
  env_store :: ct_store
  env_params :: tcptrack_params

abbreviation (input) NLM_F_MULTI :: u32 where "NLM_F_MULTI \<equiv> 0x02"
abbreviation (input) NLM_F_DUMP_FILTERED :: u32 where "NLM_F_DUMP_FILTERED \<equiv> 0x20"
abbreviation (input) NFNL_SUBSYS_CTNETLINK :: nat where "NFNL_SUBSYS_CTNETLINK \<equiv> 1"
abbreviation (input) IPCTNL_MSG_CT_NEW :: nat where "IPCTNL_MSG_CT_NEW \<equiv> 0"
abbreviation (input) IPCTNL_MSG_CT_GET :: nat where "IPCTNL_MSG_CT_GET \<equiv> 1"
abbreviation (input) IPCTNL_MSG_CT_DELETE :: nat where "IPCTNL_MSG_CT_DELETE \<equiv> 2"
abbreviation (input) IPCTNL_MSG_CT_GET_CTRZERO :: nat where "IPCTNL_MSG_CT_GET_CTRZERO \<equiv> 3"

definition nfnl_msg_type :: "nat \<Rightarrow> nat \<Rightarrow> nat" where
  "nfnl_msg_type subsys mtype = subsys * 256 + mtype"

text \<open>A null connection or callback dereference does not return.\<close>

definition null_deref :: "'skb action" where
  "null_deref skb = (Inl OOPS, skb)"

section \<open>Tuples and zones\<close>

definition ctnetlink_dump_tuples_proto ::
  "('skb, 'x) dump_env_scheme \<Rightarrow> nf_conntrack_tuple \<Rightarrow> 'skb action" where
  "ctnetlink_dump_tuples_proto E tuple =
     nest_cb E CTA_TUPLE_PROTO
       (fail_with EFAIL (put E CTA_PROTO_NUM (V_u8 (dst_protonum tuple))))
       (case l4_tuple_to_nlattr E (dst_protonum tuple) of
          None \<Rightarrow> run_acts [] | Some f \<Rightarrow> f tuple)"

definition ipv4_tuple_to_nlattr ::
  "('skb, 'x) nl_writer_scheme \<Rightarrow> nf_conntrack_tuple \<Rightarrow> 'skb action" where
  "ipv4_tuple_to_nlattr E tuple =
     fail_with EMSGSIZE (run_acts [
       put E CTA_IP_V4_SRC (V_in_addr (addr_ip (src_u3 tuple))),
       put E CTA_IP_V4_DST (V_in_addr (addr_ip (dst_u3 tuple)))])"

definition ipv6_tuple_to_nlattr ::
  "('skb, 'x) nl_writer_scheme \<Rightarrow> nf_conntrack_tuple \<Rightarrow> 'skb action" where
  "ipv6_tuple_to_nlattr E tuple =
     fail_with EMSGSIZE (run_acts [
       put E CTA_IP_V6_SRC (V_in6_addr (src_u3 tuple)),
       put E CTA_IP_V6_DST (V_in6_addr (dst_u3 tuple))])"

definition ctnetlink_dump_tuples_ip ::
  "('skb, 'x) nl_writer_scheme \<Rightarrow> nf_conntrack_tuple \<Rightarrow> 'skb action" where
  "ctnetlink_dump_tuples_ip E tuple =
     nest_always E CTA_TUPLE_IP
       (if src_l3num tuple = NFPROTO_IPV4 then ipv4_tuple_to_nlattr E tuple
        else if src_l3num tuple = NFPROTO_IPV6 then ipv6_tuple_to_nlattr E tuple
        else run_acts [])"

definition ctnetlink_dump_tuples ::
  "('skb, 'x) dump_env_scheme \<Rightarrow> nf_conntrack_tuple \<Rightarrow> 'skb action" where
  "ctnetlink_dump_tuples E tuple =
     run_acts [ctnetlink_dump_tuples_ip E tuple, ctnetlink_dump_tuples_proto E tuple]"

definition ctnetlink_dump_zone_id ::
  "('skb, 'x) nl_writer_scheme \<Rightarrow> nat \<Rightarrow> nf_conntrack_zone \<Rightarrow> u8 \<Rightarrow> 'skb action" where
  "ctnetlink_dump_zone_id E attrtype zone dir =
     act_when (\<not> (zone_id zone = NF_CT_DEFAULT_ZONE_ID \<or> zone_dir zone \<noteq> dir))
       (fail_with EFAIL (put E attrtype (V_be16 (htons (zone_id zone)))))"

section \<open>Status, timeout, protocol state\<close>

definition ctnetlink_dump_status :: "('skb, 'x) nl_writer_scheme \<Rightarrow> nf_conn \<Rightarrow> 'skb action" where
  "ctnetlink_dump_status E ct =
     fail_with EFAIL (put E CTA_STATUS (V_be32 (htonl (ucast (ct_status ct)))))"

definition nf_ct_is_confirmed :: "nf_conn \<Rightarrow> bool" where
  "nf_ct_is_confirmed ct \<longleftrightarrow> has_flag (ct_status ct) IPS_CONFIRMED"

text \<open>The \<open>long\<close> value in seconds; both quotients are quotients of unsigned numbers.\<close>

definition ct_seconds :: "('skb, 'x) dump_env_scheme \<Rightarrow> nf_conn \<Rightarrow> nat" where
  "ct_seconds E ct =
     (if nf_ct_is_confirmed ct then unat (nf_ct_expires E ct) div env_HZ E
      else unat (ct_timeout ct) div env_HZ E)"

definition ctnetlink_dump_timeout ::
  "('skb, 'x) dump_env_scheme \<Rightarrow> nf_conn \<Rightarrow> bool \<Rightarrow> 'skb action" where
  "ctnetlink_dump_timeout E ct skip_zero =
     act_when (\<not> (skip_zero \<and> ct_seconds E ct = 0))
       (fail_with EFAIL (put E CTA_TIMEOUT (V_be32 (htonl (of_nat (ct_seconds E ct))))))"

definition ctnetlink_dump_protoinfo ::
  "('skb, 'x) dump_env_scheme \<Rightarrow> nf_conn \<Rightarrow> bool \<Rightarrow> u32 \<Rightarrow> 'skb action" where
  "ctnetlink_dump_protoinfo E ct destroy flags =
     (if flags AND NLM_F_DUMP_FILTERED \<noteq> 0 \<and> is_enable_export_tcp_track (env_params E) \<and>
         ct_protonum ct = IPPROTO_TCP
      then vgw_dump_tcp_protoinfo E ct destroy
      else case l4_to_nlattr E (ct_protonum ct) of
          None \<Rightarrow> run_acts []
        | Some to_nlattr \<Rightarrow> nest_always E CTA_PROTOINFO (to_nlattr ct destroy))"

section \<open>Extensions\<close>

definition ctnetlink_dump_helpinfo :: "('skb, 'x) dump_env_scheme \<Rightarrow> nf_conn \<Rightarrow> 'skb action" where
  "ctnetlink_dump_helpinfo E ct =
     (case ext_help ct of
        None \<Rightarrow> run_acts []
      | Some help \<Rightarrow>
          (case help_helper help of
             None \<Rightarrow> run_acts []
           | Some helper \<Rightarrow>
               fail_with EFAIL (nest E CTA_HELP (run_acts [
                 put E CTA_HELP_NAME (V_string (hlp_name helper)),
                 (case hlp_to_nlattr E (hlp_ptr helper) of
                    None \<Rightarrow> run_acts []
                  | Some to_nlattr \<Rightarrow> ignore_code (to_nlattr ct))]))))"

text \<open>
  The counters of one direction. With \<open>IPCTNL_MSG_CT_GET_CTRZERO\<close> they are exchanged with zero
  before anything is written; the second component is the counter afterwards.
\<close>

definition dump_counters ::
  "('skb, 'x) nl_writer_scheme \<Rightarrow> nf_conn_counter \<Rightarrow> u8 \<Rightarrow> nat \<Rightarrow> 'skb \<Rightarrow>
   (unit res \<times> 'skb) \<times> nf_conn_counter" where
  "dump_counters E counter dir type skb =
     (let attr = (if dir \<noteq> 0 then CTA_COUNTERS_REPLY else CTA_COUNTERS_ORIG);
          pkts = ctr_packets counter;
          bytes = ctr_bytes counter;
          counter' = (if type = IPCTNL_MSG_CT_GET_CTRZERO
                      then counter\<lparr>ctr_packets := 0, ctr_bytes := 0\<rparr> else counter)
      in (fail_with EFAIL (nest E attr (run_acts [
            put E CTA_COUNTERS_PACKETS (V_be64 (cpu_to_be64 pkts)),
            put E CTA_COUNTERS_BYTES (V_be64 (cpu_to_be64 bytes))])) skb, counter'))"

text \<open>The second component is the connection with its counters afterwards.\<close>

definition ctnetlink_dump_acct ::
  "('skb, 'x) nl_writer_scheme \<Rightarrow> nf_conn \<Rightarrow> nat \<Rightarrow> 'skb \<Rightarrow> (unit res \<times> 'skb) \<times> nf_conn" where
  "ctnetlink_dump_acct E ct type skb =
     (case ext_acct ct of
        None \<Rightarrow> ((Inr (), skb), ct)
      | Some (c0, c1) \<Rightarrow>
          (case dump_counters E c0 IP_CT_DIR_ORIGINAL type skb of
             ((Inl e, skb1), c0') \<Rightarrow>
               ((Inl (exit_code EFAIL e), skb1), ct\<lparr>ext_acct := Some (c0', c1)\<rparr>)
           | ((Inr _, skb1), c0') \<Rightarrow>
               (case dump_counters E c1 IP_CT_DIR_REPLY type skb1 of
                  ((Inl e, skb2), c1') \<Rightarrow>
                    ((Inl (exit_code EFAIL e), skb2), ct\<lparr>ext_acct := Some (c0', c1')\<rparr>)
                | ((Inr _, skb2), c1') \<Rightarrow>
                    ((Inr (), skb2), ct\<lparr>ext_acct := Some (c0', c1')\<rparr>))))"

definition ctnetlink_dump_timestamp :: "('skb, 'x) nl_writer_scheme \<Rightarrow> nf_conn \<Rightarrow> 'skb action" where
  "ctnetlink_dump_timestamp E ct =
     (case ext_tstamp ct of
        None \<Rightarrow> run_acts []
      | Some tstamp \<Rightarrow>
          fail_with EFAIL (nest E CTA_TIMESTAMP (run_acts [
            put E CTA_TIMESTAMP_START (V_be64 (cpu_to_be64 (ts_start tstamp))),
            act_when (ts_stop tstamp \<noteq> 0)
              (put E CTA_TIMESTAMP_STOP (V_be64 (cpu_to_be64 (ts_stop tstamp))))])))"

definition ctnetlink_dump_mark ::
  "('skb, 'x) nl_writer_scheme \<Rightarrow> nf_conn \<Rightarrow> bool \<Rightarrow> 'skb action" where
  "ctnetlink_dump_mark E ct dump =
     act_when (\<not> (ct_mark ct = 0 \<and> \<not> dump))
       (fail_with EFAIL (put E CTA_MARK (V_be32 (htonl (ct_mark ct)))))"

definition ctnetlink_dump_secctx :: "('skb, 'x) dump_env_scheme \<Rightarrow> nf_conn \<Rightarrow> 'skb action" where
  "ctnetlink_dump_secctx E ct =
     (case secid_to_secctx E (ct_secmark ct) of
        None \<Rightarrow> run_acts []
      | Some (secctx, len) \<Rightarrow>
          fail_with EFAIL (nest E CTA_SECCTX (put E CTA_SECCTX_NAME (V_string secctx))))"

text \<open>The loop over the words of \<open>labels->bits\<close>: the first one that is not zero decides.\<close>

fun labels_loop :: "('skb, 'x) nl_writer_scheme \<Rightarrow> u8 list \<Rightarrow> u64 list \<Rightarrow> 'skb action" where
  "labels_loop E bits [] skb = (Inr (), skb)"
| "labels_loop E bits (word # rest) skb =
     (if word \<noteq> 0 then put E CTA_LABELS (V_bin bits) skb else labels_loop E bits rest skb)"

definition ctnetlink_dump_labels :: "('skb, 'x) nl_writer_scheme \<Rightarrow> nf_conn \<Rightarrow> 'skb action" where
  "ctnetlink_dump_labels E ct =
     (case ext_labels ct of
        None \<Rightarrow> run_acts []
      | Some (b0, b1) \<Rightarrow> labels_loop E (le64 b0 @ le64 b1) [b0, b1])"

definition ctnetlink_dump_master :: "('skb, 'x) dump_env_scheme \<Rightarrow> nf_conn \<Rightarrow> 'skb action" where
  "ctnetlink_dump_master E ct =
     act_when (has_flag (ct_status ct) IPS_EXPECTED)
       (fail_with EFAIL (nest E CTA_TUPLE_MASTER
         (case Option.bind (ct_master ct) (env_store E) of
            None \<Rightarrow> null_deref
          | Some master \<Rightarrow> ctnetlink_dump_tuples E (tuple_orig master))))"

definition dump_ct_seq_adj ::
  "('skb, 'x) nl_writer_scheme \<Rightarrow> nf_ct_seqadj \<Rightarrow> nat \<Rightarrow> 'skb action" where
  "dump_ct_seq_adj E seq type =
     fail_with EFAIL (nest E type (run_acts [
       put E CTA_SEQADJ_CORRECTION_POS (V_be32 (htonl (correction_pos seq))),
       put E CTA_SEQADJ_OFFSET_BEFORE (V_be32 (htonl (offset_before seq))),
       put E CTA_SEQADJ_OFFSET_AFTER (V_be32 (htonl (offset_after seq)))]))"

definition ctnetlink_dump_ct_seq_adj :: "('skb, 'x) nl_writer_scheme \<Rightarrow> nf_conn \<Rightarrow> 'skb action" where
  "ctnetlink_dump_ct_seq_adj E ct =
     (case ext_seqadj ct of
        None \<Rightarrow> run_acts []
      | Some (seq0, seq1) \<Rightarrow>
          act_when (has_flag (ct_status ct) IPS_SEQ_ADJUST)
            (fail_with EFAIL (run_acts [
              dump_ct_seq_adj E seq0 CTA_SEQ_ADJ_ORIG,
              dump_ct_seq_adj E seq1 CTA_SEQ_ADJ_REPLY])))"

definition ctnetlink_dump_ct_synproxy :: "('skb, 'x) nl_writer_scheme \<Rightarrow> nf_conn \<Rightarrow> 'skb action" where
  "ctnetlink_dump_ct_synproxy E ct =
     (case ext_synproxy ct of
        None \<Rightarrow> run_acts []
      | Some synproxy \<Rightarrow>
          fail_with EFAIL (nest E CTA_SYNPROXY (run_acts [
            put E CTA_SYNPROXY_ISN (V_be32 (htonl (sp_isn synproxy))),
            put E CTA_SYNPROXY_ITS (V_be32 (htonl (sp_its synproxy))),
            put E CTA_SYNPROXY_TSOFF (V_be32 (htonl (sp_tsoff synproxy)))])))"

definition ctnetlink_dump_id ::
  "('skb, 'x) dump_env_scheme \<Rightarrow> nat \<Rightarrow> nf_conn \<Rightarrow> 'skb action" where
  "ctnetlink_dump_id E a ct = fail_with EFAIL (put E CTA_ID (V_be32 (nf_ct_get_id E a ct)))"

definition ctnetlink_dump_use :: "('skb, 'x) nl_writer_scheme \<Rightarrow> nf_conn \<Rightarrow> 'skb action" where
  "ctnetlink_dump_use E ct = fail_with EFAIL (put E CTA_USE (V_be32 (htonl (of_nat (ct_use ct)))))"

section \<open>The whole connection\<close>

definition ctnetlink_dump_extinfo ::
  "('skb, 'x) dump_env_scheme \<Rightarrow> nf_conn \<Rightarrow> nat \<Rightarrow> 'skb \<Rightarrow> (unit res \<times> 'skb) \<times> nf_conn" where
  "ctnetlink_dump_extinfo E ct type skb =
     (case ctnetlink_dump_acct E ct type skb of
        ((Inl e, skb1), ct1) \<Rightarrow> ((Inl (exit_code EFAIL e), skb1), ct1)
      | ((Inr _, skb1), ct1) \<Rightarrow>
          (fail_with EFAIL (run_acts [
             ctnetlink_dump_timestamp E ct1,
             ctnetlink_dump_helpinfo E ct1,
             ctnetlink_dump_labels E ct1,
             ctnetlink_dump_ct_seq_adj E ct1,
             ctnetlink_dump_ct_synproxy E ct1]) skb1, ct1))"

definition ctnetlink_dump_info ::
  "('skb, 'x) dump_env_scheme \<Rightarrow> nat \<Rightarrow> nf_conn \<Rightarrow> u32 \<Rightarrow> 'skb action" where
  "ctnetlink_dump_info E a ct flags =
     run_acts [
       fail_with EFAIL (run_acts [
         ctnetlink_dump_status E ct,
         ctnetlink_dump_mark E ct True,
         ctnetlink_dump_secctx E ct,
         ctnetlink_dump_id E a ct,
         ctnetlink_dump_use E ct,
         ctnetlink_dump_master E ct]),
       act_when (\<not> has_flag (ct_status ct) IPS_OFFLOAD)
         (fail_with EFAIL (run_acts [
           ctnetlink_dump_timeout E ct False,
           ctnetlink_dump_protoinfo E ct False flags]))]"

text \<open>The tuples and the zone, which open every message about a connection.\<close>

definition dump_head :: "('skb, 'x) dump_env_scheme \<Rightarrow> nf_conn \<Rightarrow> 'skb action" where
  "dump_head E ct =
     run_acts [
       nest E CTA_TUPLE_ORIG (run_acts [
         ctnetlink_dump_tuples E (tuple_orig ct),
         ctnetlink_dump_zone_id E CTA_TUPLE_ZONE (ct_zone ct) NF_CT_ZONE_DIR_ORIG]),
       nest E CTA_TUPLE_REPLY (run_acts [
         ctnetlink_dump_tuples E (tuple_reply ct),
         ctnetlink_dump_zone_id E CTA_TUPLE_ZONE (ct_zone ct) NF_CT_ZONE_DIR_REPL]),
       ctnetlink_dump_zone_id E CTA_ZONE (ct_zone ct) NF_CT_DEFAULT_ZONE_DIR]"

definition fill_flags :: "u32 \<Rightarrow> u32 \<Rightarrow> u32" where
  "fill_flags portid flags = (if portid \<noteq> 0 then flags OR NLM_F_MULTI else flags)"

definition ct_msg :: "u32 \<Rightarrow> u32 \<Rightarrow> nat \<Rightarrow> nf_conn \<Rightarrow> u32 \<Rightarrow> nlmsg" where
  "ct_msg portid seq event ct flags =
     \<lparr>msg_portid = portid, msg_seq = seq, msg_type = event, msg_flags = flags,
      msg_family = ct_l3num ct, msg_version = NFNETLINK_V0, msg_res_id = 0\<rparr>"

text \<open>
  The code and the buffer, and the connection afterwards. The body of the message starts over
  the connection as it is; only the accounting part changes it.
\<close>

definition fill_body ::
  "('skb, 'x) dump_env_scheme \<Rightarrow> nat \<Rightarrow> nat \<Rightarrow> nf_conn \<Rightarrow> bool \<Rightarrow> u32 \<Rightarrow> 'skb \<Rightarrow>
   (unit res \<times> 'skb) \<times> nf_conn" where
  "fill_body E type a ct extinfo flags skb =
     (case run_acts [dump_head E ct, ctnetlink_dump_info E a ct flags] skb of
        (Inl e, skb1) \<Rightarrow> ((Inl e, skb1), ct)
      | (Inr _, skb1) \<Rightarrow>
          if extinfo then ctnetlink_dump_extinfo E ct type skb1 else ((Inr (), skb1), ct))"

definition ctnetlink_fill_info ::
  "('skb, 'x) dump_env_scheme \<Rightarrow> u32 \<Rightarrow> u32 \<Rightarrow> nat \<Rightarrow> nat \<Rightarrow> nf_conn \<Rightarrow> bool \<Rightarrow> u32 \<Rightarrow> 'skb \<Rightarrow>
   (nat res \<times> 'skb) \<times> nf_conn" where
  "ctnetlink_fill_info E portid seq type a ct extinfo flags0 skb =
     (let flags = fill_flags portid flags0;
          event = nfnl_msg_type NFNL_SUBSYS_CTNETLINK IPCTNL_MSG_CT_NEW
      in case w_msg_put E skb (ct_msg portid seq event ct flags) of
           None \<Rightarrow> ((Inl EFAIL, w_msg_cancel E skb None), ct)
         | Some (skb1, nlh) \<Rightarrow>
             (case fill_body E type a ct extinfo flags skb1 of
                ((Inl e, skb2), ct') \<Rightarrow>
                  if e = OOPS then ((Inl OOPS, skb2), ct')
                  else ((Inl EFAIL, w_msg_cancel E skb2 (Some nlh)), ct')
              | ((Inr _, skb2), ct') \<Rightarrow>
                  (let skb3 = w_msg_end E skb2 nlh in ((Inr (w_len E skb3), skb3), ct'))))"

end
