(* ===== verification/Ct_Parse.thy ===== *)
theory Ct_Parse
  imports Nl_Api
begin

text \<open>
  Reading requests (\<open>kmod/vgw_ct_netlink.c\<close>): zones, tuples and helper names from attributes,
  the filter of a dump or flush, and the decision whether a connection passes a filter. The
  kernel's attribute parser is an interface, like its message builder.
\<close>

named_theorems filter_simps \<open>unfolding of filter decisions\<close>

section \<open>The attribute parser\<close>

text \<open>
  A policy lists, per attribute number, the expected type and length. The number of a
  nested attribute's children is bounded by the first argument of the parser; a missing policy is
  the empty list.
\<close>

datatype nla_kind = NLA_UNSPEC | NLA_U8 | NLA_U16 | NLA_U32 | NLA_NESTED | NLA_BINARY | NLA_NUL_STRING

type_synonym nla_policy = "(nat \<times> nla_kind \<times> nat) list"

type_synonym 'nla attr_table = "nat \<Rightarrow> 'nla option"

text \<open>
  The parser's functions; \<open>nla_get_be32\<close> is also \<open>nla_get_u32\<close> and \<open>nla_get_in_addr\<close>,
  \<open>nla_string\<close> is \<open>nla_data\<close> of a validated string. \<open>l4_nlattr_to_tuple\<close> and
  \<open>l4_nla_policy\<close> are the fields of the L4 protocol found by \<open>nf_ct_l4proto_find\<close>.
\<close>

record 'nla nl_reader =
  nla_parse_nested :: "nat \<Rightarrow> 'nla \<Rightarrow> nla_policy \<Rightarrow> 'nla attr_table res"
  nla_parse_nested_deprecated :: "nat \<Rightarrow> 'nla \<Rightarrow> nla_policy \<Rightarrow> 'nla attr_table res"
  nla_validate_nested_deprecated :: "'nla \<Rightarrow> nat \<Rightarrow> nla_policy \<Rightarrow> unit res"
  nla_get_u8 :: "'nla \<Rightarrow> u8"
  nla_get_be16 :: "'nla \<Rightarrow> u16"
  nla_get_be32 :: "'nla \<Rightarrow> u32"
  nla_get_in6_addr :: "'nla \<Rightarrow> nf_inet_addr"
  nla_string :: "'nla \<Rightarrow> string"
  l4_nlattr_to_tuple ::
    "u8 \<Rightarrow> ('nla attr_table \<Rightarrow> nf_conntrack_tuple \<Rightarrow> u32 \<Rightarrow> nf_conntrack_tuple res) option"
  l4_nla_policy :: "u8 \<Rightarrow> nla_policy"

section \<open>Filter flags\<close>

datatype cta_filter_attr =
    F_CTA_IP_SRC | F_CTA_IP_DST | F_CTA_TUPLE_ZONE | F_CTA_PROTO_NUM
  | F_CTA_PROTO_SRC_PORT | F_CTA_PROTO_DST_PORT
  | F_CTA_PROTO_ICMP_TYPE | F_CTA_PROTO_ICMP_CODE | F_CTA_PROTO_ICMP_ID
  | F_CTA_PROTO_ICMPV6_TYPE | F_CTA_PROTO_ICMPV6_CODE | F_CTA_PROTO_ICMPV6_ID

fun CTA_FILTER_FLAG :: "cta_filter_attr \<Rightarrow> u32" where
  "CTA_FILTER_FLAG F_CTA_IP_SRC = 0x001"
| "CTA_FILTER_FLAG F_CTA_IP_DST = 0x002"
| "CTA_FILTER_FLAG F_CTA_TUPLE_ZONE = 0x004"
| "CTA_FILTER_FLAG F_CTA_PROTO_NUM = 0x008"
| "CTA_FILTER_FLAG F_CTA_PROTO_SRC_PORT = 0x010"
| "CTA_FILTER_FLAG F_CTA_PROTO_DST_PORT = 0x020"
| "CTA_FILTER_FLAG F_CTA_PROTO_ICMP_TYPE = 0x040"
| "CTA_FILTER_FLAG F_CTA_PROTO_ICMP_CODE = 0x080"
| "CTA_FILTER_FLAG F_CTA_PROTO_ICMP_ID = 0x100"
| "CTA_FILTER_FLAG F_CTA_PROTO_ICMPV6_TYPE = 0x200"
| "CTA_FILTER_FLAG F_CTA_PROTO_ICMPV6_CODE = 0x400"
| "CTA_FILTER_FLAG F_CTA_PROTO_ICMPV6_ID = 0x800"

definition CTA_FILTER_F_ALL :: u32 where
  "CTA_FILTER_F_ALL = 0x1000 - 1"

definition CTA_FILTER_F_ALL_CTA_PROTO :: u32 where
  "CTA_FILTER_F_ALL_CTA_PROTO =
     CTA_FILTER_FLAG F_CTA_PROTO_SRC_PORT OR CTA_FILTER_FLAG F_CTA_PROTO_DST_PORT OR
     CTA_FILTER_FLAG F_CTA_PROTO_ICMP_TYPE OR CTA_FILTER_FLAG F_CTA_PROTO_ICMP_CODE OR
     CTA_FILTER_FLAG F_CTA_PROTO_ICMP_ID OR CTA_FILTER_FLAG F_CTA_PROTO_ICMPV6_TYPE OR
     CTA_FILTER_FLAG F_CTA_PROTO_ICMPV6_CODE OR CTA_FILTER_FLAG F_CTA_PROTO_ICMPV6_ID"

definition has_filter :: "u32 \<Rightarrow> cta_filter_attr \<Rightarrow> bool" where
  "has_filter flags f \<longleftrightarrow> flags AND CTA_FILTER_FLAG f \<noteq> 0"

section \<open>Addresses, protocols, zones\<close>

definition cta_ip_nla_policy :: nla_policy where
  "cta_ip_nla_policy =
     [(CTA_IP_V4_SRC, NLA_U32, 0), (CTA_IP_V4_DST, NLA_U32, 0),
      (CTA_IP_V6_SRC, NLA_UNSPEC, 16), (CTA_IP_V6_DST, NLA_UNSPEC, 16)]"

text \<open>One \<open>if (flags & ...) { if (!tb[..]) return -EINVAL; ... }\<close>.\<close>

definition take_attr ::
  "bool \<Rightarrow> 'nla option \<Rightarrow> ('nla \<Rightarrow> nf_conntrack_tuple \<Rightarrow> nf_conntrack_tuple) \<Rightarrow>
   nf_conntrack_tuple \<Rightarrow> nf_conntrack_tuple res" where
  "take_attr wanted attr upd t =
     (if wanted then (case attr of None \<Rightarrow> Inl EINVAL | Some a \<Rightarrow> Inr (upd a t)) else Inr t)"

text \<open>Assigning \<open>u3.ip\<close> overwrites the first word of the union, \<open>u3.in6\<close> all of it.\<close>

definition ipv4_nlattr_to_tuple ::
  "('nla, 'x) nl_reader_scheme \<Rightarrow> 'nla attr_table \<Rightarrow> nf_conntrack_tuple \<Rightarrow> u32 \<Rightarrow>
   nf_conntrack_tuple res" where
  "ipv4_nlattr_to_tuple R tb t flags =
     bind_res (take_attr (has_filter flags F_CTA_IP_SRC) (tb CTA_IP_V4_SRC)
         (\<lambda>a t. t\<lparr>src_u3 := (src_u3 t)\<lparr>all0 := nla_get_be32 R a\<rparr>\<rparr>) t)
       (take_attr (has_filter flags F_CTA_IP_DST) (tb CTA_IP_V4_DST)
         (\<lambda>a t. t\<lparr>dst_u3 := (dst_u3 t)\<lparr>all0 := nla_get_be32 R a\<rparr>\<rparr>))"

definition ipv6_nlattr_to_tuple ::
  "('nla, 'x) nl_reader_scheme \<Rightarrow> 'nla attr_table \<Rightarrow> nf_conntrack_tuple \<Rightarrow> u32 \<Rightarrow>
   nf_conntrack_tuple res" where
  "ipv6_nlattr_to_tuple R tb t flags =
     bind_res (take_attr (has_filter flags F_CTA_IP_SRC) (tb CTA_IP_V6_SRC)
         (\<lambda>a t. t\<lparr>src_u3 := nla_get_in6_addr R a\<rparr>) t)
       (take_attr (has_filter flags F_CTA_IP_DST) (tb CTA_IP_V6_DST)
         (\<lambda>a t. t\<lparr>dst_u3 := nla_get_in6_addr R a\<rparr>))"

definition ctnetlink_parse_tuple_ip ::
  "('nla, 'x) nl_reader_scheme \<Rightarrow> 'nla \<Rightarrow> nf_conntrack_tuple \<Rightarrow> u32 \<Rightarrow> nf_conntrack_tuple res" where
  "ctnetlink_parse_tuple_ip R attr tuple flags =
     bind_res (nla_parse_nested_deprecated R CTA_IP_MAX attr []) (\<lambda>tb.
     bind_res (nla_validate_nested_deprecated R attr CTA_IP_MAX cta_ip_nla_policy) (\<lambda>_.
       if src_l3num tuple = NFPROTO_IPV4 then ipv4_nlattr_to_tuple R tb tuple flags
       else if src_l3num tuple = NFPROTO_IPV6 then ipv6_nlattr_to_tuple R tb tuple flags
       else Inr tuple))"

definition proto_nla_policy :: nla_policy where
  "proto_nla_policy = [(CTA_PROTO_NUM, NLA_U8, 0)]"

definition ctnetlink_parse_tuple_proto ::
  "('nla, 'x) nl_reader_scheme \<Rightarrow> 'nla \<Rightarrow> nf_conntrack_tuple \<Rightarrow> u32 \<Rightarrow> nf_conntrack_tuple res" where
  "ctnetlink_parse_tuple_proto R attr tuple flags =
     bind_res (nla_parse_nested_deprecated R CTA_PROTO_MAX attr proto_nla_policy) (\<lambda>tb.
       if \<not> has_filter flags F_CTA_PROTO_NUM then Inr tuple
       else case tb CTA_PROTO_NUM of
           None \<Rightarrow> Inl EINVAL
         | Some a \<Rightarrow>
             (let tuple1 = tuple\<lparr>dst_protonum := nla_get_u8 R a\<rparr> in
              case l4_nlattr_to_tuple R (dst_protonum tuple1) of
                None \<Rightarrow> Inr tuple1
              | Some nlattr_to_tuple \<Rightarrow>
                  bind_res (nla_validate_nested_deprecated R attr CTA_PROTO_MAX
                      (l4_nla_policy R (dst_protonum tuple1)))
                    (\<lambda>_. nlattr_to_tuple tb tuple1 flags)))"

definition ctnetlink_parse_zone ::
  "('nla, 'x) nl_reader_scheme \<Rightarrow> 'nla option \<Rightarrow> nf_conntrack_zone res" where
  "ctnetlink_parse_zone R attr =
     (let zone = \<lparr>zone_id = NF_CT_DEFAULT_ZONE_ID, zone_flags = 0, zone_dir = NF_CT_DEFAULT_ZONE_DIR\<rparr>
      in case attr of
           None \<Rightarrow> Inr zone
         | Some a \<Rightarrow> Inr (zone\<lparr>zone_id := ntohs (nla_get_be16 R a),
                             zone_flags := NF_CT_ZONE_DIR_ORIG\<rparr>))"

definition ctnetlink_parse_tuple_zone ::
  "('nla, 'x) nl_reader_scheme \<Rightarrow> 'nla \<Rightarrow> nat \<Rightarrow> nf_conntrack_zone \<Rightarrow> nf_conntrack_zone res" where
  "ctnetlink_parse_tuple_zone R attr type zone =
     (if zone_id zone \<noteq> NF_CT_DEFAULT_ZONE_ID then Inl EINVAL
      else bind_res (ctnetlink_parse_zone R (Some attr)) (\<lambda>z.
        Inr (z\<lparr>zone_dir := (if type = CTA_TUPLE_REPLY then NF_CT_ZONE_DIR_REPL
                            else NF_CT_ZONE_DIR_ORIG)\<rparr>)))"

section \<open>Tuples\<close>

definition tuple_nla_policy :: nla_policy where
  "tuple_nla_policy =
     [(CTA_TUPLE_IP, NLA_NESTED, 0), (CTA_TUPLE_PROTO, NLA_NESTED, 0), (CTA_TUPLE_ZONE, NLA_U16, 0)]"

definition tuple_ip_part ::
  "('nla, 'x) nl_reader_scheme \<Rightarrow> 'nla attr_table \<Rightarrow> u32 \<Rightarrow> nf_conntrack_tuple \<Rightarrow>
   nf_conntrack_tuple res" where
  "tuple_ip_part R tb flags tuple =
     (if has_filter flags F_CTA_IP_DST \<or> has_filter flags F_CTA_IP_SRC
      then case tb CTA_TUPLE_IP of
             None \<Rightarrow> Inl EINVAL
           | Some a \<Rightarrow> ctnetlink_parse_tuple_ip R a tuple flags
      else Inr tuple)"

definition tuple_proto_part ::
  "('nla, 'x) nl_reader_scheme \<Rightarrow> 'nla attr_table \<Rightarrow> u32 \<Rightarrow> nf_conntrack_tuple \<Rightarrow>
   nf_conntrack_tuple res" where
  "tuple_proto_part R tb flags tuple =
     (if has_filter flags F_CTA_PROTO_NUM
      then case tb CTA_TUPLE_PROTO of
             None \<Rightarrow> Inl EINVAL
           | Some a \<Rightarrow> ctnetlink_parse_tuple_proto R a tuple flags
      else if flags AND CTA_FILTER_F_ALL_CTA_PROTO \<noteq> 0 then Inl EINVAL
      else Inr tuple)"

text \<open>The zone is an optional in-out parameter; the result holds it after the call.\<close>

definition tuple_zone_part ::
  "('nla, 'x) nl_reader_scheme \<Rightarrow> 'nla attr_table \<Rightarrow> u32 \<Rightarrow> nat \<Rightarrow> nf_conntrack_zone option \<Rightarrow>
   nf_conntrack_zone option res" where
  "tuple_zone_part R tb flags type zone =
     (case (has_filter flags F_CTA_TUPLE_ZONE, tb CTA_TUPLE_ZONE) of
        (True, Some a) \<Rightarrow>
          (case zone of
             None \<Rightarrow> Inl EINVAL
           | Some z \<Rightarrow> bind_res (ctnetlink_parse_tuple_zone R a type z) (\<lambda>z'. Inr (Some z')))
      | _ \<Rightarrow> Inr zone)"

definition ctnetlink_parse_tuple_filter ::
  "('nla, 'x) nl_reader_scheme \<Rightarrow> 'nla attr_table \<Rightarrow> nat \<Rightarrow> u8 \<Rightarrow> nf_conntrack_zone option \<Rightarrow> u32 \<Rightarrow>
   (nf_conntrack_tuple \<times> nf_conntrack_zone option) res" where
  "ctnetlink_parse_tuple_filter R cda type l3num zone flags =
     (case cda type of
        None \<Rightarrow> Inl OOPS
      | Some attr \<Rightarrow>
          bind_res (nla_parse_nested_deprecated R CTA_TUPLE_MAX attr tuple_nla_policy) (\<lambda>tb.
          if ucast l3num \<noteq> NFPROTO_IPV4 \<and> ucast l3num \<noteq> NFPROTO_IPV6 then Inl EOPNOTSUPP
          else
          bind_res (tuple_ip_part R tb flags (zero_tuple\<lparr>src_l3num := ucast l3num\<rparr>)) (\<lambda>tuple1.
          bind_res (tuple_proto_part R tb flags tuple1) (\<lambda>tuple2.
          bind_res (tuple_zone_part R tb flags type zone) (\<lambda>zone'.
            Inr (tuple2\<lparr>dst_dir := (if type = CTA_TUPLE_REPLY then IP_CT_DIR_REPLY
                                    else IP_CT_DIR_ORIGINAL)\<rparr>, zone'))))))"

definition ctnetlink_parse_tuple ::
  "('nla, 'x) nl_reader_scheme \<Rightarrow> 'nla attr_table \<Rightarrow> nat \<Rightarrow> u8 \<Rightarrow> nf_conntrack_zone option \<Rightarrow>
   (nf_conntrack_tuple \<times> nf_conntrack_zone option) res" where
  "ctnetlink_parse_tuple R cda type l3num zone =
     ctnetlink_parse_tuple_filter R cda type l3num zone CTA_FILTER_F_ALL"

section \<open>Helper names\<close>

definition help_nla_policy :: nla_policy where
  "help_nla_policy = [(CTA_HELP_NAME, NLA_NUL_STRING, 15)]"

text \<open>The helper's name, and its data if there is any (the caller presets it to null).\<close>

definition ctnetlink_parse_help ::
  "('nla, 'x) nl_reader_scheme \<Rightarrow> 'nla \<Rightarrow> (string \<times> 'nla option) res" where
  "ctnetlink_parse_help R attr =
     bind_res (nla_parse_nested_deprecated R CTA_HELP_MAX attr help_nla_policy) (\<lambda>tb.
       case tb CTA_HELP_NAME of
         None \<Rightarrow> Inl EINVAL
       | Some a \<Rightarrow> Inr (nla_string R a, tb CTA_HELP_INFO))"

text \<open>The policy of a whole request; \<open>NF_CT_LABELS_MAX_SIZE\<close> is 16.\<close>

definition ct_nla_policy :: nla_policy where
  "ct_nla_policy =
     [(CTA_TUPLE_ORIG, NLA_NESTED, 0), (CTA_TUPLE_REPLY, NLA_NESTED, 0), (CTA_STATUS, NLA_U32, 0),
      (CTA_PROTOINFO, NLA_NESTED, 0), (CTA_HELP, NLA_NESTED, 0), (CTA_NAT_SRC, NLA_NESTED, 0),
      (CTA_TIMEOUT, NLA_U32, 0), (CTA_MARK, NLA_U32, 0), (CTA_ID, NLA_U32, 0),
      (CTA_NAT_DST, NLA_NESTED, 0), (CTA_TUPLE_MASTER, NLA_NESTED, 0),
      (CTA_SEQ_ADJ_ORIG, NLA_NESTED, 0), (CTA_SEQ_ADJ_REPLY, NLA_NESTED, 0), (CTA_ZONE, NLA_U16, 0),
      (CTA_MARK_MASK, NLA_U32, 0), (CTA_LABELS, NLA_BINARY, 16), (CTA_LABELS_MASK, NLA_BINARY, 16),
      (CTA_FILTER, NLA_NESTED, 0), (CTA_STATUS_MASK, NLA_U32, 0)]"

section \<open>Filters\<close>

record ctnetlink_filter_u32 =
  fu_val :: u32
  fu_mask :: u32

record ctnetlink_filter =
  flt_family :: u8
  orig_flags :: u32
  reply_flags :: u32
  flt_orig :: nf_conntrack_tuple
  flt_reply :: nf_conntrack_tuple
  flt_zone :: nf_conntrack_zone
  flt_mark :: ctnetlink_filter_u32
  flt_status :: ctnetlink_filter_u32

text \<open>\<open>kzalloc\<close>: every field is zero.\<close>

definition zero_filter :: ctnetlink_filter where
  "zero_filter = \<lparr>flt_family = 0, orig_flags = 0, reply_flags = 0, flt_orig = zero_tuple,
     flt_reply = zero_tuple, flt_zone = \<lparr>zone_id = 0, zone_flags = 0, zone_dir = 0\<rparr>,
     flt_mark = \<lparr>fu_val = 0, fu_mask = 0\<rparr>, flt_status = \<lparr>fu_val = 0, fu_mask = 0\<rparr>\<rparr>"

definition cta_filter_nla_policy :: nla_policy where
  "cta_filter_nla_policy = [(CTA_FILTER_ORIG_FLAGS, NLA_U32, 0), (CTA_FILTER_REPLY_FLAGS, NLA_U32, 0)]"

text \<open>One flags attribute: stored, then checked against the known flags.\<close>

definition filter_flags_attr ::
  "('nla, 'x) nl_reader_scheme \<Rightarrow> 'nla option \<Rightarrow> (u32 \<Rightarrow> ctnetlink_filter \<Rightarrow> ctnetlink_filter) \<Rightarrow>
   ctnetlink_filter \<Rightarrow> ctnetlink_filter res" where
  "filter_flags_attr R attr upd f =
     (case attr of
        None \<Rightarrow> Inr f
      | Some a \<Rightarrow> (let v = nla_get_be32 R a in
          if v AND NOT CTA_FILTER_F_ALL \<noteq> 0 then Inl EOPNOTSUPP else Inr (upd v f)))"

definition ctnetlink_parse_filter ::
  "('nla, 'x) nl_reader_scheme \<Rightarrow> 'nla \<Rightarrow> ctnetlink_filter \<Rightarrow> ctnetlink_filter res" where
  "ctnetlink_parse_filter R attr f =
     bind_res (nla_parse_nested R CTA_FILTER_MAX attr cta_filter_nla_policy) (\<lambda>tb.
     bind_res (filter_flags_attr R (tb CTA_FILTER_ORIG_FLAGS) (\<lambda>v f. f\<lparr>orig_flags := v\<rparr>) f)
       (filter_flags_attr R (tb CTA_FILTER_REPLY_FLAGS) (\<lambda>v f. f\<lparr>reply_flags := v\<rparr>)))"

definition ctnetlink_filter_parse_mark ::
  "('nla, 'x) nl_reader_scheme \<Rightarrow> 'nla attr_table \<Rightarrow> ctnetlink_filter_u32 \<Rightarrow> ctnetlink_filter_u32 res"
  where
  "ctnetlink_filter_parse_mark R cda mark =
     (case cda CTA_MARK of
        Some a \<Rightarrow>
          Inr \<lparr>fu_val = ntohl (nla_get_be32 R a),
               fu_mask = (case cda CTA_MARK_MASK of
                            Some m \<Rightarrow> ntohl (nla_get_be32 R m) | None \<Rightarrow> 0xffffffff)\<rparr>
      | None \<Rightarrow> (case cda CTA_MARK_MASK of Some _ \<Rightarrow> Inl EINVAL | None \<Rightarrow> Inr mark))"

definition ctnetlink_filter_parse_status ::
  "('nla, 'x) nl_reader_scheme \<Rightarrow> 'nla attr_table \<Rightarrow> ctnetlink_filter_u32 \<Rightarrow> ctnetlink_filter_u32 res"
  where
  "ctnetlink_filter_parse_status R cda status =
     (case cda CTA_STATUS of
        Some a \<Rightarrow>
          (let val = ntohl (nla_get_be32 R a);
               mask = (case cda CTA_STATUS_MASK of
                         Some m \<Rightarrow> ntohl (nla_get_be32 R m) | None \<Rightarrow> val)
           in if mask = 0 then Inl EINVAL else Inr \<lparr>fu_val = val, fu_mask = mask\<rparr>)
      | None \<Rightarrow> (case cda CTA_STATUS_MASK of Some _ \<Rightarrow> Inl EINVAL | None \<Rightarrow> Inr status))"

text \<open>
  One tuple of a filter, when its flags are set. The zone may be changed by it.
\<close>

definition filter_tuple_part ::
  "('nla, 'x) nl_reader_scheme \<Rightarrow> 'nla attr_table \<Rightarrow> nat \<Rightarrow> u32 \<Rightarrow>
   (nf_conntrack_tuple \<Rightarrow> ctnetlink_filter \<Rightarrow> ctnetlink_filter) \<Rightarrow> ctnetlink_filter \<Rightarrow>
   ctnetlink_filter res" where
  "filter_tuple_part R cda type flags upd f =
     (if flags = 0 then Inr f
      else case cda type of
          None \<Rightarrow> Inl EINVAL
        | Some _ \<Rightarrow>
            bind_res (ctnetlink_parse_tuple_filter R cda type (flt_family f) (Some (flt_zone f)) flags)
              (\<lambda>(tuple, zone'). Inr (upd tuple (case zone' of None \<Rightarrow> f | Some z \<Rightarrow> f\<lparr>flt_zone := z\<rparr>))))"

text \<open>The allocation may fail; on every later error the filter is freed.\<close>

definition ctnetlink_alloc_filter ::
  "('nla, 'x) nl_reader_scheme \<Rightarrow> bool \<Rightarrow> 'nla attr_table \<Rightarrow> u8 \<Rightarrow> ctnetlink_filter res" where
  "ctnetlink_alloc_filter R oom cda family =
     (if oom then Inl ENOMEM
      else
        (let f0 = zero_filter\<lparr>flt_family := family\<rparr> in
         bind_res (ctnetlink_filter_parse_mark R cda (flt_mark f0)) (\<lambda>mark.
         bind_res (ctnetlink_filter_parse_status R cda (flt_status f0)) (\<lambda>status.
         bind_res (ctnetlink_parse_zone R (cda CTA_ZONE)) (\<lambda>zone.
           let f1 = f0\<lparr>flt_mark := mark, flt_status := status, flt_zone := zone\<rparr> in
           case cda CTA_FILTER of
             None \<Rightarrow> Inr f1
           | Some fa \<Rightarrow>
               bind_res (ctnetlink_parse_filter R fa f1) (\<lambda>f2.
               bind_res (filter_tuple_part R cda CTA_TUPLE_ORIG (orig_flags f2)
                   (\<lambda>t f. f\<lparr>flt_orig := t\<rparr>) f2) (\<lambda>f3.
                 filter_tuple_part R cda CTA_TUPLE_REPLY (reply_flags f3)
                   (\<lambda>t f. f\<lparr>flt_reply := t\<rparr>) f3)))))))"

definition ctnetlink_needs_filter :: "u8 \<Rightarrow> 'nla attr_table \<Rightarrow> bool" where
  "ctnetlink_needs_filter family cda \<longleftrightarrow>
     family \<noteq> 0 \<or> cda CTA_MARK \<noteq> None \<or> cda CTA_FILTER \<noteq> None \<or> cda CTA_STATUS \<noteq> None \<or>
     cda CTA_ZONE \<noteq> None"

text \<open>\<open>cb->data\<close> after \<open>ctnetlink_start\<close>: the filter, or null when none is needed.\<close>

definition ctnetlink_start ::
  "('nla, 'x) nl_reader_scheme \<Rightarrow> bool \<Rightarrow> 'nla attr_table \<Rightarrow> u8 \<Rightarrow> ctnetlink_filter option res" where
  "ctnetlink_start R oom cda family =
     (if ctnetlink_needs_filter family cda
      then bind_res (ctnetlink_alloc_filter R oom cda family) (\<lambda>f. Inr (Some f))
      else Inr None)"

section \<open>Matching\<close>

text \<open>\<open>ipv6_addr_cmp\<close> is zero exactly on equal addresses.\<close>

definition ipv6_addr_cmp :: "nf_inet_addr \<Rightarrow> nf_inet_addr \<Rightarrow> bool" where
  "ipv6_addr_cmp a b \<longleftrightarrow> a \<noteq> b"

text \<open>The two early returns of the address part, per family, as the condition of returning 0.\<close>

definition match_addr_fails ::
  "nf_conntrack_tuple \<Rightarrow> nf_conntrack_tuple \<Rightarrow> u32 \<Rightarrow> u8 \<Rightarrow> bool" where
  "match_addr_fails ft ct flags family =
     (if ucast family = NFPROTO_IPV4
      then has_filter flags F_CTA_IP_SRC \<and> addr_ip (src_u3 ft) \<noteq> addr_ip (src_u3 ct) \<or>
           has_filter flags F_CTA_IP_DST \<and> addr_ip (dst_u3 ft) \<noteq> addr_ip (dst_u3 ct)
      else if ucast family = NFPROTO_IPV6
      then has_filter flags F_CTA_IP_SRC \<and> \<not> ipv6_addr_cmp (src_u3 ft) (src_u3 ct) \<or>
           has_filter flags F_CTA_IP_DST \<and> \<not> ipv6_addr_cmp (dst_u3 ft) (dst_u3 ct)
      else False)"

definition match_proto_fails :: "nf_conntrack_tuple \<Rightarrow> nf_conntrack_tuple \<Rightarrow> u32 \<Rightarrow> bool" where
  "match_proto_fails ft ct flags =
     (let p = dst_protonum ct in
      if p = IPPROTO_TCP \<or> p = IPPROTO_UDP
      then has_filter flags F_CTA_PROTO_SRC_PORT \<and> src_u ft \<noteq> src_u ct \<or>
           has_filter flags F_CTA_PROTO_DST_PORT \<and> dst_u ft \<noteq> dst_u ct
      else if p = IPPROTO_ICMP
      then has_filter flags F_CTA_PROTO_ICMP_TYPE \<and> icmp_type (dst_u ft) \<noteq> icmp_type (dst_u ct) \<or>
           has_filter flags F_CTA_PROTO_ICMP_CODE \<and> icmp_code (dst_u ft) \<noteq> icmp_code (dst_u ct) \<or>
           has_filter flags F_CTA_PROTO_ICMP_ID \<and> src_u ft \<noteq> src_u ct
      else if p = IPPROTO_ICMPV6
      then has_filter flags F_CTA_PROTO_ICMPV6_TYPE \<and> icmp_type (dst_u ft) \<noteq> icmp_type (dst_u ct) \<or>
           has_filter flags F_CTA_PROTO_ICMPV6_CODE \<and> icmp_code (dst_u ft) \<noteq> icmp_code (dst_u ct) \<or>
           has_filter flags F_CTA_PROTO_ICMPV6_ID \<and> src_u ft \<noteq> src_u ct
      else False)"

definition ctnetlink_filter_match_tuple ::
  "nf_conntrack_tuple \<Rightarrow> nf_conntrack_tuple \<Rightarrow> u32 \<Rightarrow> u8 \<Rightarrow> bool" where
  "ctnetlink_filter_match_tuple ft ct flags family =
     (if match_addr_fails ft ct flags family then False
      else if has_filter flags F_CTA_PROTO_NUM \<and> dst_protonum ft \<noteq> dst_protonum ct then False
      else if match_proto_fails ft ct flags then False
      else True)"

text \<open>\<open>zid\<close> is \<open>nf_ct_zone_id\<close>: the zone's number in a direction.\<close>

definition ctnetlink_filter_match ::
  "(nf_conntrack_zone \<Rightarrow> u8 \<Rightarrow> u16) \<Rightarrow> nf_conn \<Rightarrow> ctnetlink_filter option \<Rightarrow> bool" where
  "ctnetlink_filter_match zid ct data =
     (case data of
        None \<Rightarrow> True
      | Some f \<Rightarrow>
          if flt_family f \<noteq> 0 \<and> ct_l3num ct \<noteq> ucast (flt_family f) then False
          else if orig_flags f \<noteq> 0 \<and>
            \<not> ctnetlink_filter_match_tuple (flt_orig f) (tuple_orig ct) (orig_flags f) (flt_family f)
          then False
          else if reply_flags f \<noteq> 0 \<and>
            \<not> ctnetlink_filter_match_tuple (flt_reply f) (tuple_reply ct) (reply_flags f) (flt_family f)
          then False
          else if zone_flags (flt_zone f) AND NF_CT_ZONE_DIR_ORIG \<noteq> 0 \<and>
            zid (ct_zone ct) IP_CT_DIR_ORIGINAL \<noteq> zone_id (flt_zone f)
          then False
          else if ct_mark ct AND fu_mask (flt_mark f) \<noteq> fu_val (flt_mark f) then False
          else if ucast (ct_status ct) AND fu_mask (flt_status f) \<noteq> fu_val (flt_status f) then False
          else True)"

end
