(* ===== verification/Ct_Table.thy ===== *)
theory Ct_Table
  imports Ct_Dump Ct_Parse
begin

text \<open>
  Requests on the connection table (\<open>kmod/vgw_ct_netlink.c\<close>): the resumable dump of the hash
  table with its eviction of expired entries, the dump of the dying list, flush, delete and get.
  One call runs to its end without interference; between two calls of a dump anything may happen
  to the state.
\<close>

section \<open>Table and kernel interface\<close>

text \<open>
  A hash node is the address of its connection and the direction of its tuple. Every confirmed
  connection has one node per direction.
\<close>

type_synonym ct_node = "nat \<times> u8"
type_synonym ct_table = "ct_node list list"

record ksys =
  k_ht :: ct_table
  k_ct :: ct_store

text \<open>
  The kernel functions: \<open>nf_ct_is_expired\<close> looks at the timeout; \<open>nf_ct_kill\<close> and
  \<open>nf_ct_delete\<close> unlink a connection; \<open>nf_ct_iterate_cleanup_net\<close> removes the connections of
  a network namespace that a predicate selects; \<open>nlmsg_new\<close> allocates a buffer of a size;
  \<open>nfnetlink_unicast\<close> sends it and returns a code.
\<close>

record 'skb tab_env = "'skb dump_env" +
  nf_ct_zone_id :: "nf_conntrack_zone \<Rightarrow> u8 \<Rightarrow> u16"
  nf_ct_is_expired :: "u32 \<Rightarrow> bool"
  nf_ct_should_gc :: "nf_conn \<Rightarrow> bool"
  nf_ct_kill :: "ksys \<Rightarrow> nat \<Rightarrow> ksys"
  nf_ct_delete :: "ksys \<Rightarrow> nat \<Rightarrow> u32 \<Rightarrow> bool \<Rightarrow> ksys"
  nf_ct_put :: "ct_store \<Rightarrow> nat \<Rightarrow> ct_store"
  nf_conntrack_find_get :: "ct_store \<Rightarrow> nat \<Rightarrow> nf_conntrack_zone \<Rightarrow> nf_conntrack_tuple \<Rightarrow>
    nat option \<times> ct_store"
  nf_ct_iterate_cleanup_net :: "ksys \<Rightarrow> nat \<Rightarrow> (nf_conn \<Rightarrow> bool) \<Rightarrow> u32 \<Rightarrow> bool \<Rightarrow> ksys"
  nlmsg_new :: "nat \<Rightarrow> 'skb option"
  nfnetlink_unicast :: "'skb \<Rightarrow> nat \<Rightarrow> u32 \<Rightarrow> unit res"

text \<open>Taking a reference on a live connection (\<open>nf_conntrack_get\<close>).\<close>

definition ct_get :: "ct_store \<Rightarrow> nat \<Rightarrow> ct_store" where
  "ct_get st p = (case st p of None \<Rightarrow> st | Some ct \<Rightarrow> st(p \<mapsto> ct\<lparr>ct_use := Suc (ct_use ct)\<rparr>))"

text \<open>\<open>struct nfnl_info\<close>: what a request's header says.\<close>

record nfnl_info =
  nfgen_family :: u8
  nfgen_version :: u8
  nlmsg_flags :: u32
  nlmsg_seq :: u32
  nlmsg_type :: nat
  info_portid :: u32
  info_net :: nat
  info_report :: bool

abbreviation (input) NLM_F_DUMP :: u32 where "NLM_F_DUMP \<equiv> 0x300"
abbreviation (input) EVICT_MAX :: nat where "EVICT_MAX \<equiv> 8"

section \<open>Dumping the table\<close>

text \<open>
  The parameters of one call, the callback state that survives it (\<open>args[0]\<close>, \<open>args[1]\<close>), and
  the locals: the evicted entries \<open>nf_ct_evict[0..i-1]\<close>, the kernel state and the buffer.
\<close>

record dump_call =
  dc_net :: nat
  dc_portid :: u32
  dc_seq :: u32
  dc_type :: nat
  dc_data :: "ctnetlink_filter option"
  dc_size :: nat

record 'skb dump_st =
  cb_args0 :: nat
  cb_args1 :: "nat option"
  ds_evict :: "nat list"
  ds_sys :: ksys
  ds_skb :: 'skb

definition dump_flags :: "dump_call \<Rightarrow> u32" where
  "dump_flags c = (if dc_data c \<noteq> None then NLM_F_DUMP_FILTERED else 0)"

text \<open>The loop \<open>while (i) { i--; ... }\<close>: from the last entry to the first.\<close>

fun evict_loop :: "('skb, 'x) tab_env_scheme \<Rightarrow> nat list \<Rightarrow> ksys \<Rightarrow> ksys res" where
  "evict_loop T [] k = Inr k"
| "evict_loop T (p # ps) k =
     (case k_ct k p of
        None \<Rightarrow> Inl OOPS
      | Some ct \<Rightarrow>
          (let k1 = (if nf_ct_should_gc T ct then nf_ct_kill T k p else k) in
           evict_loop T ps (k1\<lparr>k_ct := nf_ct_put T (k_ct k1) p\<rparr>)))"

definition dump_evict :: "('skb, 'x) tab_env_scheme \<Rightarrow> 'skb dump_st \<Rightarrow> 'skb dump_st res" where
  "dump_evict T s =
     bind_res (evict_loop T (rev (ds_evict s)) (ds_sys s)) (\<lambda>k.
       Inr (s\<lparr>ds_evict := [], ds_sys := k\<rparr>))"

definition set_ct :: "nat \<Rightarrow> nf_conn \<Rightarrow> 'skb dump_st \<Rightarrow> 'skb dump_st" where
  "set_ct p ct s = s\<lparr>ds_sys := (ds_sys s)\<lparr>k_ct := (k_ct (ds_sys s))(p \<mapsto> ct)\<rparr>\<rparr>"

text \<open>
  One entry that passed the guards: write it, or remember it as the place to go on. The flag says
  whether the dump stops here.
\<close>

definition dump_entry ::
  "('skb, 'x) tab_env_scheme \<Rightarrow> dump_call \<Rightarrow> nat \<Rightarrow> nf_conn \<Rightarrow> 'skb dump_st \<Rightarrow>
   (bool \<times> 'skb dump_st) res" where
  "dump_entry T c p ct s =
     (case ctnetlink_fill_info (T\<lparr>env_store := k_ct (ds_sys s)\<rparr>) (dc_portid c) (dc_seq c) (dc_type c)
             p ct True (dump_flags c) (ds_skb s) of
        ((Inl e, skb'), ct') \<Rightarrow>
          if e = OOPS then Inl OOPS
          else (let s1 = set_ct p ct' (s\<lparr>ds_skb := skb'\<rparr>) in
                Inr (True, s1\<lparr>ds_sys := (ds_sys s1)\<lparr>k_ct := ct_get (k_ct (ds_sys s1)) p\<rparr>,
                              cb_args1 := Some p\<rparr>))
      | ((Inr _, skb'), ct') \<Rightarrow> Inr (False, set_ct p ct' (s\<lparr>ds_skb := skb'\<rparr>)))"

text \<open>The walk through one bucket; every \<open>continue\<close> of the code is a step to the next node.\<close>

fun dump_nodes ::
  "('skb, 'x) tab_env_scheme \<Rightarrow> dump_call \<Rightarrow> nat option \<Rightarrow> ct_node list \<Rightarrow> 'skb dump_st \<Rightarrow>
   (bool \<times> 'skb dump_st) res" where
  "dump_nodes T c lst [] s = Inr (False, s)"
| "dump_nodes T c lst ((p, dir) # ns) s =
     (case k_ct (ds_sys s) p of
        None \<Rightarrow> Inl OOPS
      | Some ct \<Rightarrow>
          if nf_ct_is_expired T (ct_timeout ct) then
            dump_nodes T c lst ns
              (if length (ds_evict s) < EVICT_MAX \<and> ct_use ct \<noteq> 0
               then (set_ct p (ct\<lparr>ct_use := Suc (ct_use ct)\<rparr>) s)\<lparr>ds_evict := ds_evict s @ [p]\<rparr>
               else s)
          else if dc_net c \<noteq> ct_net ct then dump_nodes T c lst ns s
          else if dir \<noteq> IP_CT_DIR_ORIGINAL then dump_nodes T c lst ns s
          else if cb_args1 s \<noteq> None \<and> Some p \<noteq> lst then dump_nodes T c lst ns s
          else
            (let s1 = s\<lparr>cb_args1 := None\<rparr> in
             if \<not> ctnetlink_filter_match (nf_ct_zone_id T) ct (dc_data c)
             then dump_nodes T c lst ns s1
             else bind_res (dump_entry T c p ct s1) (\<lambda>(stop, s2).
               if stop then Inr (True, s2) else dump_nodes T c lst ns s2)))"

text \<open>
  Termination of the loop over the buckets: a bucket is walked a second time only after
  \<open>args[1]\<close> was reset, which a walk that goes on never sets.
\<close>

lemma bind_res_cong [fundef_cong]:
  "r = r' \<Longrightarrow> (\<And>x. r' = Inr x \<Longrightarrow> f x = g x) \<Longrightarrow> bind_res r f = bind_res r' g"
  by (cases r') auto

lemma dump_evict_args:
  "dump_evict T s = Inr s' \<Longrightarrow> cb_args0 s' = cb_args0 s \<and> cb_args1 s' = cb_args1 s"
  by (auto simp: dump_evict_def)

lemma dump_entry_args:
  "dump_entry T c p ct s = Inr (False, s') \<Longrightarrow> cb_args0 s' = cb_args0 s \<and> cb_args1 s' = cb_args1 s"
  by (auto simp: dump_entry_def set_ct_def Let_def split: prod.splits sum.splits if_splits)

lemma dump_nodes_args:
  "dump_nodes T c lst ns s = Inr (False, s') \<Longrightarrow>
     cb_args0 s' = cb_args0 s \<and> (cb_args1 s' = None \<or> cb_args1 s' = cb_args1 s)"
proof (induction ns arbitrary: s)
  case (Cons n ns)
  obtain p dir where n: "n = (p, dir)" by (cases n)
  obtain ct where ct: "k_ct (ds_sys s) p = Some ct"
    using Cons.prems n by (auto split: option.splits)
  show ?case
  proof (cases "nf_ct_is_expired T (ct_timeout ct)")
    case True
    then show ?thesis using Cons.IH Cons.prems n ct by (fastforce simp: set_ct_def split: if_splits)
  next
    case False
    then show ?thesis using Cons.IH Cons.prems n ct
      by (fastforce simp: Let_def dest: dump_entry_args split: if_splits)
  qed
qed simp

function dump_buckets ::
  "('skb, 'x) tab_env_scheme \<Rightarrow> dump_call \<Rightarrow> nat option \<Rightarrow> 'skb dump_st \<Rightarrow> 'skb dump_st res" where
  "dump_buckets T c lst s =
     (if dc_size c \<le> cb_args0 s then Inr s
      else bind_res (dump_evict T s) (\<lambda>s1.
        if length (k_ht (ds_sys s1)) \<le> cb_args0 s1 then Inl OOPS
        else bind_res (dump_nodes T c lst (k_ht (ds_sys s1) ! cb_args0 s1) s1) (\<lambda>(stop, s2).
          if stop then Inr s2
          else if cb_args1 s2 \<noteq> None then dump_buckets T c lst (s2\<lparr>cb_args1 := None\<rparr>)
          else dump_buckets T c lst (s2\<lparr>cb_args0 := Suc (cb_args0 s2)\<rparr>))))"
  by pat_completeness auto
termination
proof (relation "measure (\<lambda>(T, c, lst, s).
    2 * (dc_size c - cb_args0 s) + (if cb_args1 s = None then 0 else 1))", goal_cases)
  case (2 T c lst s s1 x stop s2)
  then show ?case
    using dump_evict_args [of T s s1]
      dump_nodes_args [of T c lst "k_ht (ds_sys s1) ! cb_args0 s1" s1 s2] by auto
next
  case (3 T c lst s s1 x stop s2)
  then show ?case
    using dump_evict_args [of T s s1]
      dump_nodes_args [of T c lst "k_ht (ds_sys s1) ! cb_args0 s1" s1 s2] by auto
qed simp

declare dump_buckets.simps [simp del]

text \<open>From the label \<open>out\<close>: the reference on the entry the call started from is dropped.\<close>

definition dump_out ::
  "('skb, 'x) tab_env_scheme \<Rightarrow> nat option \<Rightarrow> 'skb dump_st \<Rightarrow> 'skb dump_st res" where
  "dump_out T lst s =
     dump_evict T
       (case lst of
          None \<Rightarrow> s
        | Some l \<Rightarrow>
            s\<lparr>cb_args1 := (if cb_args1 s = Some l then None else cb_args1 s),
              ds_sys := (ds_sys s)\<lparr>k_ct := nf_ct_put T (k_ct (ds_sys s)) l\<rparr>\<rparr>)"

definition ctnetlink_dump_table ::
  "('skb, 'x) tab_env_scheme \<Rightarrow> dump_call \<Rightarrow> 'skb dump_st \<Rightarrow> (nat \<times> 'skb dump_st) res" where
  "ctnetlink_dump_table T c s =
     bind_res (dump_buckets T c (cb_args1 s) (s\<lparr>ds_evict := []\<rparr>)) (\<lambda>s1.
     bind_res (dump_out T (cb_args1 s) s1) (\<lambda>s2. Inr (w_len T (ds_skb s2), s2)))"

text \<open>\<open>ctnetlink_done\<close>: the reference held in \<open>args[1]\<close> is dropped, the filter freed.\<close>

definition ctnetlink_done :: "('skb, 'x) tab_env_scheme \<Rightarrow> nat option \<Rightarrow> ct_store \<Rightarrow> ct_store" where
  "ctnetlink_done T args1 st = (case args1 of None \<Rightarrow> st | Some p \<Rightarrow> nf_ct_put T st p)"

section \<open>Dumping the dying list\<close>

text \<open>
  The callback state of the list dumps (\<open>struct ctnetlink_list_dump_ctx\<close>): the entry to go on
  with, and whether the list is finished.
\<close>

record list_ctx =
  ctx_last :: "nat option"
  ctx_done :: bool

definition ctnetlink_done_list :: "('skb, 'x) tab_env_scheme \<Rightarrow> list_ctx \<Rightarrow> ct_store \<Rightarrow> ct_store" where
  "ctnetlink_done_list T ctx st = (case ctx_last ctx of None \<Rightarrow> st | Some p \<Rightarrow> nf_ct_put T st p)"

record 'skb list_st =
  ls_ctx :: list_ctx
  ls_ct :: ct_store
  ls_skb :: 'skb

text \<open>The result is the code of the function, negative only when the entry did not fit.\<close>

definition ctnetlink_dump_one_entry ::
  "('skb, 'x) tab_env_scheme \<Rightarrow> dump_call \<Rightarrow> u8 \<Rightarrow> nat \<Rightarrow> bool \<Rightarrow> 'skb list_st \<Rightarrow>
   nat res \<times> 'skb list_st" where
  "ctnetlink_dump_one_entry T c l3proto p dying s =
     (case ls_ct s p of
        None \<Rightarrow> (Inl OOPS, s)
      | Some ct \<Rightarrow>
          if l3proto \<noteq> 0 \<and> ct_l3num ct \<noteq> ucast l3proto then (Inr 0, s)
          else if ctx_last (ls_ctx s) \<noteq> None \<and> ctx_last (ls_ctx s) \<noteq> Some p then (Inr 0, s)
          else
            (let s1 = s\<lparr>ls_ctx := (ls_ctx s)\<lparr>ctx_last := None\<rparr>\<rparr> in
             case ctnetlink_fill_info (T\<lparr>env_store := ls_ct s1\<rparr>) (dc_portid c) (dc_seq c)
                    (dc_type c) p ct dying 0 (ls_skb s1) of
               ((Inr n, skb'), ct') \<Rightarrow> (Inr n, s1\<lparr>ls_ct := (ls_ct s1)(p \<mapsto> ct'), ls_skb := skb'\<rparr>)
             | ((Inl e, skb'), ct') \<Rightarrow>
                 (let s2 = s1\<lparr>ls_ct := (ls_ct s1)(p \<mapsto> ct'), ls_skb := skb'\<rparr> in
                  if e = OOPS then (Inl OOPS, s2)
                  else if ct_use ct' = 0 then (Inr 0, s2)
                  else (Inl EFAIL, s2\<lparr>ls_ct := ct_get (ls_ct s2) p,
                                      ls_ctx := (ls_ctx s2)\<lparr>ctx_last := Some p\<rparr>\<rparr>))))"

definition ctnetlink_dump_unconfirmed :: "'skb list_st \<Rightarrow> nat \<times> 'skb list_st" where
  "ctnetlink_dump_unconfirmed s = (0, s)"

text \<open>\<open>nf_ct_put\<close> of a null pointer does nothing.\<close>

definition put_opt :: "('skb, 'x) tab_env_scheme \<Rightarrow> nat option \<Rightarrow> 'skb list_st \<Rightarrow> 'skb list_st" where
  "put_opt T p s = (case p of None \<Rightarrow> s | Some q \<Rightarrow> s\<lparr>ls_ct := nf_ct_put T (ls_ct s) q\<rparr>)"

text \<open>
  The loop over the dying list; \<open>lst\<close> is the local \<open>last\<close>. The flag says that the list was left
  early, because an entry did not fit.
\<close>

fun dying_loop ::
  "('skb, 'x) tab_env_scheme \<Rightarrow> dump_call \<Rightarrow> u8 \<Rightarrow> nat option \<Rightarrow> nat list \<Rightarrow> 'skb list_st \<Rightarrow>
   (bool \<times> nat option \<times> 'skb list_st) res" where
  "dying_loop T c l3 lst [] s = Inr (False, lst, s)"
| "dying_loop T c l3 lst (p # ps) s =
     (if lst \<noteq> None \<and> lst \<noteq> Some p then dying_loop T c l3 lst ps s
      else case ctnetlink_dump_one_entry T c l3 p True s of
          (Inl e, s1) \<Rightarrow> if e = OOPS then Inl OOPS else Inr (True, lst, s1)
        | (Inr _, s1) \<Rightarrow> dying_loop T c l3 None ps (put_opt T lst s1))"

definition ctnetlink_dump_dying ::
  "('skb, 'x) tab_env_scheme \<Rightarrow> dump_call \<Rightarrow> u8 \<Rightarrow> nat list \<Rightarrow> 'skb list_st \<Rightarrow>
   (nat \<times> 'skb list_st) res" where
  "ctnetlink_dump_dying T c l3 dying_list s =
     (if ctx_done (ls_ctx s) then Inr (0, s)
      else
        bind_res (dying_loop T c l3 (ctx_last (ls_ctx s)) dying_list
            (s\<lparr>ls_ctx := (ls_ctx s)\<lparr>ctx_last := None\<rparr>\<rparr>)) (\<lambda>(early, lst, s1).
          let s2 = (if early then s1 else s1\<lparr>ls_ctx := (ls_ctx s1)\<lparr>ctx_done := True\<rparr>\<rparr>);
              s3 = put_opt T lst s2
          in Inr (w_len T (ls_skb s3), s3)))"

section \<open>Flush, delete, get\<close>

definition ctnetlink_flush_iterate ::
  "('skb, 'x) tab_env_scheme \<Rightarrow> ctnetlink_filter option \<Rightarrow> nf_conn \<Rightarrow> bool" where
  "ctnetlink_flush_iterate T data ct =
     (if has_flag (ct_status ct) IPS_OFFLOAD then False
      else ctnetlink_filter_match (nf_ct_zone_id T) ct data)"

definition ctnetlink_flush_conntrack ::
  "('nla, 'y) nl_reader_scheme \<Rightarrow> ('skb, 'x) tab_env_scheme \<Rightarrow> bool \<Rightarrow> nat \<Rightarrow> 'nla attr_table \<Rightarrow> u32 \<Rightarrow>
   bool \<Rightarrow> u8 \<Rightarrow> ksys \<Rightarrow> unit res \<times> ksys" where
  "ctnetlink_flush_conntrack R T oom net cda portid report family k =
     (if ctnetlink_needs_filter family cda then
        if cda CTA_FILTER \<noteq> None then (Inl EOPNOTSUPP, k)
        else (case ctnetlink_alloc_filter R oom cda family of
                Inl e \<Rightarrow> (Inl e, k)
              | Inr f \<Rightarrow> (Inr (), nf_ct_iterate_cleanup_net T k net
                            (ctnetlink_flush_iterate T (Some f)) portid report))
      else (Inr (), nf_ct_iterate_cleanup_net T k net (ctnetlink_flush_iterate T None) portid report))"

text \<open>
  The lookup \<open>del\<close> and \<open>get\<close> share: zone, then the original or the reply tuple; \<open>None\<close>
  when neither is given.
\<close>

definition request_tuple ::
  "('nla, 'y) nl_reader_scheme \<Rightarrow> 'nla attr_table \<Rightarrow> u8 \<Rightarrow>
   (nf_conntrack_tuple \<times> nf_conntrack_zone) option res" where
  "request_tuple R cda family =
     bind_res (ctnetlink_parse_zone R (cda CTA_ZONE)) (\<lambda>zone.
       if cda CTA_TUPLE_ORIG = None \<and> cda CTA_TUPLE_REPLY = None then Inr None
       else
         (let type = (if cda CTA_TUPLE_ORIG \<noteq> None then CTA_TUPLE_ORIG else CTA_TUPLE_REPLY) in
          bind_res (ctnetlink_parse_tuple R cda type family (Some zone)) (\<lambda>(tuple, zone').
            Inr (Some (tuple, case zone' of None \<Rightarrow> zone | Some z \<Rightarrow> z)))))"

definition drop_ref :: "('skb, 'x) tab_env_scheme \<Rightarrow> nat \<Rightarrow> ksys \<Rightarrow> ksys" where
  "drop_ref T p k = k\<lparr>k_ct := nf_ct_put T (k_ct k) p\<rparr>"

definition ctnetlink_del_conntrack ::
  "('nla, 'y) nl_reader_scheme \<Rightarrow> ('skb, 'x) tab_env_scheme \<Rightarrow> bool \<Rightarrow> nfnl_info \<Rightarrow> 'nla attr_table \<Rightarrow>
   ksys \<Rightarrow> unit res \<times> ksys" where
  "ctnetlink_del_conntrack R T oom info cda k =
     (case request_tuple R cda (nfgen_family info) of
        Inl e \<Rightarrow> (Inl e, k)
      | Inr None \<Rightarrow>
          (let u3 = (if nfgen_version info \<noteq> 0 then nfgen_family info else 0) in
           ctnetlink_flush_conntrack R T oom (info_net info) cda (info_portid info)
             (info_report info) u3 k)
      | Inr (Some (tuple, zone)) \<Rightarrow>
          (case nf_conntrack_find_get T (k_ct k) (info_net info) zone tuple of
             (None, st1) \<Rightarrow> (Inl ENOENT, k\<lparr>k_ct := st1\<rparr>)
           | (Some p, st1) \<Rightarrow>
               (let k1 = k\<lparr>k_ct := st1\<rparr> in
                case st1 p of
                  None \<Rightarrow> (Inl OOPS, k1)
                | Some ct \<Rightarrow>
                    if has_flag (ct_status ct) IPS_OFFLOAD then (Inl EBUSY, drop_ref T p k1)
                    else if (case cda CTA_ID of None \<Rightarrow> False
                             | Some a \<Rightarrow> nla_get_be32 R a \<noteq> nf_ct_get_id T p ct)
                    then (Inl ENOENT, drop_ref T p k1)
                    else (Inr (), drop_ref T p
                           (nf_ct_delete T k1 p (info_portid info) (info_report info))))))"

text \<open>
  The operations of a dump request (\<open>struct netlink_dump_control\<close>) and the outcome of a get: a
  dump is started with the kernel's dump machinery, or a reply is sent.
\<close>

datatype dump_ops = Dump_table | Dump_dying | Dump_unconfirmed

datatype 'skb get_outcome = Started dump_ops | Sent 'skb "unit res" | Failed errno

text \<open>\<open>NLMSG_DEFAULT_SIZE\<close>: a page less the overhead of a socket buffer and the header.\<close>

abbreviation (input) NLMSG_DEFAULT_SIZE :: nat where "NLMSG_DEFAULT_SIZE \<equiv> 3760"

definition ctnetlink_get_conntrack ::
  "('nla, 'y) nl_reader_scheme \<Rightarrow> ('skb, 'x) tab_env_scheme \<Rightarrow> nfnl_info \<Rightarrow> 'nla attr_table \<Rightarrow>
   ct_store \<Rightarrow> 'skb get_outcome \<times> ct_store" where
  "ctnetlink_get_conntrack R T info cda st =
     (if nlmsg_flags info AND NLM_F_DUMP \<noteq> 0 then (Started Dump_table, st)
      else case request_tuple R cda (nfgen_family info) of
          Inl e \<Rightarrow> (Failed e, st)
        | Inr None \<Rightarrow> (Failed EINVAL, st)
        | Inr (Some (tuple, zone)) \<Rightarrow>
            (case nf_conntrack_find_get T st (info_net info) zone tuple of
               (None, st1) \<Rightarrow> (Failed ENOENT, st1)
             | (Some p, st1) \<Rightarrow>
                 (case nlmsg_new T NLMSG_DEFAULT_SIZE of
                    None \<Rightarrow> (Failed ENOMEM, nf_ct_put T st1 p)
                  | Some skb2 \<Rightarrow>
                      (case st1 p of
                         None \<Rightarrow> (Failed OOPS, st1)
                       | Some ct \<Rightarrow>
                           (case ctnetlink_fill_info (T\<lparr>env_store := st1\<rparr>) (info_portid info)
                                   (nlmsg_seq info) (nlmsg_type info mod 256) p ct True 0 skb2 of
                              ((r, skb3), ct') \<Rightarrow>
                                (let st2 = nf_ct_put T (st1(p \<mapsto> ct')) p in
                                 case r of
                                   Inl e \<Rightarrow> (Failed (if e = OOPS then OOPS else ENOMEM), st2)
                                 | Inr n \<Rightarrow>
                                     if n = 0 then (Failed ENOMEM, st2)
                                     else (Sent skb3 (nfnetlink_unicast T skb3 (info_net info)
                                                        (info_portid info)), st2)))))))"

definition ctnetlink_get_ct_dying :: "nfnl_info \<Rightarrow> 'skb get_outcome" where
  "ctnetlink_get_ct_dying info =
     (if nlmsg_flags info AND NLM_F_DUMP \<noteq> 0 then Started Dump_dying else Failed EOPNOTSUPP)"

definition ctnetlink_get_ct_unconfirmed :: "nfnl_info \<Rightarrow> 'skb get_outcome" where
  "ctnetlink_get_ct_unconfirmed info =
     (if nlmsg_flags info AND NLM_F_DUMP \<noteq> 0 then Started Dump_unconfirmed else Failed EOPNOTSUPP)"

end
