(* ===== verification/Ct_Event.thy ===== *)
theory Ct_Event
  imports Ct_Table
begin

text \<open>
  Event messages (\<open>kmod/vgw_ct_netlink.c\<close>): the size the module allocates for a message
  about a connection, from \<open>ctnetlink_label_size\<close> to \<open>ctnetlink_nlmsg_size\<close>, and the
  handler \<open>ctnetlink_conntrack_event\<close> that writes and sends it.
\<close>

section \<open>Kernel interface\<close>

text \<open>
  \<open>nla_policy_len\<close> is the space the attributes of a policy take; \<open>nfnetlink_has_listeners\<close> and
  \<open>nfnetlink_set_err\<close> take a namespace and a multicast group, \<open>nfnetlink_send\<close> returns its code.
\<close>

record 'skb event_env = "'skb tab_env" +
  nla_policy_len :: "nla_policy \<Rightarrow> nat \<Rightarrow> nat"
  nfnetlink_has_listeners :: "nat \<Rightarrow> nat \<Rightarrow> bool"
  nfnetlink_send :: "'skb \<Rightarrow> nat \<Rightarrow> u32 \<Rightarrow> nat \<Rightarrow> bool \<Rightarrow> unit res"
  nfnetlink_set_err :: "nat \<Rightarrow> u32 \<Rightarrow> nat \<Rightarrow> errno \<Rightarrow> nat"

abbreviation (input) NF_CT_HELPER_NAME_LEN :: nat where "NF_CT_HELPER_NAME_LEN \<equiv> 16"
abbreviation (input) NFNLGRP_CONNTRACK_NEW :: nat where "NFNLGRP_CONNTRACK_NEW \<equiv> 1"
abbreviation (input) NFNLGRP_CONNTRACK_UPDATE :: nat where "NFNLGRP_CONNTRACK_UPDATE \<equiv> 2"
abbreviation (input) NFNLGRP_CONNTRACK_DESTROY :: nat where "NFNLGRP_CONNTRACK_DESTROY \<equiv> 3"

text \<open>On x86-64 a 64-bit attribute needs no padding attribute.\<close>

definition nla_total_size_64bit :: "nat \<Rightarrow> nat" where
  "nla_total_size_64bit payload = nla_total_size payload"

section \<open>Sizes\<close>

definition ctnetlink_label_size :: "nf_conn \<Rightarrow> nat" where
  "ctnetlink_label_size ct = (case ext_labels ct of None \<Rightarrow> 0 | Some _ \<Rightarrow> nla_total_size 16)"

definition ctnetlink_proto_size :: "('skb, 'x) event_env_scheme \<Rightarrow> nf_conn \<Rightarrow> nat" where
  "ctnetlink_proto_size T ct =
     (let len = nla_policy_len T cta_ip_nla_policy (CTA_IP_MAX + 1) * 3 + l4_nlattr_size T (ct_protonum ct);
          len4 = (case l4_nlattr_tuple_size T (ct_protonum ct) of None \<Rightarrow> 0 | Some n \<Rightarrow> n * 3)
      in len + len4)"

definition ctnetlink_acct_size :: "nf_conn \<Rightarrow> nat" where
  "ctnetlink_acct_size ct =
     (case ext_acct ct of
        None \<Rightarrow> 0
      | Some _ \<Rightarrow> 2 * nla_total_size 0 + 2 * nla_total_size_64bit 8 + 2 * nla_total_size_64bit 8)"

definition ctnetlink_secctx_size :: "('skb, 'x) dump_env_scheme \<Rightarrow> nf_conn \<Rightarrow> nat" where
  "ctnetlink_secctx_size T ct =
     (case secid_to_secctx T (ct_secmark ct) of
        None \<Rightarrow> 0
      | Some (_, len) \<Rightarrow> nla_total_size 0 + nla_total_size len)"

definition ctnetlink_timestamp_size :: "nf_conn \<Rightarrow> nat" where
  "ctnetlink_timestamp_size ct =
     (case ext_tstamp ct of None \<Rightarrow> 0 | Some _ \<Rightarrow> nla_total_size 0 + 2 * nla_total_size_64bit 8)"

definition ctnetlink_nlmsg_size :: "('skb, 'x) event_env_scheme \<Rightarrow> nf_conn \<Rightarrow> nat" where
  "ctnetlink_nlmsg_size T ct =
     4
     + 3 * nla_total_size 0
     + 3 * nla_total_size 0
     + 3 * nla_total_size 0
     + 3 * nla_total_size 1
     + nla_total_size 4
     + nla_total_size 4
     + ctnetlink_acct_size ct
     + ctnetlink_timestamp_size ct
     + nla_total_size 4
     + nla_total_size 0
     + nla_total_size 0
     + nla_total_size NF_CT_HELPER_NAME_LEN
     + ctnetlink_secctx_size T ct
     + 2 * nla_total_size 0
     + 6 * nla_total_size 4
     + nla_total_size 4
     + nla_total_size 2
     + ctnetlink_proto_size T ct
     + ctnetlink_label_size ct"

section \<open>The event handler\<close>

text \<open>\<open>struct nf_ct_event\<close>: the connection (and its address), the requester, whether to report.\<close>

record nf_ct_event =
  ev_addr :: nat
  ev_ct :: nf_conn
  ev_portid :: u32
  ev_report :: bool

text \<open>Message type, header flags and multicast group of an event; \<open>None\<close> when nothing happened.\<close>

definition event_kind :: "u32 \<Rightarrow> (nat \<times> u32 \<times> nat) option" where
  "event_kind events =
     (if events AND IPCT_DESTROY_BIT \<noteq> 0
      then Some (IPCTNL_MSG_CT_DELETE, 0, NFNLGRP_CONNTRACK_DESTROY)
      else if events AND (IPCT_NEW_BIT OR IPCT_RELATED_BIT) \<noteq> 0
      then Some (IPCTNL_MSG_CT_NEW, NLM_F_CREATE OR NLM_F_EXCL, NFNLGRP_CONNTRACK_NEW)
      else if events \<noteq> 0
      then Some (IPCTNL_MSG_CT_NEW, 0, NFNLGRP_CONNTRACK_UPDATE)
      else None)"

text \<open>
  The attributes of an event. The message type handed to \<open>ctnetlink_dump_acct\<close> carries the
  subsystem and is never \<open>IPCTNL_MSG_CT_GET_CTRZERO\<close>: the counters stay as they are.
\<close>

definition event_body ::
  "('skb, 'x) dump_env_scheme \<Rightarrow> u32 \<Rightarrow> nat \<Rightarrow> nat \<Rightarrow> nf_conn \<Rightarrow> 'skb action" where
  "event_body T events type a ct =
     run_acts [
       dump_head T ct,
       ctnetlink_dump_id T a ct,
       ctnetlink_dump_status T ct,
       (if events AND IPCT_DESTROY_BIT \<noteq> 0 then
          run_acts [
            ctnetlink_dump_timeout T ct True,
            (\<lambda>skb. fst (ctnetlink_dump_acct T ct type skb)),
            ctnetlink_dump_timestamp T ct,
            ctnetlink_dump_protoinfo T ct True 0]
        else
          run_acts [
            ctnetlink_dump_timeout T ct False,
            act_when (events AND IPCT_PROTOINFO_BIT \<noteq> 0) (ctnetlink_dump_protoinfo T ct False 0),
            act_when (events AND IPCT_HELPER_BIT \<noteq> 0 \<or> ext_help ct \<noteq> None) (ctnetlink_dump_helpinfo T ct),
            act_when (events AND IPCT_SECMARK_BIT \<noteq> 0 \<or> ct_secmark ct \<noteq> 0) (ctnetlink_dump_secctx T ct),
            act_when (events AND IPCT_LABEL_BIT \<noteq> 0) (ctnetlink_dump_labels T ct),
            act_when (events AND IPCT_RELATED_BIT \<noteq> 0) (ctnetlink_dump_master T ct),
            act_when (events AND IPCT_SEQADJ_BIT \<noteq> 0) (ctnetlink_dump_ct_seq_adj T ct),
            act_when (events AND IPCT_SYNPROXY_BIT \<noteq> 0) (ctnetlink_dump_ct_synproxy T ct)]),
       ctnetlink_dump_mark T ct (events AND IPCT_MARK_BIT \<noteq> 0)]"

text \<open>
  What became of the event: nothing to send, sent to a group, or lost with the listeners of the
  group told about it; the code is that of the handler.
\<close>

datatype 'skb event_outcome =
    Ev_none | Ev_sent 'skb nat "unit res" | Ev_lost nat "unit res" | Ev_fault

definition event_lost :: "('skb, 'x) event_env_scheme \<Rightarrow> nat \<Rightarrow> nat \<Rightarrow> 'skb event_outcome" where
  "event_lost T net grp =
     Ev_lost grp (if 0 < nfnetlink_set_err T net 0 grp ENOBUFS then Inl ENOBUFS else Inr ())"

definition ctnetlink_conntrack_event ::
  "('skb, 'x) event_env_scheme \<Rightarrow> u32 \<Rightarrow> nf_ct_event \<Rightarrow> 'skb event_outcome" where
  "ctnetlink_conntrack_event T events item =
     (case event_kind events of
        None \<Rightarrow> Ev_none
      | Some (mtype, flags, grp) \<Rightarrow>
          (let ct = ev_ct item; net = ct_net ct in
           if \<not> ev_report item \<and> \<not> nfnetlink_has_listeners T net grp then Ev_none
           else case nlmsg_new T (ctnetlink_nlmsg_size T ct) of
               None \<Rightarrow> event_lost T net grp
             | Some skb \<Rightarrow>
                 (let type = nfnl_msg_type NFNL_SUBSYS_CTNETLINK mtype in
                  case message T (ct_msg (ev_portid item) 0 type ct flags)
                         (event_body T events type (ev_addr item) ct) skb of
                    (Inl e, _) \<Rightarrow> if e = OOPS then Ev_fault else event_lost T net grp
                  | (Inr _, skb') \<Rightarrow>
                      Ev_sent skb' grp
                        (case nfnetlink_send T skb' net (ev_portid item) grp (ev_report item) of
                           Inl e \<Rightarrow> if e = ENOBUFS \<or> e = EAGAIN then Inl ENOBUFS else Inr ()
                         | Inr _ \<Rightarrow> Inr ()))))"

end
