(* ===== verification/Ct_Change.thy ===== *)
theory Ct_Change
  imports Ct_Table
begin

text \<open>
  Changing and creating connections (\<open>kmod/vgw_ct_netlink.c\<close>, from
  \<open>ctnetlink_parse_nat_setup\<close> to \<open>ctnetlink_new_conntrack\<close>). A change acts on one connection;
  what it does elsewhere in the kernel is recorded as a list of calls. Locks and RCU sections are
  not modelled.
\<close>

section \<open>Kernel interface\<close>

datatype kcall =
    Remove_expectations
  | Request_module string
  | Event_report u32 nat u32 bool

datatype nf_nat_manip_type = NF_NAT_MANIP_SRC | NF_NAT_MANIP_DST

text \<open>A connection under change, and the calls made so far.\<close>

record chg =
  c_ct :: nf_conn
  c_calls :: "kcall list"

text \<open>A kernel function that may fail and may change the connection it is given.\<close>

type_synonym ct_fn = "nf_conn \<Rightarrow> unit res \<times> nf_conn"

text \<open>
  \<open>nla_bytes\<close> is \<open>nla_data\<close> with \<open>nla_len\<close>. \<open>nat_hook\<close> is \<open>nf_nat_hook\<close> before, and
  \<open>nat_hook_after\<close> whether there is one after the module was loaded; likewise
  \<open>helper_find\<close> and \<open>helper_find_after\<close> are \<open>__nf_conntrack_helper_find\<close> before and after a
  module load. \<open>request_module\<close> says whether loading succeeds.
\<close>

record 'nla chg_env = "'nla nl_reader" +
  nla_bytes :: "'nla \<Rightarrow> u8 list"
  chg_HZ :: nat
  request_module :: "string \<Rightarrow> bool"
  nat_hook :: "(nf_nat_manip_type \<Rightarrow> 'nla option \<Rightarrow> ct_fn) option"
  nat_hook_after :: bool
  nat_l3_module :: "u16 \<Rightarrow> string"
  nf_ct_change_status_common :: "u32 \<Rightarrow> ct_fn"
  nf_ct_change_timeout :: "u64 \<Rightarrow> ct_fn"
  l4_from_nlattr :: "u8 \<Rightarrow> ('nla attr_table \<Rightarrow> ct_fn) option"
  helper_find :: "string \<Rightarrow> u16 \<Rightarrow> u8 \<Rightarrow> nf_conntrack_helper option"
  helper_find_after :: "string \<Rightarrow> u16 \<Rightarrow> u8 \<Rightarrow> nf_conntrack_helper option"
  hlp_from_nlattr :: "nat \<Rightarrow> ('nla option \<Rightarrow> nf_conn \<Rightarrow> nf_conn) option"
  nf_connlabels_replace :: "u8 list \<Rightarrow> u8 list option \<Rightarrow> nat \<Rightarrow> ct_fn"

definition on_ct :: "ct_fn \<Rightarrow> chg action" where
  "on_ct f s = (case f (c_ct s) of (r, ct') \<Rightarrow> (r, s\<lparr>c_ct := ct'\<rparr>))"

definition call :: "kcall \<Rightarrow> chg \<Rightarrow> chg" where
  "call k s = s\<lparr>c_calls := c_calls s @ [k]\<rparr>"

section \<open>Single changes\<close>

definition ctnetlink_parse_nat_setup ::
  "('nla, 'x) chg_env_scheme \<Rightarrow> nf_nat_manip_type \<Rightarrow> 'nla option \<Rightarrow> chg action" where
  "ctnetlink_parse_nat_setup C manip attr s =
     (case nat_hook C of
        None \<Rightarrow>
          (let s1 = call (Request_module ''nf-nat'') s in
           if \<not> request_module C ''nf-nat'' then (Inl EOPNOTSUPP, s1)
           else if nat_hook_after C then (Inl EAGAIN, s1)
           else (Inl EOPNOTSUPP, s1))
      | Some parse_nat_setup \<Rightarrow>
          (case on_ct (parse_nat_setup manip attr) s of
             (Inl e, s1) \<Rightarrow>
               if e = EAGAIN then
                 (let name = nat_l3_module C (ct_l3num (c_ct s1));
                      s2 = call (Request_module name) s1
                  in if \<not> request_module C name then (Inl EOPNOTSUPP, s2) else (Inl EAGAIN, s2))
               else (Inl e, s1)
           | (Inr _, s1) \<Rightarrow> (Inr (), s1)))"

text \<open>An absent attribute the code does not test is a null pointer.\<close>

definition need :: "'nla option \<Rightarrow> ('nla \<Rightarrow> chg action) \<Rightarrow> chg action" where
  "need a f s = (case a of None \<Rightarrow> (Inl OOPS, s) | Some x \<Rightarrow> f x s)"

definition ctnetlink_change_status ::
  "('nla, 'x) chg_env_scheme \<Rightarrow> 'nla attr_table \<Rightarrow> chg action" where
  "ctnetlink_change_status C cda =
     need (cda CTA_STATUS) (\<lambda>a. on_ct (nf_ct_change_status_common C (ntohl (nla_get_be32 C a))))"

definition ctnetlink_setup_nat ::
  "('nla, 'x) chg_env_scheme \<Rightarrow> 'nla attr_table \<Rightarrow> chg action" where
  "ctnetlink_setup_nat C cda =
     (if cda CTA_NAT_DST = None \<and> cda CTA_NAT_SRC = None then run_acts []
      else run_acts [ctnetlink_parse_nat_setup C NF_NAT_MANIP_DST (cda CTA_NAT_DST),
                     ctnetlink_parse_nat_setup C NF_NAT_MANIP_SRC (cda CTA_NAT_SRC)])"

definition set_helper :: "nf_conntrack_helper option \<Rightarrow> nf_conn \<Rightarrow> nf_conn" where
  "set_helper h ct = ct\<lparr>ext_help := map_option (\<lambda>help. help\<lparr>help_helper := h\<rparr>) (ext_help ct)\<rparr>"

definition from_nlattr ::
  "('nla, 'x) chg_env_scheme \<Rightarrow> nf_conntrack_helper \<Rightarrow> 'nla option \<Rightarrow> nf_conn \<Rightarrow> nf_conn" where
  "from_nlattr C helper helpinfo ct =
     (case hlp_from_nlattr C (hlp_ptr helper) of None \<Rightarrow> ct | Some f \<Rightarrow> f helpinfo ct)"

definition ctnetlink_change_helper ::
  "('nla, 'x) chg_env_scheme \<Rightarrow> 'nla attr_table \<Rightarrow> chg action" where
  "ctnetlink_change_helper C cda =
     need (cda CTA_HELP) (\<lambda>a s.
       case ctnetlink_parse_help C a of
         Inl e \<Rightarrow> (Inl e, s)
       | Inr (helpname, helpinfo) \<Rightarrow>
           (let ct = c_ct s; helper0 = Option.bind (ext_help ct) help_helper in
            if ct_master ct \<noteq> None then
              (case helper0 of
                 Some h \<Rightarrow> if hlp_name h = helpname then (Inr (), s) else (Inl EBUSY, s)
               | None \<Rightarrow> (Inl EBUSY, s))
            else if helpname = '''' then
              (case helper0 of
                 Some _ \<Rightarrow> (Inr (), (call Remove_expectations s)\<lparr>c_ct := set_helper None ct\<rparr>)
               | None \<Rightarrow> (Inr (), s))
            else
              (case helper_find C helpname (ct_l3num ct) (ct_protonum ct) of
                 None \<Rightarrow> (Inl EOPNOTSUPP, s)
               | Some h \<Rightarrow>
                   if ext_help ct = None then (Inl EOPNOTSUPP, s)
                   else if map_option hlp_ptr helper0 = Some (hlp_ptr h)
                   then (Inr (), s\<lparr>c_ct := from_nlattr C h helpinfo ct\<rparr>)
                   else (Inl EBUSY, s))))"

text \<open>The seconds of the attribute as clock ticks, a 64-bit product.\<close>

definition attr_ticks :: "('nla, 'x) chg_env_scheme \<Rightarrow> 'nla \<Rightarrow> u64" where
  "attr_ticks C a = ucast (ntohl (nla_get_be32 C a)) * of_nat (chg_HZ C)"

definition ctnetlink_change_timeout ::
  "('nla, 'x) chg_env_scheme \<Rightarrow> 'nla attr_table \<Rightarrow> chg action" where
  "ctnetlink_change_timeout C cda =
     need (cda CTA_TIMEOUT) (\<lambda>a. on_ct (nf_ct_change_timeout C (attr_ticks C a)))"

definition new_mark :: "('nla, 'x) nl_reader_scheme \<Rightarrow> 'nla attr_table \<Rightarrow> 'nla \<Rightarrow> u32 \<Rightarrow> u32" where
  "new_mark C cda a old =
     (let mask = (case cda CTA_MARK_MASK of None \<Rightarrow> 0 | Some m \<Rightarrow> NOT (ntohl (nla_get_be32 C m)));
          mark = ntohl (nla_get_be32 C a)
      in (old AND mask) XOR mark)"

definition ctnetlink_change_mark ::
  "('nla, 'x) chg_env_scheme \<Rightarrow> 'nla attr_table \<Rightarrow> chg action" where
  "ctnetlink_change_mark C cda =
     need (cda CTA_MARK) (\<lambda>a s.
       let newmark = new_mark C cda a (ct_mark (c_ct s)) in
       (Inr (), if newmark \<noteq> ct_mark (c_ct s) then s\<lparr>c_ct := (c_ct s)\<lparr>ct_mark := newmark\<rparr>\<rparr> else s))"

definition protoinfo_policy :: nla_policy where
  "protoinfo_policy = [(CTA_PROTOINFO_TCP, NLA_NESTED, 0), (CTA_PROTOINFO_DCCP, NLA_NESTED, 0),
     (CTA_PROTOINFO_SCTP, NLA_NESTED, 0)]"

definition ctnetlink_change_protoinfo ::
  "('nla, 'x) chg_env_scheme \<Rightarrow> 'nla attr_table \<Rightarrow> chg action" where
  "ctnetlink_change_protoinfo C cda =
     need (cda CTA_PROTOINFO) (\<lambda>a s.
       case nla_parse_nested_deprecated C CTA_PROTOINFO_MAX a protoinfo_policy of
         Inl e \<Rightarrow> (Inl e, s)
       | Inr tb \<Rightarrow>
           (case l4_from_nlattr C (ct_protonum (c_ct s)) of
              None \<Rightarrow> (Inr (), s)
            | Some f \<Rightarrow> on_ct (f tb) s))"

definition seqadj_policy :: nla_policy where
  "seqadj_policy = [(CTA_SEQADJ_CORRECTION_POS, NLA_U32, 0), (CTA_SEQADJ_OFFSET_BEFORE, NLA_U32, 0),
     (CTA_SEQADJ_OFFSET_AFTER, NLA_U32, 0)]"

text \<open>The fields are assigned one by one: a missing attribute leaves the earlier ones changed.\<close>

definition seq_field ::
  "('nla, 'x) nl_reader_scheme \<Rightarrow> 'nla option \<Rightarrow> (u32 \<Rightarrow> nf_ct_seqadj \<Rightarrow> nf_ct_seqadj) \<Rightarrow>
   nf_ct_seqadj action" where
  "seq_field R a upd seq =
     (case a of None \<Rightarrow> (Inl EINVAL, seq) | Some x \<Rightarrow> (Inr (), upd (ntohl (nla_get_be32 R x)) seq))"

definition change_seq_adj ::
  "('nla, 'x) nl_reader_scheme \<Rightarrow> 'nla \<Rightarrow> nf_ct_seqadj action" where
  "change_seq_adj R attr seq =
     (case nla_parse_nested_deprecated R CTA_SEQADJ_MAX attr seqadj_policy of
        Inl e \<Rightarrow> (Inl e, seq)
      | Inr tb \<Rightarrow>
          run_acts [
            seq_field R (tb CTA_SEQADJ_CORRECTION_POS) (\<lambda>v q. q\<lparr>correction_pos := v\<rparr>),
            seq_field R (tb CTA_SEQADJ_OFFSET_BEFORE) (\<lambda>v q. q\<lparr>offset_before := v\<rparr>),
            seq_field R (tb CTA_SEQADJ_OFFSET_AFTER) (\<lambda>v q. q\<lparr>offset_after := v\<rparr>)] seq)"

text \<open>One direction: the change, and the status bit once it succeeded.\<close>

definition seq_dir ::
  "('nla, 'x) nl_reader_scheme \<Rightarrow> 'nla option \<Rightarrow> bool \<Rightarrow> chg action" where
  "seq_dir R attr reply s =
     (case (attr, ext_seqadj (c_ct s)) of
        (Some a, Some (q0, q1)) \<Rightarrow>
          (case change_seq_adj R a (if reply then q1 else q0) of
             (r, q) \<Rightarrow>
               (let ct1 = (c_ct s)\<lparr>ext_seqadj := Some (if reply then (q0, q) else (q, q1))\<rparr> in
                case r of
                  Inl e \<Rightarrow> (Inl e, s\<lparr>c_ct := ct1\<rparr>)
                | Inr _ \<Rightarrow> (Inr (), s\<lparr>c_ct := ct1\<lparr>ct_status := ct_status ct1 OR IPS_SEQ_ADJUST\<rparr>\<rparr>)))
      | _ \<Rightarrow> (Inr (), s))"

definition ctnetlink_change_seq_adj ::
  "('nla, 'x) chg_env_scheme \<Rightarrow> 'nla attr_table \<Rightarrow> chg action" where
  "ctnetlink_change_seq_adj C cda s =
     (if ext_seqadj (c_ct s) = None then (Inr (), s)
      else run_acts [seq_dir C (cda CTA_SEQ_ADJ_ORIG) False, seq_dir C (cda CTA_SEQ_ADJ_REPLY) True] s)"

definition synproxy_policy :: nla_policy where
  "synproxy_policy = [(CTA_SYNPROXY_ISN, NLA_U32, 0), (CTA_SYNPROXY_ITS, NLA_U32, 0),
     (CTA_SYNPROXY_TSOFF, NLA_U32, 0)]"

definition ctnetlink_change_synproxy ::
  "('nla, 'x) chg_env_scheme \<Rightarrow> 'nla attr_table \<Rightarrow> chg action" where
  "ctnetlink_change_synproxy C cda s =
     (if ext_synproxy (c_ct s) = None then (Inr (), s)
      else need (cda CTA_SYNPROXY) (\<lambda>a s.
        case nla_parse_nested_deprecated C CTA_SYNPROXY_MAX a synproxy_policy of
          Inl e \<Rightarrow> (Inl e, s)
        | Inr tb \<Rightarrow>
            (case (tb CTA_SYNPROXY_ISN, tb CTA_SYNPROXY_ITS, tb CTA_SYNPROXY_TSOFF) of
               (Some i, Some t, Some o') \<Rightarrow>
                 (Inr (), s\<lparr>c_ct := (c_ct s)\<lparr>ext_synproxy :=
                    Some \<lparr>sp_isn = ntohl (nla_get_be32 C i), sp_its = ntohl (nla_get_be32 C t),
                          sp_tsoff = ntohl (nla_get_be32 C o')\<rparr>\<rparr>\<rparr>)
             | _ \<Rightarrow> (Inl EINVAL, s))) s)"

definition ctnetlink_attach_labels ::
  "('nla, 'x) chg_env_scheme \<Rightarrow> 'nla attr_table \<Rightarrow> chg action" where
  "ctnetlink_attach_labels C cda =
     need (cda CTA_LABELS) (\<lambda>a s.
       let len = length (nla_bytes C a); mask = map_option (nla_bytes C) (cda CTA_LABELS_MASK) in
       if len mod 4 \<noteq> 0 then (Inl EINVAL, s)
       else if (case mask of None \<Rightarrow> False | Some m \<Rightarrow> length m = 0 \<or> length m \<noteq> len)
       then (Inl EINVAL, s)
       else on_ct (nf_connlabels_replace C (nla_bytes C a) mask (len div 4)) s)"

section \<open>Changing a connection\<close>

definition ctnetlink_change_conntrack ::
  "('nla, 'x) chg_env_scheme \<Rightarrow> 'nla attr_table \<Rightarrow> chg action" where
  "ctnetlink_change_conntrack C cda s =
     (if cda CTA_NAT_SRC \<noteq> None \<or> cda CTA_NAT_DST \<noteq> None \<or> cda CTA_TUPLE_MASTER \<noteq> None
      then (Inl EOPNOTSUPP, s)
      else run_acts [
        act_when (cda CTA_HELP \<noteq> None) (ctnetlink_change_helper C cda),
        act_when (cda CTA_TIMEOUT \<noteq> None) (ctnetlink_change_timeout C cda),
        act_when (cda CTA_STATUS \<noteq> None) (ctnetlink_change_status C cda),
        act_when (cda CTA_PROTOINFO \<noteq> None) (ctnetlink_change_protoinfo C cda),
        act_when (cda CTA_MARK \<noteq> None) (ctnetlink_change_mark C cda),
        act_when (cda CTA_SEQ_ADJ_ORIG \<noteq> None \<or> cda CTA_SEQ_ADJ_REPLY \<noteq> None)
          (ctnetlink_change_seq_adj C cda),
        act_when (cda CTA_SYNPROXY \<noteq> None) (ctnetlink_change_synproxy C cda),
        act_when (cda CTA_LABELS \<noteq> None) (ctnetlink_attach_labels C cda)] s)"

section \<open>Creating a connection\<close>

text \<open>
  Further kernel functions: allocation (\<open>None\<close> is an error pointer), the extension areas,
  \<open>__nf_ct_try_assign_helper\<close>, \<open>__nf_ct_set_timeout\<close>, the clock, and the insertion into the hash
  table, which fails with a code or gives the kernel state with the connection linked at its
  address.
\<close>

record 'nla new_env = "'nla chg_env" +
  nf_conntrack_alloc :: "nat \<Rightarrow> nf_conntrack_zone \<Rightarrow> nf_conntrack_tuple \<Rightarrow> nf_conntrack_tuple \<Rightarrow>
    (nat \<times> nf_conn) option"
  nf_ct_helper_ext_add :: "nf_conn \<Rightarrow> nf_conn option"
  nf_ct_try_assign_helper :: ct_fn
  nf_ct_acct_ext_add :: "nf_conn \<Rightarrow> nf_conn"
  nf_ct_tstamp_ext_add :: "nf_conn \<Rightarrow> nf_conn"
  nf_ct_ecache_ext_add :: "nf_conn \<Rightarrow> nf_conn"
  nf_ct_labels_ext_add :: "nf_conn \<Rightarrow> nf_conn"
  nfct_seqadj_ext_add :: "nf_conn \<Rightarrow> nf_conn"
  nfct_synproxy_ext_add :: "nf_conn \<Rightarrow> nf_conn"
  nf_ct_set_timeout :: "u64 \<Rightarrow> nf_conn \<Rightarrow> nf_conn"
  ktime_get_real_ns :: u64
  nf_conntrack_hash_check_insert :: "ksys \<Rightarrow> nat \<Rightarrow> nf_conn \<Rightarrow> ksys res"

definition zero_proto :: ip_ct_tcp where
  "zero_proto =
     (let z = \<lparr>td_end = 0, td_maxend = 0, td_maxwin = 0, td_maxack = 0, td_scale = 0, tcp_flags = 0\<rparr>
      in \<lparr>seen0 = z, seen1 = z, tcp_state = 0, last_dir = 0, retrans = 0, last_index = 0,
          last_seq = 0, last_ack = 0, last_end = 0, last_win = 0, last_wscale = 0, last_flags = 0\<rparr>)"

definition upd_ct :: "(nf_conn \<Rightarrow> nf_conn) \<Rightarrow> chg action" where
  "upd_ct f s = (Inr (), s\<lparr>c_ct := f (c_ct s)\<rparr>)"

text \<open>The helper of a new connection: the named one, or an implicit assignment.\<close>

definition create_helper :: "('nla, 'x) new_env_scheme \<Rightarrow> 'nla attr_table \<Rightarrow> chg action" where
  "create_helper C cda s =
     (case cda CTA_HELP of
        None \<Rightarrow> on_ct (nf_ct_try_assign_helper C) s
      | Some a \<Rightarrow>
          (case ctnetlink_parse_help C a of
             Inl e \<Rightarrow> (Inl e, s)
           | Inr (helpname, helpinfo) \<Rightarrow>
               (let ct = c_ct s in
                case helper_find C helpname (ct_l3num ct) (ct_protonum ct) of
                  None \<Rightarrow>
                    (let name = ''nfct-helper-'' @ helpname; s1 = call (Request_module name) s in
                     if \<not> request_module C name then (Inl EOPNOTSUPP, s1)
                     else if helper_find_after C helpname (ct_l3num ct) (ct_protonum ct) \<noteq> None
                     then (Inl EAGAIN, s1)
                     else (Inl EOPNOTSUPP, s1))
                | Some h \<Rightarrow>
                    (case nf_ct_helper_ext_add C ct of
                       None \<Rightarrow> (Inl ENOMEM, s)
                     | Some ct1 \<Rightarrow>
                         (let ct2 = from_nlattr C h helpinfo ct1;
                              ct3 = set_helper (Some h) (ct2\<lparr>ct_status := ct_status ct2 OR IPS_HELPER\<rparr>)
                          in (Inr (), s\<lparr>c_ct := ct3\<rparr>))))))"

text \<open>Everything between allocation and the master connection, in the order of the code.\<close>

definition create_setup :: "('nla, 'x) new_env_scheme \<Rightarrow> 'nla attr_table \<Rightarrow> 'nla \<Rightarrow> chg action" where
  "create_setup C cda timeout_attr =
     run_acts [
       create_helper C cda,
       ctnetlink_setup_nat C cda,
       upd_ct (nf_ct_acct_ext_add C),
       upd_ct (nf_ct_tstamp_ext_add C),
       upd_ct (nf_ct_ecache_ext_add C),
       upd_ct (nf_ct_labels_ext_add C),
       upd_ct (nfct_seqadj_ext_add C),
       upd_ct (nfct_synproxy_ext_add C),
       upd_ct (\<lambda>ct. ct\<lparr>ct_status := ct_status ct OR IPS_CONFIRMED\<rparr>),
       upd_ct (nf_ct_set_timeout C (attr_ticks C timeout_attr)),
       act_when (cda CTA_STATUS \<noteq> None) (ctnetlink_change_status C cda),
       act_when (cda CTA_SEQ_ADJ_ORIG \<noteq> None \<or> cda CTA_SEQ_ADJ_REPLY \<noteq> None)
         (ctnetlink_change_seq_adj C cda),
       upd_ct (\<lambda>ct. ct\<lparr>ct_proto := zero_proto\<rparr>),
       act_when (cda CTA_PROTOINFO \<noteq> None) (ctnetlink_change_protoinfo C cda),
       act_when (cda CTA_SYNPROXY \<noteq> None) (ctnetlink_change_synproxy C cda),
       act_when (cda CTA_MARK \<noteq> None) (ctnetlink_change_mark C cda)]"

text \<open>
  The master connection: found with a reference taken on it. The result is the connection and
  the store.
\<close>

definition create_master ::
  "('nla, 'x) nl_reader_scheme \<Rightarrow> ('skb, 'y) tab_env_scheme \<Rightarrow> nat \<Rightarrow> nf_conntrack_zone \<Rightarrow>
   'nla attr_table \<Rightarrow> u8 \<Rightarrow> nf_conn \<Rightarrow> ct_store \<Rightarrow> nf_conn res \<times> ct_store" where
  "create_master R T net zone cda u3 ct st =
     (if cda CTA_TUPLE_MASTER = None then (Inr ct, st)
      else case ctnetlink_parse_tuple R cda CTA_TUPLE_MASTER u3 None of
          Inl e \<Rightarrow> (Inl e, st)
        | Inr (master, _) \<Rightarrow>
            (case nf_conntrack_find_get T st net zone master of
               (None, st1) \<Rightarrow> (Inl ENOENT, st1)
             | (Some m, st1) \<Rightarrow>
                 (Inr (ct\<lparr>ct_status := ct_status ct OR IPS_EXPECTED, ct_master := Some m\<rparr>), st1)))"

definition start_stamp :: "u64 \<Rightarrow> nf_conn \<Rightarrow> nf_conn" where
  "start_stamp now ct = ct\<lparr>ext_tstamp := map_option (\<lambda>ts. ts\<lparr>ts_start := now\<rparr>) (ext_tstamp ct)\<rparr>"

text \<open>
  The result: the address of the new connection or a code, the kernel state, and the calls. A
  failing creation frees the connection and, at the label \<open>err3\<close>, drops the master's reference.
\<close>

definition ctnetlink_create_conntrack ::
  "('nla, 'x) new_env_scheme \<Rightarrow> ('skb, 'y) tab_env_scheme \<Rightarrow> nat \<Rightarrow> nf_conntrack_zone \<Rightarrow>
   'nla attr_table \<Rightarrow> nf_conntrack_tuple \<Rightarrow> nf_conntrack_tuple \<Rightarrow> u8 \<Rightarrow> ksys \<Rightarrow>
   nat res \<times> ksys \<times> kcall list" where
  "ctnetlink_create_conntrack C T net zone cda otuple rtuple u3 k =
     (case nf_conntrack_alloc C net zone otuple rtuple of
        None \<Rightarrow> (Inl ENOMEM, k, [])
      | Some (p, ct0) \<Rightarrow>
          (case cda CTA_TIMEOUT of
             None \<Rightarrow> (Inl EINVAL, k, [])
           | Some ta \<Rightarrow>
               (case create_setup C cda ta \<lparr>c_ct = ct0, c_calls = []\<rparr> of
                  (Inl e, s) \<Rightarrow> (Inl e, k, c_calls s)
                | (Inr _, s) \<Rightarrow>
                    (case create_master C T net zone cda u3 (c_ct s) (k_ct k) of
                       (Inl e, st1) \<Rightarrow> (Inl e, k\<lparr>k_ct := st1\<rparr>, c_calls s)
                     | (Inr ct1, st1) \<Rightarrow>
                         (let ct2 = start_stamp (ktime_get_real_ns C) ct1; k1 = k\<lparr>k_ct := st1\<rparr> in
                          case nf_conntrack_hash_check_insert C k1 p ct2 of
                            Inr k2 \<Rightarrow> (Inr p, k2, c_calls s)
                          | Inl e \<Rightarrow>
                              (Inl e,
                               (case ct_master ct2 of None \<Rightarrow> k1 | Some m \<Rightarrow> drop_ref T m k1),
                               c_calls s))))))"

section \<open>The request\<close>

definition change_events :: u32 where
  "change_events = IPCT_REPLY_BIT OR IPCT_ASSURED_BIT OR IPCT_HELPER_BIT OR IPCT_PROTOINFO_BIT OR
     IPCT_SEQADJ_BIT OR IPCT_MARK_BIT OR IPCT_SYNPROXY_BIT"

text \<open>After a creation: labels, the event, and the reference of the creation.\<close>

definition after_create ::
  "('nla, 'x) new_env_scheme \<Rightarrow> ('skb, 'y) tab_env_scheme \<Rightarrow> nfnl_info \<Rightarrow> 'nla attr_table \<Rightarrow> nat \<Rightarrow>
   ksys \<Rightarrow> kcall list \<Rightarrow> unit res \<times> ksys \<times> kcall list" where
  "after_create C T info cda p k calls =
     (case k_ct k p of
        None \<Rightarrow> (Inl OOPS, k, calls)
      | Some ct \<Rightarrow>
          (let ev = (if has_flag (ct_status ct) IPS_EXPECTED then IPCT_RELATED_BIT else IPCT_NEW_BIT);
               (r, s) = (if cda CTA_LABELS = None then (Inl EFAIL, \<lparr>c_ct = ct, c_calls = calls\<rparr>)
                         else ctnetlink_attach_labels C cda \<lparr>c_ct = ct, c_calls = calls\<rparr>);
               ev' = (if r = Inr () then ev OR IPCT_LABEL_BIT else ev);
               k1 = k\<lparr>k_ct := (k_ct k)(p \<mapsto> c_ct s)\<rparr>
           in (Inr (), drop_ref T p k1,
               c_calls s @ [Event_report (change_events OR ev') p (info_portid info) (info_report info)])))"

definition parse_opt ::
  "('nla, 'x) nl_reader_scheme \<Rightarrow> 'nla attr_table \<Rightarrow> nat \<Rightarrow> u8 \<Rightarrow> nf_conntrack_zone \<Rightarrow>
   (nf_conntrack_tuple option \<times> nf_conntrack_zone) res" where
  "parse_opt R cda type u3 zone =
     (if cda type = None then Inr (None, zone)
      else bind_res (ctnetlink_parse_tuple R cda type u3 (Some zone)) (\<lambda>(t, z).
        Inr (Some t, case z of None \<Rightarrow> zone | Some z' \<Rightarrow> z')))"

text \<open>Zone and tuples of the request; the zone may be overridden by the one inside a tuple.\<close>

definition new_tuples ::
  "('nla, 'x) nl_reader_scheme \<Rightarrow> 'nla attr_table \<Rightarrow> u8 \<Rightarrow>
   (nf_conntrack_tuple option \<times> nf_conntrack_tuple option \<times> nf_conntrack_zone) res" where
  "new_tuples R cda u3 =
     bind_res (ctnetlink_parse_zone R (cda CTA_ZONE)) (\<lambda>zone0.
     bind_res (parse_opt R cda CTA_TUPLE_ORIG u3 zone0) (\<lambda>(ot, zone1).
     bind_res (parse_opt R cda CTA_TUPLE_REPLY u3 zone1) (\<lambda>(rt, zone).
       Inr (ot, rt, zone))))"

definition new_find ::
  "('skb, 'y) tab_env_scheme \<Rightarrow> nat \<Rightarrow> nf_conntrack_zone \<Rightarrow> nf_conntrack_tuple option \<Rightarrow>
   nf_conntrack_tuple option \<Rightarrow> ct_store \<Rightarrow> nat option \<times> ct_store" where
  "new_find T net zone ot rt st =
     (case (ot, rt) of
        (Some t, _) \<Rightarrow> nf_conntrack_find_get T st net zone t
      | (None, Some t) \<Rightarrow> nf_conntrack_find_get T st net zone t
      | (None, None) \<Rightarrow> (None, st))"

definition ctnetlink_new_conntrack ::
  "('nla, 'x) new_env_scheme \<Rightarrow> ('skb, 'y) tab_env_scheme \<Rightarrow> nfnl_info \<Rightarrow> 'nla attr_table \<Rightarrow> ksys \<Rightarrow>
   unit res \<times> ksys \<times> kcall list" where
  "ctnetlink_new_conntrack C T info cda k =
     (case new_tuples C cda (nfgen_family info) of
        Inl e \<Rightarrow> (Inl e, k, [])
      | Inr (ot, rt, zone) \<Rightarrow>
          (case new_find T (info_net info) zone ot rt (k_ct k) of
             (None, st1) \<Rightarrow>
               (let k1 = k\<lparr>k_ct := st1\<rparr> in
                if nlmsg_flags info AND NLM_F_CREATE = 0 then (Inl ENOENT, k1, [])
                else case (ot, rt) of
                    (Some o1, Some r1) \<Rightarrow>
                      if dst_protonum o1 \<noteq> dst_protonum r1 then (Inl EINVAL, k1, [])
                      else (case ctnetlink_create_conntrack C T (info_net info) zone cda o1 r1
                                   (nfgen_family info) k1 of
                              (Inl e, k2, calls) \<Rightarrow> (Inl e, k2, calls)
                            | (Inr p, k2, calls) \<Rightarrow> after_create C T info cda p k2 calls)
                  | _ \<Rightarrow> (Inl EINVAL, k1, []))
           | (Some p, st1) \<Rightarrow>
               (let k1 = k\<lparr>k_ct := st1\<rparr> in
                case st1 p of
                  None \<Rightarrow> (Inl OOPS, k1, [])
                | Some ct \<Rightarrow>
                    if nlmsg_flags info AND NLM_F_EXCL \<noteq> 0 then (Inl EEXIST, drop_ref T p k1, [])
                    else (case ctnetlink_change_conntrack C cda \<lparr>c_ct = ct, c_calls = []\<rparr> of
                            (r, s) \<Rightarrow>
                              (let k2 = k1\<lparr>k_ct := st1(p \<mapsto> c_ct s)\<rparr>;
                                   calls = (case r of
                                     Inr _ \<Rightarrow> c_calls s @ [Event_report (change_events OR IPCT_LABEL_BIT) p
                                                (info_portid info) (info_report info)]
                                   | Inl _ \<Rightarrow> c_calls s)
                               in (r, drop_ref T p k2, calls))))))"

end
