(* ===== verification/Ct_Glue.thy ===== *)
theory Ct_Glue
  imports Ct_Event Ct_Change
begin

text \<open>
  The hook for packet queues (\<open>struct nfnl_ct_hook\<close> in \<open>kmod/vgw_ct_netlink.c\<close>): the
  connection of a queued packet is written next to the packet, and the changes user space sends
  back with its verdict are applied. Attaching an expectation is modelled with the expectations.
\<close>

section \<open>Writing the connection of a packet\<close>

definition ctnetlink_glue_build_size :: "('skb, 'x) event_env_scheme \<Rightarrow> nf_conn \<Rightarrow> nat" where
  "ctnetlink_glue_build_size T ct =
     3 * nla_total_size 0
     + 3 * nla_total_size 0
     + 3 * nla_total_size 0
     + 3 * nla_total_size 1
     + nla_total_size 4
     + nla_total_size 4
     + nla_total_size 4
     + nla_total_size 0
     + nla_total_size 0
     + nla_total_size NF_CT_HELPER_NAME_LEN
     + ctnetlink_secctx_size T ct
     + ctnetlink_acct_size ct
     + ctnetlink_timestamp_size ct
     + 2 * nla_total_size 0
     + 6 * nla_total_size 4
     + nla_total_size 4
     + nla_total_size 2
     + ctnetlink_proto_size T ct"

text \<open>
  \<open>__ctnetlink_glue_build\<close>. The counters are read with \<open>IPCTNL_MSG_CT_GET\<close>, which leaves them.
\<close>

definition ctnetlink_glue_build_ct ::
  "('skb, 'x) dump_env_scheme \<Rightarrow> nat \<Rightarrow> nf_conn \<Rightarrow> 'skb action" where
  "ctnetlink_glue_build_ct T a ct =
     fail_with ENOSPC (run_acts [
       dump_head T ct,
       ctnetlink_dump_id T a ct,
       ctnetlink_dump_status T ct,
       ctnetlink_dump_timeout T ct False,
       ctnetlink_dump_protoinfo T ct False 0,
       (\<lambda>skb. fst (ctnetlink_dump_acct T ct IPCTNL_MSG_CT_GET skb)),
       ctnetlink_dump_timestamp T ct,
       ctnetlink_dump_helpinfo T ct,
       act_when (ct_secmark ct \<noteq> 0) (ctnetlink_dump_secctx T ct),
       act_when (ct_master ct \<noteq> None) (ctnetlink_dump_master T ct),
       act_when (has_flag (ct_status ct) IPS_SEQ_ADJUST) (ctnetlink_dump_ct_seq_adj T ct),
       ctnetlink_dump_ct_synproxy T ct,
       ctnetlink_dump_mark T ct True,
       ctnetlink_dump_labels T ct])"

definition ctnetlink_glue_build ::
  "('skb, 'x) dump_env_scheme \<Rightarrow> nat \<Rightarrow> nf_conn \<Rightarrow> nat \<Rightarrow> nat \<Rightarrow> nat \<Rightarrow> 'skb action" where
  "ctnetlink_glue_build T a ct ctinfo ct_attr ct_info_attr =
     fail_with ENOSPC (run_acts [
       nest T ct_attr (ctnetlink_glue_build_ct T a ct),
       put T ct_info_attr (V_be32 (htonl (of_nat ctinfo)))])"

section \<open>Applying a verdict\<close>

text \<open>\<open>__nf_ct_change_status\<close> with the bits to set and the bits to clear.\<close>

record 'nla glue_env = "'nla chg_env" +
  nf_ct_change_status :: "u32 \<Rightarrow> u32 \<Rightarrow> nf_conn \<Rightarrow> nf_conn"

definition ctnetlink_update_status ::
  "('nla, 'x) glue_env_scheme \<Rightarrow> 'nla attr_table \<Rightarrow> chg action" where
  "ctnetlink_update_status C cda =
     need (cda CTA_STATUS) (\<lambda>a s.
       let status = ntohl (nla_get_be32 C a); d = ct_status (c_ct s) XOR ucast status in
       if d AND IPS_SEEN_REPLY \<noteq> 0 \<and> ucast status AND IPS_SEEN_REPLY = 0 then (Inl EBUSY, s)
       else if d AND IPS_ASSURED \<noteq> 0 \<and> ucast status AND IPS_ASSURED = 0 then (Inl EBUSY, s)
       else (Inr (), s\<lparr>c_ct := nf_ct_change_status C status (NOT status) (c_ct s)\<rparr>))"

definition ctnetlink_glue_parse_ct ::
  "('nla, 'x) glue_env_scheme \<Rightarrow> 'nla attr_table \<Rightarrow> chg action" where
  "ctnetlink_glue_parse_ct C cda =
     run_acts [
       act_when (cda CTA_TIMEOUT \<noteq> None) (ctnetlink_change_timeout C cda),
       act_when (cda CTA_STATUS \<noteq> None) (ctnetlink_update_status C cda),
       act_when (cda CTA_HELP \<noteq> None) (ctnetlink_change_helper C cda),
       act_when (cda CTA_LABELS \<noteq> None) (ctnetlink_attach_labels C cda),
       act_when (cda CTA_MARK \<noteq> None) (ctnetlink_change_mark C cda)]"

definition ctnetlink_glue_parse :: "('nla, 'x) glue_env_scheme \<Rightarrow> 'nla \<Rightarrow> chg action" where
  "ctnetlink_glue_parse C attr s =
     (case nla_parse_nested_deprecated C CTA_MAX attr ct_nla_policy of
        Inl e \<Rightarrow> (Inl e, s)
      | Inr cda \<Rightarrow> ctnetlink_glue_parse_ct C cda s)"

text \<open>The packet's sequence numbers are adjusted only on connections with address translation.\<close>

definition ctnetlink_glue_seqadj ::
  "(nf_conn \<Rightarrow> nat \<Rightarrow> int \<Rightarrow> nf_conn) \<Rightarrow> nf_conn \<Rightarrow> nat \<Rightarrow> int \<Rightarrow> nf_conn" where
  "ctnetlink_glue_seqadj nf_ct_tcp_seqadj_set ct ctinfo diff =
     (if \<not> has_flag (ct_status ct) IPS_NAT_MASK then ct
      else nf_ct_tcp_seqadj_set ct ctinfo diff)"

end
