(* ===== verification/Ct_Dump_Spec.thy ===== *)
theory Ct_Dump_Spec
  imports Ct_Dump
begin

text \<open>
  What the writers of theory \<open>Ct_Dump\<close> write: the attribute tree of a connection as a
  specification, the laws of the callbacks they use as a locale, the lemma that every writer is
  an emitter of its tree, and the properties of \<open>ctnetlink_fill_info\<close>.
\<close>

section \<open>The attribute tree of a connection\<close>

text \<open>What the callbacks write: a tuple's L4 part, a connection's L4 state, a helper's data.\<close>

record cb_attrs =
  at_tuple :: "u8 \<Rightarrow> nf_conntrack_tuple \<Rightarrow> nlattr list"
  at_info :: "u8 \<Rightarrow> nf_conn \<Rightarrow> bool \<Rightarrow> nlattr list"
  at_help :: "nat \<Rightarrow> nf_conn \<Rightarrow> nlattr list"

definition ip_attrs :: "nf_conntrack_tuple \<Rightarrow> nlattr list" where
  "ip_attrs t =
     (if src_l3num t = NFPROTO_IPV4
      then [Leaf CTA_IP_V4_SRC (V_in_addr (addr_ip (src_u3 t))),
            Leaf CTA_IP_V4_DST (V_in_addr (addr_ip (dst_u3 t)))]
      else if src_l3num t = NFPROTO_IPV6
      then [Leaf CTA_IP_V6_SRC (V_in6_addr (src_u3 t)), Leaf CTA_IP_V6_DST (V_in6_addr (dst_u3 t))]
      else [])"

definition tuple_attrs :: "cb_attrs \<Rightarrow> nf_conntrack_tuple \<Rightarrow> nlattr list" where
  "tuple_attrs A t =
     [Nest CTA_TUPLE_IP (ip_attrs t),
      Nest CTA_TUPLE_PROTO
        (Leaf CTA_PROTO_NUM (V_u8 (dst_protonum t)) # at_tuple A (dst_protonum t) t)]"

definition zone_attrs :: "nat \<Rightarrow> nf_conntrack_zone \<Rightarrow> u8 \<Rightarrow> nlattr list" where
  "zone_attrs n z dir =
     (if zone_id z \<noteq> NF_CT_DEFAULT_ZONE_ID \<and> zone_dir z = dir
      then [Leaf n (V_be16 (htons (zone_id z)))] else [])"

definition head_attrs :: "cb_attrs \<Rightarrow> nf_conn \<Rightarrow> nlattr list" where
  "head_attrs A ct =
     [Nest CTA_TUPLE_ORIG
        (tuple_attrs A (tuple_orig ct) @ zone_attrs CTA_TUPLE_ZONE (ct_zone ct) NF_CT_ZONE_DIR_ORIG),
      Nest CTA_TUPLE_REPLY
        (tuple_attrs A (tuple_reply ct) @ zone_attrs CTA_TUPLE_ZONE (ct_zone ct) NF_CT_ZONE_DIR_REPL)]
     @ zone_attrs CTA_ZONE (ct_zone ct) NF_CT_DEFAULT_ZONE_DIR"

definition timeout_attrs :: "('skb, 'x) dump_env_scheme \<Rightarrow> nf_conn \<Rightarrow> bool \<Rightarrow> nlattr list" where
  "timeout_attrs E ct skip_zero =
     (if skip_zero \<and> ct_seconds E ct = 0 then []
      else [Leaf CTA_TIMEOUT (V_be32 (htonl (of_nat (ct_seconds E ct))))])"

text \<open>
  The TCP export of this module replaces the protocol's own attributes in a filtered dump when
  the export is enabled.
\<close>

definition proto_attrs ::
  "('skb, 'x) dump_env_scheme \<Rightarrow> cb_attrs \<Rightarrow> nf_conn \<Rightarrow> bool \<Rightarrow> u32 \<Rightarrow> nlattr list" where
  "proto_attrs E A ct destroy flags =
     (if flags AND NLM_F_DUMP_FILTERED \<noteq> 0 \<and> is_enable_export_tcp_track (env_params E) \<and>
         ct_protonum ct = IPPROTO_TCP
      then [Nest CTA_PROTOINFO (tcp_protoinfo_attrs ct destroy)]
      else if Option.is_none (l4_to_nlattr E (ct_protonum ct)) then []
      else [Nest CTA_PROTOINFO (at_info A (ct_protonum ct) ct destroy)])"

definition help_attrs :: "('skb, 'x) dump_env_scheme \<Rightarrow> cb_attrs \<Rightarrow> nf_conn \<Rightarrow> nlattr list" where
  "help_attrs E A ct =
     (case Option.bind (ext_help ct) help_helper of
        None \<Rightarrow> []
      | Some h \<Rightarrow> [Nest CTA_HELP (Leaf CTA_HELP_NAME (V_string (hlp_name h)) #
          (if Option.is_none (hlp_to_nlattr E (hlp_ptr h)) then [] else at_help A (hlp_ptr h) ct))])"

definition counter_attr :: "nat \<Rightarrow> nf_conn_counter \<Rightarrow> nlattr" where
  "counter_attr n c = Nest n [Leaf CTA_COUNTERS_PACKETS (V_be64 (cpu_to_be64 (ctr_packets c))),
     Leaf CTA_COUNTERS_BYTES (V_be64 (cpu_to_be64 (ctr_bytes c)))]"

definition acct_attrs :: "nf_conn \<Rightarrow> nlattr list" where
  "acct_attrs ct =
     (case ext_acct ct of
        None \<Rightarrow> []
      | Some (c0, c1) \<Rightarrow> [counter_attr CTA_COUNTERS_ORIG c0, counter_attr CTA_COUNTERS_REPLY c1])"

definition tstamp_attrs :: "nf_conn \<Rightarrow> nlattr list" where
  "tstamp_attrs ct =
     (case ext_tstamp ct of
        None \<Rightarrow> []
      | Some ts \<Rightarrow> [Nest CTA_TIMESTAMP
          (Leaf CTA_TIMESTAMP_START (V_be64 (cpu_to_be64 (ts_start ts))) #
           (if ts_stop ts \<noteq> 0 then [Leaf CTA_TIMESTAMP_STOP (V_be64 (cpu_to_be64 (ts_stop ts)))]
            else []))])"

definition mark_attrs :: "nf_conn \<Rightarrow> bool \<Rightarrow> nlattr list" where
  "mark_attrs ct dump =
     (if ct_mark ct \<noteq> 0 \<or> dump then [Leaf CTA_MARK (V_be32 (htonl (ct_mark ct)))] else [])"

definition secctx_attrs :: "('skb, 'x) dump_env_scheme \<Rightarrow> nf_conn \<Rightarrow> nlattr list" where
  "secctx_attrs E ct =
     (case secid_to_secctx E (ct_secmark ct) of
        None \<Rightarrow> [] | Some (c, n) \<Rightarrow> [Nest CTA_SECCTX [Leaf CTA_SECCTX_NAME (V_string c)]])"

definition labels_attrs :: "nf_conn \<Rightarrow> nlattr list" where
  "labels_attrs ct =
     (case ext_labels ct of
        None \<Rightarrow> []
      | Some (b0, b1) \<Rightarrow>
          if b0 = 0 \<and> b1 = 0 then [] else [Leaf CTA_LABELS (V_bin (le64 b0 @ le64 b1))])"

definition master_attrs :: "('skb, 'x) dump_env_scheme \<Rightarrow> cb_attrs \<Rightarrow> nf_conn \<Rightarrow> nlattr list" where
  "master_attrs E A ct =
     (if has_flag (ct_status ct) IPS_EXPECTED
      then case Option.bind (ct_master ct) (env_store E) of
             None \<Rightarrow> [] | Some m \<Rightarrow> [Nest CTA_TUPLE_MASTER (tuple_attrs A (tuple_orig m))]
      else [])"

definition seq_attr :: "nat \<Rightarrow> nf_ct_seqadj \<Rightarrow> nlattr" where
  "seq_attr n q = Nest n
     [Leaf CTA_SEQADJ_CORRECTION_POS (V_be32 (htonl (correction_pos q))),
      Leaf CTA_SEQADJ_OFFSET_BEFORE (V_be32 (htonl (offset_before q))),
      Leaf CTA_SEQADJ_OFFSET_AFTER (V_be32 (htonl (offset_after q)))]"

definition seqadj_attrs :: "nf_conn \<Rightarrow> nlattr list" where
  "seqadj_attrs ct =
     (case ext_seqadj ct of
        None \<Rightarrow> []
      | Some (q0, q1) \<Rightarrow> if has_flag (ct_status ct) IPS_SEQ_ADJUST
          then [seq_attr CTA_SEQ_ADJ_ORIG q0, seq_attr CTA_SEQ_ADJ_REPLY q1] else [])"

definition synproxy_attrs :: "nf_conn \<Rightarrow> nlattr list" where
  "synproxy_attrs ct =
     (case ext_synproxy ct of
        None \<Rightarrow> []
      | Some s \<Rightarrow> [Nest CTA_SYNPROXY
          [Leaf CTA_SYNPROXY_ISN (V_be32 (htonl (sp_isn s))),
           Leaf CTA_SYNPROXY_ITS (V_be32 (htonl (sp_its s))),
           Leaf CTA_SYNPROXY_TSOFF (V_be32 (htonl (sp_tsoff s)))]])"

definition ext_attrs :: "('skb, 'x) dump_env_scheme \<Rightarrow> cb_attrs \<Rightarrow> nf_conn \<Rightarrow> nlattr list" where
  "ext_attrs E A ct =
     tstamp_attrs ct @ help_attrs E A ct @ labels_attrs ct @ seqadj_attrs ct @ synproxy_attrs ct"

definition info_attrs ::
  "('skb, 'x) dump_env_scheme \<Rightarrow> cb_attrs \<Rightarrow> nat \<Rightarrow> nf_conn \<Rightarrow> u32 \<Rightarrow> nlattr list" where
  "info_attrs E A a ct flags =
     [Leaf CTA_STATUS (V_be32 (htonl (ucast (ct_status ct))))] @ mark_attrs ct True @
     secctx_attrs E ct @
     [Leaf CTA_ID (V_be32 (nf_ct_get_id E a ct)), Leaf CTA_USE (V_be32 (htonl (of_nat (ct_use ct))))] @
     master_attrs E A ct @
     (if has_flag (ct_status ct) IPS_OFFLOAD then []
      else timeout_attrs E ct False @ proto_attrs E A ct False flags)"

text \<open>
  The connection after a dump of type \<open>IPCTNL_MSG_CT_GET_CTRZERO\<close>: both counters are zero.
\<close>

definition zero_counter :: nf_conn_counter where
  "zero_counter = \<lparr>ctr_packets = 0, ctr_bytes = 0\<rparr>"

definition after_dump :: "nat \<Rightarrow> bool \<Rightarrow> nf_conn \<Rightarrow> nf_conn" where
  "after_dump type extinfo ct =
     (if type = IPCTNL_MSG_CT_GET_CTRZERO \<and> extinfo
      then ct\<lparr>ext_acct := map_option (\<lambda>_. (zero_counter, zero_counter)) (ext_acct ct)\<rparr> else ct)"

text \<open>
  The extensions are written after the counters were read, from the connection as it is then.
\<close>

definition ct_attrs ::
  "('skb, 'x) dump_env_scheme \<Rightarrow> cb_attrs \<Rightarrow> nat \<Rightarrow> nat \<Rightarrow> nf_conn \<Rightarrow> bool \<Rightarrow> u32 \<Rightarrow> nlattr list" where
  "ct_attrs E A type a ct extinfo flags =
     head_attrs A ct @ info_attrs E A a ct flags @
     (if extinfo then acct_attrs ct @ ext_attrs E A (after_dump type True ct) else [])"

text \<open>An expected connection has a live master.\<close>

definition master_ok :: "('skb, 'x) dump_env_scheme \<Rightarrow> nf_conn \<Rightarrow> bool" where
  "master_ok E ct \<longleftrightarrow>
     (has_flag (ct_status ct) IPS_EXPECTED \<longrightarrow> Option.bind (ct_master ct) (env_store E) \<noteq> None)"

text \<open>No callback whose failure is ignored: the helper, if any, writes nothing of its own.\<close>

definition help_strict :: "('skb, 'x) dump_env_scheme \<Rightarrow> nf_conn \<Rightarrow> bool" where
  "help_strict E ct \<longleftrightarrow>
     (case Option.bind (ext_help ct) help_helper of
        None \<Rightarrow> True | Some h \<Rightarrow> Option.is_none (hlp_to_nlattr E (hlp_ptr h)))"

section \<open>Laws of the callbacks\<close>

locale dump_laws = nl_writer_laws E emits grows room msgs
  for E :: "('skb, 'x) dump_env_scheme" and emits grows room msgs +
  fixes A :: cb_attrs
  assumes cb_tuple: "l4_tuple_to_nlattr E p = Some f \<Longrightarrow> emt True (f t) (at_tuple A p t)"
    and cb_tuple_none: "l4_tuple_to_nlattr E p = None \<Longrightarrow> at_tuple A p t = []"
    and cb_info: "l4_to_nlattr E p = Some g \<Longrightarrow> emt True (g ct d) (at_info A p ct d)"
    and cb_help: "hlp_to_nlattr E q = Some h \<Longrightarrow> emt True (h ct) (at_help A q ct)"
    and cb_help_fails: "hlp_to_nlattr E q = Some h \<Longrightarrow> h ct s = (Inl e, s') \<Longrightarrow> \<exists>bs. emits s bs s'"

context dump_laws
begin

section \<open>The writers are emitters\<close>

lemma emt_cong: "emt k a as \<Longrightarrow> as = bs \<Longrightarrow> emt k a bs"
  by simp

lemma emt_tuples_ip [emit_intros]:
  "emt k (ctnetlink_dump_tuples_ip E t) [Nest CTA_TUPLE_IP (ip_attrs t)]"
proof -
  have 4: "emt k (ipv4_tuple_to_nlattr E t)
      ([Leaf CTA_IP_V4_SRC (V_in_addr (addr_ip (src_u3 t)))] @
       [Leaf CTA_IP_V4_DST (V_in_addr (addr_ip (dst_u3 t)))] @ [])"
    unfolding ipv4_tuple_to_nlattr_def by (intro emit_intros) simp
  have 6: "emt k (ipv6_tuple_to_nlattr E t)
      ([Leaf CTA_IP_V6_SRC (V_in6_addr (src_u3 t))] @
       [Leaf CTA_IP_V6_DST (V_in6_addr (dst_u3 t))] @ [])"
    unfolding ipv6_tuple_to_nlattr_def by (intro emit_intros) simp
  show ?thesis
    unfolding ctnetlink_dump_tuples_ip_def ip_attrs_def
    using 4 6 by (intro emit_intros emt_if) simp_all
qed

lemma emt_tuples_proto [emit_intros]:
  "emt k (ctnetlink_dump_tuples_proto E t) [Nest CTA_TUPLE_PROTO
     ([Leaf CTA_PROTO_NUM (V_u8 (dst_protonum t))] @ at_tuple A (dst_protonum t) t)]"
  unfolding ctnetlink_dump_tuples_proto_def
proof (rule emt_nest_cb)
  show "emt k (fail_with EFAIL (put E CTA_PROTO_NUM (V_u8 (dst_protonum t))))
      [Leaf CTA_PROTO_NUM (V_u8 (dst_protonum t))]"
    by (intro emit_intros) simp
  show "emt k (case l4_tuple_to_nlattr E (dst_protonum t) of None \<Rightarrow> run_acts [] | Some f \<Rightarrow> f t)
      (at_tuple A (dst_protonum t) t)"
    by (cases "l4_tuple_to_nlattr E (dst_protonum t)")
      (simp_all add: cb_tuple_none emt_acts_Nil emt_weaken cb_tuple)
qed

lemma emt_tuples [emit_intros]: "emt k (ctnetlink_dump_tuples E t) (tuple_attrs A t)"
proof -
  have "emt k (ctnetlink_dump_tuples E t)
    ([Nest CTA_TUPLE_IP (ip_attrs t)] @ [Nest CTA_TUPLE_PROTO
      ([Leaf CTA_PROTO_NUM (V_u8 (dst_protonum t))] @ at_tuple A (dst_protonum t) t)] @ [])"
    unfolding ctnetlink_dump_tuples_def by (intro emit_intros)
  then show ?thesis by (simp add: tuple_attrs_def)
qed

lemma emt_zone_id [emit_intros]: "emt k (ctnetlink_dump_zone_id E n z dir) (zone_attrs n z dir)"
proof -
  have "emt k (ctnetlink_dump_zone_id E n z dir)
    (if \<not> (zone_id z = NF_CT_DEFAULT_ZONE_ID \<or> zone_dir z \<noteq> dir)
     then [Leaf n (V_be16 (htons (zone_id z)))] else [])"
    unfolding ctnetlink_dump_zone_id_def by (intro emit_intros) simp
  then show ?thesis by (simp add: zone_attrs_def)
qed

lemma emt_head [emit_intros]: "emt k (dump_head E ct) (head_attrs A ct)"
proof -
  have "emt k (dump_head E ct)
    ([Nest CTA_TUPLE_ORIG (tuple_attrs A (tuple_orig ct) @
        zone_attrs CTA_TUPLE_ZONE (ct_zone ct) NF_CT_ZONE_DIR_ORIG @ [])] @
     [Nest CTA_TUPLE_REPLY (tuple_attrs A (tuple_reply ct) @
        zone_attrs CTA_TUPLE_ZONE (ct_zone ct) NF_CT_ZONE_DIR_REPL @ [])] @
     zone_attrs CTA_ZONE (ct_zone ct) NF_CT_DEFAULT_ZONE_DIR @ [])"
    unfolding dump_head_def by (intro emit_intros)
  then show ?thesis by (simp add: head_attrs_def)
qed

lemma emt_leaf [emit_intros]:
  "emt k (ctnetlink_dump_status E ct) [Leaf CTA_STATUS (V_be32 (htonl (ucast (ct_status ct))))]"
  "emt k (ctnetlink_dump_id E a ct) [Leaf CTA_ID (V_be32 (nf_ct_get_id E a ct))]"
  "emt k (ctnetlink_dump_use E ct) [Leaf CTA_USE (V_be32 (htonl (of_nat (ct_use ct))))]"
  unfolding ctnetlink_dump_status_def ctnetlink_dump_id_def ctnetlink_dump_use_def
  by (intro emit_intros, simp)+

lemma emt_mark [emit_intros]: "emt k (ctnetlink_dump_mark E ct d) (mark_attrs ct d)"
proof -
  have "emt k (ctnetlink_dump_mark E ct d)
    (if \<not> (ct_mark ct = 0 \<and> \<not> d) then [Leaf CTA_MARK (V_be32 (htonl (ct_mark ct)))] else [])"
    unfolding ctnetlink_dump_mark_def by (intro emit_intros) simp
  then show ?thesis by (rule emt_cong) (auto simp: mark_attrs_def)
qed

lemma emt_timeout [emit_intros]:
  "emt k (ctnetlink_dump_timeout E ct skip) (timeout_attrs E ct skip)"
proof -
  have "emt k (ctnetlink_dump_timeout E ct skip)
    (if \<not> (skip \<and> ct_seconds E ct = 0)
     then [Leaf CTA_TIMEOUT (V_be32 (htonl (of_nat (ct_seconds E ct))))] else [])"
    unfolding ctnetlink_dump_timeout_def by (intro emit_intros) simp
  then show ?thesis by (rule emt_cong) (auto simp: timeout_attrs_def)
qed

lemma emt_protoinfo [emit_intros]:
  "emt k (ctnetlink_dump_protoinfo E ct d flags) (proto_attrs E A ct d flags)"
  unfolding ctnetlink_dump_protoinfo_def proto_attrs_def
proof (rule emt_if)
  show "emt k (case l4_to_nlattr E (ct_protonum ct) of None \<Rightarrow> run_acts []
       | Some g \<Rightarrow> nest_always E CTA_PROTOINFO (g ct d))
     (if Option.is_none (l4_to_nlattr E (ct_protonum ct)) then []
      else [Nest CTA_PROTOINFO (at_info A (ct_protonum ct) ct d)])"
    by (cases "l4_to_nlattr E (ct_protonum ct)")
      (simp_all add: emt_acts_Nil emt_nest_always emt_weaken cb_info)
qed (simp add: emt_vgw_dump_tcp_protoinfo)

lemma emt_secctx [emit_intros]: "emt k (ctnetlink_dump_secctx E ct) (secctx_attrs E ct)"
  unfolding ctnetlink_dump_secctx_def secctx_attrs_def
  by (cases "secid_to_secctx E (ct_secmark ct)") (auto intro!: emit_intros)

lemma emt_master [emit_intros]:
  assumes "master_ok E ct"
  shows "emt k (ctnetlink_dump_master E ct) (master_attrs E A ct)"
  using assms unfolding ctnetlink_dump_master_def master_attrs_def master_ok_def
  by (intro emt_when, cases "Option.bind (ct_master ct) (env_store E)")
    (auto intro!: emit_intros)

lemma emt_timestamp [emit_intros]: "emt k (ctnetlink_dump_timestamp E ct) (tstamp_attrs ct)"
proof (cases "ext_tstamp ct")
  case (Some ts)
  have "emt k (ctnetlink_dump_timestamp E ct)
    [Nest CTA_TIMESTAMP ([Leaf CTA_TIMESTAMP_START (V_be64 (cpu_to_be64 (ts_start ts)))] @
      (if ts_stop ts \<noteq> 0 then [Leaf CTA_TIMESTAMP_STOP (V_be64 (cpu_to_be64 (ts_stop ts)))]
       else []) @ [])]"
    unfolding ctnetlink_dump_timestamp_def Some option.case by (intro emit_intros) simp
  then show ?thesis by (simp add: tstamp_attrs_def Some)
qed (simp add: ctnetlink_dump_timestamp_def tstamp_attrs_def emt_acts_Nil)

lemma emt_labels [emit_intros]: "emt k (ctnetlink_dump_labels E ct) (labels_attrs ct)"
proof (cases "ext_labels ct")
  case (Some b)
  obtain b0 b1 where b: "b = (b0, b1)" by (cases b)
  have "labels_loop E bits [b0, b1] = (if b0 = 0 \<and> b1 = 0 then run_acts []
      else put E CTA_LABELS (V_bin bits))" for bits
    by auto
  then show ?thesis
    by (auto simp: ctnetlink_dump_labels_def labels_attrs_def Some b intro!: emit_intros)
qed (simp add: ctnetlink_dump_labels_def labels_attrs_def emt_acts_Nil)

lemma emt_seq_adj_one [emit_intros]: "emt k (dump_ct_seq_adj E q n) [seq_attr n q]"
proof -
  have "emt k (dump_ct_seq_adj E q n)
    [Nest n ([Leaf CTA_SEQADJ_CORRECTION_POS (V_be32 (htonl (correction_pos q)))] @
      [Leaf CTA_SEQADJ_OFFSET_BEFORE (V_be32 (htonl (offset_before q)))] @
      [Leaf CTA_SEQADJ_OFFSET_AFTER (V_be32 (htonl (offset_after q)))] @ [])]"
    unfolding dump_ct_seq_adj_def by (intro emit_intros) simp
  then show ?thesis by (simp add: seq_attr_def)
qed

lemma emt_seq_adj [emit_intros]: "emt k (ctnetlink_dump_ct_seq_adj E ct) (seqadj_attrs ct)"
proof (cases "ext_seqadj ct")
  case (Some q)
  obtain q0 q1 where q: "q = (q0, q1)" by (cases q)
  have "emt k (ctnetlink_dump_ct_seq_adj E ct)
    (if has_flag (ct_status ct) IPS_SEQ_ADJUST
     then [seq_attr CTA_SEQ_ADJ_ORIG q0] @ [seq_attr CTA_SEQ_ADJ_REPLY q1] @ [] else [])"
    unfolding ctnetlink_dump_ct_seq_adj_def Some q option.case prod.case
    by (intro emit_intros) simp
  then show ?thesis by (rule emt_cong) (auto simp: seqadj_attrs_def Some q)
qed (simp add: ctnetlink_dump_ct_seq_adj_def seqadj_attrs_def emt_acts_Nil)

lemma emt_synproxy [emit_intros]: "emt k (ctnetlink_dump_ct_synproxy E ct) (synproxy_attrs ct)"
proof (cases "ext_synproxy ct")
  case (Some s)
  have "emt k (ctnetlink_dump_ct_synproxy E ct)
    [Nest CTA_SYNPROXY ([Leaf CTA_SYNPROXY_ISN (V_be32 (htonl (sp_isn s)))] @
      [Leaf CTA_SYNPROXY_ITS (V_be32 (htonl (sp_its s)))] @
      [Leaf CTA_SYNPROXY_TSOFF (V_be32 (htonl (sp_tsoff s)))] @ [])]"
    unfolding ctnetlink_dump_ct_synproxy_def Some option.case by (intro emit_intros) simp
  then show ?thesis by (simp add: synproxy_attrs_def Some)
qed (simp add: ctnetlink_dump_ct_synproxy_def synproxy_attrs_def emt_acts_Nil)

lemma emt_helpinfo [emit_intros]:
  "emt (help_strict E ct) (ctnetlink_dump_helpinfo E ct) (help_attrs E A ct)"
proof (cases "Option.bind (ext_help ct) help_helper")
  case None
  then have "ctnetlink_dump_helpinfo E ct = run_acts []"
    by (auto simp: ctnetlink_dump_helpinfo_def bind_eq_None_conv split: option.splits)
  then show ?thesis by (simp add: help_attrs_def None emt_acts_Nil)
next
  case (Some h)
  let ?cb = "case hlp_to_nlattr E (hlp_ptr h) of None \<Rightarrow> run_acts []
     | Some f \<Rightarrow> ignore_code (f ct)"
  let ?as = "if Option.is_none (hlp_to_nlattr E (hlp_ptr h)) then [] else at_help A (hlp_ptr h) ct"
  have d: "ctnetlink_dump_helpinfo E ct = fail_with EFAIL (nest E CTA_HELP
      (run_acts [put E CTA_HELP_NAME (V_string (hlp_name h)), ?cb]))"
    using Some by (auto simp: ctnetlink_dump_helpinfo_def bind_eq_Some_conv)
  have cb: "emt (help_strict E ct) ?cb ?as"
  proof (cases "hlp_to_nlattr E (hlp_ptr h)")
    case f: (Some f)
    have "emt False (ignore_code (f ct)) (at_help A (hlp_ptr h) ct)"
      using emt_fits [OF cb_help [OF f]] cb_help_fails [OF f]
      by (intro emitterI) (force simp: ignore_code_def elim: emt_overflows [OF cb_help [OF f]])+
    then show ?thesis by (simp add: f Some help_strict_def)
  qed (simp add: emt_acts_Nil)
  have "emt (help_strict E ct) (ctnetlink_dump_helpinfo E ct)
    [Nest CTA_HELP ([Leaf CTA_HELP_NAME (V_string (hlp_name h))] @ ?as @ [])]"
    unfolding d using cb by (intro emit_intros) simp_all
  then show ?thesis by (rule emt_cong) (simp add: help_attrs_def Some)
qed

lemma emt_info [emit_intros]:
  assumes "master_ok E ct"
  shows "emt k (ctnetlink_dump_info E a ct flags) (info_attrs E A a ct flags)"
proof -
  have "emt k (ctnetlink_dump_info E a ct flags)
    (([Leaf CTA_STATUS (V_be32 (htonl (ucast (ct_status ct))))] @ mark_attrs ct True @
      secctx_attrs E ct @ [Leaf CTA_ID (V_be32 (nf_ct_get_id E a ct))] @
      [Leaf CTA_USE (V_be32 (htonl (of_nat (ct_use ct))))] @ master_attrs E A ct @ []) @
     (if \<not> has_flag (ct_status ct) IPS_OFFLOAD
      then timeout_attrs E ct False @ proto_attrs E A ct False flags @ [] else []) @ [])"
    unfolding ctnetlink_dump_info_def using assms by (intro emit_intros) simp_all
  then show ?thesis by (rule emt_cong) (simp add: info_attrs_def)
qed

text \<open>The accounting part, as a writer and as a change of the connection.\<close>

lemma emt_counters [emit_intros]:
  "emt k (\<lambda>s. fst (dump_counters E c dir type s))
     [counter_attr (if dir \<noteq> 0 then CTA_COUNTERS_REPLY else CTA_COUNTERS_ORIG) c]"
proof -
  have "emt k (\<lambda>s. fst (dump_counters E c dir type s))
    [Nest (if dir \<noteq> 0 then CTA_COUNTERS_REPLY else CTA_COUNTERS_ORIG)
      ([Leaf CTA_COUNTERS_PACKETS (V_be64 (cpu_to_be64 (ctr_packets c)))] @
       [Leaf CTA_COUNTERS_BYTES (V_be64 (cpu_to_be64 (ctr_bytes c)))] @ [])]"
    unfolding dump_counters_def Let_def fst_conv by (intro emit_intros) simp
  then show ?thesis by (simp add: counter_attr_def)
qed

lemma dump_acct_fst:
  "fst (ctnetlink_dump_acct E ct type s) =
     (case ext_acct ct of None \<Rightarrow> (Inr (), s)
      | Some (c0, c1) \<Rightarrow> fail_with EFAIL (run_acts [
          \<lambda>s. fst (dump_counters E c0 IP_CT_DIR_ORIGINAL type s),
          \<lambda>s. fst (dump_counters E c1 IP_CT_DIR_REPLY type s)]) s)"
  by (auto simp: ctnetlink_dump_acct_def fail_with_def split: option.splits prod.splits sum.splits)

lemma emt_acct [emit_intros]: "emt k (\<lambda>s. fst (ctnetlink_dump_acct E ct type s)) (acct_attrs ct)"
proof (cases "ext_acct ct")
  case (Some c)
  obtain c0 c1 where c: "c = (c0, c1)" by (cases c)
  have "emt k (\<lambda>s. fst (ctnetlink_dump_acct E ct type s))
    ([counter_attr (if IP_CT_DIR_ORIGINAL \<noteq> 0 then CTA_COUNTERS_REPLY else CTA_COUNTERS_ORIG) c0] @
     [counter_attr (if IP_CT_DIR_REPLY \<noteq> 0 then CTA_COUNTERS_REPLY else CTA_COUNTERS_ORIG) c1] @ [])"
    unfolding dump_acct_fst Some c option.case prod.case by (intro emit_intros) simp
  then show ?thesis by (rule emt_cong) (simp add: acct_attrs_def Some c)
qed (simp add: dump_acct_fst acct_attrs_def emt_done)

end

text \<open>The connection after its counters were dumped, and after the accounting part failed.\<close>

lemma dump_acct_ok:
  assumes "ctnetlink_dump_acct E ct type s = ((Inr u, s'), ct')"
  shows "ct' = after_dump type True ct"
  using assms
  by (auto simp: ctnetlink_dump_acct_def dump_counters_def after_dump_def zero_counter_def Let_def
      split: option.splits prod.splits sum.splits if_splits)

lemma dump_acct_other_fields:
  "\<exists>c. snd (ctnetlink_dump_acct E ct type s) = ct\<lparr>ext_acct := c\<rparr>"
  by (auto simp: ctnetlink_dump_acct_def intro: exI [of _ "ext_acct ct"]
      split: option.splits prod.splits sum.splits)

lemma dump_counters_zero: "snd (dump_counters E c dir IPCTNL_MSG_CT_GET_CTRZERO s) = zero_counter"
  by (simp add: dump_counters_def zero_counter_def Let_def)

lemma dump_acct_zero:
  assumes "ext_acct ct = Some (c0, c1)"
  shows "\<exists>c1'. snd (ctnetlink_dump_acct E ct IPCTNL_MSG_CT_GET_CTRZERO s) =
    ct\<lparr>ext_acct := Some (zero_counter, c1')\<rparr>"
proof -
  obtain r s1 c0' where d: "dump_counters E c0 IP_CT_DIR_ORIGINAL IPCTNL_MSG_CT_GET_CTRZERO s =
      ((r, s1), c0')" by (metis surj_pair)
  with dump_counters_zero [of E c0 IP_CT_DIR_ORIGINAL s] have "c0' = zero_counter" by simp
  with d assms show ?thesis
    by (cases r) (auto simp: ctnetlink_dump_acct_def split: prod.splits sum.splits)
qed

lemma after_dump_fields [simp]:
  "ext_tstamp (after_dump type b ct) = ext_tstamp ct" "ext_help (after_dump type b ct) = ext_help ct"
  "ext_labels (after_dump type b ct) = ext_labels ct" "ext_seqadj (after_dump type b ct) = ext_seqadj ct"
  "ct_status (after_dump type b ct) = ct_status ct"
  "ext_synproxy (after_dump type b ct) = ext_synproxy ct"
  by (simp_all add: after_dump_def)

lemma extinfo_fst:
  "fst (ctnetlink_dump_extinfo E ct type s) =
     run_acts [fail_with EFAIL (\<lambda>s. fst (ctnetlink_dump_acct E ct type s)),
       (let ct1 = after_dump type True ct in fail_with EFAIL (run_acts [
          ctnetlink_dump_timestamp E ct1, ctnetlink_dump_helpinfo E ct1,
          ctnetlink_dump_labels E ct1, ctnetlink_dump_ct_seq_adj E ct1,
          ctnetlink_dump_ct_synproxy E ct1]))] s"
proof (cases "ctnetlink_dump_acct E ct type s")
  case (Pair rs ct1)
  obtain r s1 where rs: "rs = (r, s1)" by (cases rs)
  show ?thesis
  proof (cases r)
    case (Inl e)
    then show ?thesis using Pair rs by (simp add: ctnetlink_dump_extinfo_def fail_with_def)
  next
    case (Inr u)
    have "ct1 = after_dump type True ct" using Pair rs Inr by (auto intro: dump_acct_ok)
    then show ?thesis using Pair rs Inr
      by (auto simp: ctnetlink_dump_extinfo_def fail_with_def Let_def split: prod.splits sum.splits)
  qed
qed

lemma fill_body_fst:
  "fst (fill_body E type a ct extinfo flags s) =
     run_acts [run_acts [dump_head E ct, ctnetlink_dump_info E a ct flags],
       act_when extinfo (\<lambda>s. fst (ctnetlink_dump_extinfo E ct type s))] s"
  by (auto simp: fill_body_def act_when_def split: prod.splits sum.splits)

lemma help_strict_after [simp]: "help_strict E (after_dump type b ct) = help_strict E ct"
  by (simp add: help_strict_def)

context dump_laws
begin

lemma emt_extinfo [emit_intros]:
  "emt (help_strict E ct) (\<lambda>s. fst (ctnetlink_dump_extinfo E ct type s))
     (acct_attrs ct @ ext_attrs E A (after_dump type True ct))"
proof -
  let ?ct1 = "after_dump type True ct"
  note h = emt_helpinfo [of ?ct1, unfolded help_strict_after]
  have "emt (help_strict E ct) (\<lambda>s. fst (ctnetlink_dump_extinfo E ct type s))
    (acct_attrs ct @ (tstamp_attrs ?ct1 @ help_attrs E A ?ct1 @ labels_attrs ?ct1 @
       seqadj_attrs ?ct1 @ synproxy_attrs ?ct1 @ []) @ [])"
    unfolding extinfo_fst Let_def by (intro h emit_intros) simp_all
  then show ?thesis by (simp add: ext_attrs_def)
qed

lemma emt_fill_body:
  assumes "master_ok E ct"
  shows "emt (extinfo \<longrightarrow> help_strict E ct) (\<lambda>s. fst (fill_body E type a ct extinfo flags s))
    (ct_attrs E A type a ct extinfo flags)"
proof -
  let ?k = "extinfo \<longrightarrow> help_strict E ct"
  have x: "emt ?k (\<lambda>s. fst (ctnetlink_dump_extinfo E ct type s))
     (acct_attrs ct @ ext_attrs E A (after_dump type True ct))" if extinfo
    using emt_extinfo [of ct type] that by simp
  have "emt ?k (\<lambda>s. fst (fill_body E type a ct extinfo flags s))
    ((head_attrs A ct @ info_attrs E A a ct flags @ []) @
     (if extinfo then acct_attrs ct @ ext_attrs E A (after_dump type True ct) else []) @ [])"
    unfolding fill_body_fst using assms x by (intro emt_when emit_intros)
  then show ?thesis by (rule emt_cong) (simp add: ct_attrs_def)
qed

end

lemma fill_body_ok_ct:
  assumes "fst (fill_body E type a ct extinfo flags s) = (Inr u, s')"
  shows "snd (fill_body E type a ct extinfo flags s) = after_dump type extinfo ct"
proof (cases extinfo)
  case False
  with assms show ?thesis
    by (auto simp: fill_body_def after_dump_def split: prod.splits sum.splits)
next
  case True
  from assms True obtain s1 where
    "fst (ctnetlink_dump_extinfo E ct type s1) = (Inr u, s')"
    "fill_body E type a ct extinfo flags s = ctnetlink_dump_extinfo E ct type s1"
    by (auto simp: fill_body_def split: prod.splits sum.splits)
  then show ?thesis using True
    by (auto simp: ctnetlink_dump_extinfo_def dest: dump_acct_ok split: prod.splits sum.splits)
qed

lemma fill_body_ok_ct':
  "fill_body E type a ct extinfo flags s = ((Inr u, s'), ct') \<Longrightarrow> ct' = after_dump type extinfo ct"
  using fill_body_ok_ct [of E type a ct extinfo flags s u s'] by simp

text \<open>\<open>ctnetlink_fill_info\<close> is a message whose body is \<open>fill_body\<close>.\<close>

abbreviation fill_msg :: "u32 \<Rightarrow> u32 \<Rightarrow> nf_conn \<Rightarrow> u32 \<Rightarrow> nlmsg" where
  "fill_msg portid seq ct flags \<equiv>
     ct_msg portid seq (nfnl_msg_type NFNL_SUBSYS_CTNETLINK IPCTNL_MSG_CT_NEW) ct
       (fill_flags portid flags)"

lemma fill_info_fst:
  "fst (ctnetlink_fill_info E portid seq type a ct extinfo flags s) =
     message E (fill_msg portid seq ct flags)
       (\<lambda>s. fst (fill_body E type a ct extinfo (fill_flags portid flags) s)) s"
  by (auto simp: ctnetlink_fill_info_def message_def Let_def
      split: option.splits prod.splits sum.splits if_splits)

lemma fill_info_ok_ct:
  assumes "fst (ctnetlink_fill_info E portid seq type a ct extinfo flags s) = (Inr n, s')"
  shows "snd (ctnetlink_fill_info E portid seq type a ct extinfo flags s) = after_dump type extinfo ct"
  using assms
  by (auto simp: ctnetlink_fill_info_def Let_def dest!: fill_body_ok_ct'
      split: option.splits prod.splits sum.splits if_splits)

section \<open>A reference environment\<close>

text \<open>
  The reference buffer with callbacks of the kinds the kernel has: ports for TCP and UDP, a
  protocol state for TCP, and one helper that writes data of its own.
\<close>

definition ports_attrs :: "u8 \<Rightarrow> nf_conntrack_tuple \<Rightarrow> nlattr list" where
  "ports_attrs p t = (if p = IPPROTO_TCP \<or> p = IPPROTO_UDP
     then [Leaf CTA_PROTO_SRC_PORT (V_be16 (src_u t)), Leaf CTA_PROTO_DST_PORT (V_be16 (dst_u t))]
     else [])"

definition ref_env :: "ct_store \<Rightarrow> tcptrack_params \<Rightarrow> buf dump_env" where
  "ref_env st P = \<lparr>
     w_put = w_put buf_writer, w_nest_start = w_nest_start buf_writer,
     w_nest_end = w_nest_end buf_writer, w_msg_put = w_msg_put buf_writer,
     w_msg_end = w_msg_end buf_writer, w_msg_cancel = w_msg_cancel buf_writer,
     w_len = w_len buf_writer,
     l4_tuple_to_nlattr = (\<lambda>p. if p = IPPROTO_TCP \<or> p = IPPROTO_UDP
       then Some (\<lambda>t. run_acts [put buf_writer CTA_PROTO_SRC_PORT (V_be16 (src_u t)),
              put buf_writer CTA_PROTO_DST_PORT (V_be16 (dst_u t))])
       else None),
     l4_to_nlattr = (\<lambda>p. if p = IPPROTO_TCP
       then Some (\<lambda>ct d. nest buf_writer CTA_PROTOINFO_TCP
              (put buf_writer CTA_PROTOINFO_TCP_STATE (V_u8 (tcp_state (ct_proto ct)))))
       else None),
     l4_nlattr_size = (\<lambda>p. if p = IPPROTO_TCP then 12 else 0),
     l4_nlattr_tuple_size = (\<lambda>p. if p = IPPROTO_TCP \<or> p = IPPROTO_UDP then Some 16 else None),
     nf_ct_expires = (\<lambda>ct. ucast (ct_timeout ct)),
     env_HZ = 1000,
     nf_ct_get_id = (\<lambda>a ct. of_nat a),
     hlp_to_nlattr = (\<lambda>q. if q = 7
       then Some (\<lambda>ct. put buf_writer CTA_HELP_INFO (V_bin [1])) else None),
     secid_to_secctx = (\<lambda>s. if s = 0 then None else Some (''ctx'', 4)),
     env_store = st,
     env_params = P\<rparr>"

definition ref_attrs :: cb_attrs where
  "ref_attrs = \<lparr>at_tuple = ports_attrs,
     at_info = (\<lambda>p ct d. [Nest CTA_PROTOINFO_TCP
       [Leaf CTA_PROTOINFO_TCP_STATE (V_u8 (tcp_state (ct_proto ct)))]]),
     at_help = (\<lambda>q ct. [Leaf CTA_HELP_INFO (V_bin [1])])\<rparr>"

lemma ref_env_writer:
  "nl_writer_laws (ref_env st P) buf_emits buf_grows b_room buf_msgs"
  using bufw.nl_writer_laws_axioms unfolding nl_writer_laws_def by (simp add: ref_env_def)

interpretation ref_dump: dump_laws "ref_env st P" buf_emits buf_grows b_room buf_msgs ref_attrs
proof (rule dump_laws.intro [OF ref_env_writer], unfold_locales)
  fix p f and t :: nf_conntrack_tuple
  assume "l4_tuple_to_nlattr (ref_env st P) p = Some f"
  moreover have "bufw.emt True (run_acts [put buf_writer CTA_PROTO_SRC_PORT (V_be16 (src_u t)),
              put buf_writer CTA_PROTO_DST_PORT (V_be16 (dst_u t))])
    ([Leaf CTA_PROTO_SRC_PORT (V_be16 (src_u t))] @ [Leaf CTA_PROTO_DST_PORT (V_be16 (dst_u t))] @ [])"
    by (intro emit_intros)
  ultimately show "bufw.emt True (f t) (at_tuple ref_attrs p t)"
    by (auto simp: ref_env_def ref_attrs_def ports_attrs_def split: if_splits)
next
  fix p g ct d
  assume "l4_to_nlattr (ref_env st P) p = Some g"
  then show "bufw.emt True (g ct d) (at_info ref_attrs p ct d)"
    by (auto simp: ref_env_def ref_attrs_def intro!: emit_intros split: if_splits)
next
  fix q h ct
  assume h: "hlp_to_nlattr (ref_env st P) q = Some h"
  then have h': "h ct = put buf_writer CTA_HELP_INFO (V_bin [1])"
    by (auto simp: ref_env_def split: if_splits)
  show "bufw.emt True (h ct) (at_help ref_attrs q ct)"
    unfolding h' by (simp add: ref_attrs_def bufw.emt_put)
  show "\<exists>bs. buf_emits s bs s'" if "h ct s = (Inl e, s')" for s e s'
    using that bufw.emits_refl unfolding h' by (auto simp: put_def split: option.splits)
qed (auto simp: ref_env_def ref_attrs_def ports_attrs_def split: if_splits)

section \<open>Dumping one connection\<close>

context dump_laws
begin

lemma fill_info_fits:
  assumes "master_ok E ct"
    and "NFNL_HDR_SIZE + attrs_size (ct_attrs E A type a ct extinfo (fill_flags portid flags))
      \<le> room skb"
  shows "\<exists>skb'. ctnetlink_fill_info E portid seq type a ct extinfo flags skb =
       ((Inr (w_len E skb'), skb'), after_dump type extinfo ct) \<and> 0 < w_len E skb' \<and>
     msgs skb' = msgs skb @
       [(fill_msg portid seq ct flags, ct_attrs E A type a ct extinfo (fill_flags portid flags))] \<and>
     room skb = room skb' + NFNL_HDR_SIZE +
       attrs_size (ct_attrs E A type a ct extinfo (fill_flags portid flags))"
proof (rule message_fits [OF emt_fill_body [OF assms(1)] assms(2),
      of "fill_msg portid seq ct flags", folded fill_info_fst])
  fix skb'
  assume "fst (ctnetlink_fill_info E portid seq type a ct extinfo flags skb) =
    (Inr (w_len E skb'), skb')"
  note ok = this fill_info_ok_ct [OF this]
  assume "0 < w_len E skb'" "msgs skb' = msgs skb @ [(fill_msg portid seq ct flags,
      ct_attrs E A type a ct extinfo (fill_flags portid flags))]"
    "room skb = room skb' + NFNL_HDR_SIZE +
     attrs_size (ct_attrs E A type a ct extinfo (fill_flags portid flags))"
  with ok show ?thesis by (metis prod.collapse)
qed

lemma fill_info_full:
  assumes "master_ok E ct" "extinfo \<longrightarrow> help_strict E ct"
    and "room skb < NFNL_HDR_SIZE +
      attrs_size (ct_attrs E A type a ct extinfo (fill_flags portid flags))"
  shows "fst (ctnetlink_fill_info E portid seq type a ct extinfo flags skb) = (Inl EFAIL, skb)"
  using message_overflows [OF emt_fill_body [OF assms(1)] assms(3),
      of "fill_msg portid seq ct flags", folded fill_info_fst] assms(2) by blast

text \<open>
  Without the strictness: the dump returns, never through a dead pointer, with the buffer as it
  was or with one complete message more.
\<close>

lemma fill_info_atomic:
  assumes "master_ok E ct"
  shows "fst (ctnetlink_fill_info E portid seq type a ct extinfo flags skb) = (Inl EFAIL, skb) \<or>
    (\<exists>skb' as. fst (ctnetlink_fill_info E portid seq type a ct extinfo flags skb) =
        (Inr (w_len E skb'), skb') \<and> 0 < w_len E skb' \<and>
       msgs skb' = msgs skb @ [(fill_msg portid seq ct flags, as)])"
proof (cases "NFNL_HDR_SIZE + attrs_size (ct_attrs E A type a ct extinfo (fill_flags portid flags))
      \<le> room skb")
  case True
  with fill_info_fits [OF assms True, of seq] show ?thesis by force
next
  case False
  then show ?thesis
    using message_overflows [OF emt_fill_body [OF assms],
      of skb type a extinfo "fill_flags portid flags" "fill_msg portid seq ct flags",
      folded fill_info_fst] by force
qed

text \<open>
  When the tuples and the information fit but not the whole message, the counters have been
  exchanged with zero although no message is left.
\<close>

lemma fill_info_lost_counters:
  assumes "master_ok E ct" "help_strict E ct" "ext_acct ct = Some (c0, c1)"
    and "NFNL_HDR_SIZE + attrs_size (head_attrs A ct @ info_attrs E A a ct (fill_flags portid flags))
      \<le> room skb"
    and "room skb < NFNL_HDR_SIZE + attrs_size
      (ct_attrs E A IPCTNL_MSG_CT_GET_CTRZERO a ct True (fill_flags portid flags))"
  shows "\<exists>c1'. ctnetlink_fill_info E portid seq IPCTNL_MSG_CT_GET_CTRZERO a ct True flags skb =
    ((Inl EFAIL, skb), ct\<lparr>ext_acct := Some (zero_counter, c1')\<rparr>)"
proof -
  let ?f = "fill_flags portid flags"
  have 1: "fst (ctnetlink_fill_info E portid seq IPCTNL_MSG_CT_GET_CTRZERO a ct True flags skb) =
      (Inl EFAIL, skb)"
    using fill_info_full [OF assms(1) _ assms(5)] assms(2) by blast
  obtain s1 h where start: "w_msg_put E skb (fill_msg portid seq ct flags) = Some (s1, h)"
    using msg_none [of skb "fill_msg portid seq ct flags"] assms(4) by fastforce
  have "emt True (run_acts [dump_head E ct, ctnetlink_dump_info E a ct ?f])
      (head_attrs A ct @ info_attrs E A a ct ?f @ [])"
    using assms(1) by (intro emit_intros)
  from emt_fits [OF this, of s1] msg_some [OF start] assms(4) obtain s2 where
    s2: "run_acts [dump_head E ct, ctnetlink_dump_info E a ct ?f] s1 = (Inr (), s2)"
    by auto
  from dump_acct_zero [OF assms(3)]
  have "\<exists>c1'. snd (ctnetlink_dump_acct E ct IPCTNL_MSG_CT_GET_CTRZERO s2) =
      ct\<lparr>ext_acct := Some (zero_counter, c1')\<rparr>" .
  then have "\<exists>c1'. snd (fill_body E IPCTNL_MSG_CT_GET_CTRZERO a ct True ?f s1) =
      ct\<lparr>ext_acct := Some (zero_counter, c1')\<rparr>"
    unfolding fill_body_def s2 ctnetlink_dump_extinfo_def
    by (auto split: prod.splits sum.splits)
  then have "\<exists>c1'. snd (ctnetlink_fill_info E portid seq IPCTNL_MSG_CT_GET_CTRZERO a ct True flags
      skb) = ct\<lparr>ext_acct := Some (zero_counter, c1')\<rparr>"
    unfolding ctnetlink_fill_info_def Let_def start
    by (auto split: prod.splits sum.splits)
  with 1 show ?thesis by (metis prod.collapse)
qed

end

section \<open>Properties\<close>

text \<open>
  C10. When header and attributes fit into the buffer, dumping a connection whose
  master (if it is an expected one) is alive returns the positive length of the buffer, appends
  exactly one message (the attribute tree \<open>ct_attrs\<close> under the header for the connection's
  family), takes exactly its size, and changes nothing of the connection but the counters, which
  are zero afterwards iff the dump was a \<open>IPCTNL_MSG_CT_GET_CTRZERO\<close> with extensions.
\<close>

theorem fill_info_complete:
  assumes "dump_laws E emits grows room msgs A"
    and "master_ok E ct"
    and "NFNL_HDR_SIZE + attrs_size (ct_attrs E A type a ct extinfo (fill_flags portid flags))
      \<le> room skb"
  shows "\<exists>skb'. ctnetlink_fill_info E portid seq type a ct extinfo flags skb =
       ((Inr (w_len E skb'), skb'), after_dump type extinfo ct) \<and> 0 < w_len E skb' \<and>
     msgs skb' = msgs skb @
       [(fill_msg portid seq ct flags, ct_attrs E A type a ct extinfo (fill_flags portid flags))] \<and>
     room skb = room skb' + NFNL_HDR_SIZE +
       attrs_size (ct_attrs E A type a ct extinfo (fill_flags portid flags))"
  by (rule dump_laws.fill_info_fits [OF assms])

definition big_buf :: buf where
  "big_buf = \<lparr>b_room = 4096, b_toks = []\<rparr>"

lemma sample_dump_size:
  "attrs_size (ct_attrs (ref_env Map.empty default_params) ref_attrs IPCTNL_MSG_CT_GET_CTRZERO 1
     sample_ct True 0x22) = 240"
  "attrs_size (head_attrs ref_attrs sample_ct @
     info_attrs (ref_env Map.empty default_params) ref_attrs 1 sample_ct 0x22) = 168"
  by code_simp+

lemma sample_dump_ok:
  "master_ok (ref_env Map.empty default_params) sample_ct"
  "help_strict (ref_env Map.empty default_params) sample_ct"
  "fill_flags 5 0x20 = 0x22"
  by code_simp+

theorem fill_info_complete_witness:
  "\<exists>skb'. ctnetlink_fill_info (ref_env Map.empty default_params) 5 6 IPCTNL_MSG_CT_GET_CTRZERO 1
       sample_ct True 0x20 big_buf =
       ((Inr (w_len (ref_env Map.empty default_params) skb'), skb'),
        sample_ct\<lparr>ext_acct := Some (zero_counter, zero_counter)\<rparr>) \<and>
     length (buf_msgs skb') = 1 \<and> b_room skb' = 3836"
proof -
  have a: "after_dump IPCTNL_MSG_CT_GET_CTRZERO True sample_ct =
      sample_ct\<lparr>ext_acct := Some (zero_counter, zero_counter)\<rparr>"
    by (simp add: after_dump_def sample_ct_def)
  have fits: "NFNL_HDR_SIZE + attrs_size (ct_attrs (ref_env Map.empty default_params) ref_attrs
      IPCTNL_MSG_CT_GET_CTRZERO 1 sample_ct True (fill_flags 5 0x20)) \<le> b_room big_buf"
    using sample_dump_size(1) by (simp add: sample_dump_ok(3) big_buf_def)
  have z: "buf_msgs big_buf = []" "b_room big_buf = 4096"
    by (simp_all add: buf_msgs_def big_buf_def)
  show ?thesis
    using fill_info_complete [OF ref_dump.dump_laws_axioms sample_dump_ok(1) fits, of 6]
    unfolding a sample_dump_ok(3) sample_dump_size(1) z by auto
qed

text \<open>
  C11. Whatever the room in the buffer, dumping a connection whose master
  (if it is an expected one) is alive follows no dead pointer and ends in one of two ways: \<open>-1\<close>
  with the buffer exactly as it was, or the positive buffer length with exactly one complete
  message appended. When no helper callback is involved, it is the first iff the message does not
  fit.
\<close>

theorem fill_info_all_or_nothing:
  assumes "dump_laws E emits grows room msgs A"
    and "master_ok E ct"
  shows "(let r = fst (ctnetlink_fill_info E portid seq type a ct extinfo flags skb) in
      (r = (Inl EFAIL, skb) \<or>
       (\<exists>skb' as. r = (Inr (w_len E skb'), skb') \<and> 0 < w_len E skb' \<and>
          msgs skb' = msgs skb @ [(fill_msg portid seq ct flags, as)])) \<and>
      (help_strict E ct \<or> \<not> extinfo \<longrightarrow>
        (r = (Inl EFAIL, skb) \<longleftrightarrow> room skb < NFNL_HDR_SIZE +
           attrs_size (ct_attrs E A type a ct extinfo (fill_flags portid flags)))))"
proof -
  note atomic = dump_laws.fill_info_atomic [OF assms, of portid seq type a extinfo flags skb]
  note full = dump_laws.fill_info_full [OF assms(1,2), of extinfo skb type a portid flags seq]
  note fits = dump_laws.fill_info_fits [OF assms, of type a extinfo portid flags skb seq]
  have "fst (ctnetlink_fill_info E portid seq type a ct extinfo flags skb) \<noteq> (Inl EFAIL, skb)"
    if "\<not> room skb < NFNL_HDR_SIZE +
           attrs_size (ct_attrs E A type a ct extinfo (fill_flags portid flags))"
    using fits that by force
  with atomic full show ?thesis unfolding Let_def by blast
qed

theorem fill_info_all_or_nothing_witness:
  "fst (ctnetlink_fill_info (ref_env Map.empty default_params) 5 6 IPCTNL_MSG_CT_GET_CTRZERO 1
      sample_ct True 0x20 \<lparr>b_room = 259, b_toks = []\<rparr>) = (Inl EFAIL, \<lparr>b_room = 259, b_toks = []\<rparr>) \<and>
   fst (ctnetlink_fill_info (ref_env Map.empty default_params) 5 6 IPCTNL_MSG_CT_GET_CTRZERO 1
      sample_ct True 0x20 \<lparr>b_room = 260, b_toks = []\<rparr>) \<noteq> (Inl EFAIL, \<lparr>b_room = 260, b_toks = []\<rparr>)"
proof -
  have *: "\<And>skb. let r = fst (ctnetlink_fill_info (ref_env Map.empty default_params) 5 6
        IPCTNL_MSG_CT_GET_CTRZERO 1 sample_ct True 0x20 skb) in
      r = (Inl EFAIL, skb) \<longleftrightarrow> b_room skb < 260"
    using fill_info_all_or_nothing [OF ref_dump.dump_laws_axioms sample_dump_ok(1),
      of 5 6 IPCTNL_MSG_CT_GET_CTRZERO 1 True "0x20"] sample_dump_ok(2)
    unfolding sample_dump_ok(3) sample_dump_size(1) Let_def by simp
  show ?thesis
    using * [of "\<lparr>b_room = 259, b_toks = []\<rparr>"] * [of "\<lparr>b_room = 260, b_toks = []\<rparr>"]
    by (simp add: Let_def)
qed

text \<open>
  C12. A dump that resets the counters reads and clears them before it knows
  that the message fits. If tuples and information fit but the rest does not, no message is left
  in the buffer and yet the counter of the original direction is zero: its counts reach no
  reader.
\<close>

theorem ctrzero_loses_counts:
  assumes "dump_laws E emits grows room msgs A"
    and "master_ok E ct" "help_strict E ct" "ext_acct ct = Some (c0, c1)"
    and "NFNL_HDR_SIZE + attrs_size (head_attrs A ct @ info_attrs E A a ct (fill_flags portid flags))
      \<le> room skb"
    and "room skb < NFNL_HDR_SIZE + attrs_size
      (ct_attrs E A IPCTNL_MSG_CT_GET_CTRZERO a ct True (fill_flags portid flags))"
  shows "\<exists>c1'. ctnetlink_fill_info E portid seq IPCTNL_MSG_CT_GET_CTRZERO a ct True flags skb =
    ((Inl EFAIL, skb), ct\<lparr>ext_acct := Some (zero_counter, c1')\<rparr>)"
  by (rule dump_laws.fill_info_lost_counters [OF assms])

theorem ctrzero_loses_counts_witness:
  "\<exists>c1'. ctnetlink_fill_info (ref_env Map.empty default_params) 5 6 IPCTNL_MSG_CT_GET_CTRZERO 1
       sample_ct True 0x20 \<lparr>b_room = 200, b_toks = []\<rparr> =
    ((Inl EFAIL, \<lparr>b_room = 200, b_toks = []\<rparr>), sample_ct\<lparr>ext_acct := Some (zero_counter, c1')\<rparr>)"
proof -
  have acct: "ext_acct sample_ct =
      Some (\<lparr>ctr_packets = 3, ctr_bytes = 180\<rparr>, \<lparr>ctr_packets = 2, ctr_bytes = 120\<rparr>)"
    by (simp add: sample_ct_def)
  show ?thesis
    by (rule ctrzero_loses_counts [OF ref_dump.dump_laws_axioms sample_dump_ok(1,2) acct])
      (unfold sample_dump_ok(3) sample_dump_size, simp_all)
qed

end
