(* ===== verification/Ct_Parse_Spec.thy ===== *)
theory Ct_Parse_Spec
  imports Ct_Parse Ct_Dump_Spec
begin

text \<open>
  What the readers of theory \<open>Ct_Parse\<close> compute: the laws of the kernel's attribute parser as
  a locale with a reference instance, the round trip of tuples through attributes, and the
  meaning of filters.
\<close>

section \<open>Laws of the attribute parser\<close>

fun attr_type :: "nlattr \<Rightarrow> nat" where
  "attr_type (Leaf t v) = t"
| "attr_type (Nest t as) = t"

fun payload_len :: "nlattr \<Rightarrow> nat" where
  "payload_len (Leaf t v) = val_len v"
| "payload_len (Nest t as) = attrs_size as"

fun is_nest :: "nlattr \<Rightarrow> bool" where
  "is_nest (Nest t as) = True"
| "is_nest (Leaf t v) = False"

text \<open>An attribute that every validation mode of the parser accepts under a policy.\<close>

definition policy_ok :: "nla_policy \<Rightarrow> nlattr \<Rightarrow> bool" where
  "policy_ok pol a =
     (case map_of pol (attr_type a) of
        None \<Rightarrow> True
      | Some (k, len) \<Rightarrow>
          (case k of
             NLA_U8 \<Rightarrow> payload_len a = 1
           | NLA_U16 \<Rightarrow> payload_len a = 2
           | NLA_U32 \<Rightarrow> payload_len a = 4
           | NLA_NESTED \<Rightarrow> is_nest a
           | NLA_UNSPEC \<Rightarrow> len \<le> payload_len a
           | NLA_BINARY \<Rightarrow> payload_len a \<le> len
           | NLA_NUL_STRING \<Rightarrow> payload_len a \<le> Suc len))"

text \<open>The table entry of a number: the last attribute with it.\<close>

definition child :: "nlattr list \<Rightarrow> nat \<Rightarrow> nlattr option" where
  "child as i = List.find (\<lambda>a. attr_type a = i) (rev as)"

definition table_of ::
  "('nla \<Rightarrow> nlattr \<Rightarrow> bool) \<Rightarrow> nat \<Rightarrow> 'nla attr_table \<Rightarrow> nlattr list \<Rightarrow> bool" where
  "table_of reads n tb as \<longleftrightarrow> (\<forall>i. 0 < i \<and> i \<le> n \<longrightarrow> rel_option reads (tb i) (child as i))"

text \<open>
  \<open>reads x a\<close>: the attribute \<open>x\<close> of a received message is the encoding of \<open>a\<close>. The last law is
  the contract between a protocol's two callbacks: what \<open>tuple_to_nlattr\<close> writes is valid under
  the protocol's policy and \<open>nlattr_to_tuple\<close> reads it back.
\<close>

locale nl_reader_laws =
  fixes R :: "('nla, 'x) nl_reader_scheme"
    and reads :: "'nla \<Rightarrow> nlattr \<Rightarrow> bool"
    and A :: cb_attrs
  assumes parse: "reads x (Nest t as) \<Longrightarrow> \<forall>a\<in>set as. policy_ok pol a \<Longrightarrow>
      \<exists>tb. nla_parse_nested_deprecated R n x pol = Inr tb \<and> table_of reads n tb as"
    and validate: "reads x (Nest t as) \<Longrightarrow> \<forall>a\<in>set as. policy_ok pol a \<Longrightarrow>
      nla_validate_nested_deprecated R x n pol = Inr ()"
    and get_u8: "reads x (Leaf t (V_u8 b)) \<Longrightarrow> nla_get_u8 R x = b"
    and get_be16: "reads x (Leaf t (V_be16 h)) \<Longrightarrow> nla_get_be16 R x = h"
    and get_be32: "reads x (Leaf t (V_be32 u)) \<Longrightarrow> nla_get_be32 R x = u"
    and get_in_addr: "reads x (Leaf t (V_in_addr u)) \<Longrightarrow> nla_get_be32 R x = u"
    and get_in6_addr: "reads x (Leaf t (V_in6_addr v)) \<Longrightarrow> nla_get_in6_addr R x = v"
    and l4_policy: "l4_nlattr_to_tuple R p = Some f \<Longrightarrow> a \<in> set (at_tuple A p tup) \<Longrightarrow>
      policy_ok (l4_nla_policy R p) a \<and> policy_ok proto_nla_policy a \<and> attr_type a \<noteq> CTA_PROTO_NUM"
    and l4_num: "l4_nlattr_to_tuple R p = Some f \<Longrightarrow>
      policy_ok (l4_nla_policy R p) (Leaf CTA_PROTO_NUM (V_u8 p))"
    and l4_reads: "l4_nlattr_to_tuple R p = Some f \<Longrightarrow>
      table_of reads CTA_PROTO_MAX tb (Leaf CTA_PROTO_NUM (V_u8 p) # at_tuple A p tup) \<Longrightarrow>
      f tb tup0 CTA_FILTER_F_ALL = Inr (tup0\<lparr>src_u := src_u tup, dst_u := dst_u tup\<rparr>)"

lemma table_ofD: "table_of reads n tb as \<Longrightarrow> 0 < i \<Longrightarrow> i \<le> n \<Longrightarrow> rel_option reads (tb i) (child as i)"
  by (simp add: table_of_def)

lemma child_Nil [simp]: "child [] i = None"
  by (simp add: child_def)

lemma find_append: "List.find P (xs @ ys) = (case List.find P xs of None \<Rightarrow> List.find P ys | Some x \<Rightarrow> Some x)"
  by (induction xs) auto

lemma child_Cons [simp]:
  "child (a # as) i =
     (case child as i of None \<Rightarrow> if attr_type a = i then Some a else None | Some b \<Rightarrow> Some b)"
  by (simp add: child_def find_append split: option.splits)

lemma child_append: "child (as @ bs) i = (case child bs i of None \<Rightarrow> child as i | Some b \<Rightarrow> Some b)"
  by (simp add: child_def find_append split: option.splits)

lemma child_None: "(\<forall>a\<in>set as. attr_type a \<noteq> i) \<Longrightarrow> child as i = None"
  by (induction as) auto

lemma has_filter_ALL [simp]: "has_filter CTA_FILTER_F_ALL f"
  by (cases f) (simp_all add: has_filter_def CTA_FILTER_F_ALL_def)

text \<open>
  A tuple in the form the kernel keeps it: IPv4 addresses occupy only the first word of the
  union, and the direction is the one of the attribute it is written under.
\<close>

definition canonical_tuple :: "nf_conntrack_tuple \<Rightarrow> bool" where
  "canonical_tuple t \<longleftrightarrow>
     src_l3num t = NFPROTO_IPV6 \<or>
     (src_l3num t = NFPROTO_IPV4 \<and> src_u3 t = any_addr\<lparr>all0 := addr_ip (src_u3 t)\<rparr> \<and>
      dst_u3 t = any_addr\<lparr>all0 := addr_ip (dst_u3 t)\<rparr>)"

definition dir_of_attr :: "nat \<Rightarrow> u8" where
  "dir_of_attr type = (if type = CTA_TUPLE_REPLY then IP_CT_DIR_REPLY else IP_CT_DIR_ORIGINAL)"

lemma policy_ok_ip: "\<forall>a\<in>set (ip_attrs t). policy_ok cta_ip_nla_policy a"
  by (auto simp: ip_attrs_def policy_ok_def cta_ip_nla_policy_def)

lemma policy_ok_Nil [simp]: "policy_ok [] a"
  by (simp add: policy_ok_def)

lemma policy_ok_tuple:
  "\<forall>a\<in>set (tuple_attrs A t @ zone_attrs CTA_TUPLE_ZONE z dir). policy_ok tuple_nla_policy a"
  by (simp add: tuple_attrs_def zone_attrs_def policy_ok_def tuple_nla_policy_def)

lemma child_tuple:
  "child (tuple_attrs A t @ zone_attrs CTA_TUPLE_ZONE z dir) CTA_TUPLE_IP = Some (Nest CTA_TUPLE_IP (ip_attrs t))"
  "child (tuple_attrs A t @ zone_attrs CTA_TUPLE_ZONE z dir) CTA_TUPLE_PROTO = Some (Nest CTA_TUPLE_PROTO
     (Leaf CTA_PROTO_NUM (V_u8 (dst_protonum t)) # at_tuple A (dst_protonum t) t))"
  "child (tuple_attrs A t @ zone_attrs CTA_TUPLE_ZONE z dir) CTA_TUPLE_ZONE =
     (if zone_id z \<noteq> NF_CT_DEFAULT_ZONE_ID \<and> zone_dir z = dir
      then Some (Leaf CTA_TUPLE_ZONE (V_be16 (htons (zone_id z)))) else None)"
  by (simp_all add: tuple_attrs_def zone_attrs_def child_append)

context nl_reader_laws
begin

lemma rel_SomeD: "rel_option reads x (Some a) \<Longrightarrow> \<exists>y. x = Some y \<and> reads y a"
  by (cases x) auto

lemma rel_NoneD: "rel_option reads x None \<Longrightarrow> x = None"
  by (cases x) auto

lemma parse_tuple_ip_reads:
  assumes x: "reads x (Nest n (ip_attrs t))" and t: "canonical_tuple t"
    and t0: "src_l3num t0 = src_l3num t" "src_u3 t0 = any_addr" "dst_u3 t0 = any_addr"
  shows "ctnetlink_parse_tuple_ip R x t0 CTA_FILTER_F_ALL =
    Inr (t0\<lparr>src_u3 := src_u3 t, dst_u3 := dst_u3 t\<rparr>)"
proof -
  obtain tb where tb: "nla_parse_nested_deprecated R CTA_IP_MAX x [] = Inr tb"
      "table_of reads CTA_IP_MAX tb (ip_attrs t)"
    using parse [OF x, of "[]" CTA_IP_MAX] by auto
  have v: "nla_validate_nested_deprecated R x CTA_IP_MAX cta_ip_nla_policy = Inr ()"
    by (rule validate [OF x policy_ok_ip])
  note e = table_ofD [OF tb(2)]
  show ?thesis
  proof (cases "src_l3num t = NFPROTO_IPV4")
    case True
    then have "rel_option reads (tb CTA_IP_V4_SRC)
          (Some (Leaf CTA_IP_V4_SRC (V_in_addr (addr_ip (src_u3 t)))))"
        "rel_option reads (tb CTA_IP_V4_DST)
          (Some (Leaf CTA_IP_V4_DST (V_in_addr (addr_ip (dst_u3 t)))))"
      using e [of CTA_IP_V4_SRC] e [of CTA_IP_V4_DST] by (simp_all add: ip_attrs_def)
    then obtain y z where "tb CTA_IP_V4_SRC = Some y" "nla_get_be32 R y = addr_ip (src_u3 t)"
        "tb CTA_IP_V4_DST = Some z" "nla_get_be32 R z = addr_ip (dst_u3 t)"
      by (meson rel_SomeD get_in_addr)
    with True tb(1) v t t0 show ?thesis
      by (simp add: ctnetlink_parse_tuple_ip_def ipv4_nlattr_to_tuple_def take_attr_def
          canonical_tuple_def)
  next
    case False
    with t have 6: "src_l3num t = NFPROTO_IPV6" by (simp add: canonical_tuple_def)
    then have "rel_option reads (tb CTA_IP_V6_SRC) (Some (Leaf CTA_IP_V6_SRC (V_in6_addr (src_u3 t))))"
        "rel_option reads (tb CTA_IP_V6_DST) (Some (Leaf CTA_IP_V6_DST (V_in6_addr (dst_u3 t))))"
      using e [of CTA_IP_V6_SRC] e [of CTA_IP_V6_DST] by (simp_all add: ip_attrs_def)
    then obtain y z where "tb CTA_IP_V6_SRC = Some y" "nla_get_in6_addr R y = src_u3 t"
        "tb CTA_IP_V6_DST = Some z" "nla_get_in6_addr R z = dst_u3 t"
      by (meson rel_SomeD get_in6_addr)
    with 6 tb(1) v t0 show ?thesis
      by (simp add: ctnetlink_parse_tuple_ip_def ipv6_nlattr_to_tuple_def take_attr_def)
  qed
qed

lemma parse_tuple_proto_reads:
  assumes x: "reads x (Nest n (Leaf CTA_PROTO_NUM (V_u8 (dst_protonum t)) # at_tuple A (dst_protonum t) t))"
    and f: "l4_nlattr_to_tuple R (dst_protonum t) = Some f"
  shows "ctnetlink_parse_tuple_proto R x t0 CTA_FILTER_F_ALL =
    Inr (t0\<lparr>dst_protonum := dst_protonum t, src_u := src_u t, dst_u := dst_u t\<rparr>)"
proof -
  let ?as = "Leaf CTA_PROTO_NUM (V_u8 (dst_protonum t)) # at_tuple A (dst_protonum t) t"
  have ok: "\<forall>a\<in>set ?as. policy_ok proto_nla_policy a"
    using l4_policy [OF f] by (auto simp: policy_ok_def proto_nla_policy_def)
  have ok4: "\<forall>a\<in>set ?as. policy_ok (l4_nla_policy R (dst_protonum t)) a"
    using l4_policy [OF f] l4_num [OF f] by auto
  obtain tb where tb: "nla_parse_nested_deprecated R CTA_PROTO_MAX x proto_nla_policy = Inr tb"
      "table_of reads CTA_PROTO_MAX tb ?as"
    using parse [OF x ok] by blast
  have "child (at_tuple A (dst_protonum t) t) CTA_PROTO_NUM = None"
    by (rule child_None) (use l4_policy [OF f] in blast)
  then have "rel_option reads (tb CTA_PROTO_NUM) (Some (Leaf CTA_PROTO_NUM (V_u8 (dst_protonum t))))"
    using table_ofD [OF tb(2), of CTA_PROTO_NUM] by simp
  then obtain y where y: "tb CTA_PROTO_NUM = Some y" "nla_get_u8 R y = dst_protonum t"
    by (meson rel_SomeD get_u8)
  show ?thesis
    using tb(1) y f validate [OF x ok4] l4_reads [OF f tb(2)]
    by (simp add: ctnetlink_parse_tuple_proto_def)
qed

lemma parse_tuple_reads:
  assumes x: "cda type = Some x"
      "reads x (Nest n (tuple_attrs A t @ zone_attrs CTA_TUPLE_ZONE z dir))"
    and t: "canonical_tuple t" "ucast l3num = src_l3num t"
    and f: "l4_nlattr_to_tuple R (dst_protonum t) \<noteq> None"
    and z: "zone_id z = NF_CT_DEFAULT_ZONE_ID \<or> zone_dir z \<noteq> dir"
  shows "ctnetlink_parse_tuple R cda type l3num zone = Inr (t\<lparr>dst_dir := dir_of_attr type\<rparr>, zone)"
proof -
  obtain tb where tb: "nla_parse_nested_deprecated R CTA_TUPLE_MAX x tuple_nla_policy = Inr tb"
      "table_of reads CTA_TUPLE_MAX tb (tuple_attrs A t @ zone_attrs CTA_TUPLE_ZONE z dir)"
    using parse [OF x(2) policy_ok_tuple] by blast
  note e = table_ofD [OF tb(2)]
  have "rel_option reads (tb CTA_TUPLE_IP) (Some (Nest CTA_TUPLE_IP (ip_attrs t)))"
    using e [of CTA_TUPLE_IP] unfolding child_tuple by simp
  then obtain y where y: "tb CTA_TUPLE_IP = Some y" "reads y (Nest CTA_TUPLE_IP (ip_attrs t))"
    using rel_SomeD by blast
  have "rel_option reads (tb CTA_TUPLE_PROTO) (Some (Nest CTA_TUPLE_PROTO
     (Leaf CTA_PROTO_NUM (V_u8 (dst_protonum t)) # at_tuple A (dst_protonum t) t)))"
    using e [of CTA_TUPLE_PROTO] unfolding child_tuple by simp
  then obtain p where p: "tb CTA_TUPLE_PROTO = Some p" "reads p (Nest CTA_TUPLE_PROTO
     (Leaf CTA_PROTO_NUM (V_u8 (dst_protonum t)) # at_tuple A (dst_protonum t) t))"
    using rel_SomeD by blast
  have "tb CTA_TUPLE_ZONE = None"
    using e [of CTA_TUPLE_ZONE] z by (auto simp: child_tuple dest: rel_NoneD)
  obtain f' where f': "l4_nlattr_to_tuple R (dst_protonum t) = Some f'" using f by blast
  let ?t0 = "zero_tuple\<lparr>src_l3num := ucast l3num\<rparr>"
  have l3: "ucast l3num = NFPROTO_IPV4 \<or> ucast l3num = NFPROTO_IPV6"
    using t by (auto simp: canonical_tuple_def)
  have ip: "tuple_ip_part R tb CTA_FILTER_F_ALL ?t0 = Inr (?t0\<lparr>src_u3 := src_u3 t, dst_u3 := dst_u3 t\<rparr>)"
    using y parse_tuple_ip_reads [OF y(2) t(1), of ?t0] t(2)
    by (simp add: tuple_ip_part_def zero_tuple_def)
  have pr: "tuple_proto_part R tb CTA_FILTER_F_ALL t1 =
      Inr (t1\<lparr>dst_protonum := dst_protonum t, src_u := src_u t, dst_u := dst_u t\<rparr>)" for t1
    using p parse_tuple_proto_reads [OF p(2) f'] by (simp add: tuple_proto_part_def)
  have zo: "tuple_zone_part R tb CTA_FILTER_F_ALL type zone = Inr zone"
    by (simp add: tuple_zone_part_def \<open>tb CTA_TUPLE_ZONE = None\<close>)
  show ?thesis
    using x(1) tb(1) l3 ip pr zo t(2)
    by (auto simp: ctnetlink_parse_tuple_def ctnetlink_parse_tuple_filter_def dir_of_attr_def
        zero_tuple_def)
qed

end

section \<open>A reference parser\<close>

text \<open>
  The parser on attribute trees themselves, with the ports callback of TCP and UDP.
\<close>

fun tree_parse :: "nat \<Rightarrow> nlattr \<Rightarrow> nla_policy \<Rightarrow> nlattr attr_table res" where
  "tree_parse n (Nest t as) pol = (if list_all (policy_ok pol) as then Inr (child as) else Inl EINVAL)"
| "tree_parse n (Leaf t v) pol = Inl EINVAL"

definition ports_to_tuple ::
  "nlattr attr_table \<Rightarrow> nf_conntrack_tuple \<Rightarrow> u32 \<Rightarrow> nf_conntrack_tuple res" where
  "ports_to_tuple tb t flags =
     bind_res (take_attr (has_filter flags F_CTA_PROTO_SRC_PORT) (tb CTA_PROTO_SRC_PORT)
         (\<lambda>a t. t\<lparr>src_u := (case a of Leaf _ (V_be16 h) \<Rightarrow> h | _ \<Rightarrow> 0)\<rparr>) t)
       (take_attr (has_filter flags F_CTA_PROTO_DST_PORT) (tb CTA_PROTO_DST_PORT)
         (\<lambda>a t. t\<lparr>dst_u := (case a of Leaf _ (V_be16 h) \<Rightarrow> h | _ \<Rightarrow> 0)\<rparr>))"

definition tree_reader :: "nlattr nl_reader" where
  "tree_reader = \<lparr>
     nla_parse_nested = tree_parse,
     nla_parse_nested_deprecated = tree_parse,
     nla_validate_nested_deprecated =
       (\<lambda>a n pol. case tree_parse n a pol of Inl e \<Rightarrow> Inl e | Inr _ \<Rightarrow> Inr ()),
     nla_get_u8 = (\<lambda>a. case a of Leaf _ (V_u8 b) \<Rightarrow> b | _ \<Rightarrow> 0),
     nla_get_be16 = (\<lambda>a. case a of Leaf _ (V_be16 h) \<Rightarrow> h | _ \<Rightarrow> 0),
     nla_get_be32 = (\<lambda>a. case a of Leaf _ (V_be32 u) \<Rightarrow> u | Leaf _ (V_in_addr u) \<Rightarrow> u | _ \<Rightarrow> 0),
     nla_get_in6_addr = (\<lambda>a. case a of Leaf _ (V_in6_addr v) \<Rightarrow> v | _ \<Rightarrow> any_addr),
     nla_string = (\<lambda>a. case a of Leaf _ (V_string s) \<Rightarrow> s | _ \<Rightarrow> []),
     l4_nlattr_to_tuple =
       (\<lambda>p. if p = IPPROTO_TCP \<or> p = IPPROTO_UDP then Some ports_to_tuple else None),
     l4_nla_policy = (\<lambda>p. [(CTA_PROTO_SRC_PORT, NLA_U16, 0), (CTA_PROTO_DST_PORT, NLA_U16, 0)])\<rparr>"

interpretation tree_rd: nl_reader_laws tree_reader "(=)" ref_attrs
proof (unfold_locales, goal_cases)
  case (1 x t as pol n)
  then show ?case
    by (auto simp: tree_reader_def table_of_def list_all_iff option.rel_eq)
next
  case (2 x t as pol n)
  then show ?case by (auto simp: tree_reader_def list_all_iff)
next
  case (8 p f a tup)
  then show ?case
    by (auto simp: tree_reader_def ref_attrs_def ports_attrs_def policy_ok_def proto_nla_policy_def)
next
  case (9 p f)
  then show ?case by (simp add: tree_reader_def policy_ok_def)
next
  case (10 p f tb tup tup0)
  then have p: "p = IPPROTO_TCP \<or> p = IPPROTO_UDP" and f: "f = ports_to_tuple"
    by (auto simp: tree_reader_def split: if_splits)
  from 10(2) p have "tb CTA_PROTO_SRC_PORT = Some (Leaf CTA_PROTO_SRC_PORT (V_be16 (src_u tup)))"
      "tb CTA_PROTO_DST_PORT = Some (Leaf CTA_PROTO_DST_PORT (V_be16 (dst_u tup)))"
    using table_ofD [OF 10(2), of CTA_PROTO_SRC_PORT] table_ofD [OF 10(2), of CTA_PROTO_DST_PORT]
    by (auto simp: option.rel_eq ref_attrs_def ports_attrs_def)
  then show ?case by (simp add: f ports_to_tuple_def take_attr_def)
qed (auto simp: tree_reader_def)

section \<open>Properties\<close>

text \<open>
  C13. Tuples survive the way to user space and back: what
  \<open>ctnetlink_dump_tuples\<close> writes under an attribute, when it fits, is read by
  \<open>ctnetlink_parse_tuple\<close> as the same addresses, ports and protocol, for IPv4 and IPv6 and every
  L4 protocol whose callbacks invert each other; the direction is that of the attribute, and the
  zone of the request is untouched.
\<close>

theorem tuple_write_read:
  assumes "dump_laws E emits grows room msgs A" "nl_reader_laws R reads A"
    and "canonical_tuple t" "ucast l3num = src_l3num t"
    and "l4_nlattr_to_tuple R (dst_protonum t) \<noteq> None"
  shows "(attrs_size (tuple_attrs A t) \<le> room s \<longrightarrow>
      (\<exists>s'. ctnetlink_dump_tuples E t s = (Inr (), s') \<and> emits s (tuple_attrs A t) s')) \<and>
    (\<forall>x. cda type = Some x \<and> reads x (Nest type (tuple_attrs A t)) \<longrightarrow>
      ctnetlink_parse_tuple R cda type l3num zone = Inr (t\<lparr>dst_dir := dir_of_attr type\<rparr>, zone))"
proof -
  have w: "nl_writer_laws E emits grows room msgs" using assms(1) by (simp add: dump_laws_def)
  have p: "ctnetlink_parse_tuple R cda type l3num zone = Inr (t\<lparr>dst_dir := dir_of_attr type\<rparr>, zone)"
    if "cda type = Some x" "reads x (Nest type (tuple_attrs A t))" for x
    using nl_reader_laws.parse_tuple_reads [where cda = cda and type = type and n = type
        and z = "\<lparr>zone_id = 0, zone_flags = 0, zone_dir = 0\<rparr>" and dir = 0 and zone = zone,
        OF assms(2) that(1) _ assms(3,4,5)] that(2)
    by (simp add: zone_attrs_def)
  show ?thesis
    using nl_writer_laws.emt_fits [OF w dump_laws.emt_tuples [OF assms(1)]] p by blast
qed

lemma sample_tuple_ok:
  "canonical_tuple sample_tuple" "ucast (2 :: u8) = src_l3num sample_tuple"
  "l4_nlattr_to_tuple tree_reader (dst_protonum sample_tuple) \<noteq> None"
  by (simp_all add: sample_tuple_def canonical_tuple_def tree_reader_def)

theorem tuple_write_read_witness:
  "(\<exists>s'. ctnetlink_dump_tuples (ref_env Map.empty default_params) sample_tuple big_buf = (Inr (), s')) \<and>
   ctnetlink_parse_tuple tree_reader [2 \<mapsto> Nest 2 (tuple_attrs ref_attrs sample_tuple)] 2 2 None =
     Inr (sample_tuple\<lparr>dst_dir := IP_CT_DIR_REPLY\<rparr>, None)"
proof -
  have size: "attrs_size (tuple_attrs ref_attrs sample_tuple) \<le> b_room big_buf" by code_simp
  have "dir_of_attr 2 = IP_CT_DIR_REPLY" by (simp add: dir_of_attr_def)
  moreover note t = tuple_write_read [where s = big_buf and type = 2 and zone = None
        and cda = "[2 \<mapsto> Nest 2 (tuple_attrs ref_attrs sample_tuple)]",
        OF ref_dump.dump_laws_axioms [of Map.empty default_params] tree_rd.nl_reader_laws_axioms
          sample_tuple_ok]
  ultimately show ?thesis
    using conjunct1 [OF t, THEN mp, OF size]
      conjunct2 [OF t, THEN spec, of "Nest 2 (tuple_attrs ref_attrs sample_tuple)"]
    by (simp only: fun_upd_same) blast
qed

definition bad_masks :: "('nla, 'x) nl_reader_scheme \<Rightarrow> 'nla attr_table \<Rightarrow> bool" where
  "bad_masks R cda \<longleftrightarrow>
     (cda CTA_MARK = None \<and> cda CTA_MARK_MASK \<noteq> None) \<or>
     (cda CTA_STATUS = None \<and> cda CTA_STATUS_MASK \<noteq> None) \<or>
     (case cda CTA_STATUS of
        None \<Rightarrow> False
      | Some a \<Rightarrow> (case cda CTA_STATUS_MASK of
            None \<Rightarrow> nla_get_be32 R a = 0 | Some m \<Rightarrow> nla_get_be32 R m = 0))"

definition mask_of :: "('nla, 'x) nl_reader_scheme \<Rightarrow> 'nla option \<Rightarrow> u32 \<Rightarrow> u32" where
  "mask_of R a d = (case a of None \<Rightarrow> d | Some m \<Rightarrow> ntohl (nla_get_be32 R m))"

definition passes ::
  "('nla, 'x) nl_reader_scheme \<Rightarrow> (nf_conntrack_zone \<Rightarrow> u8 \<Rightarrow> u16) \<Rightarrow> 'nla attr_table \<Rightarrow> u8 \<Rightarrow> nf_conn \<Rightarrow>
   bool" where
  "passes R zid cda family ct \<longleftrightarrow>
     (family \<noteq> 0 \<longrightarrow> ct_l3num ct = ucast family) \<and>
     (\<forall>z. cda CTA_ZONE = Some z \<longrightarrow> zid (ct_zone ct) IP_CT_DIR_ORIGINAL = ntohs (nla_get_be16 R z)) \<and>
     (\<forall>m. cda CTA_MARK = Some m \<longrightarrow>
        ct_mark ct AND mask_of R (cda CTA_MARK_MASK) 0xffffffff = ntohl (nla_get_be32 R m)) \<and>
     (\<forall>s. cda CTA_STATUS = Some s \<longrightarrow>
        ucast (ct_status ct) AND mask_of R (cda CTA_STATUS_MASK) (ntohl (nla_get_be32 R s)) =
        ntohl (nla_get_be32 R s))"

lemma bswap32_eq_zero [simp]: "bswap32 x = 0 \<longleftrightarrow> x = 0"
  using bswap32_inject [of x 0] by simp

lemma alloc_filter_simple:
  assumes "cda CTA_FILTER = None"
  shows "ctnetlink_alloc_filter R False cda family =
    (if bad_masks R cda then Inl EINVAL
     else Inr (zero_filter\<lparr>flt_family := family,
       flt_mark := (case cda CTA_MARK of None \<Rightarrow> \<lparr>fu_val = 0, fu_mask = 0\<rparr>
         | Some m \<Rightarrow> \<lparr>fu_val = ntohl (nla_get_be32 R m),
                      fu_mask = mask_of R (cda CTA_MARK_MASK) 0xffffffff\<rparr>),
       flt_status := (case cda CTA_STATUS of None \<Rightarrow> \<lparr>fu_val = 0, fu_mask = 0\<rparr>
         | Some s \<Rightarrow> \<lparr>fu_val = ntohl (nla_get_be32 R s),
                      fu_mask = mask_of R (cda CTA_STATUS_MASK) (ntohl (nla_get_be32 R s))\<rparr>),
       flt_zone := (case cda CTA_ZONE of
           None \<Rightarrow> \<lparr>zone_id = 0, zone_flags = 0, zone_dir = NF_CT_DEFAULT_ZONE_DIR\<rparr>
         | Some z \<Rightarrow> \<lparr>zone_id = ntohs (nla_get_be16 R z), zone_flags = NF_CT_ZONE_DIR_ORIG,
                      zone_dir = NF_CT_DEFAULT_ZONE_DIR\<rparr>)\<rparr>))"
  using assms
  by (cases "cda CTA_MARK"; cases "cda CTA_MARK_MASK"; cases "cda CTA_STATUS"; cases "cda CTA_STATUS_MASK";
      cases "cda CTA_ZONE")
    (simp_all add: ctnetlink_alloc_filter_def ctnetlink_filter_parse_mark_def
      ctnetlink_filter_parse_status_def ctnetlink_parse_zone_def bad_masks_def mask_of_def
      zero_filter_def Let_def)

text \<open>A filter without tuples, as one condition per part.\<close>

lemma filter_match_plain:
  assumes "orig_flags f = 0" "reply_flags f = 0"
  shows "ctnetlink_filter_match zid ct (Some f) \<longleftrightarrow>
    (flt_family f \<noteq> 0 \<longrightarrow> ct_l3num ct = ucast (flt_family f)) \<and>
    (zone_flags (flt_zone f) AND NF_CT_ZONE_DIR_ORIG \<noteq> 0 \<longrightarrow>
       zid (ct_zone ct) IP_CT_DIR_ORIGINAL = zone_id (flt_zone f)) \<and>
    ct_mark ct AND fu_mask (flt_mark f) = fu_val (flt_mark f) \<and>
    ucast (ct_status ct) AND fu_mask (flt_status f) = fu_val (flt_status f)"
  using assms by (simp add: ctnetlink_filter_match_def)

lemma simple_filter_match:
  assumes "cda CTA_FILTER = None" "ctnetlink_alloc_filter R False cda family = Inr f"
  shows "ctnetlink_filter_match zid ct (Some f) \<longleftrightarrow> passes R zid cda family ct"
proof -
  note a = alloc_filter_simple [where cda = cda, OF assms(1), of R family, unfolded assms(2)]
  have ok: "\<not> bad_masks R cda" using a by (auto split: if_splits)
  note f = a [unfolded if_not_P [OF ok], THEN Inr_inject]
  have fl: "orig_flags f = 0" "reply_flags f = 0" unfolding f by (simp_all add: zero_filter_def)
  have 1: "flt_family f = family" unfolding f by simp
  have 2: "(zone_flags (flt_zone f) AND NF_CT_ZONE_DIR_ORIG \<noteq> 0 \<longrightarrow> y = zone_id (flt_zone f)) \<longleftrightarrow>
      (\<forall>z. cda CTA_ZONE = Some z \<longrightarrow> y = ntohs (nla_get_be16 R z))" for y
    unfolding f by (cases "cda CTA_ZONE") simp_all
  have 3: "m AND fu_mask (flt_mark f) = fu_val (flt_mark f) \<longleftrightarrow>
      (\<forall>a. cda CTA_MARK = Some a \<longrightarrow>
        m AND mask_of R (cda CTA_MARK_MASK) 0xffffffff = ntohl (nla_get_be32 R a))" for m
    unfolding f by (cases "cda CTA_MARK") simp_all
  have 4: "m AND fu_mask (flt_status f) = fu_val (flt_status f) \<longleftrightarrow>
      (\<forall>s. cda CTA_STATUS = Some s \<longrightarrow>
        m AND mask_of R (cda CTA_STATUS_MASK) (ntohl (nla_get_be32 R s)) =
        ntohl (nla_get_be32 R s))" for m
    unfolding f by (cases "cda CTA_STATUS") simp_all
  show ?thesis
    unfolding filter_match_plain [OF fl] passes_def 1 2 3 4 ..
qed

text \<open>
  C14. A request without tuple filter: it is refused with \<open>EINVAL\<close> exactly
  when it needs a filter and gives a mark mask without mark, a status mask without status, or a
  zero status mask. Otherwise a connection passes iff its family is the one asked for (if any), its
  zone in the original direction is the one asked for (if any), its mark equals the value under
  the mask (all bits without one), and its status has the value under the mask (at least the bits
  of the value without one).
\<close>

theorem request_filter_meaning:
  assumes "cda CTA_FILTER = None"
  shows "case ctnetlink_start R False cda family of
      Inl e \<Rightarrow> e = EINVAL \<and> ctnetlink_needs_filter family cda \<and> bad_masks R cda
    | Inr data \<Rightarrow> \<not> (ctnetlink_needs_filter family cda \<and> bad_masks R cda) \<and>
        (\<forall>ct. ctnetlink_filter_match zid ct data \<longleftrightarrow> passes R zid cda family ct)"
proof (cases "ctnetlink_needs_filter family cda")
  case False
  then show ?thesis
    by (auto simp: ctnetlink_start_def ctnetlink_filter_match_def passes_def ctnetlink_needs_filter_def)
next
  case True
  show ?thesis
  proof (cases "ctnetlink_alloc_filter R False cda family")
    case (Inl e)
    then show ?thesis using True assms
      by (auto simp: ctnetlink_start_def alloc_filter_simple split: if_splits)
  next
    case (Inr f)
    have "\<not> bad_masks R cda"
      using Inr alloc_filter_simple [where cda = cda, OF assms, of R family] by (auto split: if_splits)
    with True Inr simple_filter_match [where cda = cda, OF assms Inr] show ?thesis
      by (simp add: ctnetlink_start_def)
  qed
qed

text \<open>Asking for zone 100 selects the sample connection, asking for zone 101 does not.\<close>

definition plain_zone_id :: "nf_conntrack_zone \<Rightarrow> u8 \<Rightarrow> u16" where
  "plain_zone_id z dir = (if bit (zone_dir z) (unat dir) then zone_id z else NF_CT_DEFAULT_ZONE_ID)"

theorem request_filter_meaning_witness:
  "(case ctnetlink_start tree_reader False [18 \<mapsto> Leaf 18 (V_be16 0x6400)] 0 of
      Inl e \<Rightarrow> False | Inr data \<Rightarrow> ctnetlink_filter_match plain_zone_id sample_ct data) \<and>
   (case ctnetlink_start tree_reader False [18 \<mapsto> Leaf 18 (V_be16 0x6500)] 0 of
      Inl e \<Rightarrow> False | Inr data \<Rightarrow> \<not> ctnetlink_filter_match plain_zone_id sample_ct data)"
proof -
  have p: "\<not> bad_masks tree_reader [18 \<mapsto> Leaf 18 (V_be16 h)]" for h
    by (simp add: bad_masks_def)
  have "passes tree_reader plain_zone_id [18 \<mapsto> Leaf 18 (V_be16 0x6400)] 0 sample_ct"
      "\<not> passes tree_reader plain_zone_id [18 \<mapsto> Leaf 18 (V_be16 0x6500)] 0 sample_ct"
    by (simp_all add: passes_def tree_reader_def sample_ct_def plain_zone_id_def bswap16_def
        mk16_def byte16_def)
  then show ?thesis
    using p request_filter_meaning [where cda = "[18 \<mapsto> Leaf 18 (V_be16 0x6400)]" and family = 0
        and R = tree_reader and zid = plain_zone_id]
      request_filter_meaning [where cda = "[18 \<mapsto> Leaf 18 (V_be16 0x6500)]" and family = 0
        and R = tree_reader and zid = plain_zone_id]
    by (simp split: sum.splits)
qed

text \<open>
  C16. For IPv4 and a TCP or UDP connection, the tuple part of a filter
  accepts exactly the tuples that agree with the filter in every field its flags select:
  addresses, protocol number and ports.
\<close>

theorem ipv4_tuple_filter_exact:
  assumes "dst_protonum t = IPPROTO_TCP \<or> dst_protonum t = IPPROTO_UDP"
  shows "ctnetlink_filter_match_tuple ft t flags 2 \<longleftrightarrow>
    (has_filter flags F_CTA_IP_SRC \<longrightarrow> addr_ip (src_u3 ft) = addr_ip (src_u3 t)) \<and>
    (has_filter flags F_CTA_IP_DST \<longrightarrow> addr_ip (dst_u3 ft) = addr_ip (dst_u3 t)) \<and>
    (has_filter flags F_CTA_PROTO_NUM \<longrightarrow> dst_protonum ft = dst_protonum t) \<and>
    (has_filter flags F_CTA_PROTO_SRC_PORT \<longrightarrow> src_u ft = src_u t) \<and>
    (has_filter flags F_CTA_PROTO_DST_PORT \<longrightarrow> dst_u ft = dst_u t)"
proof -
  have "match_addr_fails ft t flags 2 \<longleftrightarrow>
      has_filter flags F_CTA_IP_SRC \<and> addr_ip (src_u3 ft) \<noteq> addr_ip (src_u3 t) \<or>
      has_filter flags F_CTA_IP_DST \<and> addr_ip (dst_u3 ft) \<noteq> addr_ip (dst_u3 t)"
    by (simp add: match_addr_fails_def)
  moreover have "match_proto_fails ft t flags \<longleftrightarrow>
      has_filter flags F_CTA_PROTO_SRC_PORT \<and> src_u ft \<noteq> src_u t \<or>
      has_filter flags F_CTA_PROTO_DST_PORT \<and> dst_u ft \<noteq> dst_u t"
    using assms by (simp add: match_proto_fails_def Let_def)
  moreover have "ctnetlink_filter_match_tuple ft t flags 2 \<longleftrightarrow>
      \<not> match_addr_fails ft t flags 2 \<and>
      \<not> (has_filter flags F_CTA_PROTO_NUM \<and> dst_protonum ft \<noteq> dst_protonum t) \<and>
      \<not> match_proto_fails ft t flags"
    by (simp add: ctnetlink_filter_match_tuple_def)
  ultimately show ?thesis by blast
qed

theorem ipv4_tuple_filter_exact_witness:
  "ctnetlink_filter_match_tuple sample_tuple sample_tuple CTA_FILTER_F_ALL 2 \<and>
   \<not> ctnetlink_filter_match_tuple (sample_tuple\<lparr>src_u := 0\<rparr>) sample_tuple CTA_FILTER_F_ALL 2"
proof -
  have p: "dst_protonum sample_tuple = IPPROTO_TCP \<or> dst_protonum sample_tuple = IPPROTO_UDP"
    by (simp add: sample_tuple_def)
  have "src_u sample_tuple \<noteq> 0" by (simp add: sample_tuple_def)
  then show ?thesis
    using ipv4_tuple_filter_exact [OF p, of sample_tuple CTA_FILTER_F_ALL]
      ipv4_tuple_filter_exact [OF p, of "sample_tuple\<lparr>src_u := 0\<rparr>" CTA_FILTER_F_ALL] by simp
qed

text \<open>
  C17. For IPv6 the address part of a filter is inverted: a filter on
  the source (or destination) address rejects exactly the tuples with that address and lets every
  other address pass.
\<close>

theorem ipv6_tuple_filter_inverted:
  "(ctnetlink_filter_match_tuple ft t (CTA_FILTER_FLAG F_CTA_IP_SRC) 10 \<longleftrightarrow> src_u3 t \<noteq> src_u3 ft) \<and>
   (ctnetlink_filter_match_tuple ft t (CTA_FILTER_FLAG F_CTA_IP_DST) 10 \<longleftrightarrow> dst_u3 t \<noteq> dst_u3 ft)"
proof -
  have f: "has_filter (CTA_FILTER_FLAG a) b \<longleftrightarrow> a = b" for a b
    by (cases a; cases b) (simp_all add: has_filter_def)
  show ?thesis
    unfolding ctnetlink_filter_match_tuple_def match_addr_fails_def match_proto_fails_def f
    by (auto simp: ipv6_addr_cmp_def Let_def)
qed

text \<open>
  C15. A dump or flush that asks for a zone other than zero sees connections of
  that zone only, whatever else the request filters on: no tuple filter of the same request can
  replace the zone.
\<close>

theorem zone_filter_holds:
  assumes "ctnetlink_start R oom cda family = Inr data"
    and "cda CTA_ZONE = Some z" "nla_get_be16 R z \<noteq> 0"
    and "ctnetlink_filter_match zid ct data"
  shows "zid (ct_zone ct) IP_CT_DIR_ORIGINAL = ntohs (nla_get_be16 R z)"
proof -
  define zone where "zone = \<lparr>zone_id = ntohs (nla_get_be16 R z), zone_flags = NF_CT_ZONE_DIR_ORIG,
    zone_dir = NF_CT_DEFAULT_ZONE_DIR\<rparr>"
  have nz: "zone_id zone \<noteq> NF_CT_DEFAULT_ZONE_ID"
    using assms(3) bswap16_inject [of "nla_get_be16 R z" 0]
    by (simp add: zone_def bswap16_def mk16_def byte16_def)
  have keep: "flt_zone f' = zone"
    if "filter_tuple_part R cda type flags upd f = Inr f'" "flt_zone f = zone"
      "\<And>t f. flt_zone (upd t f) = flt_zone f" for type flags upd f f'
    using that nz
    by (auto simp: filter_tuple_part_def ctnetlink_parse_tuple_filter_def tuple_zone_part_def
        ctnetlink_parse_tuple_zone_def split: if_splits option.splits bool.splits prod.splits)
  have flags: "flt_zone f' = flt_zone f" if "ctnetlink_parse_filter R a f = Inr f'" for a f f'
    using that by (auto simp: ctnetlink_parse_filter_def filter_flags_attr_def Let_def
        split: option.splits if_splits)
  obtain f where data: "data = Some f" and alloc: "ctnetlink_alloc_filter R oom cda family = Inr f"
    using assms(1,2) by (auto simp: ctnetlink_start_def ctnetlink_needs_filter_def)
  have "ctnetlink_parse_zone R (cda CTA_ZONE) = Inr zone"
    by (simp add: assms(2) ctnetlink_parse_zone_def zone_def)
  with alloc have "flt_zone f = zone"
    by (auto simp: ctnetlink_alloc_filter_def Let_def zone_def dest!: keep flags
        split: if_splits option.splits)
  with assms(4) data show ?thesis
    by (auto simp: ctnetlink_filter_match_def zone_def split: if_splits)
qed

theorem zone_filter_holds_witness:
  "\<exists>data. ctnetlink_start tree_reader False [18 \<mapsto> Leaf 18 (V_be16 0x6400)] 0 = Inr data \<and>
     ctnetlink_filter_match plain_zone_id sample_ct data \<and>
     plain_zone_id (ct_zone sample_ct) IP_CT_DIR_ORIGINAL = ntohs 0x6400"
proof -
  let ?cda = "[18 \<mapsto> Leaf 18 (V_be16 0x6400)]"
  obtain data where start: "ctnetlink_start tree_reader False ?cda 0 = Inr data"
    and match: "ctnetlink_filter_match plain_zone_id sample_ct data"
    by (simp add: ctnetlink_start_def ctnetlink_needs_filter_def ctnetlink_alloc_filter_def
        ctnetlink_filter_parse_mark_def ctnetlink_filter_parse_status_def ctnetlink_parse_zone_def
        zero_filter_def ctnetlink_filter_match_def sample_ct_def tree_reader_def plain_zone_id_def
        bswap16_def mk16_def byte16_def)
  have z: "?cda CTA_ZONE = Some (Leaf 18 (V_be16 0x6400))"
      "nla_get_be16 tree_reader (Leaf 18 (V_be16 0x6400)) \<noteq> 0"
      "nla_get_be16 tree_reader (Leaf 18 (V_be16 0x6400)) = 0x6400"
    by (simp_all add: tree_reader_def)
  show ?thesis
    using start match zone_filter_holds [OF start z(1,2) match] unfolding z(3) by blast
qed

text \<open>
  The tuple of an expectation (\<open>CTA_EXPECT_TUPLE\<close>) is read with the
  direction of a reply, because its attribute number is the number of \<open>CTA_TUPLE_REPLY\<close>, which
  is what the code compares with; the tuple of its mask and of its master are read as original.
\<close>

theorem expect_tuple_direction:
  assumes "ctnetlink_parse_tuple R cda type l3num zone = Inr (t, zone')"
  shows "dst_dir t = (if type = CTA_EXPECT_TUPLE then IP_CT_DIR_REPLY else IP_CT_DIR_ORIGINAL)"
  using assms
  by (auto simp: ctnetlink_parse_tuple_def ctnetlink_parse_tuple_filter_def
      split: option.splits if_splits)

theorem expect_tuple_direction_witness:
  "\<exists>t. ctnetlink_parse_tuple tree_reader
      [CTA_EXPECT_TUPLE \<mapsto> Nest CTA_EXPECT_TUPLE (tuple_attrs ref_attrs sample_tuple)]
      CTA_EXPECT_TUPLE 2 None = Inr (t, None) \<and> dst_dir t = IP_CT_DIR_REPLY"
proof -
  let ?cda = "[CTA_EXPECT_TUPLE \<mapsto> Nest CTA_EXPECT_TUPLE (tuple_attrs ref_attrs sample_tuple)]"
  have p: "ctnetlink_parse_tuple tree_reader ?cda CTA_EXPECT_TUPLE 2 None =
      Inr (sample_tuple\<lparr>dst_dir := dir_of_attr CTA_EXPECT_TUPLE\<rparr>, None)"
    by (rule tree_rd.parse_tuple_reads [where n = CTA_EXPECT_TUPLE and dir = 0
        and z = "\<lparr>zone_id = 0, zone_flags = 0, zone_dir = 0\<rparr>", OF _ _ sample_tuple_ok])
      (simp_all add: zone_attrs_def)
  show ?thesis using p expect_tuple_direction [OF p] by simp
qed

end
