(* ===== verification/Ct_Table_Spec.thy ===== *)
theory Ct_Table_Spec
  imports Ct_Table Ct_Parse_Spec
begin

text \<open>
  Correctness of the table dump of theory \<open>Ct_Table\<close>: what one call writes and where it resumes,
  that a whole session of calls enumerates the selected connections exactly once and holds a
  reference exactly on the connection it resumes from, and the case in which a reference leaks.
\<close>

section \<open>What is left to dump\<close>

text \<open>
  The nodes of a bucket that a dump may write: those of the asked network namespace, seen from the
  original direction.
\<close>

definition cands :: "dump_call \<Rightarrow> ct_store \<Rightarrow> ct_node list \<Rightarrow> nat list" where
  "cands c st ns = map fst (filter (\<lambda>(p, dir). dir = IP_CT_DIR_ORIGINAL \<and>
     (case st p of None \<Rightarrow> False | Some ct \<Rightarrow> ct_net ct = dc_net c)) ns)"

definition sel :: "('skb, 'x) tab_env_scheme \<Rightarrow> dump_call \<Rightarrow> ct_store \<Rightarrow> nat list \<Rightarrow> nat list" where
  "sel T c st ps = filter (\<lambda>p. case st p of None \<Rightarrow> False
     | Some ct \<Rightarrow> ctnetlink_filter_match (nf_ct_zone_id T) ct (dc_data c)) ps"

text \<open>Where a bucket is taken up again: at the remembered entry, or at its start if that is gone.\<close>

definition resume :: "nat option \<Rightarrow> nat list \<Rightarrow> nat list" where
  "resume lst ps =
     (case lst of None \<Rightarrow> ps | Some l \<Rightarrow> if l \<in> set ps then dropWhile (\<lambda>q. q \<noteq> l) ps else ps)"

definition work ::
  "('skb, 'x) tab_env_scheme \<Rightarrow> dump_call \<Rightarrow> ksys \<Rightarrow> nat \<Rightarrow> nat option \<Rightarrow> nat list" where
  "work T c k b lst =
     (if b < length (k_ht k)
      then sel T c (k_ct k) (resume lst (cands c (k_ct k) (k_ht k ! b))) @
           concat (map (\<lambda>ns. sel T c (k_ct k) (cands c (k_ct k) ns)) (drop (Suc b) (k_ht k)))
      else [])"

text \<open>The message an entry is written as.\<close>

definition entry_msg ::
  "('skb, 'x) tab_env_scheme \<Rightarrow> cb_attrs \<Rightarrow> dump_call \<Rightarrow> ct_store \<Rightarrow> nat \<Rightarrow> nlmsg \<times> nlattr list" where
  "entry_msg T A c st p =
     (case st p of
        None \<Rightarrow> undefined
      | Some ct \<Rightarrow>
          (fill_msg (dc_portid c) (dc_seq c) ct (dump_flags c),
           ct_attrs (T\<lparr>env_store := st\<rparr>) A (dc_type c) p ct True
             (fill_flags (dc_portid c) (dump_flags c))))"

definition entry_size ::
  "('skb, 'x) tab_env_scheme \<Rightarrow> cb_attrs \<Rightarrow> dump_call \<Rightarrow> ct_store \<Rightarrow> nat \<Rightarrow> nat" where
  "entry_size T A c st p = NFNL_HDR_SIZE + attrs_size (snd (entry_msg T A c st p))"

text \<open>
  A table a dump can walk: its nodes are live connections, none is expired, expected connections
  have their masters, no helper writes data of its own, and no connection is twice in a bucket
  in the same direction. Every connection has at least the reference of the table.
\<close>

definition quiet :: "('skb, 'x) tab_env_scheme \<Rightarrow> ct_store \<Rightarrow> bool" where
  "quiet T st \<longleftrightarrow> (\<forall>p ct. st p = Some ct \<longrightarrow>
     \<not> nf_ct_is_expired T (ct_timeout ct) \<and> help_strict T ct \<and> 0 < ct_use ct \<and>
     (has_flag (ct_status ct) IPS_EXPECTED \<longrightarrow> Option.bind (ct_master ct) st \<noteq> None))"

definition linked :: "ksys \<Rightarrow> bool" where
  "linked k \<longleftrightarrow> (\<forall>ns\<in>set (k_ht k). (\<forall>n\<in>set ns. k_ct k (fst n) \<noteq> None) \<and> distinct ns)"

lemma fill_info_keeps_ct:
  assumes "type \<noteq> IPCTNL_MSG_CT_GET_CTRZERO"
  shows "snd (ctnetlink_fill_info E portid seq type a ct extinfo flags skb) = ct"
proof -
  have "snd (ctnetlink_dump_acct E ct type s) = ct" for s
    using assms by (auto simp: ctnetlink_dump_acct_def dump_counters_def Let_def
        split: option.splits prod.splits sum.splits)
  then have "snd (ctnetlink_dump_extinfo E ct type s) = ct" for s
    by (auto simp: ctnetlink_dump_extinfo_def split: prod.splits sum.splits) (metis snd_conv)+
  then have "snd (fill_body E type a ct extinfo f s) = ct" for f s
    by (auto simp: fill_body_def split: prod.splits sum.splits)
  then show ?thesis
    by (auto simp: ctnetlink_fill_info_def Let_def split: option.splits prod.splits sum.splits)
      (metis snd_conv)+
qed

section \<open>Laws\<close>

lemma dump_laws_store:
  "dump_laws E emits grows room msgs A \<Longrightarrow> dump_laws (E\<lparr>env_store := st\<rparr>) emits grows room msgs A"
  unfolding dump_laws_def nl_writer_laws_def dump_laws_axioms_def by simp

lemma help_strict_store [simp]: "help_strict (E\<lparr>env_store := st\<rparr>) ct = help_strict E ct"
  by (simp add: help_strict_def split: option.splits)

text \<open>Dropping a reference that is not the last one.\<close>

locale table_laws = dump_laws T emits grows room msgs A
  for T :: "('skb, 'x) tab_env_scheme" and emits grows room msgs A +
  assumes put: "st p = Some ct \<Longrightarrow> 1 < ct_use ct \<Longrightarrow>
    nf_ct_put T st p = st(p \<mapsto> ct\<lparr>ct_use := ct_use ct - 1\<rparr>)"

text \<open>
  Writing a list of entries one after the other: the buffer, and what did not fit.
\<close>

fun fill_run ::
  "('skb, 'x) tab_env_scheme \<Rightarrow> dump_call \<Rightarrow> ct_store \<Rightarrow> nat list \<Rightarrow> 'skb \<Rightarrow> 'skb \<times> nat list" where
  "fill_run T c st [] skb = (skb, [])"
| "fill_run T c st (p # ps) skb =
     (case st p of
        None \<Rightarrow> (skb, p # ps)
      | Some ct \<Rightarrow>
          (case fst (ctnetlink_fill_info (T\<lparr>env_store := st\<rparr>) (dc_portid c) (dc_seq c) (dc_type c)
             p ct True (dump_flags c) skb) of
             (Inl e, skb') \<Rightarrow> (skb', p # ps)
           | (Inr n, skb') \<Rightarrow> fill_run T c st ps skb'))"

lemma fill_run_append:
  "fill_run T c st (xs @ ys) skb =
     (case fill_run T c st xs skb of (skb', []) \<Rightarrow> fill_run T c st ys skb'
      | (skb', rem) \<Rightarrow> (skb', rem @ ys))"
  by (induction xs arbitrary: skb) (auto split: option.splits prod.splits sum.splits)

lemma fill_run_suffix: "fill_run T c st ps skb = (skb', rem) \<Longrightarrow> \<exists>done. ps = done @ rem"
  by (induction ps arbitrary: skb) (auto split: option.splits prod.splits sum.splits, metis append_Cons)

context table_laws
begin

lemma entry_fits:
  assumes "quiet T st" "st p = Some ct" "entry_size T A c st p \<le> room skb"
  shows "\<exists>skb'. fst (ctnetlink_fill_info (T\<lparr>env_store := st\<rparr>) (dc_portid c) (dc_seq c) (dc_type c)
      p ct True (dump_flags c) skb) = (Inr (w_len T skb'), skb') \<and> 0 < w_len T skb' \<and>
    msgs skb' = msgs skb @ [entry_msg T A c st p] \<and> room skb = room skb' + entry_size T A c st p"
proof -
  have m: "master_ok (T\<lparr>env_store := st\<rparr>) ct"
    using assms(1,2) by (auto simp: quiet_def master_ok_def)
  show ?thesis
    using dump_laws.fill_info_fits [OF dump_laws_store [OF dump_laws_axioms] m,
        of "dc_type c" p True "dc_portid c" "dump_flags c" skb "dc_seq c"] assms(2,3)
    by (auto simp: entry_size_def entry_msg_def)
qed

lemma entry_full:
  assumes "quiet T st" "st p = Some ct" "room skb < entry_size T A c st p"
  shows "fst (ctnetlink_fill_info (T\<lparr>env_store := st\<rparr>) (dc_portid c) (dc_seq c) (dc_type c)
      p ct True (dump_flags c) skb) = (Inl EFAIL, skb)"
proof -
  have m: "master_ok (T\<lparr>env_store := st\<rparr>) ct" "help_strict (T\<lparr>env_store := st\<rparr>) ct"
    using assms(1,2) by (auto simp: quiet_def master_ok_def)
  show ?thesis
    using dump_laws.fill_info_full [OF dump_laws_store [OF dump_laws_axioms] m(1),
        of True skb "dc_type c" p "dc_portid c" "dump_flags c" "dc_seq c"] assms(2,3) m(2)
    by (simp add: entry_size_def entry_msg_def)
qed

text \<open>A run writes the messages of a prefix, and stops only at an entry that does not fit.\<close>

lemma fill_run_spec:
  assumes "quiet T st" "\<forall>p\<in>set ps. st p \<noteq> None" "fill_run T c st ps skb = (skb', rem)"
  shows "\<exists>ws. ps = ws @ rem \<and> msgs skb' = msgs skb @ map (entry_msg T A c st) ws \<and>
    room skb = room skb' + sum_list (map (entry_size T A c st) ws) \<and>
    (rem \<noteq> [] \<longrightarrow> room skb' < entry_size T A c st (hd rem))"
  using assms(2,3)
proof (induction ps arbitrary: skb)
  case (Cons p ps)
  then obtain ct where ct: "st p = Some ct" by auto
  show ?case
  proof (cases "entry_size T A c st p \<le> room skb")
    case True
    from entry_fits [OF assms(1) ct True] obtain skb1 where
      "fst (ctnetlink_fill_info (T\<lparr>env_store := st\<rparr>) (dc_portid c) (dc_seq c) (dc_type c)
        p ct True (dump_flags c) skb) = (Inr (w_len T skb1), skb1)"
      and 1: "msgs skb1 = msgs skb @ [entry_msg T A c st p]"
        "room skb = room skb1 + entry_size T A c st p" by blast
    with Cons.prems ct have "fill_run T c st ps skb1 = (skb', rem)" by simp
    from Cons.IH [OF _ this] Cons.prems(1) obtain ws where "ps = ws @ rem"
      "msgs skb' = msgs skb1 @ map (entry_msg T A c st) ws"
      "room skb1 = room skb' + sum_list (map (entry_size T A c st) ws)"
      "rem \<noteq> [] \<longrightarrow> room skb' < entry_size T A c st (hd rem)" by auto
    then show ?thesis using 1 by (intro exI [of _ "p # ws"]) simp
  next
    case False
    then have "fst (ctnetlink_fill_info (T\<lparr>env_store := st\<rparr>) (dc_portid c) (dc_seq c) (dc_type c)
        p ct True (dump_flags c) skb) = (Inl EFAIL, skb)"
      using entry_full [OF assms(1) ct] by simp
    with Cons.prems ct False show ?thesis by (intro exI [of _ "[]"]) auto
  qed
qed simp

text \<open>A fill never follows a dead pointer on a quiet table.\<close>

lemma entry_no_oops:
  assumes "quiet T st" "st p = Some ct"
    "fst (ctnetlink_fill_info (T\<lparr>env_store := st\<rparr>) (dc_portid c) (dc_seq c) (dc_type c)
      p ct True (dump_flags c) skb) = (Inl e, skb')"
  shows "e = EFAIL \<and> skb' = skb"
  using entry_full [OF assms(1,2), of skb c] entry_fits [OF assms(1,2), of c skb] assms(3)
  by (cases "entry_size T A c st p \<le> room skb") auto

end

section \<open>One bucket\<close>

text \<open>The state in which a walk stops at an entry, and the outcome of a run as such a state.\<close>

definition stop_at :: "'skb dump_st \<Rightarrow> nat \<Rightarrow> 'skb \<Rightarrow> 'skb dump_st" where
  "stop_at s p skb = s\<lparr>ds_skb := skb, cb_args1 := Some p,
     ds_sys := (ds_sys s)\<lparr>k_ct := ct_get (k_ct (ds_sys s)) p\<rparr>\<rparr>"

definition run_outcome :: "'skb dump_st \<Rightarrow> 'skb \<times> nat list \<Rightarrow> bool \<times> 'skb dump_st" where
  "run_outcome s r = (case r of (skb, []) \<Rightarrow> (False, s\<lparr>ds_skb := skb, cb_args1 := None\<rparr>)
     | (skb, p # _) \<Rightarrow> (True, stop_at s p skb))"

lemma set_ct_same [simp]: "k_ct (ds_sys s) p = Some ct \<Longrightarrow> set_ct p ct s = s"
  by (simp add: set_ct_def fun_upd_idem)

lemma cands_Cons:
  "st p = Some ct \<Longrightarrow> cands c st ((p, dir) # ns) =
     (if dir = IP_CT_DIR_ORIGINAL \<and> ct_net ct = dc_net c then p # cands c st ns else cands c st ns)"
  by (simp add: cands_def)

lemma sel_Cons:
  "st p = Some ct \<Longrightarrow> sel T c st (p # ps) =
     (if ctnetlink_filter_match (nf_ct_zone_id T) ct (dc_data c) then p # sel T c st ps
      else sel T c st ps)"
  by (simp add: sel_def)

lemma cands_sub: "set (cands c st ns) \<subseteq> fst ` set ns"
  by (auto simp: cands_def)

context table_laws
begin

lemma dump_entry_cases:
  assumes "quiet T (k_ct (ds_sys s))" "k_ct (ds_sys s) p = Some ct"
    "dc_type c \<noteq> IPCTNL_MSG_CT_GET_CTRZERO"
  shows "dump_entry T c p ct s =
    (case fst (ctnetlink_fill_info (T\<lparr>env_store := k_ct (ds_sys s)\<rparr>) (dc_portid c) (dc_seq c)
        (dc_type c) p ct True (dump_flags c) (ds_skb s)) of
       (Inl e, skb') \<Rightarrow> Inr (True, stop_at s p skb')
     | (Inr n, skb') \<Rightarrow> Inr (False, s\<lparr>ds_skb := skb'\<rparr>))"
proof -
  let ?f = "ctnetlink_fill_info (T\<lparr>env_store := k_ct (ds_sys s)\<rparr>) (dc_portid c) (dc_seq c)
        (dc_type c) p ct True (dump_flags c) (ds_skb s)"
  obtain r skb' where f: "?f = ((r, skb'), ct)"
    using fill_info_keeps_ct [OF assms(3)] by (metis prod.collapse)
  show ?thesis
  proof (cases r)
    case (Inl e)
    then have "e \<noteq> OOPS" using entry_no_oops [OF assms(1,2), of c "ds_skb s" e skb'] f by simp
    then show ?thesis using f Inl assms(2) by (simp add: dump_entry_def stop_at_def Let_def)
  next
    case (Inr n)
    then show ?thesis using f assms(2) by (simp add: dump_entry_def)
  qed
qed

lemma dump_nodes_run:
  assumes "quiet T (k_ct (ds_sys s))" "\<forall>n\<in>set ns. k_ct (ds_sys s) (fst n) \<noteq> None"
    "dc_type c \<noteq> IPCTNL_MSG_CT_GET_CTRZERO" "cb_args1 s = None"
  shows "dump_nodes T c lst ns s =
    Inr (run_outcome s (fill_run T c (k_ct (ds_sys s))
      (sel T c (k_ct (ds_sys s)) (cands c (k_ct (ds_sys s)) ns)) (ds_skb s)))"
  using assms
proof (induction ns arbitrary: s)
  case Nil
  then show ?case by (simp add: run_outcome_def cands_def sel_def)
next
  case (Cons n ns)
  obtain p dir where n: "n = (p, dir)" by (cases n)
  obtain ct where ct: "k_ct (ds_sys s) p = Some ct" using Cons.prems(2) n by auto
  have live: "\<not> nf_ct_is_expired T (ct_timeout ct)" using Cons.prems(1) ct by (auto simp: quiet_def)
  have IH: "dump_nodes T c lst ns s = Inr (run_outcome s (fill_run T c (k_ct (ds_sys s))
      (sel T c (k_ct (ds_sys s)) (cands c (k_ct (ds_sys s)) ns)) (ds_skb s)))"
    using Cons by simp
  have s1: "s\<lparr>cb_args1 := None\<rparr> = s" using Cons.prems(4) by simp
  show ?case
  proof (cases "dir = IP_CT_DIR_ORIGINAL \<and> ct_net ct = dc_net c \<and>
      ctnetlink_filter_match (nf_ct_zone_id T) ct (dc_data c)")
    case False
    have "dump_nodes T c lst (n # ns) s = dump_nodes T c lst ns s"
      using False n ct live Cons.prems(4) by (auto simp: Let_def s1)
    moreover have "sel T c (k_ct (ds_sys s)) (cands c (k_ct (ds_sys s)) (n # ns)) =
        sel T c (k_ct (ds_sys s)) (cands c (k_ct (ds_sys s)) ns)"
      using False n ct by (auto simp: cands_Cons sel_Cons)
    ultimately show ?thesis using IH by simp
  next
    case True
    have work: "sel T c (k_ct (ds_sys s)) (cands c (k_ct (ds_sys s)) (n # ns)) =
        p # sel T c (k_ct (ds_sys s)) (cands c (k_ct (ds_sys s)) ns)"
      using True n ct by (simp add: cands_Cons sel_Cons)
    have step: "dump_nodes T c lst (n # ns) s = bind_res (dump_entry T c p ct s) (\<lambda>(stop, s2).
               if stop then Inr (True, s2) else dump_nodes T c lst ns s2)"
      using True n ct live Cons.prems(4) by (simp add: Let_def s1)
    obtain r skb' where f: "fst (ctnetlink_fill_info (T\<lparr>env_store := k_ct (ds_sys s)\<rparr>)
        (dc_portid c) (dc_seq c) (dc_type c) p ct True (dump_flags c) (ds_skb s)) = (r, skb')"
      by fastforce
    show ?thesis
    proof (cases r)
      case (Inl e)
      then show ?thesis
        unfolding work step dump_entry_cases [OF Cons.prems(1) ct Cons.prems(3)]
        using f ct by (simp add: run_outcome_def)
    next
      case (Inr u)
      have "dump_nodes T c lst ns (s\<lparr>ds_skb := skb'\<rparr>) =
        Inr (run_outcome (s\<lparr>ds_skb := skb'\<rparr>) (fill_run T c (k_ct (ds_sys s))
          (sel T c (k_ct (ds_sys s)) (cands c (k_ct (ds_sys s)) ns)) skb'))"
        using Cons.IH [of "s\<lparr>ds_skb := skb'\<rparr>"] Cons.prems by simp
      then show ?thesis
        unfolding work step dump_entry_cases [OF Cons.prems(1) ct Cons.prems(3)]
        using f ct Inr
        by (auto simp: run_outcome_def stop_at_def split: prod.splits list.splits)
    qed
  qed
qed

text \<open>A remembered entry that is gone: the walk passes over the bucket without writing.\<close>

lemma dump_nodes_gone:
  assumes "quiet T (k_ct (ds_sys s))" "\<forall>n\<in>set ns. k_ct (ds_sys s) (fst n) \<noteq> None"
    "cb_args1 s = Some l" "l \<notin> set (cands c (k_ct (ds_sys s)) ns)"
  shows "dump_nodes T c (Some l) ns s = Inr (False, s)"
  using assms
proof (induction ns)
  case (Cons n ns)
  obtain p dir where n: "n = (p, dir)" by (cases n)
  obtain ct where ct: "k_ct (ds_sys s) p = Some ct" using Cons.prems(2) n by auto
  have live: "\<not> nf_ct_is_expired T (ct_timeout ct)" using Cons.prems(1) ct by (auto simp: quiet_def)
  have gone: "l \<notin> set (cands c (k_ct (ds_sys s)) ns)"
      "\<not> (dir = IP_CT_DIR_ORIGINAL \<and> ct_net ct = dc_net c \<and> p = l)"
    using Cons.prems(4) n ct by (auto simp: cands_Cons split: if_splits)
  have "dump_nodes T c (Some l) (n # ns) s = dump_nodes T c (Some l) ns s"
    using n ct live gone(2) Cons.prems(3) by auto
  then show ?case using Cons.IH Cons.prems gone(1) by simp
qed simp

text \<open>A remembered entry that is there: the walk is one from that entry on.\<close>

lemma dump_nodes_resumed:
  assumes "quiet T (k_ct (ds_sys s))" "\<forall>n\<in>set ns. k_ct (ds_sys s) (fst n) \<noteq> None"
    "cb_args1 s = Some l" "l \<in> set (cands c (k_ct (ds_sys s)) ns)"
  shows "\<exists>ms. dump_nodes T c (Some l) ns s = dump_nodes T c (Some l) ms (s\<lparr>cb_args1 := None\<rparr>) \<and>
    set ms \<subseteq> set ns \<and>
    cands c (k_ct (ds_sys s)) ms = dropWhile (\<lambda>q. q \<noteq> l) (cands c (k_ct (ds_sys s)) ns)"
  using assms
proof (induction ns)
  case Nil
  then show ?case by (simp add: cands_def)
next
  case (Cons n ns)
  obtain p dir where n: "n = (p, dir)" by (cases n)
  obtain ct where ct: "k_ct (ds_sys s) p = Some ct" using Cons.prems(2) n by auto
  have live: "\<not> nf_ct_is_expired T (ct_timeout ct)" using Cons.prems(1) ct by (auto simp: quiet_def)
  show ?case
  proof (cases "dir = IP_CT_DIR_ORIGINAL \<and> ct_net ct = dc_net c \<and> p = l")
    case True
    then have "dump_nodes T c (Some l) (n # ns) s = dump_nodes T c (Some l) (n # ns) (s\<lparr>cb_args1 := None\<rparr>)"
      using n ct live by (simp add: Let_def)
    moreover have "dropWhile (\<lambda>q. q \<noteq> l) (cands c (k_ct (ds_sys s)) (n # ns)) =
        cands c (k_ct (ds_sys s)) (n # ns)"
      using True n ct by (simp add: cands_Cons)
    ultimately show ?thesis by (intro exI [of _ "n # ns"]) simp
  next
    case False
    then have "dump_nodes T c (Some l) (n # ns) s = dump_nodes T c (Some l) ns s"
      using n ct live Cons.prems(3) by auto
    moreover have "dropWhile (\<lambda>q. q \<noteq> l) (cands c (k_ct (ds_sys s)) (n # ns)) =
        dropWhile (\<lambda>q. q \<noteq> l) (cands c (k_ct (ds_sys s)) ns)"
      "l \<in> set (cands c (k_ct (ds_sys s)) ns)"
      using False n ct Cons.prems(4) by (auto simp: cands_Cons split: if_splits)
    moreover obtain ms where
      "dump_nodes T c (Some l) ns s = dump_nodes T c (Some l) ms (s\<lparr>cb_args1 := None\<rparr>)"
      "set ms \<subseteq> set ns"
      "cands c (k_ct (ds_sys s)) ms = dropWhile (\<lambda>q. q \<noteq> l) (cands c (k_ct (ds_sys s)) ns)"
      using Cons.IH Cons.prems calculation(3) by auto
    ultimately show ?thesis by (intro exI [of _ ms]) auto
  qed
qed

end

section \<open>All buckets\<close>

text \<open>The selected entries of the buckets from number \<open>b\<close> on.\<close>

definition rows ::
  "('skb, 'x) tab_env_scheme \<Rightarrow> dump_call \<Rightarrow> ksys \<Rightarrow> nat \<Rightarrow> nat list" where
  "rows T c k b = concat (map (\<lambda>ns. sel T c (k_ct k) (cands c (k_ct k) ns)) (drop b (k_ht k)))"

text \<open>
  The state in which the walk over the buckets ends, for the outcome of a run: at the end of the
  table, or in front of the first entry that did not fit, from where the remaining ones are left.
\<close>

definition outcome ::
  "('skb, 'x) tab_env_scheme \<Rightarrow> dump_call \<Rightarrow> 'skb dump_st \<Rightarrow> 'skb \<times> nat list \<Rightarrow> 'skb dump_st \<Rightarrow> bool"
  where
  "outcome T c s r s' =
     (case r of
        (skb, []) \<Rightarrow> s' = s\<lparr>ds_skb := skb, cb_args1 := None, cb_args0 := dc_size c\<rparr>
      | (skb, p # ps) \<Rightarrow> \<exists>b<dc_size c.
          s' = stop_at (s\<lparr>cb_args0 := b\<rparr>) p skb \<and> work T c (ds_sys s) b (Some p) = p # ps)"

lemma rows_step:
  "b < length (k_ht k) \<Longrightarrow>
    rows T c k b = sel T c (k_ct k) (cands c (k_ct k) (k_ht k ! b)) @ rows T c k (Suc b)"
  by (simp add: rows_def Cons_nth_drop_Suc [symmetric])

lemma work_rows:
  "work T c k b lst = (if b < length (k_ht k)
     then sel T c (k_ct k) (resume lst (cands c (k_ct k) (k_ht k ! b))) @ rows T c k (Suc b) else [])"
  by (simp add: work_def rows_def)

lemma work_None: "b \<le> length (k_ht k) \<Longrightarrow> work T c k b None = rows T c k b"
  by (simp add: work_rows resume_def rows_step [symmetric]) (simp add: rows_def)

lemma evict_none: "ds_evict s = [] \<Longrightarrow> dump_evict T s = Inr s"
  by (simp add: dump_evict_def)

lemma distinct_cands: "distinct ns \<Longrightarrow> distinct (cands c st ns)"
  unfolding cands_def distinct_map by (auto simp: inj_on_def)

lemma filter_dropWhile:
  assumes "distinct cs" "filter P cs = ws @ p # ps"
  shows "p \<in> set cs \<and> filter P (dropWhile (\<lambda>q. q \<noteq> p) cs) = p # ps"
proof -
  have "p \<in> set (filter P cs)" unfolding assms(2) by simp
  then have p: "p \<in> set cs" "P p" by simp_all
  from p(1) obtain us vs where cs: "cs = us @ p # vs" "p \<notin> set us" by (meson split_list_first)
  have "distinct (filter P cs)" using assms(1) by simp
  then have "p \<notin> set ws" unfolding assms(2) by simp
  moreover have "ws @ p # ps = filter P us @ p # filter P vs" using assms(2) cs p by simp
  moreover have "p \<notin> set ps" using \<open>distinct (filter P cs)\<close> unfolding assms(2) by simp
  ultimately have "ps = filter P vs" using cs(2) by (simp add: append_Cons_eq_iff)
  moreover have "dropWhile (\<lambda>q. q \<noteq> p) cs = p # vs"
    unfolding cs(1) using cs(2) by (induction us) auto
  ultimately show ?thesis using p by simp
qed

lemma resume_suffix: "\<exists>us. cs = us @ resume lst cs"
  unfolding resume_def by (cases lst) (auto intro: takeWhile_dropWhile_id [symmetric])

text \<open>The entries left when the walk stops in front of one of bucket \<open>b\<close>.\<close>

lemma work_stopped:
  assumes "b < length (k_ht k)" "linked k"
    "sel T c (k_ct k) (resume lst (cands c (k_ct k) (k_ht k ! b))) = ws @ p # ps"
  shows "work T c k b (Some p) = p # ps @ rows T c k (Suc b)"
proof -
  let ?cs = "cands c (k_ct k) (k_ht k ! b)"
  let ?P = "\<lambda>p. case k_ct k p of None \<Rightarrow> False
     | Some ct \<Rightarrow> ctnetlink_filter_match (nf_ct_zone_id T) ct (dc_data c)"
  have d: "distinct ?cs"
    using assms(1,2) nth_mem [OF assms(1)] by (auto simp: linked_def intro: distinct_cands)
  obtain us where us: "?cs = us @ resume lst ?cs" using resume_suffix by blast
  then have "filter ?P ?cs = (filter ?P us @ ws) @ p # ps"
    using assms(3) unfolding sel_def by (metis append.assoc filter_append)
  from filter_dropWhile [OF d this] show ?thesis
    using assms(1) by (simp add: work_rows resume_def sel_def)
qed

context table_laws
begin

lemma dump_buckets_run:
  assumes "quiet T (k_ct (ds_sys s))" "linked (ds_sys s)" "dc_size c = length (k_ht (ds_sys s))"
    "dc_type c \<noteq> IPCTNL_MSG_CT_GET_CTRZERO" "cb_args1 s = None" "ds_evict s = []"
    "cb_args0 s \<le> dc_size c"
  shows "\<exists>s'. dump_buckets T c lst s = Inr s' \<and>
    outcome T c s (fill_run T c (k_ct (ds_sys s)) (rows T c (ds_sys s) (cb_args0 s)) (ds_skb s)) s'"
  using assms
proof (induction "dc_size c - cb_args0 s" arbitrary: s)
  case 0
  then show ?case by (simp add: dump_buckets.simps rows_def outcome_def)
next
  case (Suc n)
  let ?b = "cb_args0 s" and ?k = "ds_sys s" and ?st = "k_ct (ds_sys s)"
  let ?sel = "sel T c ?st (cands c ?st (k_ht ?k ! ?b))"
  have b: "?b < dc_size c" "?b < length (k_ht ?k)" using Suc(2,5) by simp_all
  have nodes: "\<forall>n\<in>set (k_ht ?k ! ?b). ?st (fst n) \<noteq> None"
    using Suc.prems(2) nth_mem [OF b(2)] by (auto simp: linked_def)
  obtain skb' rem where run: "fill_run T c ?st ?sel (ds_skb s) = (skb', rem)" by fastforce
  note step = dump_nodes_run [OF Suc.prems(1) nodes Suc.prems(4,5), of lst, unfolded run]
  show ?case
  proof (cases rem)
    case Nil
    let ?s2 = "s\<lparr>ds_skb := skb', cb_args1 := None, cb_args0 := Suc ?b\<rparr>"
    have eq: "dump_buckets T c lst s = dump_buckets T c lst ?s2"
      using b step Nil
      by (subst dump_buckets.simps)
        (simp add: evict_none [OF Suc.prems(6)] run_outcome_def split_def)
    have "\<exists>s'. dump_buckets T c lst ?s2 = Inr s' \<and>
        outcome T c ?s2 (fill_run T c ?st (rows T c ?k (Suc ?b)) skb') s'"
      using Suc.hyps(1) [of ?s2] Suc.hyps(2) Suc.prems b by simp
    then show ?thesis
      unfolding eq rows_step [OF b(2)] fill_run_append run Nil
      by (auto simp: outcome_def stop_at_def split: list.splits)
  next
    case (Cons p ps)
    have eq: "dump_buckets T c lst s = Inr (stop_at s p skb')"
      using b step Cons
      by (subst dump_buckets.simps)
        (simp add: evict_none [OF Suc.prems(6)] run_outcome_def split_def)
    obtain ws where "?sel = ws @ p # ps"
      using fill_run_suffix [OF run] Cons by auto
    then have "work T c ?k ?b (Some p) = p # ps @ rows T c ?k (Suc ?b)"
      by (intro work_stopped [OF b(2) Suc.prems(2), where lst = None]) (simp add: resume_def)
    then show ?thesis
      unfolding eq rows_step [OF b(2)] fill_run_append run Cons
      using b(1) by (auto simp: outcome_def intro!: exI [of _ ?b])
  qed
qed

lemma dump_buckets_gone:
  assumes "quiet T (k_ct (ds_sys s))" "linked (ds_sys s)" "dc_size c = length (k_ht (ds_sys s))"
    "dc_type c \<noteq> IPCTNL_MSG_CT_GET_CTRZERO" "ds_evict s = []" "cb_args0 s < dc_size c"
    and l: "cb_args1 s = Some l" "l \<notin> set (cands c (k_ct (ds_sys s)) (k_ht (ds_sys s) ! cb_args0 s))"
  shows "\<exists>s'. dump_buckets T c (Some l) s = Inr s' \<and> outcome T c s
    (fill_run T c (k_ct (ds_sys s)) (work T c (ds_sys s) (cb_args0 s) (Some l)) (ds_skb s)) s'"
proof -
  let ?b = "cb_args0 s" and ?k = "ds_sys s" and ?s1 = "s\<lparr>cb_args1 := None\<rparr>"
  have b: "?b < dc_size c" "?b < length (k_ht ?k)" using assms(3,6) by simp_all
  have nodes: "\<forall>n\<in>set (k_ht ?k ! ?b). k_ct ?k (fst n) \<noteq> None"
    using assms(2) nth_mem [OF b(2)] by (auto simp: linked_def)
  have "dump_buckets T c (Some l) s = dump_buckets T c (Some l) ?s1"
    using b dump_nodes_gone [OF assms(1) nodes l] l(1)
    by (subst dump_buckets.simps) (simp add: evict_none [OF assms(5)] split_def)
  moreover have "\<exists>s'. dump_buckets T c (Some l) ?s1 = Inr s' \<and>
      outcome T c ?s1 (fill_run T c (k_ct ?k) (rows T c ?k ?b) (ds_skb s)) s'"
    using dump_buckets_run [of ?s1 c "Some l"] assms(1-6) by simp
  moreover have "work T c ?k ?b (Some l) = rows T c ?k ?b"
    using b l(2) by (simp add: work_rows resume_def rows_step)
  ultimately show ?thesis
    by (auto simp: outcome_def stop_at_def split: list.splits)
qed

lemma dump_buckets_work:
  assumes "quiet T (k_ct (ds_sys s))" "linked (ds_sys s)" "dc_size c = length (k_ht (ds_sys s))"
    "dc_type c \<noteq> IPCTNL_MSG_CT_GET_CTRZERO" "ds_evict s = []"
    "cb_args0 s < dc_size c"
  shows "\<exists>s'. dump_buckets T c (cb_args1 s) s = Inr s' \<and> outcome T c s
    (fill_run T c (k_ct (ds_sys s)) (work T c (ds_sys s) (cb_args0 s) (cb_args1 s)) (ds_skb s)) s'"
proof (cases "cb_args1 s")
  case None
  then show ?thesis
    using dump_buckets_run [OF assms(1-4) None assms(5), of None] assms(3,6) by (simp add: work_None)
next
  case (Some l)
  let ?b = "cb_args0 s" and ?k = "ds_sys s" and ?st = "k_ct (ds_sys s)"
  let ?cs = "cands c ?st (k_ht ?k ! ?b)"
  have b: "?b < dc_size c" "?b < length (k_ht ?k)" using assms(3,6) by simp_all
  have nodes: "\<forall>n\<in>set (k_ht ?k ! ?b). ?st (fst n) \<noteq> None"
    using assms(2) nth_mem [OF b(2)] by (auto simp: linked_def)
  show ?thesis
  proof (cases "l \<in> set ?cs")
    case False
    then show ?thesis unfolding Some by (rule dump_buckets_gone [OF assms Some])
  next
    case True
    from dump_nodes_resumed [OF assms(1) nodes Some True] obtain ms where
      ms: "dump_nodes T c (Some l) (k_ht ?k ! ?b) s = dump_nodes T c (Some l) ms (s\<lparr>cb_args1 := None\<rparr>)"
      "set ms \<subseteq> set (k_ht ?k ! ?b)" "cands c ?st ms = resume (Some l) ?cs"
      using True by (auto simp: resume_def)
    let ?sel = "sel T c ?st (resume (Some l) ?cs)"
    obtain skb' rem where run: "fill_run T c ?st ?sel (ds_skb s) = (skb', rem)" by fastforce
    have step: "dump_nodes T c (Some l) (k_ht ?k ! ?b) s =
        Inr (run_outcome (s\<lparr>cb_args1 := None\<rparr>) (skb', rem))"
      unfolding ms(1)
      using dump_nodes_run [of "s\<lparr>cb_args1 := None\<rparr>" ms c "Some l"] assms(1,4) nodes ms(2,3) run
      by auto
    have work: "work T c ?k ?b (Some l) = ?sel @ rows T c ?k (Suc ?b)"
      using b by (simp add: work_rows)
    show ?thesis
    proof (cases rem)
      case Nil
      let ?s2 = "s\<lparr>ds_skb := skb', cb_args1 := None, cb_args0 := Suc ?b\<rparr>"
      have eq: "dump_buckets T c (Some l) s = dump_buckets T c (Some l) ?s2"
        using b step Nil
        by (subst dump_buckets.simps) (simp add: evict_none [OF assms(5)] run_outcome_def split_def)
      have "\<exists>s'. dump_buckets T c (Some l) ?s2 = Inr s' \<and>
          outcome T c ?s2 (fill_run T c ?st (rows T c ?k (Suc ?b)) skb') s'"
        using dump_buckets_run [of ?s2 c "Some l"] assms b by simp
      then show ?thesis
        unfolding Some eq work fill_run_append run Nil
        by (auto simp: outcome_def stop_at_def split: list.splits)
    next
      case (Cons p ps)
      have eq: "dump_buckets T c (Some l) s = Inr (stop_at s p skb')"
        using b step Cons
        by (subst dump_buckets.simps)
          (simp add: evict_none [OF assms(5)] run_outcome_def split_def stop_at_def)
      obtain ws where "?sel = ws @ p # ps" using fill_run_suffix [OF run] Cons by auto
      from work_stopped [OF b(2) assms(2) this]
      have "work T c ?k ?b (Some p) = p # ps @ rows T c ?k (Suc ?b)" .
      then show ?thesis
        unfolding Some eq work fill_run_append run Cons
        using b(1) by (auto simp: outcome_def intro!: exI [of _ ?b])
    qed
  qed
qed

end

section \<open>References\<close>

text \<open>The store of a dump that is to go on with an entry: it holds a reference on it.\<close>

definition hold :: "ct_store \<Rightarrow> nat option \<Rightarrow> ct_store" where
  "hold st lst = (case lst of None \<Rightarrow> st | Some l \<Rightarrow> ct_get st l)"

lemma ct_get_apply:
  "ct_get st q p = (if p = q then map_option (\<lambda>ct. ct\<lparr>ct_use := Suc (ct_use ct)\<rparr>) (st p) else st p)"
  by (simp add: ct_get_def split: option.splits)

lemma hold_apply:
  "hold st lst p = (if lst = Some p then map_option (\<lambda>ct. ct\<lparr>ct_use := Suc (ct_use ct)\<rparr>) (st p) else st p)"
  by (auto simp: hold_def ct_get_apply split: option.splits)

lemma hold_None [simp]: "hold st None = st"
  by (simp add: hold_def)

lemma filter_match_use [simp]:
  "ctnetlink_filter_match zid (ct\<lparr>ct_use := n\<rparr>) data = ctnetlink_filter_match zid ct data"
  by (simp add: ctnetlink_filter_match_def split: option.splits)

lemma cands_hold [simp]: "cands c (hold st lst) ns = cands c st ns"
proof -
  have "(case hold st lst p of None \<Rightarrow> False | Some ct \<Rightarrow> ct_net ct = dc_net c) =
      (case st p of None \<Rightarrow> False | Some ct \<Rightarrow> ct_net ct = dc_net c)" for p
    by (simp add: hold_apply split: option.splits)
  then show ?thesis by (simp add: cands_def)
qed

lemma sel_hold [simp]: "sel T c (hold st lst) ps = sel T c st ps"
proof -
  have "(case hold st lst p of None \<Rightarrow> False
        | Some ct \<Rightarrow> ctnetlink_filter_match (nf_ct_zone_id T) ct (dc_data c)) =
      (case st p of None \<Rightarrow> False
        | Some ct \<Rightarrow> ctnetlink_filter_match (nf_ct_zone_id T) ct (dc_data c))" for p
    by (simp add: hold_apply split: option.splits)
  then show ?thesis by (simp add: sel_def)
qed

lemma work_hold [simp]: "work T c (k\<lparr>k_ct := hold (k_ct k) lst\<rparr>) b x = work T c k b x"
  by (simp add: work_def)

lemma hold_live [simp]: "hold st lst p = None \<longleftrightarrow> st p = None"
  by (simp add: hold_apply)

lemma linked_hold [simp]: "linked (k\<lparr>k_ct := hold (k_ct k) lst\<rparr>) = linked k"
  by (simp add: linked_def)

lemma help_strict_use [simp]: "help_strict T (ct\<lparr>ct_use := n\<rparr>) = help_strict T ct"
  by (simp add: help_strict_def)

lemma quiet_hold: "quiet T st \<Longrightarrow> quiet T (hold st lst)"
proof -
  have m: "Option.bind m (hold st lst) = None \<longleftrightarrow> Option.bind m st = None" for m
    by (cases m) simp_all
  assume "quiet T st"
  then show ?thesis
    unfolding quiet_def m by (auto simp: hold_apply split: if_splits)
qed

lemma work_live:
  assumes "p \<in> set (work T c k b lst)"
  shows "k_ct k p \<noteq> None"
proof -
  have "st p \<noteq> None" if "p \<in> set (sel T c st ps)" for st ps
    using that by (auto simp: sel_def split: option.splits)
  with assms show ?thesis by (auto simp: work_def split: if_splits)
qed

context table_laws
begin

lemma put_hold:
  assumes "quiet T st" "st l \<noteq> None"
  shows "nf_ct_put T (hold st (Some l)) l = st"
proof -
  obtain ct where ct: "st l = Some ct" using assms(2) by blast
  have "0 < ct_use ct" using assms(1) ct by (auto simp: quiet_def)
  then show ?thesis
    using put [of "hold st (Some l)" l "ct\<lparr>ct_use := Suc (ct_use ct)\<rparr>"] ct
    by (auto simp: hold_def ct_get_def fun_upd_idem)
qed

lemma put_hold_other:
  assumes "quiet T st" "st l \<noteq> None" "p \<noteq> l"
  shows "nf_ct_put T (ct_get (hold st (Some l)) p) l = ct_get st p"
proof -
  obtain ct where ct: "st l = Some ct" using assms(2) by blast
  have "0 < ct_use ct" using assms(1) ct by (auto simp: quiet_def)
  then show ?thesis
    using put [of "ct_get (hold st (Some l)) p" l "ct\<lparr>ct_use := Suc (ct_use ct)\<rparr>"] ct assms(3)
    by (auto simp: ct_get_apply hold_apply fun_eq_iff)
qed

section \<open>One call\<close>

text \<open>
  One call of a dump. Entries up to the first one that does not fit are written; the callback
  state after the call describes exactly the rest, and a reference is held on its first entry.
\<close>

lemma dump_table_call:
  assumes q: "quiet T (k_ct k)" "linked k" "dc_size c = length (k_ht k)"
      "dc_type c \<noteq> IPCTNL_MSG_CT_GET_CTRZERO"
    and s: "ds_sys s = k\<lparr>k_ct := hold (k_ct k) (cb_args1 s)\<rparr>" "cb_args0 s < dc_size c"
      "\<forall>l. cb_args1 s = Some l \<longrightarrow> W \<noteq> [] \<and> hd W = l"
    and W: "W = work T c k (cb_args0 s) (cb_args1 s)" "W \<noteq> [] \<longrightarrow>
      entry_size T A c (hold (k_ct k) (cb_args1 s)) (hd W) \<le> room (ds_skb s)"
      "distinct W"
  shows "\<exists>ws rem s'. W = ws @ rem \<and> ctnetlink_dump_table T c s = Inr (w_len T (ds_skb s'), s') \<and>
    msgs (ds_skb s') =
      msgs (ds_skb s) @ map (entry_msg T A c (hold (k_ct k) (cb_args1 s))) ws \<and>
    (W \<noteq> [] \<longrightarrow> ws \<noteq> []) \<and> ds_sys s' = k\<lparr>k_ct := hold (k_ct k) (cb_args1 s')\<rparr> \<and>
    (rem = [] \<longrightarrow> cb_args0 s' = dc_size c \<and> cb_args1 s' = None) \<and>
    (rem \<noteq> [] \<longrightarrow> cb_args0 s' < dc_size c \<and> cb_args1 s' = Some (hd rem) \<and>
       work T c k (cb_args0 s') (cb_args1 s') = rem \<and>
       room (ds_skb s') < entry_size T A c (hold (k_ct k) (cb_args1 s)) (hd rem))"
proof -
  let ?h = "hold (k_ct k) (cb_args1 s)" and ?s0 = "s\<lparr>ds_evict := []\<rparr>"
  obtain skb' rem where run: "fill_run T c ?h W (ds_skb s) = (skb', rem)" by fastforce
  obtain s1 where s1: "dump_buckets T c (cb_args1 s) ?s0 = Inr s1" "outcome T c ?s0 (skb', rem) s1"
    using dump_buckets_work [of ?s0 c] q s W(1) run by (auto simp: quiet_hold)
  have live: "\<forall>p\<in>set W. ?h p \<noteq> None" using W(1) work_live [of _ T c k] by simp
  have lst: "k_ct k l \<noteq> None" if "cb_args1 s = Some l" for l
    using live s(3) that by (metis hd_in_set hold_live)
  from fill_run_spec [OF quiet_hold [OF q(1)] live run] obtain ws where
    ws: "W = ws @ rem" "msgs skb' = msgs (ds_skb s) @ map (entry_msg T A c ?h) ws"
      "room (ds_skb s) = room skb' + sum_list (map (entry_size T A c ?h) ws)"
      "rem \<noteq> [] \<longrightarrow> room skb' < entry_size T A c ?h (hd rem)" by blast
  have ne: "W \<noteq> [] \<longrightarrow> ws \<noteq> []"
  proof (intro impI notI)
    assume "W \<noteq> []" "ws = []"
    with ws W(2) show False by auto
  qed
  show ?thesis
  proof (cases rem)
    case Nil
    let ?s' = "s\<lparr>ds_evict := [], ds_skb := skb', cb_args1 := None, cb_args0 := dc_size c, ds_sys := k\<rparr>"
    have "dump_out T (cb_args1 s) s1 = Inr ?s'"
      using s1(2) Nil s put_hold [OF q(1)] lst
      by (auto simp: dump_out_def outcome_def dump_evict_def split: option.splits)
    then have "ctnetlink_dump_table T c s = Inr (w_len T skb', ?s')"
      using s1(1) by (simp add: ctnetlink_dump_table_def)
    then show ?thesis using ws Nil ne by (intro exI [of _ ws] exI [of _ "[]"] exI [of _ ?s']) simp
  next
    case (Cons p ps)
    from s1(2) Cons obtain b where b: "b < dc_size c" "s1 = stop_at (?s0\<lparr>cb_args0 := b\<rparr>) p skb'"
        "work T c k b (Some p) = p # ps"
      using s(1) by (auto simp: outcome_def)
    have other: "cb_args1 s \<noteq> Some p"
    proof
      assume l: "cb_args1 s = Some p"
      then have "hd ws = p" "ws \<noteq> []" using ws(1) ne s(3) by auto
      then show False using W(3) ws(1) Cons by (metis disjoint_iff distinct_append hd_in_set list.set_intros(1))
    qed
    let ?s' = "s\<lparr>ds_evict := [], ds_skb := skb', cb_args1 := Some p, cb_args0 := b,
      ds_sys := k\<lparr>k_ct := ct_get (k_ct k) p\<rparr>\<rparr>"
    have "dump_out T (cb_args1 s) s1 = Inr ?s'"
      using b(2) s other put_hold_other [OF q(1), of _ p] lst
      by (auto simp: dump_out_def stop_at_def dump_evict_def split: option.splits)
    then have "ctnetlink_dump_table T c s = Inr (w_len T skb', ?s')"
      using s1(1) by (simp add: ctnetlink_dump_table_def)
    then show ?thesis using ws Cons ne b
      by (intro exI [of _ ws] exI [of _ rem] exI [of _ ?s']) (simp add: hold_def)
  qed
qed

text \<open>
  A call that starts at a remembered entry which does not fit: the second reference taken on it is
  never dropped.
\<close>

lemma dump_table_leak:
  assumes q: "quiet T (k_ct k)" "linked k" "dc_size c = length (k_ht k)"
      "dc_type c \<noteq> IPCTNL_MSG_CT_GET_CTRZERO"
    and s: "ds_sys s = k\<lparr>k_ct := hold (k_ct k) (Some l)\<rparr>" "cb_args0 s < dc_size c"
      "cb_args1 s = Some l"
    and W: "work T c k (cb_args0 s) (Some l) = l # ps"
      "room (ds_skb s) < entry_size T A c (hold (k_ct k) (Some l)) l"
  shows "\<exists>s'. ctnetlink_dump_table T c s = Inr (w_len T (ds_skb s), s') \<and> ds_skb s' = ds_skb s \<and>
    cb_args1 s' = None \<and> k_ct (ds_sys s') = hold (k_ct k) (Some l)"
proof -
  let ?h = "hold (k_ct k) (Some l)" and ?s0 = "s\<lparr>ds_evict := []\<rparr>"
  have "k_ct k l \<noteq> None" using work_live [of l T c k "cb_args0 s" "Some l"] W(1) by simp
  then obtain ct where ct: "k_ct k l = Some ct" by blast
  then have h: "?h l = Some (ct\<lparr>ct_use := Suc (ct_use ct)\<rparr>)" by (simp add: hold_apply)
  have run: "fill_run T c ?h (l # ps) (ds_skb s) = (ds_skb s, l # ps)"
    using entry_full [OF quiet_hold [OF q(1)] h W(2)] h by simp
  obtain s1 where s1: "dump_buckets T c (Some l) ?s0 = Inr s1"
      "outcome T c ?s0 (ds_skb s, l # ps) s1"
    using dump_buckets_work [of ?s0 c] q s W(1) run by (auto simp: quiet_hold)
  then obtain b where b: "s1 = stop_at (?s0\<lparr>cb_args0 := b\<rparr>) l (ds_skb s)"
    by (auto simp: outcome_def)
  have p: "nf_ct_put T (ct_get ?h l) l = ?h"
    using put [of "ct_get ?h l" l "ct\<lparr>ct_use := Suc (Suc (ct_use ct))\<rparr>"] ct
    by (auto simp: ct_get_apply hold_apply fun_eq_iff)
  let ?s' = "?s0\<lparr>cb_args0 := b, cb_args1 := None\<rparr>"
  have "dump_out T (Some l) s1 = Inr ?s'"
    using b s p by (simp add: dump_out_def stop_at_def dump_evict_def)
  then have "ctnetlink_dump_table T c s = Inr (w_len T (ds_skb s), ?s')"
    using s1(1) s(3) by (simp add: ctnetlink_dump_table_def)
  then show ?thesis using s(1) by (intro exI [of _ ?s']) simp
qed

end

section \<open>A whole session\<close>

text \<open>
  The kernel calls the dump function with a fresh buffer until it writes nothing. \<open>n\<close> such calls,
  and the messages they wrote.
\<close>

fun dump_session ::
  "('skb, 'x) tab_env_scheme \<Rightarrow> ('skb \<Rightarrow> (nlmsg \<times> nlattr list) list) \<Rightarrow> 'skb \<Rightarrow> dump_call \<Rightarrow> nat \<Rightarrow>
   'skb dump_st \<Rightarrow> ((nlmsg \<times> nlattr list) list \<times> 'skb dump_st) res" where
  "dump_session T msgs fresh c 0 s = Inr ([], s)"
| "dump_session T msgs fresh c (Suc n) s =
     bind_res (ctnetlink_dump_table T c (s\<lparr>ds_skb := fresh\<rparr>)) (\<lambda>(len, s1).
     bind_res (dump_session T msgs fresh c n s1) (\<lambda>(ms, s2). Inr (msgs (ds_skb s1) @ ms, s2)))"

context table_laws
begin

text \<open>A state between two calls in which the entries \<open>W\<close> are left.\<close>

definition waiting :: "dump_call \<Rightarrow> ksys \<Rightarrow> 'skb dump_st \<Rightarrow> nat list \<Rightarrow> bool" where
  "waiting c k s W \<longleftrightarrow> ds_sys s = k\<lparr>k_ct := hold (k_ct k) (cb_args1 s)\<rparr> \<and> distinct W \<and>
     (cb_args0 s < dc_size c \<and> W = work T c k (cb_args0 s) (cb_args1 s) \<and>
        (\<forall>l. cb_args1 s = Some l \<longrightarrow> W \<noteq> [] \<and> hd W = l) \<or>
      cb_args0 s = dc_size c \<and> cb_args1 s = None \<and> W = [])"

lemma dump_table_finished:
  "cb_args0 s = dc_size c \<Longrightarrow> cb_args1 s = None \<Longrightarrow>
    ctnetlink_dump_table T c s = Inr (w_len T (ds_skb s), s\<lparr>ds_evict := []\<rparr>)"
  by (simp add: ctnetlink_dump_table_def dump_buckets.simps dump_out_def dump_evict_def)

text \<open>One call of a session that is not finished.\<close>

lemma waiting_call:
  assumes q: "quiet T (k_ct k)" "linked k" "dc_size c = length (k_ht k)"
      "dc_type c \<noteq> IPCTNL_MSG_CT_GET_CTRZERO"
    and fresh: "msgs fresh = []"
    and "waiting c k s W" "\<forall>p\<in>set W. \<forall>lst. entry_size T A c (hold (k_ct k) lst) p \<le> room fresh"
      "cb_args0 s \<noteq> dc_size c"
  obtains ws rem s1 where "W = ws @ rem" "W \<noteq> [] \<longrightarrow> ws \<noteq> []" "waiting c k s1 rem"
    "ctnetlink_dump_table T c (s\<lparr>ds_skb := fresh\<rparr>) = Inr (w_len T (ds_skb s1), s1)"
    "msgs (ds_skb s1) = map (entry_msg T A c (hold (k_ct k) (cb_args1 s))) ws"
    "rem = [] \<longrightarrow> cb_args0 s1 = dc_size c"
proof -
  from assms(6,8) have w: "ds_sys s = k\<lparr>k_ct := hold (k_ct k) (cb_args1 s)\<rparr>" "distinct W"
      "cb_args0 s < dc_size c" "W = work T c k (cb_args0 s) (cb_args1 s)"
      "\<forall>l. cb_args1 s = Some l \<longrightarrow> W \<noteq> [] \<and> hd W = l" by (auto simp: waiting_def)
  have first: "W \<noteq> [] \<longrightarrow> entry_size T A c (hold (k_ct k) (cb_args1 s)) (hd W) \<le> room fresh"
    using assms(7) by simp
  have w5: "\<forall>l. cb_args1 s = Some l \<longrightarrow>
      work T c k (cb_args0 s) (Some l) \<noteq> [] \<and> hd (work T c k (cb_args0 s) (Some l)) = l"
    using w(4,5) by auto
  have "\<exists>ws rem s1. W = ws @ rem \<and>
      ctnetlink_dump_table T c (s\<lparr>ds_skb := fresh\<rparr>) = Inr (w_len T (ds_skb s1), s1) \<and>
      msgs (ds_skb s1) = map (entry_msg T A c (hold (k_ct k) (cb_args1 s))) ws \<and>
      (W \<noteq> [] \<longrightarrow> ws \<noteq> []) \<and> ds_sys s1 = k\<lparr>k_ct := hold (k_ct k) (cb_args1 s1)\<rparr> \<and>
      (rem = [] \<longrightarrow> cb_args0 s1 = dc_size c \<and> cb_args1 s1 = None) \<and>
      (rem \<noteq> [] \<longrightarrow> cb_args0 s1 < dc_size c \<and> cb_args1 s1 = Some (hd rem) \<and>
        work T c k (cb_args0 s1) (cb_args1 s1) = rem \<and>
        room (ds_skb s1) < entry_size T A c (hold (k_ct k) (cb_args1 s)) (hd rem))"
    using dump_table_call [where s = "s\<lparr>ds_skb := fresh\<rparr>" and W = W, OF q]
      w(1,2,3) w5 first fresh by (simp add: w(4) [symmetric])
  then obtain ws rem s1 where c: "W = ws @ rem"
      "ctnetlink_dump_table T c (s\<lparr>ds_skb := fresh\<rparr>) = Inr (w_len T (ds_skb s1), s1)"
      "msgs (ds_skb s1) = map (entry_msg T A c (hold (k_ct k) (cb_args1 s))) ws"
      "W \<noteq> [] \<longrightarrow> ws \<noteq> []" "ds_sys s1 = k\<lparr>k_ct := hold (k_ct k) (cb_args1 s1)\<rparr>"
      "rem = [] \<longrightarrow> cb_args0 s1 = dc_size c \<and> cb_args1 s1 = None"
      "rem \<noteq> [] \<longrightarrow> cb_args0 s1 < dc_size c \<and> cb_args1 s1 = Some (hd rem) \<and>
         work T c k (cb_args0 s1) (cb_args1 s1) = rem"
    by blast
  have "waiting c k s1 rem" using c w(2) by (cases "rem = []") (auto simp: waiting_def)
  with c show thesis by (intro that [of ws rem s1]) auto
qed

lemma dump_session_waiting:
  assumes q: "quiet T (k_ct k)" "linked k" "dc_size c = length (k_ht k)"
      "dc_type c \<noteq> IPCTNL_MSG_CT_GET_CTRZERO"
    and fresh: "msgs fresh = []"
    and "waiting c k s W" "\<forall>p\<in>set W. \<forall>lst. entry_size T A c (hold (k_ct k) lst) p \<le> room fresh"
      "length W < n \<or> cb_args0 s = dc_size c"
  shows "\<exists>ms s'. dump_session T msgs fresh c n s = Inr (ms, s') \<and>
    list_all2 (\<lambda>p m. \<exists>lst. m = entry_msg T A c (hold (k_ct k) lst) p) W ms \<and>
    cb_args0 s' = dc_size c \<and> cb_args1 s' = None \<and> ds_sys s' = k"
  using assms(6-8)
proof (induction n arbitrary: s W)
  case 0
  then show ?case by (auto simp: waiting_def)
next
  case (Suc n)
  show ?case
  proof (cases "cb_args0 s = dc_size c")
    case True
    then have fin: "cb_args1 s = None" "W = []" "ds_sys s = k"
      using Suc.prems(1) by (auto simp: waiting_def)
    let ?s1 = "s\<lparr>ds_skb := fresh, ds_evict := []\<rparr>"
    have "waiting c k ?s1 []" using True fin by (simp add: waiting_def)
    from Suc.IH [OF this] True obtain ms s' where "dump_session T msgs fresh c n ?s1 = Inr (ms, s')"
      "ms = []" "cb_args0 s' = dc_size c" "cb_args1 s' = None" "ds_sys s' = k" by auto
    then show ?thesis
      using dump_table_finished [of "s\<lparr>ds_skb := fresh\<rparr>" c] True fin fresh by simp
  next
    case False
    obtain ws rem s1 where c1: "W = ws @ rem" "W \<noteq> [] \<longrightarrow> ws \<noteq> []"
      and c2: "waiting c k s1 rem"
      and c3: "ctnetlink_dump_table T c (s\<lparr>ds_skb := fresh\<rparr>) = Inr (w_len T (ds_skb s1), s1)"
        "msgs (ds_skb s1) = map (entry_msg T A c (hold (k_ct k) (cb_args1 s))) ws"
      and c4: "rem = [] \<longrightarrow> cb_args0 s1 = dc_size c"
      by (rule waiting_call [OF q fresh Suc.prems(1,2) False])
    have "length rem < n \<or> cb_args0 s1 = dc_size c"
      using c1 c4 Suc.prems(3) False by (cases ws) auto
    moreover have "\<forall>p\<in>set rem. \<forall>lst. entry_size T A c (hold (k_ct k) lst) p \<le> room fresh"
      using Suc.prems(2) c1(1) by simp
    ultimately obtain ms s' where "dump_session T msgs fresh c n s1 = Inr (ms, s')"
        "list_all2 (\<lambda>p m. \<exists>lst. m = entry_msg T A c (hold (k_ct k) lst) p) rem ms"
        "cb_args0 s' = dc_size c" "cb_args1 s' = None" "ds_sys s' = k"
      using Suc.IH [OF c2] by blast
    moreover have "list_all2 (\<lambda>p m. \<exists>lst. m = entry_msg T A c (hold (k_ct k) lst) p) ws
        (msgs (ds_skb s1))"
      unfolding c3(2) by (auto simp: list_all2_conv_all_nth)
    ultimately show ?thesis using c1(1) c3(1) by (auto intro: list_all2_appendI)
  qed
qed

end

section \<open>Lookup, buffers and cleanup\<close>

text \<open>
  A lookup takes a reference on what it finds; a new buffer is empty and has room for the payload
  and the netlink header; the cleanup unlinks the selected connections of a namespace.
\<close>

locale lookup_laws = table_laws T emits grows room msgs A
  for T :: "('skb, 'x) tab_env_scheme" and emits grows room msgs A +
  assumes find_none: "nf_conntrack_find_get T st net z t = (None, st') \<Longrightarrow> st' = st"
    and find_some: "nf_conntrack_find_get T st net z t = (Some p, st') \<Longrightarrow>
      st p \<noteq> None \<and> st' = hold st (Some p)"
    and new_buf: "nlmsg_new T n = Some skb \<Longrightarrow> msgs skb = [] \<and> room skb = 16 + n"
    and cleanup: "k_ht (nf_ct_iterate_cleanup_net T k net f portid report) =
      map (filter (\<lambda>n. \<not> (\<exists>ct. k_ct k (fst n) = Some ct \<and> ct_net ct = net \<and> f ct))) (k_ht k)"

text \<open>The connections' reference counts are positive.\<close>

definition counted :: "ct_store \<Rightarrow> bool" where
  "counted st \<longleftrightarrow> (\<forall>p ct. st p = Some ct \<longrightarrow> 0 < ct_use ct)"

context lookup_laws
begin

text \<open>A reference taken by a lookup and dropped again.\<close>

lemma put_found:
  assumes "counted st" "st l = Some ct"
  shows "nf_ct_put T (hold st (Some l)) l = st"
proof -
  have "0 < ct_use ct" using assms by (auto simp: counted_def)
  then show ?thesis
    using put [of "hold st (Some l)" l "ct\<lparr>ct_use := Suc (ct_use ct)\<rparr>"] assms(2)
    by (auto simp: hold_def ct_get_def fun_upd_idem)
qed

end

section \<open>A reference environment\<close>

definition plain_put :: "ct_store \<Rightarrow> nat \<Rightarrow> ct_store" where
  "plain_put st p = (case st p of None \<Rightarrow> st
     | Some ct \<Rightarrow> if 1 < ct_use ct then st(p \<mapsto> ct\<lparr>ct_use := ct_use ct - 1\<rparr>) else st(p := None))"

definition plain_unlink :: "ksys \<Rightarrow> nat \<Rightarrow> ksys" where
  "plain_unlink k p = k\<lparr>k_ht := map (filter (\<lambda>n. fst n \<noteq> p)) (k_ht k), k_ct := plain_put (k_ct k) p\<rparr>"

definition plain_hit ::
  "ct_store \<Rightarrow> nat \<Rightarrow> nf_conntrack_zone \<Rightarrow> nf_conntrack_tuple \<Rightarrow> nat \<Rightarrow> bool" where
  "plain_hit st net z t p =
     (case st p of None \<Rightarrow> False
      | Some ct \<Rightarrow> ct_net ct = net \<and> zone_id (ct_zone ct) = zone_id z \<and>
          (tuple_orig ct = t \<or> tuple_reply ct = t))"

definition plain_find ::
  "ct_store \<Rightarrow> nat \<Rightarrow> nf_conntrack_zone \<Rightarrow> nf_conntrack_tuple \<Rightarrow> nat option \<times> ct_store" where
  "plain_find st net z t =
     (case List.find (plain_hit st net z t) [0..<16] of
        None \<Rightarrow> (None, st) | Some p \<Rightarrow> (Some p, ct_get st p))"

lemma find_holds: "List.find P xs = Some x \<Longrightarrow> P x"
  by (induction xs) (auto split: if_splits)

lemma plain_find_some:
  "plain_find st net z t = (Some p, st') \<Longrightarrow> st p \<noteq> None \<and> st' = hold st (Some p)"
  unfolding plain_find_def
  by (auto simp: hold_def plain_hit_def dest!: find_holds split: option.splits
      simp del: upt.simps upt_rec_numeral)

definition plain_cleanup :: "ksys \<Rightarrow> nat \<Rightarrow> (nf_conn \<Rightarrow> bool) \<Rightarrow> u32 \<Rightarrow> bool \<Rightarrow> ksys" where
  "plain_cleanup k net f portid report =
     k\<lparr>k_ht := map (filter (\<lambda>n. case k_ct k (fst n) of None \<Rightarrow> True
        | Some ct \<Rightarrow> \<not> (ct_net ct = net \<and> f ct))) (k_ht k)\<rparr>"

definition ref_tab :: "buf tab_env" where
  "ref_tab = dump_env.extend (ref_env Map.empty default_params)
     (tab_env.fields plain_zone_id (\<lambda>t. t = 0) (\<lambda>ct. True) plain_unlink
       (\<lambda>k p portid report. plain_unlink k p) plain_put plain_find plain_cleanup
       (\<lambda>n. Some \<lparr>b_room = 16 + n, b_toks = []\<rparr>) (\<lambda>skb net portid. Inr ()))"

lemmas ref_tab_sel = ref_tab_def dump_env.defs tab_env.defs

lemma ref_tab_dump: "dump_laws ref_tab buf_emits buf_grows b_room buf_msgs ref_attrs"
  using ref_dump.dump_laws_axioms [of Map.empty default_params]
  unfolding dump_laws_def nl_writer_laws_def dump_laws_axioms_def
  by (simp add: ref_tab_sel)

interpretation ref_lookup: lookup_laws ref_tab buf_emits buf_grows b_room buf_msgs ref_attrs
proof (intro lookup_laws.intro table_laws.intro ref_tab_dump, unfold_locales)
  fix st :: ct_store and p ct
  assume "st p = Some ct" "1 < ct_use ct"
  then show "nf_ct_put ref_tab st p = st(p \<mapsto> ct\<lparr>ct_use := ct_use ct - 1\<rparr>)"
    by (simp add: ref_tab_sel plain_put_def)
next
  fix st net z t st'
  assume "nf_conntrack_find_get ref_tab st net z t = (None, st')"
  then show "st' = st" by (simp add: ref_tab_sel plain_find_def split: option.splits)
next
  fix st net z t p st'
  assume "nf_conntrack_find_get ref_tab st net z t = (Some p, st')"
  then have "plain_find st net z t = (Some p, st')" by (simp add: ref_tab_sel)
  then show "st p \<noteq> None \<and> st' = hold st (Some p)" by (rule plain_find_some)
next
  fix n skb
  assume "nlmsg_new ref_tab n = Some skb"
  then show "buf_msgs skb = [] \<and> b_room skb = 16 + n"
    by (auto simp: ref_tab_sel buf_msgs_def)
next
  fix k net f portid report
  show "k_ht (nf_ct_iterate_cleanup_net ref_tab k net f portid report) =
      map (filter (\<lambda>n. \<not> (\<exists>ct. k_ct k (fst n) = Some ct \<and> ct_net ct = net \<and> f ct))) (k_ht k)"
    by (auto simp: ref_tab_sel plain_cleanup_def intro!: filter_cong split: option.splits)
qed

text \<open>Two connections in two buckets, each linked once per direction.\<close>

definition demo_sys :: ksys where
  "demo_sys = \<lparr>k_ht = [[(2, 0), (3, 1)], [(3, 0), (2, 1)]],
     k_ct = [2 \<mapsto> sample_ct, 3 \<mapsto> sample_ct\<lparr>ct_mark := 2\<rparr>]\<rparr>"

definition demo_call :: dump_call where
  "demo_call = \<lparr>dc_net = 0, dc_portid = 5, dc_seq = 6, dc_type = IPCTNL_MSG_CT_GET,
     dc_data = None, dc_size = 2\<rparr>"

definition demo_st :: "nat \<Rightarrow> nat \<Rightarrow> nat option \<Rightarrow> buf dump_st" where
  "demo_st n b lst = \<lparr>cb_args0 = b, cb_args1 = lst, ds_evict = [],
     ds_sys = demo_sys\<lparr>k_ct := hold (k_ct demo_sys) lst\<rparr>, ds_skb = \<lparr>b_room = n, b_toks = []\<rparr>\<rparr>"

lemma ct_attrs_store:
  assumes "\<not> has_flag (ct_status ct) IPS_EXPECTED"
  shows "ct_attrs (E\<lparr>env_store := st\<rparr>) A type a ct x f = ct_attrs E A type a ct x f"
proof -
  have "master_attrs (E\<lparr>env_store := st\<rparr>) A ct = master_attrs E A ct"
    using assms by (simp add: master_attrs_def)
  moreover have "help_attrs (E\<lparr>env_store := st\<rparr>) A ct' = help_attrs E A ct'" for ct'
    by (simp add: help_attrs_def split: option.splits)
  ultimately show ?thesis
    by (simp add: ct_attrs_def info_attrs_def ext_attrs_def secctx_attrs_def timeout_attrs_def
        ct_seconds_def proto_attrs_def)
qed

lemma demo_sizes:
  "attrs_size (ct_attrs ref_tab ref_attrs IPCTNL_MSG_CT_GET 2 (sample_ct\<lparr>ct_use := n\<rparr>) True 2) = 240"
  "attrs_size (ct_attrs ref_tab ref_attrs IPCTNL_MSG_CT_GET 3
     (sample_ct\<lparr>ct_mark := 2, ct_use := n\<rparr>) True 2) = 240"
  by code_simp+

lemma demo_status: "\<not> has_flag (ct_status sample_ct) IPS_EXPECTED"
  by code_simp

lemma demo_flags: "fill_flags (dc_portid demo_call) (dump_flags demo_call) = 2"
  by code_simp

lemma demo_entry_size:
  assumes "p = 2 \<or> p = 3"
  shows "entry_size ref_tab ref_attrs demo_call (hold (k_ct demo_sys) lst) p = 260"
proof -
  have s1: "hold (k_ct demo_sys) lst 2 = Some (sample_ct\<lparr>ct_use := if lst = Some 2 then 2 else 1\<rparr>)"
    "hold (k_ct demo_sys) lst 3 =
      Some (sample_ct\<lparr>ct_mark := 2, ct_use := if lst = Some 3 then 2 else 1\<rparr>)"
    by (simp_all add: hold_apply demo_sys_def sample_ct_def)
  have ty: "dc_type demo_call = IPCTNL_MSG_CT_GET" by (simp add: demo_call_def)
  show ?thesis
    using assms demo_status
    by (elim disjE) (simp_all add: entry_size_def entry_msg_def s1 demo_flags ty ct_attrs_store
        demo_sizes [unfolded One_nat_def])
qed

lemma demo_table_ok:
  "quiet ref_tab (k_ct demo_sys)" "linked demo_sys" "dc_size demo_call = length (k_ht demo_sys)"
  "dc_type demo_call \<noteq> IPCTNL_MSG_CT_GET_CTRZERO"
  "work ref_tab demo_call demo_sys 0 None = [2, 3]"
proof -
  have "help_strict ref_tab sample_ct" by code_simp
  then have "help_strict ref_tab (sample_ct\<lparr>ct_mark := 2\<rparr>)" by (simp add: help_strict_def)
  with \<open>help_strict ref_tab sample_ct\<close> demo_status show "quiet ref_tab (k_ct demo_sys)"
    by (auto simp: quiet_def demo_sys_def ref_tab_sel sample_ct_def)
  show "linked demo_sys" "dc_size demo_call = length (k_ht demo_sys)"
      "dc_type demo_call \<noteq> IPCTNL_MSG_CT_GET_CTRZERO"
    by (simp_all add: linked_def demo_sys_def demo_call_def)
  show "work ref_tab demo_call demo_sys 0 None = [2, 3]" by code_simp
qed

section \<open>Properties\<close>

text \<open>
  C18. A dump session over a table that does not change, without expired
  entries, with buffers large enough for any single entry, and not resetting counters: after more
  calls than there are entries the dump is finished, every selected connection (in the asked
  namespace, original direction, passing the filter) has been written exactly once and in table
  order, and all reference counts are what they were. In each message only the reference count
  may differ from the connection's, while the dump holds a reference itself.
\<close>

theorem dump_session_enumerates:
  assumes "table_laws T emits grows room msgs A"
    and "quiet T (k_ct k)" "linked k" "dc_size c = length (k_ht k)"
    and "dc_type c \<noteq> IPCTNL_MSG_CT_GET_CTRZERO"
    and "msgs fresh = []"
    and "W = concat (map (\<lambda>ns. sel T c (k_ct k) (cands c (k_ct k) ns)) (k_ht k))" "distinct W"
    and "\<forall>p\<in>set W. \<forall>lst. entry_size T A c (hold (k_ct k) lst) p \<le> room fresh"
    and "length W < n"
    and "cb_args0 s = 0" "cb_args1 s = None" "ds_sys s = k"
  shows "\<exists>ms s'. dump_session T msgs fresh c n s = Inr (ms, s') \<and>
    list_all2 (\<lambda>p m. \<exists>lst. m = entry_msg T A c (hold (k_ct k) lst) p) W ms \<and>
    cb_args0 s' = dc_size c \<and> cb_args1 s' = None \<and> ds_sys s' = k"
proof -
  have W: "W = work T c k 0 None"
    using assms(7) by (simp add: work_None rows_def)
  have "table_laws.waiting T c k s W"
    using assms(1,4,8,11-13) W
    by (cases "k_ht k = []") (simp_all add: table_laws.waiting_def work_def)
  from table_laws.dump_session_waiting [OF assms(1-6) this assms(9)] assms(10)
  show ?thesis by blast
qed

theorem dump_session_enumerates_witness:
  "\<exists>ms s'. dump_session ref_tab buf_msgs \<lparr>b_room = 300, b_toks = []\<rparr> demo_call 3 (demo_st 0 0 None) =
      Inr (ms, s') \<and> length ms = 2 \<and> cb_args1 s' = None \<and> ds_sys s' = demo_sys"
proof -
  have W: "[2, 3] = concat (map (\<lambda>ns. sel ref_tab demo_call (k_ct demo_sys)
      (cands demo_call (k_ct demo_sys) ns)) (k_ht demo_sys))"
    using demo_table_ok(5) by (simp add: work_None rows_def)
  note * = dump_session_enumerates [where n = 3 and s = "demo_st 0 0 None"
      and fresh = "\<lparr>b_room = 300, b_toks = []\<rparr>",
      OF ref_lookup.table_laws_axioms demo_table_ok(1-4) _ W]
  have "\<exists>ms s'. dump_session ref_tab buf_msgs \<lparr>b_room = 300, b_toks = []\<rparr> demo_call 3
        (demo_st 0 0 None) = Inr (ms, s') \<and>
      list_all2 (\<lambda>p m. \<exists>lst. m = entry_msg ref_tab ref_attrs demo_call (hold (k_ct demo_sys) lst) p)
        [2, 3] ms \<and>
      cb_args0 s' = dc_size demo_call \<and> cb_args1 s' = None \<and> ds_sys s' = demo_sys"
    by (rule *) (simp_all add: buf_msgs_def demo_entry_size demo_st_def)
  then show ?thesis by (auto dest: list_all2_lengthD)
qed

text \<open>
  C19. One call of the dump on a buffer that takes at least the entry it resumes
  from: it writes the entries left to dump one after the other until the first that does not fit,
  and the callback state it leaves describes exactly the rest, starting with that entry, on which
  it now holds a reference; the reference of the previous call has been dropped.
\<close>

theorem dump_call_resumes:
  assumes "table_laws T emits grows room msgs A"
    and "quiet T (k_ct k)" "linked k" "dc_size c = length (k_ht k)"
    and "dc_type c \<noteq> IPCTNL_MSG_CT_GET_CTRZERO"
    and "ds_sys s = k\<lparr>k_ct := hold (k_ct k) (cb_args1 s)\<rparr>" "cb_args0 s < dc_size c"
    and "\<forall>l. cb_args1 s = Some l \<longrightarrow> W \<noteq> [] \<and> hd W = l"
    and "W = work T c k (cb_args0 s) (cb_args1 s)" "W \<noteq> [] \<longrightarrow>
      entry_size T A c (hold (k_ct k) (cb_args1 s)) (hd W) \<le> room (ds_skb s)"
      "distinct W"
  shows "\<exists>ws rem s'. W = ws @ rem \<and> ctnetlink_dump_table T c s = Inr (w_len T (ds_skb s'), s') \<and>
    msgs (ds_skb s') =
      msgs (ds_skb s) @ map (entry_msg T A c (hold (k_ct k) (cb_args1 s))) ws \<and>
    (W \<noteq> [] \<longrightarrow> ws \<noteq> []) \<and> ds_sys s' = k\<lparr>k_ct := hold (k_ct k) (cb_args1 s')\<rparr> \<and>
    (rem = [] \<longrightarrow> cb_args0 s' = dc_size c \<and> cb_args1 s' = None) \<and>
    (rem \<noteq> [] \<longrightarrow> cb_args0 s' < dc_size c \<and> cb_args1 s' = Some (hd rem) \<and>
       work T c k (cb_args0 s') (cb_args1 s') = rem \<and>
       room (ds_skb s') < entry_size T A c (hold (k_ct k) (cb_args1 s)) (hd rem))"
  by (rule table_laws.dump_table_call [OF assms])

lemma demo_st_simps [simp]:
  "cb_args0 (demo_st n b lst) = b" "cb_args1 (demo_st n b lst) = lst"
  "ds_sys (demo_st n b lst) = demo_sys\<lparr>k_ct := hold (k_ct demo_sys) lst\<rparr>"
  "ds_skb (demo_st n b lst) = \<lparr>b_room = n, b_toks = []\<rparr>"
  by (simp_all add: demo_st_def)

lemma demo_size: "dc_size demo_call = 2"
  by (simp add: demo_call_def)

theorem dump_call_resumes_witness:
  "\<exists>ws rem s'. [2, 3] = ws @ rem \<and> ws \<noteq> [] \<and>
     ctnetlink_dump_table ref_tab demo_call (demo_st 300 0 None) =
       Inr (w_len ref_tab (ds_skb s'), s') \<and>
     (rem \<noteq> [] \<longrightarrow> cb_args1 s' = Some (hd rem) \<and>
        b_room (ds_skb s') < entry_size ref_tab ref_attrs demo_call (k_ct demo_sys) (hd rem))"
proof -
  let ?s = "demo_st 300 0 None"
  have s: "ds_sys ?s = demo_sys\<lparr>k_ct := hold (k_ct demo_sys) (cb_args1 ?s)\<rparr>"
      "cb_args0 ?s < dc_size demo_call" "\<forall>l. cb_args1 ?s = Some l \<longrightarrow> [2, 3] \<noteq> [] \<and> hd [2, 3] = l"
      "[2, 3] = work ref_tab demo_call demo_sys (cb_args0 ?s) (cb_args1 ?s)"
      "[2, 3] \<noteq> [] \<longrightarrow> entry_size ref_tab ref_attrs demo_call
        (hold (k_ct demo_sys) (cb_args1 ?s)) (hd [2, 3]) \<le> b_room (ds_skb ?s)"
      "distinct [2, 3 :: nat]"
    using demo_table_ok(5) demo_entry_size [of 2 None] by (simp_all add: demo_size)
  from dump_call_resumes [OF ref_lookup.table_laws_axioms demo_table_ok(1-4) s]
  show ?thesis unfolding demo_st_simps hold_None by blast
qed

text \<open>
  C20. When the buffer of a resumed call does not take the very entry the dump
  resumes from, the call writes nothing, forgets the entry and leaves its connection with one
  reference too many, which \<open>ctnetlink_done\<close> does not drop either: the connection is never freed.
\<close>

theorem dump_resume_leaks:
  assumes "table_laws T emits grows room msgs A"
    and "quiet T (k_ct k)" "linked k" "dc_size c = length (k_ht k)"
    and "dc_type c \<noteq> IPCTNL_MSG_CT_GET_CTRZERO"
    and "ds_sys s = k\<lparr>k_ct := hold (k_ct k) (Some l)\<rparr>" "cb_args0 s < dc_size c"
    and "cb_args1 s = Some l" "work T c k (cb_args0 s) (Some l) = l # ps"
    and "room (ds_skb s) < entry_size T A c (hold (k_ct k) (Some l)) l"
  shows "\<exists>s'. ctnetlink_dump_table T c s = Inr (w_len T (ds_skb s), s') \<and> ds_skb s' = ds_skb s \<and>
    ctnetlink_done T (cb_args1 s') (k_ct (ds_sys s')) = hold (k_ct k) (Some l)"
  using table_laws.dump_table_leak [OF assms] by (auto simp: ctnetlink_done_def)

theorem dump_resume_leaks_witness:
  "\<exists>s'. ctnetlink_dump_table ref_tab demo_call (demo_st 100 0 (Some 2)) = Inr (0, s') \<and>
    ctnetlink_done ref_tab (cb_args1 s') (k_ct (ds_sys s')) 2 = Some (sample_ct\<lparr>ct_use := 2\<rparr>)"
proof -
  let ?s = "demo_st 100 0 (Some 2)"
  have s: "ds_sys ?s = demo_sys\<lparr>k_ct := hold (k_ct demo_sys) (Some 2)\<rparr>"
      "cb_args0 ?s < dc_size demo_call" "cb_args1 ?s = Some 2"
      "b_room (ds_skb ?s) <
        entry_size ref_tab ref_attrs demo_call (hold (k_ct demo_sys) (Some 2)) 2"
    using demo_entry_size [of 2 "Some 2"] by (simp_all add: demo_size)
  have w: "work ref_tab demo_call demo_sys 0 (Some 2) = 2 # [3]" by code_simp
  have w': "work ref_tab demo_call demo_sys (cb_args0 ?s) (Some 2) = 2 # [3]" using w by simp
  have "w_len ref_tab \<lparr>b_room = 100, b_toks = []\<rparr> = 0" by code_simp
  moreover have "hold (k_ct demo_sys) (Some 2) 2 = Some (sample_ct\<lparr>ct_use := 2\<rparr>)"
    by (simp add: hold_apply demo_sys_def sample_ct_def)
  ultimately show ?thesis
    using dump_resume_leaks [OF ref_lookup.table_laws_axioms demo_table_ok(1-4) s(1,2,3) w' s(4)]
    by auto
qed

end
