(* ===== verification/Ct_Stats.thy ===== *)
theory Ct_Stats
  imports Ct_Table_Spec
begin

text \<open>
  Statistics (\<open>kmod/vgw_ct_netlink.c\<close>): the resumable dumps of the per-CPU counters of
  connections and of expectations, and the reply with the table's totals. A dump writes one message
  per possible CPU and remembers the CPU to go on with.
\<close>

section \<open>Counters\<close>

record ip_conntrack_stat =
  st_found :: u32
  st_invalid :: u32
  st_insert :: u32
  st_insert_failed :: u32
  st_clash_resolve :: u32
  st_drop :: u32
  st_early_drop :: u32
  st_error :: u32
  st_expect_new :: u32
  st_expect_create :: u32
  st_expect_delete :: u32
  st_search_restart :: u32
  st_chaintoolong :: u32

abbreviation (input) IPCTNL_MSG_CT_GET_STATS_CPU :: nat where "IPCTNL_MSG_CT_GET_STATS_CPU \<equiv> 4"
abbreviation (input) IPCTNL_MSG_CT_GET_STATS :: nat where "IPCTNL_MSG_CT_GET_STATS \<equiv> 5"
abbreviation (input) IPCTNL_MSG_EXP_GET_STATS_CPU :: nat where "IPCTNL_MSG_EXP_GET_STATS_CPU \<equiv> 3"

abbreviation (input) CTA_STATS_FOUND :: nat where "CTA_STATS_FOUND \<equiv> 2"
abbreviation (input) CTA_STATS_INVALID :: nat where "CTA_STATS_INVALID \<equiv> 4"
abbreviation (input) CTA_STATS_INSERT :: nat where "CTA_STATS_INSERT \<equiv> 8"
abbreviation (input) CTA_STATS_INSERT_FAILED :: nat where "CTA_STATS_INSERT_FAILED \<equiv> 9"
abbreviation (input) CTA_STATS_DROP :: nat where "CTA_STATS_DROP \<equiv> 10"
abbreviation (input) CTA_STATS_EARLY_DROP :: nat where "CTA_STATS_EARLY_DROP \<equiv> 11"
abbreviation (input) CTA_STATS_ERROR :: nat where "CTA_STATS_ERROR \<equiv> 12"
abbreviation (input) CTA_STATS_SEARCH_RESTART :: nat where "CTA_STATS_SEARCH_RESTART \<equiv> 13"
abbreviation (input) CTA_STATS_CLASH_RESOLVE :: nat where "CTA_STATS_CLASH_RESOLVE \<equiv> 14"
abbreviation (input) CTA_STATS_CHAIN_TOOLONG :: nat where "CTA_STATS_CHAIN_TOOLONG \<equiv> 15"
abbreviation (input) CTA_STATS_GLOBAL_ENTRIES :: nat where "CTA_STATS_GLOBAL_ENTRIES \<equiv> 1"
abbreviation (input) CTA_STATS_GLOBAL_MAX_ENTRIES :: nat where "CTA_STATS_GLOBAL_MAX_ENTRIES \<equiv> 2"
abbreviation (input) CTA_STATS_EXP_NEW :: nat where "CTA_STATS_EXP_NEW \<equiv> 1"
abbreviation (input) CTA_STATS_EXP_CREATE :: nat where "CTA_STATS_EXP_CREATE \<equiv> 2"
abbreviation (input) CTA_STATS_EXP_DELETE :: nat where "CTA_STATS_EXP_DELETE \<equiv> 3"

text \<open>The header of a statistics message: no family; the CPU number in network byte order.\<close>

definition stat_msg :: "u32 \<Rightarrow> u32 \<Rightarrow> nat \<Rightarrow> u16 \<Rightarrow> nlmsg" where
  "stat_msg portid seq event res_id =
     \<lparr>msg_portid = portid, msg_seq = seq, msg_type = event,
      msg_flags = (if portid \<noteq> 0 then NLM_F_MULTI else 0), msg_family = 0,
      msg_version = NFNETLINK_V0, msg_res_id = res_id\<rparr>"

definition put_be32 :: "('skb, 'x) nl_writer_scheme \<Rightarrow> nat \<times> u32 \<Rightarrow> 'skb action" where
  "put_be32 w = (\<lambda>(t, v). put w t (V_be32 (htonl v)))"

section \<open>Per-CPU dumps\<close>

definition ct_stat_fields :: "ip_conntrack_stat \<Rightarrow> (nat \<times> u32) list" where
  "ct_stat_fields st =
     [(CTA_STATS_FOUND, st_found st), (CTA_STATS_INVALID, st_invalid st), (CTA_STATS_INSERT, st_insert st),
      (CTA_STATS_INSERT_FAILED, st_insert_failed st), (CTA_STATS_DROP, st_drop st),
      (CTA_STATS_EARLY_DROP, st_early_drop st), (CTA_STATS_ERROR, st_error st),
      (CTA_STATS_SEARCH_RESTART, st_search_restart st), (CTA_STATS_CLASH_RESOLVE, st_clash_resolve st),
      (CTA_STATS_CHAIN_TOOLONG, st_chaintoolong st)]"

definition exp_stat_fields :: "ip_conntrack_stat \<Rightarrow> (nat \<times> u32) list" where
  "exp_stat_fields st =
     [(CTA_STATS_EXP_NEW, st_expect_new st), (CTA_STATS_EXP_CREATE, st_expect_create st),
      (CTA_STATS_EXP_DELETE, st_expect_delete st)]"

definition ctnetlink_ct_stat_cpu_fill_info ::
  "('skb, 'x) nl_writer_scheme \<Rightarrow> u32 \<Rightarrow> u32 \<Rightarrow> nat \<Rightarrow> ip_conntrack_stat \<Rightarrow> 'skb \<Rightarrow> nat res \<times> 'skb" where
  "ctnetlink_ct_stat_cpu_fill_info w portid seq cpu st =
     message w (stat_msg portid seq (nfnl_msg_type NFNL_SUBSYS_CTNETLINK IPCTNL_MSG_CT_GET_STATS_CPU)
         (htons (of_nat cpu)))
       (run_acts (map (put_be32 w) (ct_stat_fields st)))"

text \<open>The reply about expectations is sent with the subsystem number of connections.\<close>

definition ctnetlink_exp_stat_fill_info ::
  "('skb, 'x) nl_writer_scheme \<Rightarrow> u32 \<Rightarrow> u32 \<Rightarrow> nat \<Rightarrow> ip_conntrack_stat \<Rightarrow> 'skb \<Rightarrow> nat res \<times> 'skb" where
  "ctnetlink_exp_stat_fill_info w portid seq cpu st =
     message w (stat_msg portid seq (nfnl_msg_type NFNL_SUBSYS_CTNETLINK IPCTNL_MSG_EXP_GET_STATS_CPU)
         (htons (of_nat cpu)))
       (run_acts (map (put_be32 w) (exp_stat_fields st)))"

text \<open>
  The loop over the CPUs, from the one remembered: it ends at the first message that does not fit.
  The result is the CPU to go on with.
\<close>

function cpu_loop ::
  "(nat \<Rightarrow> 'skb \<Rightarrow> nat res \<times> 'skb) \<Rightarrow> (nat \<Rightarrow> bool) \<Rightarrow> nat \<Rightarrow> nat \<Rightarrow> 'skb \<Rightarrow> nat \<times> 'skb" where
  "cpu_loop fill cpu_possible nr_cpu_ids cpu skb =
     (if cpu < nr_cpu_ids then
        if \<not> cpu_possible cpu then cpu_loop fill cpu_possible nr_cpu_ids (Suc cpu) skb
        else (case fill cpu skb of
                (Inl e, skb') \<Rightarrow> (cpu, skb')
              | (Inr n, skb') \<Rightarrow> cpu_loop fill cpu_possible nr_cpu_ids (Suc cpu) skb')
      else (cpu, skb))"
  by pat_completeness auto
termination
  by (relation "measure (\<lambda>(fill, possible, nr, cpu, skb). nr - cpu)") auto

declare cpu_loop.simps [simp del]

text \<open>One call: the length, the new \<open>args[0]\<close> and the buffer.\<close>

definition stat_cpu_dump ::
  "('skb, 'x) nl_writer_scheme \<Rightarrow> (nat \<Rightarrow> 'skb \<Rightarrow> nat res \<times> 'skb) \<Rightarrow> (nat \<Rightarrow> bool) \<Rightarrow> nat \<Rightarrow> nat \<Rightarrow> 'skb \<Rightarrow>
   nat \<times> nat \<times> 'skb" where
  "stat_cpu_dump w fill cpu_possible nr_cpu_ids args0 skb =
     (if args0 = nr_cpu_ids then (0, args0, skb)
      else case cpu_loop fill cpu_possible nr_cpu_ids args0 skb of
          (cpu, skb') \<Rightarrow> (w_len w skb', cpu, skb'))"

definition ctnetlink_ct_stat_cpu_dump ::
  "('skb, 'x) nl_writer_scheme \<Rightarrow> u32 \<Rightarrow> u32 \<Rightarrow> (nat \<Rightarrow> ip_conntrack_stat) \<Rightarrow> (nat \<Rightarrow> bool) \<Rightarrow> nat \<Rightarrow> nat \<Rightarrow>
   'skb \<Rightarrow> nat \<times> nat \<times> 'skb" where
  "ctnetlink_ct_stat_cpu_dump w portid seq stat =
     stat_cpu_dump w (\<lambda>cpu. ctnetlink_ct_stat_cpu_fill_info w portid seq cpu (stat cpu))"

definition ctnetlink_exp_stat_cpu_dump ::
  "('skb, 'x) nl_writer_scheme \<Rightarrow> u32 \<Rightarrow> u32 \<Rightarrow> (nat \<Rightarrow> ip_conntrack_stat) \<Rightarrow> (nat \<Rightarrow> bool) \<Rightarrow> nat \<Rightarrow> nat \<Rightarrow>
   'skb \<Rightarrow> nat \<times> nat \<times> 'skb" where
  "ctnetlink_exp_stat_cpu_dump w portid seq stat =
     stat_cpu_dump w (\<lambda>cpu. ctnetlink_exp_stat_fill_info w portid seq cpu (stat cpu))"

text \<open>The request handlers: a dump is started, or nothing is done.\<close>

datatype stat_outcome = Stat_dump | Stat_nothing

definition ctnetlink_stat_ct_cpu :: "nfnl_info \<Rightarrow> stat_outcome" where
  "ctnetlink_stat_ct_cpu info =
     (if nlmsg_flags info AND NLM_F_DUMP \<noteq> 0 then Stat_dump else Stat_nothing)"

definition ctnetlink_stat_exp_cpu :: "nfnl_info \<Rightarrow> stat_outcome" where
  "ctnetlink_stat_exp_cpu info =
     (if nlmsg_flags info AND NLM_F_DUMP \<noteq> 0 then Stat_dump else Stat_nothing)"

section \<open>Totals\<close>

definition ctnetlink_stat_ct_fill_info ::
  "('skb, 'x) nl_writer_scheme \<Rightarrow> u32 \<Rightarrow> u32 \<Rightarrow> u32 \<Rightarrow> u32 \<Rightarrow> 'skb \<Rightarrow> nat res \<times> 'skb" where
  "ctnetlink_stat_ct_fill_info w portid seq nr_conntracks nf_conntrack_max =
     message w (stat_msg portid seq (nfnl_msg_type NFNL_SUBSYS_CTNETLINK IPCTNL_MSG_CT_GET_STATS) 0)
       (run_acts [
         put w CTA_STATS_GLOBAL_ENTRIES (V_be32 (htonl nr_conntracks)),
         put w CTA_STATS_GLOBAL_MAX_ENTRIES (V_be32 (htonl nf_conntrack_max))])"

definition ctnetlink_stat_ct ::
  "('skb, 'x) tab_env_scheme \<Rightarrow> nfnl_info \<Rightarrow> u32 \<Rightarrow> u32 \<Rightarrow> 'skb get_outcome" where
  "ctnetlink_stat_ct T info nr_conntracks nf_conntrack_max =
     (case nlmsg_new T NLMSG_DEFAULT_SIZE of
        None \<Rightarrow> Failed ENOMEM
      | Some skb2 \<Rightarrow>
          (case ctnetlink_stat_ct_fill_info T (info_portid info) (nlmsg_seq info) nr_conntracks
                  nf_conntrack_max skb2 of
             (Inl e, _) \<Rightarrow> Failed (if e = OOPS then OOPS else ENOMEM)
           | (Inr n, skb3) \<Rightarrow>
               if n = 0 then Failed ENOMEM
               else Sent skb3 (nfnetlink_unicast T skb3 (info_net info) (info_portid info))))"

section \<open>The interface of a per-CPU message\<close>

text \<open>
  A filler of messages of one size: it appends the message of a CPU, or fails and leaves the buffer
  as it was.
\<close>

locale cpu_fill =
  fixes fill :: "nat \<Rightarrow> 'skb \<Rightarrow> nat res \<times> 'skb"
    and msgs :: "'skb \<Rightarrow> (nlmsg \<times> nlattr list) list"
    and room :: "'skb \<Rightarrow> nat"
    and msg_of :: "nat \<Rightarrow> nlmsg \<times> nlattr list"
    and size :: nat
  assumes fills: "size \<le> room s \<Longrightarrow>
      \<exists>n s'. fill cpu s = (Inr n, s') \<and> msgs s' = msgs s @ [msg_of cpu] \<and> room s = room s' + size"
    and full: "room s < size \<Longrightarrow> fill cpu s = (Inl EFAIL, s)"
begin

lemma cpu_loop_spec:
  assumes "cpu \<le> nr"
  shows "\<exists>cpu' s'. cpu_loop fill possible nr cpu s = (cpu', s') \<and> cpu \<le> cpu' \<and> cpu' \<le> nr \<and>
    msgs s' = msgs s @ map msg_of (filter possible [cpu..<cpu']) \<and>
    (cpu' < nr \<and> size \<le> room s \<longrightarrow> cpu < cpu')"
  using assms
proof (induction "nr - cpu" arbitrary: cpu s)
  case 0
  then show ?case by (subst cpu_loop.simps) simp
next
  case (Suc d)
  then have lt: "cpu < nr" and d: "d = nr - Suc cpu" "Suc cpu \<le> nr" by auto
  have up: "filter possible [cpu..<c] =
      (if possible cpu then [cpu] else []) @ filter possible [Suc cpu..<c]" if "Suc cpu \<le> c" for c
    using that by (simp add: upt_conv_Cons)
  show ?case
  proof (cases "possible cpu")
    case False
    from Suc.hyps(1) [OF d, of s] obtain c s' where
      "cpu_loop fill possible nr (Suc cpu) s = (c, s')" "Suc cpu \<le> c" "c \<le> nr"
      "msgs s' = msgs s @ map msg_of (filter possible [Suc cpu..<c])" by blast
    then show ?thesis using lt False up by (subst cpu_loop.simps) auto
  next
    case True
    show ?thesis
    proof (cases "size \<le> room s")
      case False
      then show ?thesis using lt True full [of s cpu] by (subst cpu_loop.simps) auto
    next
      case fits: True
      from fills [OF this, of cpu] obtain n s1 where
        s1: "fill cpu s = (Inr n, s1)" "msgs s1 = msgs s @ [msg_of cpu]" by blast
      from Suc.hyps(1) [OF d, of s1] obtain c s' where
        "cpu_loop fill possible nr (Suc cpu) s1 = (c, s')" "Suc cpu \<le> c" "c \<le> nr"
        "msgs s' = msgs s1 @ map msg_of (filter possible [Suc cpu..<c])" by blast
      then show ?thesis using lt True up s1 by (subst cpu_loop.simps) auto
    qed
  qed
qed

end

text \<open>
  The kernel calls a dump with a fresh buffer until it writes nothing: \<open>n\<close> calls, the messages they
  wrote and the last \<open>args[0]\<close>.
\<close>

fun stat_session ::
  "(nat \<Rightarrow> 'skb \<Rightarrow> nat \<times> nat \<times> 'skb) \<Rightarrow> ('skb \<Rightarrow> (nlmsg \<times> nlattr list) list) \<Rightarrow> 'skb \<Rightarrow> nat \<Rightarrow> nat \<Rightarrow>
   (nlmsg \<times> nlattr list) list \<times> nat" where
  "stat_session dump msgs fresh 0 a = ([], a)"
| "stat_session dump msgs fresh (Suc n) a =
     (case dump a fresh of
        (len, a', skb) \<Rightarrow> (case stat_session dump msgs fresh n a' of (ms, a'') \<Rightarrow> (msgs skb @ ms, a'')))"

context cpu_fill
begin

lemma session_spec:
  assumes "msgs fresh = []" "size \<le> room fresh" "cpu \<le> nr" "nr \<le> cpu + n"
  shows "stat_session (stat_cpu_dump w fill possible nr) msgs fresh n cpu =
    (map msg_of (filter possible [cpu..<nr]), nr)"
  using assms(3,4)
proof (induction n arbitrary: cpu)
  case (Suc n)
  show ?case
  proof (cases "cpu = nr")
    case True
    then show ?thesis using Suc.IH [of nr] assms(1) by (simp add: stat_cpu_dump_def)
  next
    case False
    from cpu_loop_spec [OF Suc.prems(1), of possible fresh] obtain c s' where
      c: "cpu_loop fill possible nr cpu fresh = (c, s')" "cpu \<le> c" "c \<le> nr"
        "msgs s' = map msg_of (filter possible [cpu..<c])" "c < nr \<longrightarrow> cpu < c"
      using assms(1,2) by auto
    have "nr \<le> c + n" using c(2,3,5) Suc.prems(2) False by (cases "c < nr") auto
    from Suc.IH [OF c(3) this] have
      "stat_session (stat_cpu_dump w fill possible nr) msgs fresh n c =
        (map msg_of (filter possible [c..<nr]), nr)" .
    moreover have "[cpu..<nr] = [cpu..<c] @ [c..<nr]" using c(2,3) by (metis upt_add_eq_append le_Suc_ex)
    moreover have "stat_cpu_dump w fill possible nr cpu fresh = (w_len w s', c, s')"
      using False c(1) by (simp add: stat_cpu_dump_def)
    ultimately show ?thesis using c(4) by simp
  qed
qed simp

end

section \<open>The messages of this module\<close>

definition stat_attrs :: "(nat \<times> u32) list \<Rightarrow> nlattr list" where
  "stat_attrs fs = map (\<lambda>(t, v). Leaf t (V_be32 (htonl v))) fs"

lemma stat_attrs_size: "attrs_size (stat_attrs fs) = 8 * length fs"
  by (induction fs) (auto simp: stat_attrs_def nla_total_size_def)

definition ct_stat_entry :: "u32 \<Rightarrow> u32 \<Rightarrow> (nat \<Rightarrow> ip_conntrack_stat) \<Rightarrow> nat \<Rightarrow> nlmsg \<times> nlattr list" where
  "ct_stat_entry portid seq stat cpu =
     (stat_msg portid seq (nfnl_msg_type NFNL_SUBSYS_CTNETLINK IPCTNL_MSG_CT_GET_STATS_CPU)
        (htons (of_nat cpu)), stat_attrs (ct_stat_fields (stat cpu)))"

definition exp_stat_entry :: "u32 \<Rightarrow> u32 \<Rightarrow> (nat \<Rightarrow> ip_conntrack_stat) \<Rightarrow> nat \<Rightarrow> nlmsg \<times> nlattr list" where
  "exp_stat_entry portid seq stat cpu =
     (stat_msg portid seq (nfnl_msg_type NFNL_SUBSYS_CTNETLINK IPCTNL_MSG_EXP_GET_STATS_CPU)
        (htons (of_nat cpu)), stat_attrs (exp_stat_fields (stat cpu)))"

context nl_writer_laws
begin

lemma emt_stat_fields: "emt True (run_acts (map (put_be32 w) fs)) (stat_attrs fs)"
proof (induction fs)
  case Nil
  then show ?case by (simp add: stat_attrs_def emt_acts_Nil del: run_acts.simps)
next
  case (Cons f fs)
  obtain t v where f: "f = (t, v)" by (cases f)
  have "emt True (run_acts (put w t (V_be32 (htonl v)) # map (put_be32 w) fs))
      ([Leaf t (V_be32 (htonl v))] @ stat_attrs fs)"
    by (intro emt_acts_Cons emt_put Cons.IH)
  then show ?case by (simp add: f put_be32_def stat_attrs_def del: run_acts.simps)
qed

lemma stat_cpu_fill:
  assumes "\<And>cpu. length (fs cpu) = k"
  shows "cpu_fill (\<lambda>cpu. message w (m cpu) (run_acts (map (put_be32 w) (fs cpu)))) msgs room
    (\<lambda>cpu. (m cpu, stat_attrs (fs cpu))) (NFNL_HDR_SIZE + 8 * k)"
proof
  fix s cpu
  have sz: "NFNL_HDR_SIZE + attrs_size (stat_attrs (fs cpu)) = NFNL_HDR_SIZE + 8 * k"
    by (simp add: stat_attrs_size assms)
  show "\<exists>n s'. message w (m cpu) (run_acts (map (put_be32 w) (fs cpu))) s = (Inr n, s') \<and>
      msgs s' = msgs s @ [(m cpu, stat_attrs (fs cpu))] \<and> room s = room s' + (NFNL_HDR_SIZE + 8 * k)"
    if "NFNL_HDR_SIZE + 8 * k \<le> room s"
    using message_fits [OF emt_stat_fields, of "fs cpu" s "m cpu"] that sz by (metis add.assoc)
  show "message w (m cpu) (run_acts (map (put_be32 w) (fs cpu))) s = (Inl EFAIL, s)"
    if "room s < NFNL_HDR_SIZE + 8 * k"
    using message_overflows [OF emt_stat_fields, of s "fs cpu" "m cpu"] that sz by auto
qed

lemma ct_stat_cpu_fill:
  "cpu_fill (\<lambda>cpu. ctnetlink_ct_stat_cpu_fill_info w portid seq cpu (stat cpu)) msgs room
     (ct_stat_entry portid seq stat) 100"
  using stat_cpu_fill [of "\<lambda>cpu. ct_stat_fields (stat cpu)" 10]
  unfolding ctnetlink_ct_stat_cpu_fill_info_def ct_stat_entry_def by (simp add: ct_stat_fields_def)

lemma exp_stat_cpu_fill:
  "cpu_fill (\<lambda>cpu. ctnetlink_exp_stat_fill_info w portid seq cpu (stat cpu)) msgs room
     (exp_stat_entry portid seq stat) 44"
  using stat_cpu_fill [of "\<lambda>cpu. exp_stat_fields (stat cpu)" 3]
  unfolding ctnetlink_exp_stat_fill_info_def exp_stat_entry_def by (simp add: exp_stat_fields_def)

end

interpretation ct_stat: cpu_fill "\<lambda>cpu. ctnetlink_ct_stat_cpu_fill_info buf_writer portid seq cpu (stat cpu)"
    buf_msgs b_room "ct_stat_entry portid seq stat" 100
  by (rule bufw.ct_stat_cpu_fill)

interpretation exp_stat: cpu_fill "\<lambda>cpu. ctnetlink_exp_stat_fill_info buf_writer portid seq cpu (stat cpu)"
    buf_msgs b_room "exp_stat_entry portid seq stat" 44
  by (rule bufw.exp_stat_cpu_fill)

section \<open>Properties\<close>

text \<open>
  C30. Both statistics dumps end: with buffers that take one message, at most as
  many calls as there are CPU numbers leave the dump finished, and together they have written the
  message of every possible CPU exactly once, in order.
\<close>

theorem stat_sessions_end:
  assumes "nl_writer_laws w emits grows room msgs" "msgs fresh = []" "100 \<le> room fresh"
    and "nr_cpu_ids \<le> n"
  shows "stat_session (ctnetlink_ct_stat_cpu_dump w portid seq stat possible nr_cpu_ids) msgs fresh n 0 =
      (map (ct_stat_entry portid seq stat) (filter possible [0..<nr_cpu_ids]), nr_cpu_ids) \<and>
    stat_session (ctnetlink_exp_stat_cpu_dump w portid seq stat possible nr_cpu_ids) msgs fresh n 0 =
      (map (exp_stat_entry portid seq stat) (filter possible [0..<nr_cpu_ids]), nr_cpu_ids)"
  using cpu_fill.session_spec [OF nl_writer_laws.ct_stat_cpu_fill [OF assms(1)] assms(2),
      where w = w and cpu = 0]
    cpu_fill.session_spec [OF nl_writer_laws.exp_stat_cpu_fill [OF assms(1)] assms(2),
      where w = w and cpu = 0] assms(3,4)
  by (simp add: ctnetlink_ct_stat_cpu_dump_def ctnetlink_exp_stat_cpu_dump_def)

definition no_stat :: ip_conntrack_stat where
  "no_stat = \<lparr>st_found = 0, st_invalid = 0, st_insert = 0, st_insert_failed = 0, st_clash_resolve = 0,
     st_drop = 0, st_early_drop = 0, st_error = 0, st_expect_new = 0, st_expect_create = 0,
     st_expect_delete = 0, st_search_restart = 0, st_chaintoolong = 0\<rparr>"

theorem stat_sessions_end_witness:
  "stat_session (ctnetlink_ct_stat_cpu_dump buf_writer 5 6 (\<lambda>cpu. no_stat\<lparr>st_found := of_nat cpu\<rparr>)
      (\<lambda>cpu. cpu \<noteq> 1) 3) buf_msgs \<lparr>b_room = 150, b_toks = []\<rparr> 3 0 =
     ([ct_stat_entry 5 6 (\<lambda>cpu. no_stat\<lparr>st_found := of_nat cpu\<rparr>) 0,
       ct_stat_entry 5 6 (\<lambda>cpu. no_stat\<lparr>st_found := of_nat cpu\<rparr>) 2], 3)"
proof -
  have "filter (\<lambda>cpu. cpu \<noteq> 1) [0..<3] = [0, 2]" by (simp add: upt_rec)
  then show ?thesis
    using stat_sessions_end [OF bufw.nl_writer_laws_axioms, of "\<lparr>b_room = 150, b_toks = []\<rparr>" 3 3 5 6
        "\<lambda>cpu. no_stat\<lparr>st_found := of_nat cpu\<rparr>" "\<lambda>cpu. cpu \<noteq> 1"]
    by (simp add: buf_msgs_def)
qed

end
