(* ===== verification/Ct_Expect.thy ===== *)
theory Ct_Expect
  imports Ct_Glue Ct_Stats "HOL-Library.Signed_Division"
begin

text \<open>
  Expectations (\<open>kmod/vgw_ct_netlink.c\<close>): their messages and events, the two resumable dumps (all
  expectations of a namespace, those of one connection), get, delete, change and create, and the
  expectation a queue verdict attaches. As for connections, one call runs to its end without
  interference, and locks and RCU sections are not modelled.
\<close>

section \<open>Expectations and the kernel state\<close>

text \<open>
  \<open>mask\<close> has a source part only; \<open>exp_expires\<close> and \<open>exp_pending\<close> are the timer; the master is the
  address of a connection, \<open>expectfn\<close> a function pointer that may be null.
\<close>

record nf_conntrack_expect =
  exp_tuple :: nf_conntrack_tuple
  exp_mask_u3 :: nf_inet_addr
  exp_mask_u :: u16
  exp_expectfn :: "nat option"
  exp_helper :: "nf_conntrack_helper option"
  exp_master :: nat
  exp_expires :: u64
  exp_pending :: bool
  exp_use :: nat
  exp_flags :: u32
  exp_class :: u32
  exp_saved_addr :: nf_inet_addr
  exp_saved_proto :: u16
  exp_dir :: u32

type_synonym exp_store = "nat \<Rightarrow> nf_conntrack_expect option"

text \<open>
  \<open>e_hash\<close> is \<open>nf_ct_expect_hash\<close> with its \<open>nf_ct_expect_hsize\<close> buckets, \<open>e_of\<close> the list
  \<open>help->expectations\<close> of a connection, and the two stores hold the live objects.
\<close>

record esys =
  e_hash :: "nat list list"
  e_of :: "nat \<Rightarrow> nat list"
  e_exp :: exp_store
  e_ct :: ct_store

text \<open>
  The kernel functions. \<open>siphash\<close> and \<open>siphash_4u64\<close> are keyed by the module's random seed;
  \<open>nf_ct_expect_alloc\<close> returns memory that is not cleared; \<open>nf_ct_unlink_expect_report\<close> takes an
  expectation off its lists; \<open>nf_ct_expect_iterate_net\<close> removes the expectations of a namespace a
  function selects; \<open>nf_ct_expect_related_report\<close> inserts one or fails with a code.
\<close>

record 'skb exp_env = "'skb event_env" +
  jiffies :: u64
  siphash :: "nf_conntrack_tuple \<Rightarrow> u64"
  siphash_4u64 :: "u64 \<Rightarrow> u64 \<Rightarrow> u64 \<Rightarrow> u64 \<Rightarrow> u64"
  expectfn_find_by_symbol :: "nat option \<Rightarrow> string option"
  expectfn_find_by_name :: "string \<Rightarrow> nat option"
  nf_ct_expect_put :: "exp_store \<Rightarrow> nat \<Rightarrow> exp_store"
  nf_ct_expect_find_get :: "exp_store \<Rightarrow> nat \<Rightarrow> nf_conntrack_zone \<Rightarrow> nf_conntrack_tuple \<Rightarrow>
    nat option \<times> exp_store"
  nf_ct_expect_find :: "exp_store \<Rightarrow> nat \<Rightarrow> nf_conntrack_zone \<Rightarrow> nf_conntrack_tuple \<Rightarrow> nat option"
  nf_ct_expect_alloc :: "esys \<Rightarrow> nat \<Rightarrow> (nat \<times> nf_conntrack_expect) option"
  nf_ct_unlink_expect_report :: "esys \<Rightarrow> nat \<Rightarrow> u32 \<Rightarrow> bool \<Rightarrow> esys"
  nf_ct_expect_iterate_net :: "esys \<Rightarrow> nat \<Rightarrow> (nf_conntrack_expect \<Rightarrow> bool res) \<Rightarrow> u32 \<Rightarrow> bool \<Rightarrow> esys res"
  nf_ct_expect_related_report :: "esys \<Rightarrow> nat \<Rightarrow> u32 \<Rightarrow> bool \<Rightarrow> unit res \<times> esys"

abbreviation (input) CTA_EXPECT_TIMEOUT :: nat where "CTA_EXPECT_TIMEOUT \<equiv> 4"
abbreviation (input) CTA_EXPECT_ID :: nat where "CTA_EXPECT_ID \<equiv> 5"
abbreviation (input) CTA_EXPECT_HELP_NAME :: nat where "CTA_EXPECT_HELP_NAME \<equiv> 6"
abbreviation (input) CTA_EXPECT_ZONE :: nat where "CTA_EXPECT_ZONE \<equiv> 7"
abbreviation (input) CTA_EXPECT_FLAGS :: nat where "CTA_EXPECT_FLAGS \<equiv> 8"
abbreviation (input) CTA_EXPECT_CLASS :: nat where "CTA_EXPECT_CLASS \<equiv> 9"
abbreviation (input) CTA_EXPECT_NAT :: nat where "CTA_EXPECT_NAT \<equiv> 10"
abbreviation (input) CTA_EXPECT_FN :: nat where "CTA_EXPECT_FN \<equiv> 11"
abbreviation (input) CTA_EXPECT_MAX :: nat where "CTA_EXPECT_MAX \<equiv> 11"
abbreviation (input) CTA_EXPECT_NAT_DIR :: nat where "CTA_EXPECT_NAT_DIR \<equiv> 1"
abbreviation (input) CTA_EXPECT_NAT_TUPLE :: nat where "CTA_EXPECT_NAT_TUPLE \<equiv> 2"
abbreviation (input) CTA_EXPECT_NAT_MAX :: nat where "CTA_EXPECT_NAT_MAX \<equiv> 2"
abbreviation (input) NF_CT_EXPECT_USERSPACE :: u32 where "NF_CT_EXPECT_USERSPACE \<equiv> 4"
abbreviation (input) NFNL_SUBSYS_CTNETLINK_EXP :: nat where "NFNL_SUBSYS_CTNETLINK_EXP \<equiv> 2"
abbreviation (input) IPCTNL_MSG_EXP_NEW :: nat where "IPCTNL_MSG_EXP_NEW \<equiv> 0"
abbreviation (input) IPCTNL_MSG_EXP_DELETE :: nat where "IPCTNL_MSG_EXP_DELETE \<equiv> 2"
abbreviation (input) IPEXP_NEW_BIT :: u32 where "IPEXP_NEW_BIT \<equiv> 1"
abbreviation (input) IPEXP_DESTROY_BIT :: u32 where "IPEXP_DESTROY_BIT \<equiv> 2"
abbreviation (input) NFNLGRP_CONNTRACK_EXP_NEW :: nat where "NFNLGRP_CONNTRACK_EXP_NEW \<equiv> 4"
abbreviation (input) NFNLGRP_CONNTRACK_EXP_DESTROY :: nat where "NFNLGRP_CONNTRACK_EXP_DESTROY \<equiv> 6"

definition exp_nla_policy :: nla_policy where
  "exp_nla_policy =
     [(CTA_EXPECT_MASTER, NLA_NESTED, 0), (CTA_EXPECT_TUPLE, NLA_NESTED, 0),
      (CTA_EXPECT_MASK, NLA_NESTED, 0), (CTA_EXPECT_TIMEOUT, NLA_U32, 0),
      (CTA_EXPECT_ID, NLA_U32, 0), (CTA_EXPECT_HELP_NAME, NLA_NUL_STRING, NF_CT_HELPER_NAME_LEN - 1),
      (CTA_EXPECT_ZONE, NLA_U16, 0), (CTA_EXPECT_FLAGS, NLA_U32, 0), (CTA_EXPECT_CLASS, NLA_U32, 0),
      (CTA_EXPECT_NAT, NLA_NESTED, 0), (CTA_EXPECT_FN, NLA_NUL_STRING, 0)]"

section \<open>Writing an expectation\<close>

definition ctnetlink_exp_dump_tuple ::
  "('skb, 'x) dump_env_scheme \<Rightarrow> nf_conntrack_tuple \<Rightarrow> nat \<Rightarrow> 'skb action" where
  "ctnetlink_exp_dump_tuple E tuple type =
     fail_with EFAIL (nest E type (ctnetlink_dump_tuples E tuple))"

text \<open>The mask as a tuple: all ones outside the source part.\<close>

definition exp_mask_tuple :: "nf_conntrack_tuple \<Rightarrow> nf_inet_addr \<Rightarrow> u16 \<Rightarrow> nf_conntrack_tuple" where
  "exp_mask_tuple tuple u3 u =
     \<lparr>src_u3 = u3, src_u = u, src_l3num = src_l3num tuple,
      dst_u3 = \<lparr>all0 = 0xFFFFFFFF, all1 = 0xFFFFFFFF, all2 = 0xFFFFFFFF, all3 = 0xFFFFFFFF\<rparr>,
      dst_u = 0xFFFF, dst_protonum = dst_protonum tuple, dst_dir = 0xFF\<rparr>"

definition ctnetlink_exp_dump_mask ::
  "('skb, 'x) dump_env_scheme \<Rightarrow> nf_conntrack_tuple \<Rightarrow> nf_inet_addr \<Rightarrow> u16 \<Rightarrow> 'skb action" where
  "ctnetlink_exp_dump_mask E tuple u3 u =
     (let m = exp_mask_tuple tuple u3 u in
      fail_with EFAIL (nest E CTA_EXPECT_MASK (run_acts [
        ctnetlink_dump_tuples_ip E m, ctnetlink_dump_tuples_proto E m])))"

text \<open>The identifier handed out: a keyed hash over the addresses and the tuple, cut to 32 bits.\<close>

definition nf_expect_get_id ::
  "('skb, 'x) exp_env_scheme \<Rightarrow> nat \<Rightarrow> nf_conntrack_expect \<Rightarrow> u32" where
  "nf_expect_get_id E p x =
     (let a = of_nat p;
          b = (case exp_helper x of None \<Rightarrow> 0 | Some h \<Rightarrow> of_nat (hlp_ptr h));
          c = of_nat (exp_master x);
          d = siphash E (exp_tuple x)
      in ucast (siphash_4u64 E a b c d))"

text \<open>Signed division truncates; a timer in the past counts as zero.\<close>

definition exp_seconds :: "('skb, 'x) exp_env_scheme \<Rightarrow> nf_conntrack_expect \<Rightarrow> int" where
  "exp_seconds E x =
     (let timeout = sint (exp_expires x - jiffies E) sdiv int (env_HZ E)
      in if timeout < 0 then 0 else timeout)"

definition exp_nat_tuple :: "nf_conntrack_expect \<Rightarrow> nf_conn \<Rightarrow> nf_conntrack_tuple" where
  "exp_nat_tuple x master =
     zero_tuple\<lparr>src_l3num := ct_l3num master, src_u3 := exp_saved_addr x,
       dst_protonum := ct_protonum master, src_u := exp_saved_proto x\<rparr>"

definition exp_dump_nat ::
  "('skb, 'x) dump_env_scheme \<Rightarrow> nf_conntrack_expect \<Rightarrow> nf_conn \<Rightarrow> 'skb action" where
  "exp_dump_nat E x master =
     act_when (exp_saved_addr x \<noteq> any_addr \<or> exp_saved_proto x \<noteq> 0)
       (nest E CTA_EXPECT_NAT (run_acts [
          put E CTA_EXPECT_NAT_DIR (V_be32 (htonl (exp_dir x))),
          ctnetlink_exp_dump_tuple E (exp_nat_tuple x master) CTA_EXPECT_NAT_TUPLE]))"

text \<open>\<open>p\<close> is the address of the expectation; the master is read from the environment's store.\<close>

definition ctnetlink_exp_dump_expect ::
  "('skb, 'x) exp_env_scheme \<Rightarrow> nat \<Rightarrow> nf_conntrack_expect \<Rightarrow> 'skb action" where
  "ctnetlink_exp_dump_expect E p x =
     fail_with EFAIL (run_acts [
       ctnetlink_exp_dump_tuple E (exp_tuple x) CTA_EXPECT_TUPLE,
       ctnetlink_exp_dump_mask E (exp_tuple x) (exp_mask_u3 x) (exp_mask_u x),
       (case env_store E (exp_master x) of
          None \<Rightarrow> null_deref
        | Some master \<Rightarrow> run_acts [
            ctnetlink_exp_dump_tuple E (tuple_orig master) CTA_EXPECT_MASTER,
            exp_dump_nat E x master,
            put E CTA_EXPECT_TIMEOUT (V_be32 (htonl (of_int (exp_seconds E x)))),
            put E CTA_EXPECT_ID (V_be32 (nf_expect_get_id E p x)),
            put E CTA_EXPECT_FLAGS (V_be32 (htonl (exp_flags x))),
            put E CTA_EXPECT_CLASS (V_be32 (htonl (exp_class x))),
            (case Option.bind (ext_help master) help_helper of
               None \<Rightarrow> run_acts []
             | Some h \<Rightarrow> put E CTA_EXPECT_HELP_NAME (V_string (hlp_name h))),
            (case expectfn_find_by_symbol E (exp_expectfn x) of
               None \<Rightarrow> run_acts []
             | Some name \<Rightarrow> put E CTA_EXPECT_FN (V_string name))])])"

definition exp_msg :: "u32 \<Rightarrow> u32 \<Rightarrow> nat \<Rightarrow> u32 \<Rightarrow> nf_conntrack_expect \<Rightarrow> nlmsg" where
  "exp_msg portid seq event flags x =
     \<lparr>msg_portid = portid, msg_seq = seq, msg_type = nfnl_msg_type NFNL_SUBSYS_CTNETLINK_EXP event,
      msg_flags = flags, msg_family = src_l3num (exp_tuple x),
      msg_version = NFNETLINK_V0, msg_res_id = 0\<rparr>"

definition ctnetlink_exp_fill_info ::
  "('skb, 'x) exp_env_scheme \<Rightarrow> u32 \<Rightarrow> u32 \<Rightarrow> nat \<Rightarrow> nat \<Rightarrow> nf_conntrack_expect \<Rightarrow> 'skb \<Rightarrow> nat res \<times> 'skb"
  where
  "ctnetlink_exp_fill_info E portid seq event p x =
     message E (exp_msg portid seq event (if portid \<noteq> 0 then NLM_F_MULTI else 0) x)
       (ctnetlink_exp_dump_expect E p x)"

text \<open>The events of an expectation. A lost message is reported to all groups, and never a failure.\<close>

definition ctnetlink_expect_event ::
  "('skb, 'x) exp_env_scheme \<Rightarrow> u32 \<Rightarrow> nat \<Rightarrow> nf_conntrack_expect \<Rightarrow> u32 \<Rightarrow> bool \<Rightarrow> 'skb event_outcome" where
  "ctnetlink_expect_event E events p x portid report =
     (case env_store E (exp_master x) of
        None \<Rightarrow> Ev_fault
      | Some master \<Rightarrow>
          (let net = ct_net master;
               kind = (if events AND IPEXP_DESTROY_BIT \<noteq> 0
                       then Some (IPCTNL_MSG_EXP_DELETE, 0, NFNLGRP_CONNTRACK_EXP_DESTROY)
                       else if events AND IPEXP_NEW_BIT \<noteq> 0
                       then Some (IPCTNL_MSG_EXP_NEW, NLM_F_CREATE OR NLM_F_EXCL,
                                  NFNLGRP_CONNTRACK_EXP_NEW)
                       else None)
           in case kind of
                None \<Rightarrow> Ev_none
              | Some (type, flags, grp) \<Rightarrow>
                  if \<not> report \<and> \<not> nfnetlink_has_listeners E net grp then Ev_none
                  else case nlmsg_new E NLMSG_DEFAULT_SIZE of
                      None \<Rightarrow> Ev_lost 0 (Inr ())
                    | Some skb \<Rightarrow>
                        (case message E (exp_msg portid 0 type flags x)
                                (ctnetlink_exp_dump_expect E p x) skb of
                           (Inl e, _) \<Rightarrow> if e = OOPS then Ev_fault else Ev_lost 0 (Inr ())
                         | (Inr _, skb') \<Rightarrow> Ev_sent skb' grp (Inr ()))))"


section \<open>The two dumps\<close>

text \<open>
  The parameters of a call, and the callback state with the kernel state and the buffer.
\<close>

record exp_call =
  ec_net :: nat
  ec_portid :: u32
  ec_seq :: u32
  ec_family :: u8

record 'skb exp_st =
  es_args0 :: nat
  es_args1 :: "nat option"
  es_sys :: esys
  es_skb :: 'skb

definition exp_get :: "exp_store \<Rightarrow> nat \<Rightarrow> exp_store" where
  "exp_get st p = (case st p of None \<Rightarrow> st | Some x \<Rightarrow> st(p \<mapsto> x\<lparr>exp_use := Suc (exp_use x)\<rparr>))"

definition ctnetlink_exp_done :: "('skb, 'x) exp_env_scheme \<Rightarrow> nat option \<Rightarrow> exp_store \<Rightarrow> exp_store" where
  "ctnetlink_exp_done E args1 st = (case args1 of None \<Rightarrow> st | Some p \<Rightarrow> nf_ct_expect_put E st p)"

text \<open>
  One expectation that passed the guards, as both dumps treat it: written, or remembered with a
  reference as the place to go on, or passed over when it is being freed.
\<close>

definition exp_entry ::
  "('skb, 'x) exp_env_scheme \<Rightarrow> exp_call \<Rightarrow> nat \<Rightarrow> nf_conntrack_expect \<Rightarrow> 'skb exp_st \<Rightarrow>
   (bool \<times> 'skb exp_st) res" where
  "exp_entry E c p x s =
     (case ctnetlink_exp_fill_info (E\<lparr>env_store := e_ct (es_sys s)\<rparr>) (ec_portid c) (ec_seq c)
             IPCTNL_MSG_EXP_NEW p x (es_skb s) of
        (Inl e, skb') \<Rightarrow>
          if e = OOPS then Inl OOPS
          else if exp_use x = 0 then Inr (False, s\<lparr>es_skb := skb'\<rparr>)
          else Inr (True, s\<lparr>es_skb := skb', es_args1 := Some p,
                            es_sys := (es_sys s)\<lparr>e_exp := exp_get (e_exp (es_sys s)) p\<rparr>\<rparr>)
      | (Inr _, skb') \<Rightarrow> Inr (False, s\<lparr>es_skb := skb'\<rparr>))"

text \<open>The guards in front of the resumption test: of the table dump, and of a connection's dump.\<close>

definition table_skips :: "exp_call \<Rightarrow> esys \<Rightarrow> nf_conntrack_expect \<Rightarrow> bool res" where
  "table_skips c K x =
     (if ec_family c \<noteq> 0 \<and> src_l3num (exp_tuple x) \<noteq> ucast (ec_family c) then Inr True
      else case e_ct K (exp_master x) of
          None \<Rightarrow> Inl OOPS
        | Some master \<Rightarrow> Inr (ct_net master \<noteq> ec_net c))"

definition list_skips :: "exp_call \<Rightarrow> esys \<Rightarrow> nf_conntrack_expect \<Rightarrow> bool res" where
  "list_skips c K x = Inr (ec_family c \<noteq> 0 \<and> src_l3num (exp_tuple x) \<noteq> ucast (ec_family c))"

text \<open>The walk through a list; every \<open>continue\<close> is a step to the next node.\<close>

fun exp_nodes ::
  "('skb, 'x) exp_env_scheme \<Rightarrow> exp_call \<Rightarrow> (esys \<Rightarrow> nf_conntrack_expect \<Rightarrow> bool res) \<Rightarrow> nat option \<Rightarrow>
   nat list \<Rightarrow> 'skb exp_st \<Rightarrow> (bool \<times> 'skb exp_st) res" where
  "exp_nodes E c skips lst [] s = Inr (False, s)"
| "exp_nodes E c skips lst (p # ps) s =
     (case e_exp (es_sys s) p of
        None \<Rightarrow> Inl OOPS
      | Some x \<Rightarrow>
          bind_res (skips (es_sys s) x) (\<lambda>skip.
            if skip then exp_nodes E c skips lst ps s
            else if es_args1 s \<noteq> None \<and> Some p \<noteq> lst then exp_nodes E c skips lst ps s
            else bind_res (exp_entry E c p x (s\<lparr>es_args1 := None\<rparr>)) (\<lambda>(stop, s1).
              if stop then Inr (True, s1) else exp_nodes E c skips lst ps s1)))"

lemma exp_nodes_args:
  "exp_nodes E c skips lst ps s = Inr (False, s') \<Longrightarrow> es_args1 s' = None \<or> es_args1 s' = es_args1 s"
proof (induction ps arbitrary: s)
  case (Cons p ps)
  obtain x where x: "e_exp (es_sys s) p = Some x" using Cons.prems by (auto split: option.splits)
  then obtain skip where k: "skips (es_sys s) x = Inr skip" using Cons.prems by auto
  show ?case
  proof (cases "skip \<or> es_args1 s \<noteq> None \<and> Some p \<noteq> lst")
    case True
    then have "exp_nodes E c skips lst (p # ps) s = exp_nodes E c skips lst ps s" using x k by auto
    then show ?thesis using Cons.IH [of s] Cons.prems by simp
  next
    case False
    then obtain s1 where e: "exp_entry E c p x (s\<lparr>es_args1 := None\<rparr>) = Inr (False, s1)"
        "exp_nodes E c skips lst ps s1 = Inr (False, s')"
      using Cons.prems x k by (auto split: if_splits)
    then have "es_args1 s1 = None"
      by (auto simp: exp_entry_def split: prod.splits sum.splits if_splits)
    then show ?thesis using Cons.IH [OF e(2)] by simp
  qed
qed simp

text \<open>
  The label \<open>restart\<close>: the list is walked again from its start when the remembered expectation is
  gone. A second pass cannot ask for a third.
\<close>

function exp_restart ::
  "('skb, 'x) exp_env_scheme \<Rightarrow> exp_call \<Rightarrow> (esys \<Rightarrow> nf_conntrack_expect \<Rightarrow> bool res) \<Rightarrow> nat option \<Rightarrow>
   nat list \<Rightarrow> 'skb exp_st \<Rightarrow> (bool \<times> 'skb exp_st) res" where
  "exp_restart E c skips lst ps s =
     bind_res (exp_nodes E c skips lst ps s) (\<lambda>(stop, s1).
       if stop then Inr (True, s1)
       else if es_args1 s1 \<noteq> None then exp_restart E c skips lst ps (s1\<lparr>es_args1 := None\<rparr>)
       else Inr (False, s1))"
  by pat_completeness auto
termination
  by (relation "measure (\<lambda>(E, c, skips, lst, ps, s). if es_args1 s = None then 0 else 1)")
    (auto dest!: exp_nodes_args)

declare exp_restart.simps [simp del]

text \<open>The loop over the buckets from \<open>args[0]\<close> on; the list holds the buckets still to walk.\<close>

fun exp_buckets ::
  "('skb, 'x) exp_env_scheme \<Rightarrow> exp_call \<Rightarrow> nat option \<Rightarrow> nat list list \<Rightarrow> 'skb exp_st \<Rightarrow>
   'skb exp_st res" where
  "exp_buckets E c lst [] s = Inr s"
| "exp_buckets E c lst (ps # bs) s =
     bind_res (exp_restart E c (table_skips c) lst ps s) (\<lambda>(stop, s1).
       if stop then Inr s1 else exp_buckets E c lst bs (s1\<lparr>es_args0 := Suc (es_args0 s1)\<rparr>))"

text \<open>The label \<open>out\<close>: the reference of the previous call is dropped in any case.\<close>

definition exp_out :: "('skb, 'x) exp_env_scheme \<Rightarrow> nat option \<Rightarrow> 'skb exp_st \<Rightarrow> nat \<times> 'skb exp_st" where
  "exp_out E lst s =
     (w_len E (es_skb s),
      case lst of
        None \<Rightarrow> s
      | Some l \<Rightarrow> s\<lparr>es_sys := (es_sys s)\<lparr>e_exp := nf_ct_expect_put E (e_exp (es_sys s)) l\<rparr>\<rparr>)"

definition ctnetlink_exp_dump_table ::
  "('skb, 'x) exp_env_scheme \<Rightarrow> exp_call \<Rightarrow> 'skb exp_st \<Rightarrow> (nat \<times> 'skb exp_st) res" where
  "ctnetlink_exp_dump_table E c s =
     bind_res (exp_buckets E c (es_args1 s) (drop (es_args0 s) (e_hash (es_sys s))) s)
       (\<lambda>s1. Inr (exp_out E (es_args1 s) s1))"

text \<open>
  \<open>m\<close> is the connection the request named, \<open>cb->data\<close>. It is looked at in every call, and its
  helper area without a test.
\<close>

definition ctnetlink_exp_ct_dump_table ::
  "('skb, 'x) exp_env_scheme \<Rightarrow> exp_call \<Rightarrow> nat \<Rightarrow> 'skb exp_st \<Rightarrow> (nat \<times> 'skb exp_st) res" where
  "ctnetlink_exp_ct_dump_table E c m s =
     (case e_ct (es_sys s) m of
        None \<Rightarrow> Inl OOPS
      | Some ct \<Rightarrow>
          if es_args0 s \<noteq> 0 then Inr (0, s)
          else if ext_help ct = None then Inl OOPS
          else
            bind_res (exp_restart E c (list_skips c) (es_args1 s) (e_of (es_sys s) m) s) (\<lambda>(stop, s1).
              Inr (exp_out E (es_args1 s) (if stop then s1 else s1\<lparr>es_args0 := 1\<rparr>))))"

section \<open>Requests\<close>

datatype exp_ops = Exp_dump_table | Exp_dump_ct nat

datatype 'skb exp_outcome =
    Exp_started exp_ops | Exp_nothing | Exp_sent 'skb "unit res" | Exp_failed errno

text \<open>
  A dump of one connection's expectations is started with the connection as its data, and the
  reference of the lookup is dropped.
\<close>

definition ctnetlink_dump_exp_ct ::
  "('nla, 'y) nl_reader_scheme \<Rightarrow> ('skb, 'x) exp_env_scheme \<Rightarrow> nfnl_info \<Rightarrow> 'nla attr_table \<Rightarrow> ct_store \<Rightarrow>
   'skb exp_outcome \<times> ct_store" where
  "ctnetlink_dump_exp_ct R E info cda st =
     (case ctnetlink_parse_tuple R cda CTA_EXPECT_MASTER (nfgen_family info) None of
        Inl e \<Rightarrow> (Exp_failed e, st)
      | Inr (tuple, _) \<Rightarrow>
          (case ctnetlink_parse_zone R (cda CTA_EXPECT_ZONE) of
             Inl e \<Rightarrow> (Exp_failed e, st)
           | Inr zone \<Rightarrow>
               (case nf_conntrack_find_get E st (info_net info) zone tuple of
                  (None, st1) \<Rightarrow> (Exp_failed ENOENT, st1)
                | (Some p, st1) \<Rightarrow>
                    (case st1 p of
                       None \<Rightarrow> (Exp_failed OOPS, st1)
                     | Some ct \<Rightarrow>
                         if ext_help ct = None then (Exp_nothing, nf_ct_put E st1 p)
                         else (Exp_started (Exp_dump_ct p), nf_ct_put E st1 p)))))"

definition exp_request_tuple ::
  "('nla, 'y) nl_reader_scheme \<Rightarrow> 'nla attr_table \<Rightarrow> u8 \<Rightarrow> (nf_conntrack_tuple \<times> nf_conntrack_zone) res" where
  "exp_request_tuple R cda u3 =
     bind_res (ctnetlink_parse_zone R (cda CTA_EXPECT_ZONE)) (\<lambda>zone.
       if cda CTA_EXPECT_TUPLE \<noteq> None then
         bind_res (ctnetlink_parse_tuple R cda CTA_EXPECT_TUPLE u3 None) (\<lambda>(t, _). Inr (t, zone))
       else if cda CTA_EXPECT_MASTER \<noteq> None then
         bind_res (ctnetlink_parse_tuple R cda CTA_EXPECT_MASTER u3 None) (\<lambda>(t, _). Inr (t, zone))
       else Inl EINVAL)"

definition ctnetlink_get_expect ::
  "('nla, 'y) nl_reader_scheme \<Rightarrow> ('skb, 'x) exp_env_scheme \<Rightarrow> nfnl_info \<Rightarrow> 'nla attr_table \<Rightarrow> esys \<Rightarrow>
   'skb exp_outcome \<times> esys" where
  "ctnetlink_get_expect R E info cda K =
     (if nlmsg_flags info AND NLM_F_DUMP \<noteq> 0 then
        (if cda CTA_EXPECT_MASTER \<noteq> None then
           (case ctnetlink_dump_exp_ct R E info cda (e_ct K) of (r, st) \<Rightarrow> (r, K\<lparr>e_ct := st\<rparr>))
         else (Exp_started Exp_dump_table, K))
      else case exp_request_tuple R cda (nfgen_family info) of
          Inl e \<Rightarrow> (Exp_failed e, K)
        | Inr (tuple, zone) \<Rightarrow>
            (case nf_ct_expect_find_get E (e_exp K) (info_net info) zone tuple of
               (None, xs) \<Rightarrow> (Exp_failed ENOENT, K\<lparr>e_exp := xs\<rparr>)
             | (Some p, xs) \<Rightarrow>
                 (case xs p of
                    None \<Rightarrow> (Exp_failed OOPS, K\<lparr>e_exp := xs\<rparr>)
                  | Some x \<Rightarrow>
                      (let K1 = K\<lparr>e_exp := nf_ct_expect_put E xs p\<rparr> in
                       if (case cda CTA_EXPECT_ID of None \<Rightarrow> False
                           | Some a \<Rightarrow> nla_get_be32 R a \<noteq> nf_expect_get_id E p x)
                       then (Exp_failed ENOENT, K1)
                       else case nlmsg_new E NLMSG_DEFAULT_SIZE of
                           None \<Rightarrow> (Exp_failed ENOMEM, K1)
                         | Some skb2 \<Rightarrow>
                             (case ctnetlink_exp_fill_info (E\<lparr>env_store := e_ct K\<rparr>) (info_portid info)
                                     (nlmsg_seq info) IPCTNL_MSG_EXP_NEW p x skb2 of
                                (Inl e, _) \<Rightarrow>
                                  (Exp_failed (if e = OOPS then OOPS else ENOMEM), K1)
                              | (Inr n, skb3) \<Rightarrow>
                                  if n = 0 then (Exp_failed ENOMEM, K1)
                                  else (Exp_sent skb3 (nfnetlink_unicast E skb3 (info_net info)
                                                         (info_portid info)), K1))))))"


text \<open>Whether an expectation belongs to a helper of the given name; the helper area is not tested.\<close>

definition expect_iter_name :: "ct_store \<Rightarrow> string \<Rightarrow> nf_conntrack_expect \<Rightarrow> bool res" where
  "expect_iter_name st name x =
     (case st (exp_master x) of
        None \<Rightarrow> Inl OOPS
      | Some master \<Rightarrow>
          (case ext_help master of
             None \<Rightarrow> Inl OOPS
           | Some m_help \<Rightarrow>
               (case help_helper m_help of
                  None \<Rightarrow> Inr False
                | Some helper \<Rightarrow> Inr (hlp_name helper = name))))"

definition expect_iter_all :: "nf_conntrack_expect \<Rightarrow> bool res" where
  "expect_iter_all x = Inr True"

text \<open>\<open>del_timer\<close>: whether the timer was running, and the expectation with it stopped.\<close>

definition del_timer :: "nf_conntrack_expect \<Rightarrow> bool \<times> nf_conntrack_expect" where
  "del_timer x = (exp_pending x, x\<lparr>exp_pending := False\<rparr>)"

definition ctnetlink_del_expect ::
  "('nla, 'y) nl_reader_scheme \<Rightarrow> ('skb, 'x) exp_env_scheme \<Rightarrow> nfnl_info \<Rightarrow> 'nla attr_table \<Rightarrow> esys \<Rightarrow>
   unit res \<times> esys" where
  "ctnetlink_del_expect R E info cda K =
     (if cda CTA_EXPECT_TUPLE \<noteq> None then
        (case ctnetlink_parse_zone R (cda CTA_EXPECT_ZONE) of
           Inl e \<Rightarrow> (Inl e, K)
         | Inr zone \<Rightarrow>
             (case ctnetlink_parse_tuple R cda CTA_EXPECT_TUPLE (nfgen_family info) None of
                Inl e \<Rightarrow> (Inl e, K)
              | Inr (tuple, _) \<Rightarrow>
                  (case nf_ct_expect_find_get E (e_exp K) (info_net info) zone tuple of
                     (None, xs) \<Rightarrow> (Inl ENOENT, K\<lparr>e_exp := xs\<rparr>)
                   | (Some p, xs) \<Rightarrow>
                       (case xs p of
                          None \<Rightarrow> (Inl OOPS, K\<lparr>e_exp := xs\<rparr>)
                        | Some x \<Rightarrow>
                            if (case cda CTA_EXPECT_ID of None \<Rightarrow> False
                                | Some a \<Rightarrow> ntohl (nla_get_be32 R a) \<noteq> of_nat p)
                            then (Inl ENOENT, K\<lparr>e_exp := nf_ct_expect_put E xs p\<rparr>)
                            else
                              (let (running, x1) = del_timer x;
                                   K1 = K\<lparr>e_exp := xs(p \<mapsto> x1)\<rparr>;
                                   K2 = (if running
                                         then (let K' = nf_ct_unlink_expect_report E K1 p (info_portid info)
                                                          (info_report info)
                                               in K'\<lparr>e_exp := nf_ct_expect_put E (e_exp K') p\<rparr>)
                                         else K1)
                               in (Inr (), K2\<lparr>e_exp := nf_ct_expect_put E (e_exp K2) p\<rparr>))))))
      else
        (case nf_ct_expect_iterate_net E K (info_net info)
                (case cda CTA_EXPECT_HELP_NAME of
                   Some a \<Rightarrow> expect_iter_name (e_ct K) (nla_string R a)
                 | None \<Rightarrow> expect_iter_all)
                (info_portid info) (info_report info) of
           Inl e \<Rightarrow> (Inl e, K)
         | Inr K1 \<Rightarrow> (Inr (), K1)))"

text \<open>The new timeout: the seconds times \<open>HZ\<close> is a 32-bit product.\<close>

definition exp_ticks :: "('nla, 'x) chg_env_scheme \<Rightarrow> 'nla \<Rightarrow> u64" where
  "exp_ticks C a = ucast (ntohl (nla_get_be32 C a) * of_nat (chg_HZ C) :: u32)"

definition ctnetlink_change_expect ::
  "('nla, 'y) chg_env_scheme \<Rightarrow> u64 \<Rightarrow> 'nla attr_table \<Rightarrow> nf_conntrack_expect action" where
  "ctnetlink_change_expect C now cda x =
     (case cda CTA_EXPECT_TIMEOUT of
        None \<Rightarrow> (Inr (), x)
      | Some a \<Rightarrow>
          (case del_timer x of
             (running, x1) \<Rightarrow>
               if \<not> running then (Inl ETIME, x1)
               else (Inr (), x1\<lparr>exp_expires := now + exp_ticks C a, exp_pending := True\<rparr>)))"

definition exp_nat_nla_policy :: nla_policy where
  "exp_nat_nla_policy = [(CTA_EXPECT_NAT_DIR, NLA_U32, 0), (CTA_EXPECT_NAT_TUPLE, NLA_NESTED, 0)]"

definition ctnetlink_parse_expect_nat ::
  "('nla, 'y) nl_reader_scheme \<Rightarrow> 'nla \<Rightarrow> u8 \<Rightarrow> nf_conntrack_expect action" where
  "ctnetlink_parse_expect_nat R attr u3 x =
     (case nla_parse_nested_deprecated R CTA_EXPECT_NAT_MAX attr exp_nat_nla_policy of
        Inl e \<Rightarrow> (Inl e, x)
      | Inr tb \<Rightarrow>
          (case (tb CTA_EXPECT_NAT_DIR, tb CTA_EXPECT_NAT_TUPLE) of
             (Some d, Some _) \<Rightarrow>
               (case ctnetlink_parse_tuple R tb CTA_EXPECT_NAT_TUPLE u3 None of
                  Inl e \<Rightarrow> (Inl e, x)
                | Inr (nat_tuple, _) \<Rightarrow>
                    (Inr (), x\<lparr>exp_saved_addr := src_u3 nat_tuple, exp_saved_proto := src_u nat_tuple,
                               exp_dir := ntohl (nla_get_be32 R d)\<rparr>))
           | _ \<Rightarrow> (Inl EINVAL, x)))"

text \<open>The class of the expectation, which only counts together with a helper.\<close>

definition alloc_class ::
  "('nla, 'y) nl_reader_scheme \<Rightarrow> 'nla attr_table \<Rightarrow> nf_conntrack_helper option \<Rightarrow> u32 res" where
  "alloc_class R cda helper =
     (case (cda CTA_EXPECT_CLASS, helper) of
        (Some a, Some h) \<Rightarrow>
          (let class = ntohl (nla_get_be32 R a) in
           if class > expect_class_max h then Inl EINVAL else Inr class)
      | _ \<Rightarrow> Inr 0)"

definition alloc_flags :: "('nla, 'y) nl_reader_scheme \<Rightarrow> 'nla attr_table \<Rightarrow> u32" where
  "alloc_flags R cda =
     (case cda CTA_EXPECT_FLAGS of
        None \<Rightarrow> 0 | Some a \<Rightarrow> ntohl (nla_get_be32 R a) AND NOT NF_CT_EXPECT_USERSPACE)"

text \<open>The fields that are set on the new object, up to and including the NAT part.\<close>

definition alloc_fill ::
  "('nla, 'y) nl_reader_scheme \<Rightarrow> ('skb, 'x) exp_env_scheme \<Rightarrow> 'nla attr_table \<Rightarrow> nat \<Rightarrow> u8 \<Rightarrow>
   nf_conntrack_helper option \<Rightarrow> nf_conntrack_tuple \<Rightarrow> nf_conntrack_tuple \<Rightarrow> u32 \<Rightarrow>
   nf_conntrack_expect action" where
  "alloc_fill R E cda m l3num helper tuple msk class x =
     (let x1 = x\<lparr>exp_flags := alloc_flags R cda\<rparr> in
      case (case cda CTA_EXPECT_FN of
              None \<Rightarrow> Inr None
            | Some a \<Rightarrow> (case expectfn_find_by_name E (nla_string R a) of
                           None \<Rightarrow> Inl EINVAL | Some f \<Rightarrow> Inr (Some f))) of
        Inl e \<Rightarrow> (Inl e, x1)
      | Inr f \<Rightarrow>
          (let x2 = x1\<lparr>exp_expectfn := f, exp_class := class, exp_master := m, exp_helper := helper,
                       exp_tuple := tuple, exp_mask_u3 := src_u3 msk, exp_mask_u := src_u msk\<rparr> in
           case cda CTA_EXPECT_NAT of
             None \<Rightarrow> (Inr (), x2)
           | Some a \<Rightarrow> ctnetlink_parse_expect_nat R a l3num x2))"

text \<open>The address of the new object, or a code when nothing is left of it.\<close>

definition ctnetlink_alloc_expect ::
  "('nla, 'y) nl_reader_scheme \<Rightarrow> ('skb, 'x) exp_env_scheme \<Rightarrow> 'nla attr_table \<Rightarrow> nat \<Rightarrow> nf_conn \<Rightarrow>
   nf_conntrack_helper option \<Rightarrow> nf_conntrack_tuple \<Rightarrow> nf_conntrack_tuple \<Rightarrow> esys \<Rightarrow> nat res \<times> esys" where
  "ctnetlink_alloc_expect R E cda m ct helper tuple msk K =
     (if ext_help ct = None then (Inl EOPNOTSUPP, K)
      else case alloc_class R cda helper of
          Inl e \<Rightarrow> (Inl e, K)
        | Inr class \<Rightarrow>
            (case nf_ct_expect_alloc E K m of
               None \<Rightarrow> (Inl ENOMEM, K)
             | Some (p, x0) \<Rightarrow>
                 (case alloc_fill R E cda m (ucast (ct_l3num ct)) helper tuple msk class x0 of
                    (Inr _, x) \<Rightarrow> (Inr p, K\<lparr>e_exp := (e_exp K)(p \<mapsto> x)\<rparr>)
                  | (Inl e, x) \<Rightarrow>
                      (Inl e, K\<lparr>e_exp := nf_ct_expect_put E ((e_exp K)(p \<mapsto> x)) p\<rparr>))))"

text \<open>Inserting a new expectation and dropping the reference of its creation.\<close>

definition relate_expect ::
  "('skb, 'x) exp_env_scheme \<Rightarrow> nat \<Rightarrow> u32 \<Rightarrow> bool \<Rightarrow> esys \<Rightarrow> unit res \<times> esys" where
  "relate_expect E p portid report K =
     (case nf_ct_expect_related_report E K p portid report of
        (r, K1) \<Rightarrow> (r, K1\<lparr>e_exp := nf_ct_expect_put E (e_exp K1) p\<rparr>))"

text \<open>The helper a creation names: a code, and the module it tried to load.\<close>

definition expect_helper ::
  "('nla, 'y) chg_env_scheme \<Rightarrow> 'nla attr_table \<Rightarrow> u8 \<Rightarrow> nf_conn \<Rightarrow>
   nf_conntrack_helper option res \<times> kcall list" where
  "expect_helper C cda u3 ct =
     (case cda CTA_EXPECT_HELP_NAME of
        None \<Rightarrow> (Inr None, [])
      | Some a \<Rightarrow>
          (let helpname = nla_string C a in
           case helper_find C helpname (ucast u3) (ct_protonum ct) of
             Some h \<Rightarrow> (Inr (Some h), [])
           | None \<Rightarrow>
               (let name = ''nfct-helper-'' @ helpname in
                if \<not> request_module C name then (Inl EOPNOTSUPP, [Request_module name])
                else if helper_find_after C helpname (ucast u3) (ct_protonum ct) \<noteq> None
                then (Inl EAGAIN, [Request_module name])
                else (Inl EOPNOTSUPP, [Request_module name]))))"

definition ctnetlink_create_expect ::
  "('nla, 'y) chg_env_scheme \<Rightarrow> ('skb, 'x) exp_env_scheme \<Rightarrow> nat \<Rightarrow> nf_conntrack_zone \<Rightarrow> 'nla attr_table \<Rightarrow>
   u8 \<Rightarrow> u32 \<Rightarrow> bool \<Rightarrow> esys \<Rightarrow> unit res \<times> esys \<times> kcall list" where
  "ctnetlink_create_expect C E net zone cda u3 portid report K =
     (case bind_res (ctnetlink_parse_tuple C cda CTA_EXPECT_TUPLE u3 None) (\<lambda>(tuple, _).
           bind_res (ctnetlink_parse_tuple C cda CTA_EXPECT_MASK u3 None) (\<lambda>(msk, _).
           bind_res (ctnetlink_parse_tuple C cda CTA_EXPECT_MASTER u3 None) (\<lambda>(master, _).
             Inr (tuple, msk, master)))) of
        Inl e \<Rightarrow> (Inl e, K, [])
      | Inr (tuple, msk, master) \<Rightarrow>
          (case nf_conntrack_find_get E (e_ct K) net zone master of
             (None, st1) \<Rightarrow> (Inl ENOENT, K\<lparr>e_ct := st1\<rparr>, [])
           | (Some m, st1) \<Rightarrow>
               (let K1 = K\<lparr>e_ct := st1\<rparr> in
                case st1 m of
                  None \<Rightarrow> (Inl OOPS, K1, [])
                | Some ct \<Rightarrow>
                    (case expect_helper C cda u3 ct of
                       (Inl e, calls) \<Rightarrow> (Inl e, K1\<lparr>e_ct := nf_ct_put E (e_ct K1) m\<rparr>, calls)
                     | (Inr helper, calls) \<Rightarrow>
                         (case ctnetlink_alloc_expect C E cda m ct helper tuple msk K1 of
                            (Inl e, K2) \<Rightarrow> (Inl e, K2\<lparr>e_ct := nf_ct_put E (e_ct K2) m\<rparr>, calls)
                          | (Inr p, K2) \<Rightarrow>
                              (case relate_expect E p portid report K2 of
                                 (r, K3) \<Rightarrow> (r, K3\<lparr>e_ct := nf_ct_put E (e_ct K3) m\<rparr>, calls)))))))"

definition ctnetlink_new_expect ::
  "('nla, 'y) chg_env_scheme \<Rightarrow> ('skb, 'x) exp_env_scheme \<Rightarrow> nfnl_info \<Rightarrow> 'nla attr_table \<Rightarrow> esys \<Rightarrow>
   unit res \<times> esys \<times> kcall list" where
  "ctnetlink_new_expect C E info cda K =
     (if cda CTA_EXPECT_TUPLE = None \<or> cda CTA_EXPECT_MASK = None \<or> cda CTA_EXPECT_MASTER = None
      then (Inl EINVAL, K, [])
      else case ctnetlink_parse_zone C (cda CTA_EXPECT_ZONE) of
          Inl e \<Rightarrow> (Inl e, K, [])
        | Inr zone \<Rightarrow>
            (case ctnetlink_parse_tuple C cda CTA_EXPECT_TUPLE (nfgen_family info) None of
               Inl e \<Rightarrow> (Inl e, K, [])
             | Inr (tuple, _) \<Rightarrow>
                 (case nf_ct_expect_find E (e_exp K) (info_net info) zone tuple of
                    None \<Rightarrow>
                      if nlmsg_flags info AND NLM_F_CREATE = 0 then (Inl ENOENT, K, [])
                      else ctnetlink_create_expect C E (info_net info) zone cda (nfgen_family info)
                             (info_portid info) (info_report info) K
                  | Some p \<Rightarrow>
                      if nlmsg_flags info AND NLM_F_EXCL \<noteq> 0 then (Inl EEXIST, K, [])
                      else (case e_exp K p of
                              None \<Rightarrow> (Inl OOPS, K, [])
                            | Some x \<Rightarrow>
                                (case ctnetlink_change_expect C (jiffies E) cda x of
                                   (r, x') \<Rightarrow> (r, K\<lparr>e_exp := (e_exp K)(p \<mapsto> x')\<rparr>, []))))))"

section \<open>Expectations attached by a queue verdict\<close>

definition ctnetlink_glue_exp_parse ::
  "('nla, 'y) nl_reader_scheme \<Rightarrow> 'nla attr_table \<Rightarrow> nf_conn \<Rightarrow>
   (nf_conntrack_tuple \<times> nf_conntrack_tuple) res" where
  "ctnetlink_glue_exp_parse R cda ct =
     bind_res (ctnetlink_parse_tuple R cda CTA_EXPECT_TUPLE (ucast (ct_l3num ct)) None) (\<lambda>(tuple, _).
     bind_res (ctnetlink_parse_tuple R cda CTA_EXPECT_MASK (ucast (ct_l3num ct)) None) (\<lambda>(msk, _).
       Inr (tuple, msk)))"

text \<open>\<open>m\<close> is the address of the packet's connection.\<close>

definition ctnetlink_glue_attach_expect ::
  "('nla, 'y) chg_env_scheme \<Rightarrow> ('skb, 'x) exp_env_scheme \<Rightarrow> 'nla \<Rightarrow> nat \<Rightarrow> u32 \<Rightarrow> bool \<Rightarrow> esys \<Rightarrow>
   unit res \<times> esys" where
  "ctnetlink_glue_attach_expect C E attr m portid report K =
     (case e_ct K m of
        None \<Rightarrow> (Inl OOPS, K)
      | Some ct \<Rightarrow>
          (case bind_res (nla_parse_nested_deprecated C CTA_EXPECT_MAX attr exp_nla_policy) (\<lambda>cda.
                bind_res (ctnetlink_glue_exp_parse C cda ct) (\<lambda>(tuple, msk). Inr (cda, tuple, msk))) of
             Inl e \<Rightarrow> (Inl e, K)
           | Inr (cda, tuple, msk) \<Rightarrow>
               (case (case cda CTA_EXPECT_HELP_NAME of
                        None \<Rightarrow> Inr None
                      | Some a \<Rightarrow> (case helper_find C (nla_string C a) (ct_l3num ct) (ct_protonum ct) of
                                     None \<Rightarrow> Inl EOPNOTSUPP | Some h \<Rightarrow> Inr (Some h))) of
                  Inl e \<Rightarrow> (Inl e, K)
                | Inr helper \<Rightarrow>
                    (case ctnetlink_alloc_expect C E cda m ct helper tuple msk K of
                       (Inl e, K1) \<Rightarrow> (Inl e, K1)
                     | (Inr p, K1) \<Rightarrow> relate_expect E p portid report K1))))"

end
