(* ===== verification/Ct_Event_Spec.thy ===== *)
theory Ct_Event_Spec
  imports Ct_Event Ct_Table_Spec
begin

text \<open>
  The attribute list of an event, the bound on its size, and what becomes of an event: the buffer
  allocated for it takes everything but the data of a helper, which the size computation leaves out.
\<close>

section \<open>The attributes of an event\<close>

definition event_attrs ::
  "('skb, 'x) dump_env_scheme \<Rightarrow> cb_attrs \<Rightarrow> u32 \<Rightarrow> nat \<Rightarrow> nf_conn \<Rightarrow> nlattr list" where
  "event_attrs T A events a ct =
     head_attrs A ct @
     [Leaf CTA_ID (V_be32 (nf_ct_get_id T a ct))] @
     [Leaf CTA_STATUS (V_be32 (htonl (ucast (ct_status ct))))] @
     (if events AND IPCT_DESTROY_BIT \<noteq> 0 then
        timeout_attrs T ct True @ acct_attrs ct @ tstamp_attrs ct @ proto_attrs T A ct True 0
      else
        timeout_attrs T ct False @
        (if events AND IPCT_PROTOINFO_BIT \<noteq> 0 then proto_attrs T A ct False 0 else []) @
        (if events AND IPCT_HELPER_BIT \<noteq> 0 \<or> ext_help ct \<noteq> None then help_attrs T A ct else []) @
        (if events AND IPCT_SECMARK_BIT \<noteq> 0 \<or> ct_secmark ct \<noteq> 0 then secctx_attrs T ct else []) @
        (if events AND IPCT_LABEL_BIT \<noteq> 0 then labels_attrs ct else []) @
        (if events AND IPCT_RELATED_BIT \<noteq> 0 then master_attrs T A ct else []) @
        (if events AND IPCT_SEQADJ_BIT \<noteq> 0 then seqadj_attrs ct else []) @
        (if events AND IPCT_SYNPROXY_BIT \<noteq> 0 then synproxy_attrs ct else [])) @
     mark_attrs ct (events AND IPCT_MARK_BIT \<noteq> 0)"

context dump_laws
begin

lemma emt_event:
  assumes m: "master_ok E ct"
  shows "emt (help_strict E ct) (event_body E events type a ct) (event_attrs E A events a ct)"
proof -
  have "emt (help_strict E ct) (event_body E events type a ct)
    (head_attrs A ct @ [Leaf CTA_ID (V_be32 (nf_ct_get_id E a ct))] @
     [Leaf CTA_STATUS (V_be32 (htonl (ucast (ct_status ct))))] @
     (if events AND IPCT_DESTROY_BIT \<noteq> 0 then
        timeout_attrs E ct True @ acct_attrs ct @ tstamp_attrs ct @ proto_attrs E A ct True 0 @ []
      else
        timeout_attrs E ct False @
        (if events AND IPCT_PROTOINFO_BIT \<noteq> 0 then proto_attrs E A ct False 0 else []) @
        (if events AND IPCT_HELPER_BIT \<noteq> 0 \<or> ext_help ct \<noteq> None then help_attrs E A ct else []) @
        (if events AND IPCT_SECMARK_BIT \<noteq> 0 \<or> ct_secmark ct \<noteq> 0 then secctx_attrs E ct else []) @
        (if events AND IPCT_LABEL_BIT \<noteq> 0 then labels_attrs ct else []) @
        (if events AND IPCT_RELATED_BIT \<noteq> 0 then master_attrs E A ct else []) @
        (if events AND IPCT_SEQADJ_BIT \<noteq> 0 then seqadj_attrs ct else []) @
        (if events AND IPCT_SYNPROXY_BIT \<noteq> 0 then synproxy_attrs ct else []) @ []) @
     mark_attrs ct (events AND IPCT_MARK_BIT \<noteq> 0) @ [])"
    unfolding event_body_def using m by (intro emt_if emt_acts_Cons emt_when emit_intros)
  then show ?thesis by (rule emt_cong) (simp add: event_attrs_def)
qed

end

section \<open>Laws on sizes\<close>

text \<open>
  \<open>nla_policy_len\<close>: the sum over the entries of a policy, a given length before the length of the
  type.
\<close>

fun kind_len :: "nla_kind \<Rightarrow> nat" where
  "kind_len NLA_U8 = 1"
| "kind_len NLA_U16 = 2"
| "kind_len NLA_U32 = 4"
| "kind_len _ = 0"

definition entry_len :: "nla_kind \<times> nat \<Rightarrow> nat" where
  "entry_len e = (case e of (k, len) \<Rightarrow>
     if len \<noteq> 0 then nla_total_size len
     else if kind_len k \<noteq> 0 then nla_total_size (kind_len k) else 0)"

definition policy_len :: "nla_policy \<Rightarrow> nat \<Rightarrow> nat" where
  "policy_len pol n = sum_list (map (\<lambda>i. case map_of pol i of None \<Rightarrow> 0 | Some e \<Rightarrow> entry_len e) [0..<n])"

definition tuple_bytes :: "('skb, 'x) dump_env_scheme \<Rightarrow> u8 \<Rightarrow> nat" where
  "tuple_bytes T p = (case l4_nlattr_tuple_size T p of None \<Rightarrow> 0 | Some n \<Rightarrow> n)"

text \<open>
  The size a protocol announces for its tuples bounds what its callback writes. The size it announces
  for its state need not: the TCP tracker of the kernel counts neither the nest around its
  attributes nor the state itself, four and eight bytes, and no other protocol leaves out more. The
  length of a security context counts the terminating zero.
\<close>

locale event_laws = lookup_laws T emits grows room msgs A
  for T :: "('skb, 'x) event_env_scheme" and emits grows room msgs A +
  assumes policy: "nla_policy_len T pol n = policy_len pol n"
    and tuple_size: "attrs_size (at_tuple A p t) \<le> tuple_bytes T p"
    and info_size: "l4_to_nlattr T p \<noteq> None \<Longrightarrow> attrs_size (at_info A p ct d) \<le> l4_nlattr_size T p + 12"
    and secctx_len: "secid_to_secctx T s = Some (c, n) \<Longrightarrow> length c < n"

text \<open>
  A connection as the kernel keeps it: both tuples have one protocol, an expected connection has a
  live master whose protocol's tuples are not larger, and a helper has a short name.
\<close>

definition event_ok :: "('skb, 'x) dump_env_scheme \<Rightarrow> nf_conn \<Rightarrow> bool" where
  "event_ok T ct \<longleftrightarrow>
     dst_protonum (tuple_reply ct) = ct_protonum ct \<and> master_ok T ct \<and>
     (case Option.bind (ct_master ct) (env_store T) of None \<Rightarrow> True
      | Some m \<Rightarrow> tuple_bytes T (ct_protonum m) \<le> tuple_bytes T (ct_protonum ct)) \<and>
     (case Option.bind (ext_help ct) help_helper of None \<Rightarrow> True
      | Some h \<Rightarrow> length (hlp_name h) < NF_CT_HELPER_NAME_LEN)"

text \<open>What the helper of a connection writes by itself, after its name.\<close>

definition helper_bytes :: "('skb, 'x) dump_env_scheme \<Rightarrow> cb_attrs \<Rightarrow> nf_conn \<Rightarrow> nat" where
  "helper_bytes T A ct =
     (case Option.bind (ext_help ct) help_helper of
        None \<Rightarrow> 0
      | Some h \<Rightarrow> if Option.is_none (hlp_to_nlattr T (hlp_ptr h)) then 0 else attrs_size (at_help A (hlp_ptr h) ct))"

section \<open>The bound\<close>

lemma nla_total_size_mono: "m \<le> n \<Longrightarrow> nla_total_size m \<le> nla_total_size n"
  by (simp add: nla_total_size_def div_le_mono)

lemma total_sizes [simp]:
  "nla_total_size 0 = 4" "nla_total_size 1 = 8" "nla_total_size (Suc 0) = 8" "nla_total_size 2 = 8"
  "nla_total_size 4 = 8" "nla_total_size 8 = 12" "nla_total_size 16 = 20"
  by (simp_all add: nla_total_size_def)

lemma ip_policy_len: "policy_len cta_ip_nla_policy (CTA_IP_MAX + 1) = 56"
  by code_simp

lemma small_sizes:
  "attrs_size (ip_attrs t) \<le> 40"
  "attrs_size (timeout_attrs T ct b) \<le> 8"
  "attrs_size (acct_attrs ct) \<le> ctnetlink_acct_size ct"
  "attrs_size (tstamp_attrs ct) \<le> ctnetlink_timestamp_size ct"
  "attrs_size (mark_attrs ct b) \<le> 8"
  "attrs_size (labels_attrs ct) \<le> ctnetlink_label_size ct"
  "attrs_size (seqadj_attrs ct) \<le> 56"
  "attrs_size (synproxy_attrs ct) \<le> 28"
  by (auto simp: ip_attrs_def timeout_attrs_def acct_attrs_def counter_attr_def ctnetlink_acct_size_def
      tstamp_attrs_def ctnetlink_timestamp_size_def mark_attrs_def labels_attrs_def ctnetlink_label_size_def
      seqadj_attrs_def seq_attr_def synproxy_attrs_def nla_total_size_64bit_def split: option.splits)

text \<open>The zone appears once, in one of the tuples or by itself.\<close>

lemma zone_size:
  "attrs_size (zone_attrs m z NF_CT_ZONE_DIR_ORIG) + attrs_size (zone_attrs n z NF_CT_ZONE_DIR_REPL) +
   attrs_size (zone_attrs k z NF_CT_DEFAULT_ZONE_DIR) \<le> 8"
  by (auto simp: zone_attrs_def)

context event_laws
begin

lemma tuple_attrs_size: "attrs_size (tuple_attrs A t) \<le> 56 + tuple_bytes T (dst_protonum t)"
  using small_sizes(1) [of t] tuple_size [of "dst_protonum t" t] by (simp add: tuple_attrs_def)

lemma head_size:
  assumes "dst_protonum (tuple_reply ct) = ct_protonum ct"
  shows "attrs_size (head_attrs A ct) \<le> 128 + 2 * tuple_bytes T (ct_protonum ct)"
  using tuple_attrs_size [of "tuple_orig ct"] tuple_attrs_size [of "tuple_reply ct"] assms
    zone_size [of CTA_TUPLE_ZONE "ct_zone ct" CTA_TUPLE_ZONE CTA_ZONE]
  by (simp add: head_attrs_def)

lemma proto_attrs_size:
  "attrs_size (proto_attrs T A ct d 0) \<le> 16 + l4_nlattr_size T (ct_protonum ct)"
  using info_size [of "ct_protonum ct" ct d]
  by (cases "l4_to_nlattr T (ct_protonum ct)") (simp_all add: proto_attrs_def)

lemma help_attrs_size:
  assumes "event_ok T ct"
  shows "attrs_size (help_attrs T A ct) \<le> 24 + helper_bytes T A ct"
proof (cases "Option.bind (ext_help ct) help_helper")
  case (Some h)
  then have "nla_total_size (Suc (length (hlp_name h))) \<le> nla_total_size 16"
    using assms by (intro nla_total_size_mono) (simp add: event_ok_def)
  then show ?thesis using Some assms by (simp add: help_attrs_def event_ok_def helper_bytes_def)
qed (simp add: help_attrs_def)

lemma secctx_attrs_size: "attrs_size (secctx_attrs T ct) \<le> ctnetlink_secctx_size T ct"
  by (auto simp: secctx_attrs_def ctnetlink_secctx_size_def intro!: nla_total_size_mono
      dest: secctx_len split: option.splits)

lemma master_attrs_size:
  assumes "event_ok T ct"
  shows "attrs_size (master_attrs T A ct) \<le> 60 + tuple_bytes T (ct_protonum ct)"
proof (cases "Option.bind (ct_master ct) (env_store T)")
  case (Some m)
  then show ?thesis
    using assms tuple_attrs_size [of "tuple_orig m"]
    by (simp add: master_attrs_def event_ok_def)
qed (simp add: master_attrs_def)

lemma proto_size_eq: "ctnetlink_proto_size T ct =
    168 + l4_nlattr_size T (ct_protonum ct) + 3 * tuple_bytes T (ct_protonum ct)"
  unfolding ctnetlink_proto_size_def policy ip_policy_len Let_def
  by (simp add: tuple_bytes_def split: option.splits)

text \<open>
  Counted for nothing are the nests of an address family the connection does not have, and they make
  up for the SYN proxy data and for what the protocol leaves out; eight bytes are left.
\<close>

lemma event_fits:
  assumes "event_ok T ct"
  shows "NFNL_HDR_SIZE + attrs_size (event_attrs T A events a ct) + 8 \<le>
    16 + ctnetlink_nlmsg_size T ct + helper_bytes T A ct"
proof -
  note b = small_sizes(2) [of T ct True] small_sizes(2) [of T ct False] small_sizes(3,4) [of ct]
    small_sizes(5) [of ct "events AND IPCT_MARK_BIT \<noteq> 0"] small_sizes(6-8) [of ct]
    proto_attrs_size [of ct True] proto_attrs_size [of ct False] help_attrs_size [OF assms]
    secctx_attrs_size [of ct] master_attrs_size [OF assms]
  have head: "attrs_size (head_attrs A ct) \<le> 128 + 2 * tuple_bytes T (ct_protonum ct)"
    by (rule head_size) (use assms in \<open>simp add: event_ok_def\<close>)
  have n: "ctnetlink_nlmsg_size T ct = 356 + ctnetlink_acct_size ct + ctnetlink_timestamp_size ct +
      ctnetlink_secctx_size T ct + ctnetlink_label_size ct + l4_nlattr_size T (ct_protonum ct) +
      3 * tuple_bytes T (ct_protonum ct)"
    unfolding ctnetlink_nlmsg_size_def proto_size_eq by simp
  show ?thesis
    using head b unfolding n event_attrs_def by simp
qed

lemma event_sent:
  assumes ok: "event_ok T (ev_ct item)" and k: "event_kind events = Some (mtype, flags, grp)"
    and listen: "ev_report item \<or> nfnetlink_has_listeners T (ct_net (ev_ct item)) grp"
    and new: "nlmsg_new T (ctnetlink_nlmsg_size T (ev_ct item)) \<noteq> None"
  defines "hdr \<equiv> ct_msg (ev_portid item) 0 (nfnl_msg_type NFNL_SUBSYS_CTNETLINK mtype) (ev_ct item) flags"
    and "as \<equiv> event_attrs T A events (ev_addr item) (ev_ct item)"
  shows "if NFNL_HDR_SIZE + attrs_size as \<le> 16 + ctnetlink_nlmsg_size T (ev_ct item)
    then \<exists>skb r. ctnetlink_conntrack_event T events item = Ev_sent skb grp r \<and> msgs skb = [(hdr, as)]
    else (\<exists>r. ctnetlink_conntrack_event T events item = Ev_lost grp r) \<or>
      (\<not> help_strict T (ev_ct item) \<and>
        (\<exists>skb r bs. ctnetlink_conntrack_event T events item = Ev_sent skb grp r \<and> msgs skb = [(hdr, bs)]))"
proof -
  let ?ct = "ev_ct item"
  let ?type = "nfnl_msg_type NFNL_SUBSYS_CTNETLINK mtype"
  let ?body = "event_body T events ?type (ev_addr item) ?ct"
  obtain skb where skb: "nlmsg_new T (ctnetlink_nlmsg_size T ?ct) = Some skb" using new by blast
  note buf = new_buf [OF skb]
  have "master_ok T ?ct" using ok by (simp add: event_ok_def)
  note e = emt_event [OF this, of events ?type "ev_addr item", folded as_def]
  have ev: "ctnetlink_conntrack_event T events item =
      (case message T hdr ?body skb of
         (Inl e, _) \<Rightarrow> if e = OOPS then Ev_fault else event_lost T (ct_net ?ct) grp
       | (Inr _, skb') \<Rightarrow> Ev_sent skb' grp
           (case nfnetlink_send T skb' (ct_net ?ct) (ev_portid item) grp (ev_report item) of
              Inl e \<Rightarrow> if e = ENOBUFS \<or> e = EAGAIN then Inl ENOBUFS else Inr () | Inr _ \<Rightarrow> Inr ()))"
    using k listen skb by (auto simp: ctnetlink_conntrack_event_def hdr_def Let_def)
  show ?thesis
  proof (cases "NFNL_HDR_SIZE + attrs_size as \<le> room skb")
    case True
    from message_fits [OF e True, of hdr] obtain skb' where
      "message T hdr ?body skb = (Inr (w_len T skb'), skb')" "msgs skb' = msgs skb @ [(hdr, as)]" by metis
    with True buf show ?thesis by (simp add: ev)
  next
    case False
    then have "room skb < NFNL_HDR_SIZE + attrs_size as" by simp
    from message_overflows [OF e this, of hdr] False buf show ?thesis
      by (auto simp: ev event_lost_def)
  qed
qed

end

section \<open>A reference environment\<close>

definition ref_event :: "buf event_env" where
  "ref_event = tab_env.extend ref_tab
     (event_env.fields policy_len (\<lambda>net grp. True) (\<lambda>skb net portid grp rep. Inr ())
       (\<lambda>net portid grp e. 0))"

lemmas ref_event_sel = ref_event_def ref_tab_sel event_env.defs

lemma ref_event_lookup: "lookup_laws ref_event buf_emits buf_grows b_room buf_msgs ref_attrs"
  using ref_lookup.lookup_laws_axioms
  unfolding lookup_laws_def table_laws_def dump_laws_def nl_writer_laws_def lookup_laws_axioms_def
    table_laws_axioms_def dump_laws_axioms_def
  by (simp add: ref_event_sel)

interpretation ref_event: event_laws ref_event buf_emits buf_grows b_room buf_msgs ref_attrs
proof (rule event_laws.intro [OF ref_event_lookup], unfold_locales)
  fix p and t :: nf_conntrack_tuple
  show "attrs_size (at_tuple ref_attrs p t) \<le> tuple_bytes ref_event p"
    by (simp add: ref_attrs_def ports_attrs_def tuple_bytes_def ref_event_sel ref_env_def)
next
  fix p ct d
  assume "l4_to_nlattr ref_event p \<noteq> None"
  then show "attrs_size (at_info ref_attrs p ct d) \<le> l4_nlattr_size ref_event p + 12"
    by (simp add: ref_event_sel ref_env_def ref_attrs_def split: if_splits)
qed (auto simp: ref_event_sel ref_env_def split: if_splits)

section \<open>Properties\<close>




text \<open>
  A helper with 340 bytes of data: its data fits into the buffer and takes the room of the mark
  after it, and the whole event is lost.
\<close>

definition talkative_event :: "buf event_env" where
  "talkative_event = ref_event\<lparr>hlp_to_nlattr :=
     (\<lambda>q. Some (\<lambda>ct. put buf_writer CTA_HELP_INFO (V_bin (replicate 340 0))))\<rparr>"

lemma event_lost_helper:
  "ctnetlink_conntrack_event talkative_event IPCT_MARK_BIT
     \<lparr>ev_addr = 2, ev_ct = sample_ct\<lparr>ext_help := Some \<lparr>help_helper =
        Some \<lparr>hlp_ptr = 7, hlp_name = ''h'', expect_class_max = 0\<rparr>\<rparr>\<rparr>,
      ev_portid = 5, ev_report = True\<rparr> = Ev_lost NFNLGRP_CONNTRACK_UPDATE (Inr ())"
  by code_simp

end
