(* ===== verification/Ct_Request_Spec.thy ===== *)
theory Ct_Request_Spec
  imports Ct_Table_Spec
begin

text \<open>
  The one-shot requests on the connection table: flush, delete and get. The locale
  \<open>request_laws\<close> adds what \<open>nf_ct_delete\<close> promises to the laws of the lookup.
\<close>

section \<open>Laws\<close>

abbreviation (input) IPS_DYING :: u64 where "IPS_DYING \<equiv> 512"

text \<open>A connection that is not dying yet loses its nodes in the hash table.\<close>

locale request_laws = lookup_laws T emits grows room msgs A
  for T :: "('skb, 'x) tab_env_scheme" and emits grows room msgs A +
  assumes delete: "k_ct k p = Some ct \<Longrightarrow> \<not> has_flag (ct_status ct) IPS_DYING \<Longrightarrow>
    k_ht (nf_ct_delete T k p portid report) = map (filter (\<lambda>n. fst n \<noteq> p)) (k_ht k)"

interpretation ref_request: request_laws ref_tab buf_emits buf_grows b_room buf_msgs ref_attrs
  by unfold_locales (simp add: ref_tab_sel plain_unlink_def)

section \<open>Flush\<close>

text \<open>The connections a flush request asks to remove.\<close>

definition flushed ::
  "('nla, 'y) nl_reader_scheme \<Rightarrow> ('skb, 'x) tab_env_scheme \<Rightarrow> nat \<Rightarrow> 'nla attr_table \<Rightarrow> u8 \<Rightarrow> ct_store \<Rightarrow>
   nat \<Rightarrow> bool" where
  "flushed R T net cda family st p \<longleftrightarrow>
     (\<exists>ct. st p = Some ct \<and> ct_net ct = net \<and> \<not> has_flag (ct_status ct) IPS_OFFLOAD \<and>
        passes R (nf_ct_zone_id T) cda family ct)"

lemma passes_all: "\<not> ctnetlink_needs_filter family cda \<Longrightarrow> passes R zid cda family ct"
  by (simp add: ctnetlink_needs_filter_def passes_def)

context lookup_laws
begin

lemma cleanup_nodes:
  assumes "\<And>ct. f ct \<longleftrightarrow> \<not> has_flag (ct_status ct) IPS_OFFLOAD \<and> passes R (nf_ct_zone_id T) cda family ct"
  shows "k_ht (nf_ct_iterate_cleanup_net T k net f portid report) =
    map (filter (\<lambda>n. \<not> flushed R T net cda family (k_ct k) (fst n))) (k_ht k)"
  unfolding cleanup flushed_def assms by simp

text \<open>Dropping the reference of a lookup restores the store.\<close>

lemma drop_ref_hold:
  assumes "quiet T (k_ct k)" "k_ct k p \<noteq> None"
  shows "drop_ref T p (k\<lparr>k_ct := hold (k_ct k) (Some p)\<rparr>) = k"
  using put_hold [OF assms] by (simp add: drop_ref_def)

end

section \<open>Delete\<close>

context request_laws
begin

lemma del_conntrack_cases:
  assumes "quiet T (k_ct k)" "request_tuple R cda (nfgen_family info) = Inr (Some (tuple, zone))"
    and "\<And>p ct. k_ct k p = Some ct \<Longrightarrow> \<not> has_flag (ct_status ct) IPS_DYING"
    and "ctnetlink_del_conntrack R T oom info cda k = (r, k')"
  shows "case fst (nf_conntrack_find_get T (k_ct k) (info_net info) zone tuple) of
      None \<Rightarrow> r = Inl ENOENT \<and> k' = k
    | Some p \<Rightarrow> \<exists>ct. k_ct k p = Some ct \<and>
        (let offload = has_flag (ct_status ct) IPS_OFFLOAD;
             wrong_id = (\<exists>a. cda CTA_ID = Some a \<and>
               nla_get_be32 R a \<noteq> nf_ct_get_id T p (ct\<lparr>ct_use := Suc (ct_use ct)\<rparr>))
         in if offload then r = Inl EBUSY \<and> k' = k
            else if wrong_id then r = Inl ENOENT \<and> k' = k
            else r = Inr () \<and> k_ht k' = map (filter (\<lambda>n. fst n \<noteq> p)) (k_ht k))"
proof (cases "nf_conntrack_find_get T (k_ct k) (info_net info) zone tuple")
  case (Pair h st1)
  show ?thesis
  proof (cases h)
    case None
    then show ?thesis
      using assms(2,4) Pair find_none by (auto simp: ctnetlink_del_conntrack_def)
  next
    case (Some p)
    with Pair find_some obtain ct where ct: "k_ct k p = Some ct" "st1 = hold (k_ct k) (Some p)"
      by blast
    let ?ct = "ct\<lparr>ct_use := Suc (ct_use ct)\<rparr>"
    have st1: "st1 p = Some ?ct" using ct by (simp add: hold_apply)
    have d: "drop_ref T p (k\<lparr>k_ct := st1\<rparr>) = k" using drop_ref_hold [OF assms(1)] ct by simp
    have "k_ht (nf_ct_delete T (k\<lparr>k_ct := st1\<rparr>) p portid report) =
        map (filter (\<lambda>n. fst n \<noteq> p)) (k_ht k)" for portid report
      using delete [of "k\<lparr>k_ct := st1\<rparr>" p ?ct] st1 assms(3) [OF ct(1)] by simp
    then have h: "k_ht (drop_ref T p (nf_ct_delete T (k\<lparr>k_ct := st1\<rparr>) p portid report)) =
        map (filter (\<lambda>n. fst n \<noteq> p)) (k_ht k)" for portid report
      by (simp add: drop_ref_def)
    show ?thesis
      using assms(2,4) Pair Some st1 d h ct(1)
      by (auto simp: ctnetlink_del_conntrack_def Let_def split: if_splits option.splits)
  qed
qed

end

section \<open>Get\<close>

text \<open>The message that answers a request for a connection: written while the lookup's reference is held.\<close>

definition reply_attrs ::
  "('skb, 'x) tab_env_scheme \<Rightarrow> cb_attrs \<Rightarrow> nfnl_info \<Rightarrow> ct_store \<Rightarrow> nat \<Rightarrow> nf_conn \<Rightarrow> nlattr list" where
  "reply_attrs T A info st p ct =
     ct_attrs (T\<lparr>env_store := hold st (Some p)\<rparr>) A (nlmsg_type info mod 256) p
       (ct\<lparr>ct_use := Suc (ct_use ct)\<rparr>) True (fill_flags (info_portid info) 0)"

context lookup_laws
begin

lemma get_reply:
  assumes q: "quiet T st" and p: "st p = Some ct"
    and new: "nlmsg_new T NLMSG_DEFAULT_SIZE = Some skb"
    and fit: "NFNL_HDR_SIZE + attrs_size (reply_attrs T A info st p ct) \<le> room skb"
  shows "\<exists>skb'. ctnetlink_fill_info (T\<lparr>env_store := hold st (Some p)\<rparr>) (info_portid info)
      (nlmsg_seq info) (nlmsg_type info mod 256) p (ct\<lparr>ct_use := Suc (ct_use ct)\<rparr>) True 0 skb =
      ((Inr (w_len T skb'), skb'), after_dump (nlmsg_type info mod 256) True (ct\<lparr>ct_use := Suc (ct_use ct)\<rparr>)) \<and>
    0 < w_len T skb' \<and>
    msgs skb' = [(fill_msg (info_portid info) (nlmsg_seq info) ct 0, reply_attrs T A info st p ct)]"
  (is "\<exists>skb'. ctnetlink_fill_info ?T _ _ _ p ?ct True 0 skb = _ \<and> _")
proof -
  have "hold st (Some p) p = Some ?ct" using p by (simp add: hold_apply)
  with quiet_hold [OF q, of "Some p"] have "master_ok ?T ?ct"
    unfolding quiet_def master_ok_def by fastforce
  from dump_laws.fill_info_fits [OF dump_laws_store [OF dump_laws_axioms] this,
      of "nlmsg_type info mod 256" p True "info_portid info" 0 skb "nlmsg_seq info"] fit
    new_buf [OF new]
  show ?thesis by (auto simp: reply_attrs_def ct_msg_def)
qed

lemma get_no_reply:
  assumes q: "quiet T st" and p: "st p = Some ct"
    and fit: "room skb < NFNL_HDR_SIZE + attrs_size (reply_attrs T A info st p ct)"
  shows "fst (ctnetlink_fill_info (T\<lparr>env_store := hold st (Some p)\<rparr>) (info_portid info)
      (nlmsg_seq info) (nlmsg_type info mod 256) p (ct\<lparr>ct_use := Suc (ct_use ct)\<rparr>) True 0 skb) =
    (Inl EFAIL, skb)"
  (is "fst (ctnetlink_fill_info ?T _ _ _ p ?ct True 0 skb) = _")
proof -
  have "hold st (Some p) p = Some ?ct" using p by (simp add: hold_apply)
  with quiet_hold [OF q, of "Some p"] have "master_ok ?T ?ct" "help_strict ?T ?ct"
    unfolding quiet_def master_ok_def by fastforce+
  from dump_laws.fill_info_full [OF dump_laws_store [OF dump_laws_axioms] this(1), of True skb]
    this(2) fit
  show ?thesis by (simp add: reply_attrs_def)
qed

lemma put_after_dump:
  assumes "st p = Some ct" "0 < ct_use ct"
  shows "nf_ct_put T ((hold st (Some p))(p \<mapsto> after_dump type x (ct\<lparr>ct_use := Suc (ct_use ct)\<rparr>))) p =
    st(p \<mapsto> after_dump type x ct)"
proof -
  let ?c = "after_dump type x (ct\<lparr>ct_use := Suc (ct_use ct)\<rparr>)"
  have u: "ct_use ?c = Suc (ct_use ct)" "?c\<lparr>ct_use := ct_use ct\<rparr> = after_dump type x ct"
    by (simp_all add: after_dump_def)
  have "nf_ct_put T ((hold st (Some p))(p \<mapsto> ?c)) p =
      (hold st (Some p))(p \<mapsto> ?c\<lparr>ct_use := ct_use ct\<rparr>)"
    using put [of "(hold st (Some p))(p \<mapsto> ?c)" p ?c] u(1) assms(2) by simp
  then show ?thesis unfolding u by (auto simp: hold_apply fun_eq_iff)
qed

lemma get_conntrack_outcome:
  assumes q: "quiet T st" and nd: "nlmsg_flags info AND NLM_F_DUMP = 0"
    and t: "request_tuple R cda (nfgen_family info) = Inr (Some (tuple, zone))"
    and g: "ctnetlink_get_conntrack R T info cda st = (r, st')"
  shows "case fst (nf_conntrack_find_get T st (info_net info) zone tuple) of
      None \<Rightarrow> r = Failed ENOENT \<and> st' = st
    | Some p \<Rightarrow> \<exists>ct. st p = Some ct \<and>
        (if nlmsg_new T NLMSG_DEFAULT_SIZE \<noteq> None \<and>
            NFNL_HDR_SIZE + attrs_size (reply_attrs T A info st p ct) \<le> NLMSG_DEFAULT_SIZE + 16
         then (\<exists>skb. r = Sent skb (nfnetlink_unicast T skb (info_net info) (info_portid info)) \<and>
            msgs skb = [(fill_msg (info_portid info) (nlmsg_seq info) ct 0,
                         reply_attrs T A info st p ct)]) \<and>
            st' = st(p \<mapsto> after_dump (nlmsg_type info mod 256) True ct)
         else r = Failed ENOMEM \<and>
            (nlmsg_type info mod 256 \<noteq> IPCTNL_MSG_CT_GET_CTRZERO \<longrightarrow> st' = st))"
proof (cases "nf_conntrack_find_get T st (info_net info) zone tuple")
  case (Pair h st1)
  show ?thesis
  proof (cases h)
    case None
    then show ?thesis using g nd t Pair find_none by (auto simp: ctnetlink_get_conntrack_def)
  next
    case (Some p)
    with Pair find_some obtain ct where ct: "st p = Some ct" "st1 = hold st (Some p)" by blast
    have use: "0 < ct_use ct" using q ct(1) by (auto simp: quiet_def)
    let ?ct = "ct\<lparr>ct_use := Suc (ct_use ct)\<rparr>"
    have st1: "st1 p = Some ?ct" using ct by (simp add: hold_apply)
    have d: "nf_ct_put T st1 p = st" using put_hold [OF q] ct by simp
    show ?thesis
    proof (cases "nlmsg_new T NLMSG_DEFAULT_SIZE")
      case None
      then show ?thesis using g nd t Pair Some d ct by (auto simp: ctnetlink_get_conntrack_def)
    next
      case new: (Some skb)
      have room: "room skb = NLMSG_DEFAULT_SIZE + 16" using new_buf [OF new] by simp
      show ?thesis
      proof (cases "NFNL_HDR_SIZE + attrs_size (reply_attrs T A info st p ct) \<le> NLMSG_DEFAULT_SIZE + 16")
        case True
        with room have "NFNL_HDR_SIZE + attrs_size (reply_attrs T A info st p ct) \<le> room skb" by simp
        from get_reply [OF q ct(1) new this] put_after_dump [where st = st, OF ct(1) use] True g nd t Pair Some new st1
          ct
        show ?thesis by (auto simp: ctnetlink_get_conntrack_def)
      next
        case False
        with room have "room skb < NFNL_HDR_SIZE + attrs_size (reply_attrs T A info st p ct)" by simp
        from get_no_reply [OF q ct(1) this] obtain ct' where
          f: "ctnetlink_fill_info (T\<lparr>env_store := hold st (Some p)\<rparr>) (info_portid info)
            (nlmsg_seq info) (nlmsg_type info mod 256) p ?ct True 0 skb = ((Inl EFAIL, skb), ct')"
          by (metis prod.collapse)
        have "ct' = ?ct" if "nlmsg_type info mod 256 \<noteq> IPCTNL_MSG_CT_GET_CTRZERO"
          using fill_info_keeps_ct [OF that] f by (metis snd_conv)
        with f False g nd t Pair Some new st1 ct d show ?thesis
          by (auto simp: ctnetlink_get_conntrack_def fun_upd_idem)
      qed
    qed
  qed
qed

end

section \<open>Properties\<close>

text \<open>
  C21. A flush without tuple filter is refused, with nothing changed, only when
  it needs a filter and its masks are inconsistent. Otherwise the table keeps exactly the nodes
  of the connections that belong to another namespace, are offloaded, or do not pass the filter of
  the request, in their order.
\<close>

theorem flush_removes_selected:
  assumes "lookup_laws T emits grows room msgs A" "cda CTA_FILTER = None"
  shows "case ctnetlink_flush_conntrack R T False net cda portid report family k of
      (Inl e, k') \<Rightarrow> k' = k \<and> e = EINVAL \<and> ctnetlink_needs_filter family cda \<and> bad_masks R cda
    | (Inr _, k') \<Rightarrow> \<not> (ctnetlink_needs_filter family cda \<and> bad_masks R cda) \<and>
        k_ht k' = map (filter (\<lambda>n. \<not> flushed R T net cda family (k_ct k) (fst n))) (k_ht k)"
proof (cases "ctnetlink_needs_filter family cda")
  case False
  have "ctnetlink_flush_iterate T None ct \<longleftrightarrow>
      \<not> has_flag (ct_status ct) IPS_OFFLOAD \<and> passes R (nf_ct_zone_id T) cda family ct" for ct
    using passes_all [OF False, of R]
    by (simp add: ctnetlink_flush_iterate_def ctnetlink_filter_match_def)
  from lookup_laws.cleanup_nodes [OF assms(1), of "ctnetlink_flush_iterate T None", OF this] False
  show ?thesis by (simp add: ctnetlink_flush_conntrack_def)
next
  case True
  show ?thesis
  proof (cases "bad_masks R cda")
    case True
    with \<open>ctnetlink_needs_filter family cda\<close> assms(2) show ?thesis
      by (simp add: ctnetlink_flush_conntrack_def alloc_filter_simple)
  next
    case False
    with assms(2) obtain f where f: "ctnetlink_alloc_filter R False cda family = Inr f"
      by (simp add: alloc_filter_simple)
    have "ctnetlink_flush_iterate T (Some f) ct \<longleftrightarrow>
        \<not> has_flag (ct_status ct) IPS_OFFLOAD \<and> passes R (nf_ct_zone_id T) cda family ct" for ct
      using simple_filter_match [where cda = cda, OF assms(2) f, of "nf_ct_zone_id T" ct]
      by (simp add: ctnetlink_flush_iterate_def)
    from lookup_laws.cleanup_nodes [OF assms(1), of "ctnetlink_flush_iterate T (Some f)", OF this]
      True False f assms(2)
    show ?thesis by (simp add: ctnetlink_flush_conntrack_def)
  qed
qed

lemma all_ones: "x AND (0xffffffff :: u32) = x"
proof -
  have "(0xffffffff :: u32) = - 1" by simp
  then show ?thesis by (simp only: and.right_neutral)
qed

text \<open>Flushing by mark 2 removes the second of two connections from both buckets.\<close>

theorem flush_removes_selected_witness:
  "k_ht (snd (ctnetlink_flush_conntrack tree_reader ref_tab False 0
      [CTA_MARK \<mapsto> Leaf CTA_MARK (V_be32 (htonl 2))] 5 False 0 demo_sys)) = [[(2, 0)], [(2, 1)]]"
proof -
  let ?c = "[CTA_MARK \<mapsto> Leaf CTA_MARK (V_be32 (htonl 2))]"
  let ?r = "ctnetlink_flush_conntrack tree_reader ref_tab False 0 ?c 5 False 0 demo_sys"
  have f: "?c CTA_FILTER = None" "ctnetlink_needs_filter 0 ?c" "\<not> bad_masks tree_reader ?c"
    by (simp_all add: ctnetlink_needs_filter_def bad_masks_def)
  have p: "passes tree_reader zid ?c 0 ct \<longleftrightarrow> ct_mark ct = 2" for zid ct
    using all_ones [of "ct_mark ct"] by (simp add: passes_def mask_of_def tree_reader_def)
  have fl: "flushed tree_reader ref_tab 0 ?c 0 (k_ct demo_sys) 3"
    "\<not> flushed tree_reader ref_tab 0 ?c 0 (k_ct demo_sys) 2"
    unfolding flushed_def p by (simp_all add: demo_sys_def sample_ct_def has_flag_def)
  have ht: "map (filter (\<lambda>n. \<not> flushed tree_reader ref_tab 0 ?c 0 (k_ct demo_sys) (fst n)))
      (k_ht demo_sys) = [[(2, 0)], [(2, 1)]]"
    using fl by (simp add: demo_sys_def)
  show ?thesis
    using flush_removes_selected [where cda = ?c and R = tree_reader and net = 0 and portid = 5
        and report = False and family = 0 and k = demo_sys,
        OF ref_lookup.lookup_laws_axioms f(1)] f(2,3) ht by (cases ?r; cases "fst ?r") auto
qed

text \<open>
  C22. Deleting a connection by its tuple: when the lookup finds none the answer is
  \<open>ENOENT\<close>; when it finds one that is offloaded, \<open>EBUSY\<close>; when the request names an id and the
  connection has another, \<open>ENOENT\<close>; and in these cases tables, connections and reference counts
  are exactly as before. Otherwise the answer is success and the table has lost exactly the nodes
  of that connection.
\<close>

theorem del_request:
  assumes "request_laws T emits grows room msgs A" "quiet T (k_ct k)"
    and "request_tuple R cda (nfgen_family info) = Inr (Some (tuple, zone))"
    and "\<And>p ct. k_ct k p = Some ct \<Longrightarrow> \<not> has_flag (ct_status ct) IPS_DYING"
    and "ctnetlink_del_conntrack R T oom info cda k = (r, k')"
  shows "case fst (nf_conntrack_find_get T (k_ct k) (info_net info) zone tuple) of
      None \<Rightarrow> r = Inl ENOENT \<and> k' = k
    | Some p \<Rightarrow> \<exists>ct. k_ct k p = Some ct \<and>
        (let offload = has_flag (ct_status ct) IPS_OFFLOAD;
             wrong_id = (\<exists>a. cda CTA_ID = Some a \<and>
               nla_get_be32 R a \<noteq> nf_ct_get_id T p (ct\<lparr>ct_use := Suc (ct_use ct)\<rparr>))
         in if offload then r = Inl EBUSY \<and> k' = k
            else if wrong_id then r = Inl ENOENT \<and> k' = k
            else r = Inr () \<and> k_ht k' = map (filter (\<lambda>n. fst n \<noteq> p)) (k_ht k))"
  using request_laws.del_conntrack_cases [OF assms(1,2,3)] assms(4,5) by blast

text \<open>The request for the sample connection: by the tuple attribute a dump of it has.\<close>

definition demo_cda :: "nlattr attr_table" where
  "demo_cda = [CTA_TUPLE_ORIG \<mapsto> Nest CTA_TUPLE_ORIG (tuple_attrs ref_attrs sample_tuple),
     CTA_ZONE \<mapsto> Leaf CTA_ZONE (V_be16 (htons 100))]"

definition demo_info :: nfnl_info where
  "demo_info = \<lparr>nfgen_family = 2, nfgen_version = 0, nlmsg_flags = 0, nlmsg_seq = 6,
     nlmsg_type = 257, info_portid = 5, info_net = 0, info_report = False\<rparr>"

lemma demo_request:
  "request_tuple tree_reader demo_cda (nfgen_family demo_info) = Inr (Some (sample_tuple,
     \<lparr>zone_id = 100, zone_flags = NF_CT_ZONE_DIR_ORIG, zone_dir = NF_CT_DEFAULT_ZONE_DIR\<rparr>))"
  "fst (nf_conntrack_find_get ref_tab (k_ct demo_sys) (info_net demo_info)
     \<lparr>zone_id = 100, zone_flags = NF_CT_ZONE_DIR_ORIG, zone_dir = NF_CT_DEFAULT_ZONE_DIR\<rparr>
     sample_tuple) = Some 2"
  "demo_cda CTA_ID = None" "nlmsg_flags demo_info AND NLM_F_DUMP = 0"
  by code_simp+

lemma demo_ct: "k_ct demo_sys 2 = Some sample_ct"
  by (simp add: demo_sys_def)

theorem del_request_witness:
  "k_ht (snd (ctnetlink_del_conntrack tree_reader ref_tab False demo_info demo_cda demo_sys)) =
     [[(3, 1)], [(3, 0)]]"
proof -
  let ?r = "ctnetlink_del_conntrack tree_reader ref_tab False demo_info demo_cda demo_sys"
  have nd: "\<not> has_flag (ct_status ct) IPS_DYING" if "k_ct demo_sys p = Some ct" for p ct
    using that by (auto simp: demo_sys_def sample_ct_def has_flag_def split: if_splits)
  have "\<not> has_flag (ct_status sample_ct) IPS_OFFLOAD" by code_simp
  with del_request [OF ref_request.request_laws_axioms demo_table_ok(1) demo_request(1) nd,
      where oom = False and r = "fst ?r" and k' = "snd ?r"] demo_ct
  show ?thesis by (simp add: demo_request Let_def) (simp add: demo_sys_def)
qed

text \<open>
  C23. A request for one connection by its tuple: \<open>ENOENT\<close> when the lookup finds none.
  When it finds one, a buffer can be had and the message fits the default size, the connection's
  complete message is sent, and reference counts, tables and connections are as before except
  that a counter-resetting request cleared the counters. Otherwise the answer is \<open>ENOMEM\<close>, again
  with nothing changed unless counters were to be reset.
\<close>

theorem get_request:
  assumes "lookup_laws T emits grows room msgs A" "quiet T st"
    and "nlmsg_flags info AND NLM_F_DUMP = 0"
    and "request_tuple R cda (nfgen_family info) = Inr (Some (tuple, zone))"
    and "ctnetlink_get_conntrack R T info cda st = (r, st')"
  shows "case fst (nf_conntrack_find_get T st (info_net info) zone tuple) of
      None \<Rightarrow> r = Failed ENOENT \<and> st' = st
    | Some p \<Rightarrow> \<exists>ct. st p = Some ct \<and>
        (if nlmsg_new T NLMSG_DEFAULT_SIZE \<noteq> None \<and>
            NFNL_HDR_SIZE + attrs_size (reply_attrs T A info st p ct) \<le> NLMSG_DEFAULT_SIZE + 16
         then (\<exists>skb. r = Sent skb (nfnetlink_unicast T skb (info_net info) (info_portid info)) \<and>
            msgs skb = [(fill_msg (info_portid info) (nlmsg_seq info) ct 0,
                         reply_attrs T A info st p ct)]) \<and>
            st' = st(p \<mapsto> after_dump (nlmsg_type info mod 256) True ct)
         else r = Failed ENOMEM \<and>
            (nlmsg_type info mod 256 \<noteq> IPCTNL_MSG_CT_GET_CTRZERO \<longrightarrow> st' = st))"
  by (rule lookup_laws.get_conntrack_outcome [OF assms])

theorem get_request_witness:
  "\<exists>skb. ctnetlink_get_conntrack tree_reader ref_tab demo_info demo_cda (k_ct demo_sys) =
     (Sent skb (Inr ()), k_ct demo_sys) \<and> length (buf_msgs skb) = 1"
proof -
  let ?r = "ctnetlink_get_conntrack tree_reader ref_tab demo_info demo_cda (k_ct demo_sys)"
  have t: "nlmsg_type demo_info mod 256 = IPCTNL_MSG_CT_GET" by (simp add: demo_info_def)
  have size: "attrs_size (reply_attrs ref_tab ref_attrs demo_info (k_ct demo_sys) 2 sample_ct) = 240"
    unfolding reply_attrs_def t by code_simp
  have new: "nlmsg_new ref_tab NLMSG_DEFAULT_SIZE \<noteq> None"
    "nfnetlink_unicast ref_tab skb n i = Inr ()" for skb n i by (simp_all add: ref_tab_sel)
  have "after_dump IPCTNL_MSG_CT_GET True sample_ct = sample_ct" by (simp add: after_dump_def)
  with get_request [OF ref_lookup.lookup_laws_axioms demo_table_ok(1) demo_request(4,1),
      of "fst ?r" "snd ?r"] demo_ct size new
  show ?thesis
    by (simp add: demo_request t fun_upd_idem) (metis prod.collapse length_Cons list.size(3) One_nat_def)
qed

end
