(* ===== verification/Ct_Change_Spec.thy ===== *)
theory Ct_Change_Spec
  imports Ct_Change Ct_Request_Spec "HOL-Library.Multiset"
begin

text \<open>
  Changing and creating connections: what an update keeps of a connection, what it sets, and what
  a request does to the reference counts. \<open>chg_laws\<close> states what the kernel's functions keep of the
  connection they are given, \<open>new_laws\<close> what allocation and insertion do.
\<close>

named_theorems keep_intros \<open>actions that keep the identity of a connection\<close>

section \<open>Identity of a connection\<close>

text \<open>
  Everything by which a connection is found and counted. A NAT setup may change the reply tuple,
  nothing else may.
\<close>

definition same_conn :: "nf_conn \<Rightarrow> nf_conn \<Rightarrow> bool" where
  "same_conn ct ct' \<longleftrightarrow> ct_use ct' = ct_use ct \<and> ct_zone ct' = ct_zone ct \<and>
     tuple_orig ct' = tuple_orig ct \<and> ct_net ct' = ct_net ct \<and> ct_master ct' = ct_master ct"

definition same_id :: "nf_conn \<Rightarrow> nf_conn \<Rightarrow> bool" where
  "same_id ct ct' \<longleftrightarrow> same_conn ct ct' \<and> tuple_reply ct' = tuple_reply ct"

definition is_event :: "kcall \<Rightarrow> bool" where
  "is_event c = (case c of Event_report _ _ _ _ \<Rightarrow> True | _ \<Rightarrow> False)"

text \<open>An action that keeps a relation between the connections and reports no event.\<close>

definition keeps :: "(nf_conn \<Rightarrow> nf_conn \<Rightarrow> bool) \<Rightarrow> chg action \<Rightarrow> bool" where
  "keeps Q a \<longleftrightarrow> (\<forall>s. Q (c_ct s) (c_ct (snd (a s))) \<and>
     filter is_event (c_calls (snd (a s))) = filter is_event (c_calls s))"

lemma same_refl [simp]: "same_conn ct ct" "same_id ct ct"
  by (simp_all add: same_conn_def same_id_def)

lemma same_trans: "same_id a b \<Longrightarrow> same_id b c \<Longrightarrow> same_id a c"
    "same_conn a b \<Longrightarrow> same_conn b c \<Longrightarrow> same_conn a c"
  by (simp_all add: same_conn_def same_id_def)

lemma same_id_conn: "same_id a b \<Longrightarrow> same_conn a b"
  by (simp add: same_id_def)

lemma keeps_weaken: "keeps same_id a \<Longrightarrow> keeps same_conn a"
  by (simp add: keeps_def same_id_def)

lemma keeps_run_rel:
  assumes "reflp Q" "transp Q" "\<forall>a\<in>set as. keeps Q a"
  shows "keeps Q (run_acts as)"
proof -
  let ?R = "\<lambda>s s'. Q (c_ct s) (c_ct s') \<and>
    filter is_event (c_calls s') = filter is_event (c_calls s)"
  have "?R s (snd (run_acts as s))" for s
    by (rule run_acts_preserves [where R = ?R])
      (use assms in \<open>auto simp: keeps_def reflp_def dest: transpD\<close>)
  then show ?thesis by (simp add: keeps_def)
qed

lemma same_orders: "reflp same_id" "transp same_id" "reflp same_conn" "transp same_conn"
  by (auto intro!: reflpI transpI intro: same_trans)

lemmas keeps_run [keep_intros] = keeps_run_rel [OF same_orders(1,2)]
lemmas keeps_run_conn = keeps_run_rel [OF same_orders(3,4)]

lemma keeps_when [keep_intros]: "keeps same_id a \<Longrightarrow> keeps same_id (act_when c a)"
  by (simp add: keeps_def act_when_def)

lemma keeps_need [keep_intros]:
  "(\<And>x. keeps same_id (f x)) \<Longrightarrow> keeps same_id (need a f)"
  by (simp add: keeps_def need_def split: option.splits)

lemma keeps_on_ct [keep_intros]:
  "(\<And>ct. same_id ct (snd (f ct))) \<Longrightarrow> keeps same_id (on_ct f)"
  by (simp add: keeps_def on_ct_def split: prod.splits) (metis snd_conv)

lemma keeps_upd [keep_intros]: "(\<And>ct. same_id ct (f ct)) \<Longrightarrow> keeps same_id (upd_ct f)"
  by (simp add: keeps_def upd_ct_def)

lemma same_id_update [simp]:
  "same_id ct (ct\<lparr>ct_mark := m\<rparr>)" "same_id ct (ct\<lparr>ct_status := s\<rparr>)" "same_id ct (ct\<lparr>ct_proto := p\<rparr>)"
  "same_id ct (ct\<lparr>ext_help := h\<rparr>)" "same_id ct (ct\<lparr>ext_seqadj := q\<rparr>)"
  "same_id ct (ct\<lparr>ext_synproxy := y\<rparr>)" "same_id ct (ct\<lparr>ext_tstamp := t\<rparr>)"
  "same_id ct (ct\<lparr>ext_seqadj := q, ct_status := s\<rparr>)" "same_id ct (set_helper h' ct)"
  by (simp_all add: same_id_def same_conn_def set_helper_def)

lemma keeps_seq_dir [keep_intros]: "keeps same_id (seq_dir R attr reply)"
  by (auto simp: keeps_def seq_dir_def Let_def split: option.splits prod.splits sum.splits)

lemma keeps_if: "(c \<Longrightarrow> keeps Q a) \<Longrightarrow> (\<not> c \<Longrightarrow> keeps Q b) \<Longrightarrow> keeps Q (\<lambda>s. if c then a s else b s)"
  by (simp add: keeps_def)

section \<open>A created connection\<close>

text \<open>
  From the kernel state \<open>k\<close> to \<open>k'\<close> one connection was added at a free address: linked once per
  direction, with the given number of references and the identity of the request. If the request
  names a master, the new connection is marked as expected and the master has one reference more.
\<close>

definition created ::
  "'nla attr_table \<Rightarrow> nat \<Rightarrow> nf_conntrack_zone \<Rightarrow> nf_conntrack_tuple \<Rightarrow> nat \<Rightarrow> ksys \<Rightarrow> nat \<Rightarrow> ksys \<Rightarrow>
   bool" where
  "created cda net zone ot refs k p k' \<longleftrightarrow>
     (\<exists>ct. k_ct k p = None \<and> k_ct k' = (hold (k_ct k) (ct_master ct))(p \<mapsto> ct) \<and>
        ct_use ct = refs \<and> tuple_orig ct = ot \<and> ct_zone ct = zone \<and> ct_net ct = net \<and>
        (ct_master ct = None \<longleftrightarrow> cda CTA_TUPLE_MASTER = None) \<and>
        (cda CTA_TUPLE_MASTER \<noteq> None \<longrightarrow> has_flag (ct_status ct) IPS_EXPECTED) \<and>
        mset (concat (k_ht k')) = mset (concat (k_ht k)) + {#(p, 0), (p, 1)#})"

section \<open>Laws\<close>

locale chg_laws = nl_reader_laws C reads A
  for C :: "('nla, 'x) chg_env_scheme" and reads A +
  assumes status_keeps: "same_id ct (snd (nf_ct_change_status_common C st ct))"
    and timeout_keeps: "same_id ct (snd (nf_ct_change_timeout C t ct))"
    and l4_keeps: "l4_from_nlattr C p = Some f \<Longrightarrow> same_id ct (snd (f tb ct))"
    and helper_keeps: "hlp_from_nlattr C q = Some g \<Longrightarrow> same_id ct (g a ct)"
    and labels_keeps: "same_id ct (snd (nf_connlabels_replace C d m n ct))"
    and labels_status: "ct_status (snd (nf_connlabels_replace C d m n ct)) = ct_status ct"
begin

lemma keeps_helper_data [simp]: "same_id ct (from_nlattr C h i ct)"
  using helper_keeps by (simp add: from_nlattr_def split: option.splits)

lemma keeps_change_status [keep_intros]: "keeps same_id (ctnetlink_change_status C cda)"
  unfolding ctnetlink_change_status_def by (intro keep_intros status_keeps)

lemma keeps_change_timeout [keep_intros]: "keeps same_id (ctnetlink_change_timeout C cda)"
  unfolding ctnetlink_change_timeout_def by (intro keep_intros timeout_keeps)

lemma keeps_change_mark [keep_intros]: "keeps same_id (ctnetlink_change_mark C cda)"
  unfolding ctnetlink_change_mark_def by (intro keep_intros) (simp add: keeps_def Let_def)

lemma keeps_change_protoinfo [keep_intros]: "keeps same_id (ctnetlink_change_protoinfo C cda)"
proof -
  have "same_id ct (snd (f tb ct))" if "l4_from_nlattr C p = Some f" for p f tb ct
    by (rule l4_keeps [OF that])
  then show ?thesis
    unfolding ctnetlink_change_protoinfo_def
    by (intro keep_intros) (auto simp: keeps_def on_ct_def split: option.splits sum.splits prod.splits;
        metis snd_conv)
qed

lemma keeps_change_helper [keep_intros]: "keeps same_id (ctnetlink_change_helper C cda)"
  unfolding ctnetlink_change_helper_def
  by (intro keep_intros)
    (auto simp: keeps_def Let_def call_def is_event_def split: option.splits sum.splits prod.splits)

lemma keeps_change_seq_adj [keep_intros]: "keeps same_id (ctnetlink_change_seq_adj C cda)"
proof -
  have "keeps same_id (run_acts
      [seq_dir C (cda CTA_SEQ_ADJ_ORIG) False, seq_dir C (cda CTA_SEQ_ADJ_REPLY) True])"
    by (intro keep_intros) (simp add: keep_intros)
  then show ?thesis by (simp add: keeps_def ctnetlink_change_seq_adj_def)
qed

lemma keeps_change_synproxy [keep_intros]: "keeps same_id (ctnetlink_change_synproxy C cda)"
  by (auto simp: keeps_def ctnetlink_change_synproxy_def need_def split: option.splits sum.splits)

lemma keeps_attach_labels [keep_intros]: "keeps same_id (ctnetlink_attach_labels C cda)"
  unfolding ctnetlink_attach_labels_def
  by (intro keep_intros)
    (use labels_keeps in \<open>auto simp: keeps_def on_ct_def Let_def split: option.splits prod.splits;
        metis snd_conv\<close>)

lemma attach_labels_status:
  "ct_status (c_ct (snd (ctnetlink_attach_labels C cda s))) = ct_status (c_ct s)"
  using labels_status
  by (auto simp: ctnetlink_attach_labels_def need_def on_ct_def Let_def
      split: option.splits prod.splits) (metis snd_conv)+

lemma keeps_change_conntrack: "keeps same_id (ctnetlink_change_conntrack C cda)"
proof -
  have "keeps same_id (run_acts [
        act_when (cda CTA_HELP \<noteq> None) (ctnetlink_change_helper C cda),
        act_when (cda CTA_TIMEOUT \<noteq> None) (ctnetlink_change_timeout C cda),
        act_when (cda CTA_STATUS \<noteq> None) (ctnetlink_change_status C cda),
        act_when (cda CTA_PROTOINFO \<noteq> None) (ctnetlink_change_protoinfo C cda),
        act_when (cda CTA_MARK \<noteq> None) (ctnetlink_change_mark C cda),
        act_when (cda CTA_SEQ_ADJ_ORIG \<noteq> None \<or> cda CTA_SEQ_ADJ_REPLY \<noteq> None)
          (ctnetlink_change_seq_adj C cda),
        act_when (cda CTA_SYNPROXY \<noteq> None) (ctnetlink_change_synproxy C cda),
        act_when (cda CTA_LABELS \<noteq> None) (ctnetlink_attach_labels C cda)])"
    by (intro keep_intros) (auto intro!: keep_intros)
  then show ?thesis by (simp add: keeps_def ctnetlink_change_conntrack_def)
qed

end

text \<open>
  Allocation gives an object with the request's tuples, zone and namespace, and no master; the
  functions that add extension areas keep the identity; a NAT setup may change the reply tuple; a
  successful insertion of a fresh object links one node per direction and gives the object two
  references, the table's and the caller's.
\<close>

locale new_laws = chg: chg_laws C reads A + lookup_laws T emits grows room msgs A
  for C :: "('nla, 'x) new_env_scheme" and reads and T :: "('skb, 'y) tab_env_scheme"
    and emits grows room msgs A +
  assumes alloc: "nf_conntrack_alloc C net zone ot rt = Some (p, ct) \<Longrightarrow>
      tuple_orig ct = ot \<and> ct_zone ct = zone \<and> ct_net ct = net \<and> ct_master ct = None"
    and nat_keeps: "nat_hook C = Some f \<Longrightarrow> same_conn ct (snd (f manip a ct))"
    and assign_keeps: "same_id ct (snd (nf_ct_try_assign_helper C ct))"
    and help_keeps: "nf_ct_helper_ext_add C ct = Some ct' \<Longrightarrow> same_id ct ct'"
    and acct_keeps: "same_id ct (nf_ct_acct_ext_add C ct)"
    and tstamp_keeps: "same_id ct (nf_ct_tstamp_ext_add C ct)"
    and ecache_keeps: "same_id ct (nf_ct_ecache_ext_add C ct)"
    and label_keeps: "same_id ct (nf_ct_labels_ext_add C ct)"
    and seqadj_keeps: "same_id ct (nfct_seqadj_ext_add C ct)"
    and synproxy_keeps: "same_id ct (nfct_synproxy_ext_add C ct)"
    and set_timeout_keeps: "same_id ct (nf_ct_set_timeout C t ct)"
    and insert: "nf_conntrack_hash_check_insert C k p ct = Inr k' \<Longrightarrow> k_ct k p = None \<Longrightarrow>
      k_ct k' = (k_ct k)(p \<mapsto> ct\<lparr>ct_use := 2\<rparr>) \<and>
      mset (concat (k_ht k')) = mset (concat (k_ht k)) + {#(p, 0), (p, 1)#}"
begin

lemma keeps_nat: "keeps same_conn (ctnetlink_parse_nat_setup C manip attr)"
proof -
  have "same_conn ct (snd (f manip attr ct))" if "nat_hook C = Some f" for f ct
    by (rule nat_keeps [OF that])
  then show ?thesis
    by (auto simp: keeps_def ctnetlink_parse_nat_setup_def on_ct_def call_def is_event_def Let_def
        split: option.splits prod.splits sum.splits) (metis snd_conv)+
qed

lemma keeps_setup_nat: "keeps same_conn (ctnetlink_setup_nat C cda)"
  unfolding ctnetlink_setup_nat_def
  by (auto intro!: keeps_run_conn keeps_nat simp del: run_acts.simps)

lemma keeps_create_helper: "keeps same_id (create_helper C cda)"
proof -
  have 1: "same_id ct (set_helper h (g\<lparr>ct_status := s\<rparr>))" if "same_id ct g" for ct h g s
    using that by (simp add: same_id_def same_conn_def set_helper_def)
  have 2: "same_id ct (from_nlattr C h i ct')" if "nf_ct_helper_ext_add C ct = Some ct'" for ct ct' h i
    using same_trans(1) [OF help_keeps [OF that] chg.keeps_helper_data] .
  have 3: "keeps same_id (on_ct (nf_ct_try_assign_helper C))"
    by (intro keep_intros assign_keeps)
  show ?thesis
    using 3
    by (auto simp: keeps_def create_helper_def call_def is_event_def Let_def intro!: 1 2
        split: option.splits prod.splits sum.splits)
qed

lemma keeps_create_setup: "keeps same_conn (create_setup C cda ta)"
  unfolding create_setup_def
  by (rule keeps_run_conn)
    (auto intro!: keeps_setup_nat keeps_weaken keep_intros keeps_create_helper acct_keeps tstamp_keeps
      ecache_keeps label_keeps seqadj_keeps synproxy_keeps set_timeout_keeps
      chg.keeps_change_status chg.keeps_change_seq_adj chg.keeps_change_protoinfo
      chg.keeps_change_synproxy chg.keeps_change_mark)

text \<open>The master: found, with one reference more on it, or nothing changed.\<close>

lemma create_master_cases:
  assumes "ct_master ct = None"
  shows "case create_master C T net zone cda u3 ct st of
      (Inl e, st1) \<Rightarrow> st1 = st
    | (Inr ct1, st1) \<Rightarrow> st1 = hold st (ct_master ct1) \<and> (\<forall>m. ct_master ct1 = Some m \<longrightarrow> st m \<noteq> None) \<and>
        (ct_master ct1 = None \<longleftrightarrow> cda CTA_TUPLE_MASTER = None) \<and>
        same_id ct (ct1\<lparr>ct_master := None\<rparr>) \<and>
        (has_flag (ct_status ct1) IPS_EXPECTED \<longleftrightarrow>
          has_flag (ct_status ct) IPS_EXPECTED \<or> cda CTA_TUPLE_MASTER \<noteq> None)"
proof -
  have flag: "has_flag (x OR 1) 1" for x
    by (simp add: has_flag_def bit_eq_iff bit_simps) (rule exI [of _ 0], simp)
  show ?thesis
    using assms flag
    by (auto simp: create_master_def same_id_def same_conn_def dest: find_none find_some
        split: option.splits prod.splits sum.splits)
qed

lemma start_stamp_fields [simp]:
  "same_id ct (start_stamp now ct)" "ct_master (start_stamp now ct) = ct_master ct"
  "ct_status (start_stamp now ct) = ct_status ct"
  by (simp_all add: start_stamp_def)

lemma create_conntrack_cases:
  assumes q: "quiet T (k_ct k)"
    and fresh: "\<And>p ct. nf_conntrack_alloc C net zone ot rt = Some (p, ct) \<Longrightarrow> k_ct k p = None"
    and c: "ctnetlink_create_conntrack C T net zone cda ot rt u3 k = (r, k', calls)"
  shows "filter is_event calls = [] \<and>
    (case r of
       Inl e \<Rightarrow> k' = k
     | Inr p \<Rightarrow> created cda net zone ot 2 k p k')"
proof (cases "nf_conntrack_alloc C net zone ot rt")
  case None
  then show ?thesis using c by (auto simp: ctnetlink_create_conntrack_def)
next
  case (Some pc)
  then obtain p ct0 where al: "nf_conntrack_alloc C net zone ot rt = Some (p, ct0)"
    by (cases pc) auto
  show ?thesis
  proof (cases "cda CTA_TIMEOUT")
    case None
    then show ?thesis using c al by (auto simp: ctnetlink_create_conntrack_def)
  next
    case (Some ta)
    obtain r1 s where su: "create_setup C cda ta \<lparr>c_ct = ct0, c_calls = []\<rparr> = (r1, s)"
      by (cases "create_setup C cda ta \<lparr>c_ct = ct0, c_calls = []\<rparr>")
    have s: "same_conn ct0 (c_ct s)" "filter is_event (c_calls s) = []"
      using keeps_create_setup [of cda ta] su unfolding keeps_def
      by (metis chg.select_convs(1) snd_conv, metis chg.select_convs(2) snd_conv filter.simps(1))
    obtain r2 st1 where ma: "create_master C T net zone cda u3 (c_ct s) (k_ct k) = (r2, st1)"
      by (cases "create_master C T net zone cda u3 (c_ct s) (k_ct k)")
    have m0: "ct_master (c_ct s) = None" using s(1) alloc [OF al] by (simp add: same_conn_def)
    note m = create_master_cases [where net = net and zone = zone and cda = cda and ?u3.0 = u3 and st = "k_ct k",
        OF m0, unfolded ma]
    show ?thesis
    proof (cases "r1 = Inr () \<and> (\<exists>ct1. r2 = Inr ct1)")
      case False
      then show ?thesis
        using c al Some su ma m s(2)
        by (auto simp: ctnetlink_create_conntrack_def split: sum.splits)
    next
      case True
      then obtain ct1 where r: "r1 = Inr ()" "r2 = Inr ct1" by blast
      let ?ct2 = "start_stamp (ktime_get_real_ns C) ct1"
      note m' = m [unfolded r, simplified]
      have id2: "tuple_orig ?ct2 = ot" "ct_zone ?ct2 = zone" "ct_net ?ct2 = net"
        using m' s(1) alloc [OF al] by (simp_all add: same_id_def same_conn_def start_stamp_def)
      have fr: "k_ct (k\<lparr>k_ct := st1\<rparr>) p = None" using m' fresh [OF al] by simp
      show ?thesis
      proof (cases "nf_conntrack_hash_check_insert C (k\<lparr>k_ct := st1\<rparr>) p ?ct2")
        case (Inr k2)
        then have "r = Inr p" "k' = k2" "calls = c_calls s"
          using c al Some su ma r by (simp_all add: ctnetlink_create_conntrack_def)
        then show ?thesis
          using insert [OF Inr fr] m' id2 s(2) fresh [OF al] unfolding created_def
          by (auto intro!: exI [of _ "?ct2\<lparr>ct_use := 2\<rparr>"])
      next
        case (Inl e)
        have "(case ct_master ?ct2 of None \<Rightarrow> k\<lparr>k_ct := st1\<rparr> | Some m \<Rightarrow> drop_ref T m (k\<lparr>k_ct := st1\<rparr>)) = k"
          using m' drop_ref_hold [OF q] by (auto split: option.splits)
        then show ?thesis
          using Inl c al Some su ma r s(2) by (auto simp: ctnetlink_create_conntrack_def)
      qed
    qed
  qed
qed

lemma after_create_cases:
  assumes cr: "created cda' net zone ot 2 k p k1"
    and a: "after_create C T info cda p k1 calls = (r, k', calls')"
  shows "r = Inr () \<and> created cda' net zone ot 1 k p k' \<and>
    (\<exists>m ct. k_ct k' p = Some ct \<and>
       filter is_event calls' =
         filter is_event calls @ [Event_report m p (info_portid info) (info_report info)] \<and>
       m AND (IPCT_NEW_BIT OR IPCT_RELATED_BIT) =
         (if has_flag (ct_status ct) IPS_EXPECTED then IPCT_RELATED_BIT else IPCT_NEW_BIT))"
proof -
  from cr obtain ct where ct: "k_ct k p = None" "k_ct k1 = (hold (k_ct k) (ct_master ct))(p \<mapsto> ct)"
      "ct_use ct = 2" "tuple_orig ct = ot" "ct_zone ct = zone" "ct_net ct = net"
      "ct_master ct = None \<longleftrightarrow> cda' CTA_TUPLE_MASTER = None"
      "cda' CTA_TUPLE_MASTER \<noteq> None \<longrightarrow> has_flag (ct_status ct) IPS_EXPECTED"
      "mset (concat (k_ht k1)) = mset (concat (k_ht k)) + {#(p, 0), (p, 1)#}"
    unfolding created_def by (elim exE conjE) (rule that)
  define s0 where "s0 = \<lparr>c_ct = ct, c_calls = calls\<rparr>"
  define lab where "lab = (if cda CTA_LABELS = None then (Inl EFAIL, s0) else ctnetlink_attach_labels C cda s0)"
  obtain r1 s where l: "lab = (r1, s)" by (cases lab)
  have "same_id (c_ct s0) (c_ct (snd lab)) \<and>
      filter is_event (c_calls (snd lab)) = filter is_event (c_calls s0) \<and>
      ct_status (c_ct (snd lab)) = ct_status (c_ct s0)"
    using chg.keeps_attach_labels [of cda] chg.attach_labels_status [of cda s0]
    by (simp add: lab_def keeps_def)
  then have s: "same_id ct (c_ct s)" "ct_status (c_ct s) = ct_status ct"
      "filter is_event (c_calls s) = filter is_event calls" unfolding l s0_def by simp_all
  let ?ev = "if has_flag (ct_status ct) IPS_EXPECTED then IPCT_RELATED_BIT else IPCT_NEW_BIT"
  let ?m = "change_events OR (if r1 = Inr () then ?ev OR IPCT_LABEL_BIT else ?ev)"
  have out: "r = Inr ()" "k' = drop_ref T p (k1\<lparr>k_ct := (k_ct k1)(p \<mapsto> c_ct s)\<rparr>)"
      "calls' = c_calls s @ [Event_report ?m p (info_portid info) (info_report info)]"
    using a ct(2) l unfolding after_create_def lab_def s0_def by (auto simp: Let_def)
  let ?ct' = "(c_ct s)\<lparr>ct_use := 1\<rparr>"
  have "ct_use (c_ct s) = 2" using s(1) ct(3) by (simp add: same_id_def same_conn_def)
  then have k': "k' = k1\<lparr>k_ct := (k_ct k1)(p \<mapsto> ?ct')\<rparr>"
    unfolding out(2) drop_ref_def
    using put [of "(k_ct k1)(p \<mapsto> c_ct s)" p "c_ct s"] by simp
  have "created cda' net zone ot 1 k p k'"
    using ct s(1,2) unfolding created_def k'
    by (intro exI [of _ ?ct']) (simp add: same_id_def same_conn_def)
  moreover have "?m AND (IPCT_NEW_BIT OR IPCT_RELATED_BIT) = ?ev"
    by (simp add: change_events_def)
  moreover have "k_ct k' p = Some ?ct'" by (simp add: k')
  moreover have "filter is_event calls' =
      filter is_event calls @ [Event_report ?m p (info_portid info) (info_report info)]"
    unfolding out(3) using s(3) by (simp add: is_event_def)
  ultimately show ?thesis
    using out(1) s(2) by (intro conjI exI [of _ ?m] exI [of _ ?ct']) simp_all
qed

lemma create_request_cases:
  assumes q: "quiet T (k_ct k)"
    and fresh: "case nf_conntrack_alloc C (info_net info) zone ot rt of None \<Rightarrow> True
      | Some (p, ct) \<Rightarrow> k_ct k p = None"
    and t: "new_tuples C cda (nfgen_family info) = Inr (Some ot, Some rt, zone)"
    and f: "fst (nf_conntrack_find_get T (k_ct k) (info_net info) zone ot) = None"
    and fl: "nlmsg_flags info AND NLM_F_CREATE \<noteq> 0"
    and n: "ctnetlink_new_conntrack C T info cda k = (r, k', calls)"
  shows "case r of
      Inl e \<Rightarrow> k' = k \<and> filter is_event calls = []
    | Inr _ \<Rightarrow> dst_protonum ot = dst_protonum rt \<and> (\<exists>p ct m. created cda (info_net info) zone ot 1 k p k' \<and>
        k_ct k' p = Some ct \<and>
        filter is_event calls = [Event_report m p (info_portid info) (info_report info)] \<and>
        m AND (IPCT_NEW_BIT OR IPCT_RELATED_BIT) =
          (if has_flag (ct_status ct) IPS_EXPECTED then IPCT_RELATED_BIT else IPCT_NEW_BIT))"
proof -
  obtain st1 where "nf_conntrack_find_get T (k_ct k) (info_net info) zone ot = (None, st1)"
    using f by (metis prod.collapse)
  with find_none have fi: "new_find T (info_net info) zone (Some ot) (Some rt) (k_ct k) = (None, k_ct k)"
    by (auto simp: new_find_def)
  obtain r1 k1 c1 where c: "ctnetlink_create_conntrack C T (info_net info) zone cda ot rt
      (nfgen_family info) k = (r1, k1, c1)"
    by (cases "ctnetlink_create_conntrack C T (info_net info) zone cda ot rt (nfgen_family info) k")
  have "k_ct k p = None" if "nf_conntrack_alloc C (info_net info) zone ot rt = Some (p, ct)" for p ct
    using fresh that by simp
  note cc = create_conntrack_cases [OF q this c]
  show ?thesis
  proof (cases "dst_protonum ot = dst_protonum rt")
    case False
    then show ?thesis using n t fi fl by (auto simp: ctnetlink_new_conntrack_def)
  next
    case True
    show ?thesis
    proof (cases r1)
      case (Inl e)
      then show ?thesis using n t fi fl c cc True by (auto simp: ctnetlink_new_conntrack_def)
    next
      case (Inr p)
      then have a: "after_create C T info cda p k1 c1 = (r, k', calls)"
        using n t fi fl c True by (simp add: ctnetlink_new_conntrack_def)
      from cc Inr have "created cda (info_net info) zone ot 2 k p k1" "filter is_event c1 = []" by auto
      with after_create_cases [OF this(1) a] obtain m ct where "r = Inr ()"
          "created cda (info_net info) zone ot 1 k p k'" "k_ct k' p = Some ct"
          "filter is_event calls = [Event_report m p (info_portid info) (info_report info)]"
          "m AND (IPCT_NEW_BIT OR IPCT_RELATED_BIT) =
            (if has_flag (ct_status ct) IPS_EXPECTED then IPCT_RELATED_BIT else IPCT_NEW_BIT)"
        by auto
      with True show ?thesis
        by (simp only: sum.case) (intro conjI exI [of _ p] exI [of _ ct] exI [of _ m], simp_all)
    qed
  qed
qed

lemma update_request_cases:
  assumes q: "quiet T (k_ct k)"
    and t: "new_tuples C cda (nfgen_family info) = Inr (ot, rt, zone)"
    and f: "fst (new_find T (info_net info) zone ot rt (k_ct k)) = Some p"
    and n: "ctnetlink_new_conntrack C T info cda k = (r, k', calls)"
  shows "\<exists>ct ct'. k_ct k p = Some ct \<and> k' = k\<lparr>k_ct := (k_ct k)(p \<mapsto> ct')\<rparr> \<and> same_id ct ct' \<and>
    filter is_event calls =
      (if r = Inr () then [Event_report (change_events OR IPCT_LABEL_BIT) p (info_portid info)
         (info_report info)] else []) \<and>
    (nlmsg_flags info AND NLM_F_EXCL \<noteq> 0 \<longrightarrow> r = Inl EEXIST \<and> ct' = ct) \<and>
    (nlmsg_flags info AND NLM_F_EXCL = 0 \<and>
       (cda CTA_NAT_SRC \<noteq> None \<or> cda CTA_NAT_DST \<noteq> None \<or> cda CTA_TUPLE_MASTER \<noteq> None) \<longrightarrow>
     r = Inl EOPNOTSUPP \<and> ct' = ct)"
proof -
  obtain st1 where fi: "new_find T (info_net info) zone ot rt (k_ct k) = (Some p, st1)"
    using f by (metis prod.collapse)
  then have "\<exists>t. nf_conntrack_find_get T (k_ct k) (info_net info) zone t = (Some p, st1)"
    by (auto simp: new_find_def split: option.splits)
  with find_some obtain ct where ct: "k_ct k p = Some ct" and st1: "st1 = hold (k_ct k) (Some p)"
    by blast
  have use: "0 < ct_use ct" using q ct by (auto simp: quiet_def)
  let ?ct = "ct\<lparr>ct_use := Suc (ct_use ct)\<rparr>"
  have s1: "st1 p = Some ?ct" using ct by (simp add: st1 hold_apply)
  have idem: "(k_ct k)(p \<mapsto> ct) = k_ct k" using ct by auto
  show ?thesis
  proof (cases "nlmsg_flags info AND NLM_F_EXCL = 0")
    case False
    have "drop_ref T p (k\<lparr>k_ct := st1\<rparr>) = k" using drop_ref_hold [OF q] ct by (simp add: st1)
    then show ?thesis
      using False n t fi s1 ct idem by (auto simp: ctnetlink_new_conntrack_def)
  next
    case True
    obtain r1 s where c: "ctnetlink_change_conntrack C cda \<lparr>c_ct = ?ct, c_calls = []\<rparr> = (r1, s)"
      by (cases "ctnetlink_change_conntrack C cda \<lparr>c_ct = ?ct, c_calls = []\<rparr>")
    have s: "same_id ?ct (c_ct s)" "filter is_event (c_calls s) = []"
      using chg.keeps_change_conntrack [of cda] c unfolding keeps_def
      by (metis chg.select_convs(1) snd_conv, metis chg.select_convs(2) snd_conv filter.simps(1))
    have out: "r = r1" "k' = drop_ref T p (k\<lparr>k_ct := st1(p \<mapsto> c_ct s)\<rparr>)"
      "filter is_event calls = (if r = Inr () then [Event_report (change_events OR IPCT_LABEL_BIT) p
         (info_portid info) (info_report info)] else [])"
      using True n t fi s1 c s(2)
      by (auto simp: ctnetlink_new_conntrack_def Let_def is_event_def split: sum.splits)
    let ?ct' = "(c_ct s)\<lparr>ct_use := ct_use ct\<rparr>"
    have "ct_use (c_ct s) = Suc (ct_use ct)" using s(1) by (simp add: same_id_def same_conn_def)
    then have "k' = k\<lparr>k_ct := st1(p \<mapsto> ?ct')\<rparr>"
      unfolding out(2) drop_ref_def using put [of "st1(p \<mapsto> c_ct s)" p "c_ct s"] use by simp
    moreover have "st1(p \<mapsto> ?ct') = (k_ct k)(p \<mapsto> ?ct')"
      by (auto simp: st1 hold_apply fun_eq_iff)
    moreover have "same_id ct ?ct'" using s(1) by (simp add: same_id_def same_conn_def)
    moreover have "r = Inl EOPNOTSUPP \<and> ?ct' = ct"
      if "cda CTA_NAT_SRC \<noteq> None \<or> cda CTA_NAT_DST \<noteq> None \<or> cda CTA_TUPLE_MASTER \<noteq> None"
      using that c out(1) by (auto simp: ctnetlink_change_conntrack_def)
    ultimately show ?thesis using ct out(3) True by (intro exI [of _ ct] exI [of _ ?ct']) simp
  qed
qed

end

section \<open>Reading back what a dump wrote\<close>

definition restore_attrs :: "nf_conn \<Rightarrow> nlattr list" where
  "restore_attrs ct = mark_attrs ct True @ seqadj_attrs ct @ synproxy_attrs ct"

lemma child_restore:
  "child (restore_attrs ct) CTA_MARK = Some (Leaf CTA_MARK (V_be32 (htonl (ct_mark ct))))"
  "child (restore_attrs ct) CTA_SEQ_ADJ_ORIG =
     (if has_flag (ct_status ct) IPS_SEQ_ADJUST
      then map_option (\<lambda>(q0, q1). seq_attr CTA_SEQ_ADJ_ORIG q0) (ext_seqadj ct) else None)"
  "child (restore_attrs ct) CTA_SEQ_ADJ_REPLY =
     (if has_flag (ct_status ct) IPS_SEQ_ADJUST
      then map_option (\<lambda>(q0, q1). seq_attr CTA_SEQ_ADJ_REPLY q1) (ext_seqadj ct) else None)"
  "child (restore_attrs ct) CTA_SYNPROXY =
     map_option (\<lambda>y. Nest CTA_SYNPROXY
          [Leaf CTA_SYNPROXY_ISN (V_be32 (htonl (sp_isn y))),
           Leaf CTA_SYNPROXY_ITS (V_be32 (htonl (sp_its y))),
           Leaf CTA_SYNPROXY_TSOFF (V_be32 (htonl (sp_tsoff y)))]) (ext_synproxy ct)"
  "i \<notin> {CTA_MARK, CTA_SEQ_ADJ_ORIG, CTA_SEQ_ADJ_REPLY, CTA_SYNPROXY} \<Longrightarrow>
   child (restore_attrs ct) i = None"
  by (auto simp: restore_attrs_def mark_attrs_def seqadj_attrs_def synproxy_attrs_def child_append
      seq_attr_def split: option.splits)

context nl_reader_laws
begin

text \<open>The three words of a nest, as \<open>change_seq_adj\<close> and \<open>ctnetlink_change_synproxy\<close> read them.\<close>

lemma parse_words:
  assumes "reads x (Nest t [Leaf 1 (V_be32 a), Leaf 2 (V_be32 b), Leaf 3 (V_be32 c)])"
    and "\<forall>i\<in>{1,2,3}. map_of pol i = Some (NLA_U32, 0)"
  shows "\<exists>tb x1 x2 x3. nla_parse_nested_deprecated R 3 x pol = Inr tb \<and>
    tb 1 = Some x1 \<and> nla_get_be32 R x1 = a \<and> tb 2 = Some x2 \<and> nla_get_be32 R x2 = b \<and>
    tb 3 = Some x3 \<and> nla_get_be32 R x3 = c"
proof -
  have "\<forall>a\<in>set [Leaf 1 (V_be32 a), Leaf 2 (V_be32 b), Leaf 3 (V_be32 c)]. policy_ok pol a"
    using assms(2) by (simp add: policy_ok_def)
  from parse [OF assms(1) this, of 3] obtain tb where tb: "nla_parse_nested_deprecated R 3 x pol = Inr tb"
    "table_of reads 3 tb [Leaf 1 (V_be32 a), Leaf 2 (V_be32 b), Leaf 3 (V_be32 c)]" by blast
  note e = table_ofD [OF tb(2)]
  obtain x1 where "tb 1 = Some x1" "reads x1 (Leaf 1 (V_be32 a))"
    using e [of 1] rel_SomeD by fastforce
  moreover obtain x2 where "tb 2 = Some x2" "reads x2 (Leaf 2 (V_be32 b))"
    using e [of 2] rel_SomeD by fastforce
  moreover obtain x3 where "tb 3 = Some x3" "reads x3 (Leaf 3 (V_be32 c))"
    using e [of 3] rel_SomeD by fastforce
  ultimately show ?thesis using tb(1) get_be32 by blast
qed

lemma change_seq_adj_reads:
  assumes "reads x (seq_attr n q)"
  shows "change_seq_adj R x q0 = (Inr (), q)"
  using parse_words [OF assms [unfolded seq_attr_def], of seqadj_policy]
  by (auto simp: change_seq_adj_def seqadj_policy_def seq_field_def)

end

text \<open>A connection with what another one's dump said of mark, sequence adjustment and SYN proxy.\<close>

definition restored :: "nf_conn \<Rightarrow> nf_conn \<Rightarrow> nf_conn" where
  "restored ct ct0 =
     (let adj = has_flag (ct_status ct) IPS_SEQ_ADJUST \<and> ext_seqadj ct \<noteq> None in
      ct0\<lparr>ct_mark := ct_mark ct,
          ext_seqadj := if adj then ext_seqadj ct else ext_seqadj ct0,
          ct_status := if adj then ct_status ct0 OR IPS_SEQ_ADJUST else ct_status ct0,
          ext_synproxy := ext_synproxy ct\<rparr>)"

context chg_laws
begin

lemma change_mark_reads:
  assumes "cda CTA_MARK = Some x" "cda CTA_MARK_MASK = None" "nla_get_be32 C x = htonl m"
  shows "ctnetlink_change_mark C cda s = (Inr (), s\<lparr>c_ct := (c_ct s)\<lparr>ct_mark := m\<rparr>\<rparr>)"
  using assms by (simp add: ctnetlink_change_mark_def need_def new_mark_def Let_def)

lemma change_seq_reads:
  assumes "cda CTA_SEQ_ADJ_ORIG = Some x0" "reads x0 (seq_attr CTA_SEQ_ADJ_ORIG q0)"
    "cda CTA_SEQ_ADJ_REPLY = Some x1" "reads x1 (seq_attr CTA_SEQ_ADJ_REPLY q1)"
    "ext_seqadj (c_ct s) \<noteq> None"
  shows "ctnetlink_change_seq_adj C cda s = (Inr (), s\<lparr>c_ct := (c_ct s)\<lparr>ext_seqadj := Some (q0, q1),
    ct_status := ct_status (c_ct s) OR IPS_SEQ_ADJUST\<rparr>\<rparr>)"
  using assms change_seq_adj_reads [OF assms(2)] change_seq_adj_reads [OF assms(4)]
  by (auto simp: ctnetlink_change_seq_adj_def seq_dir_def Let_def or.assoc)

lemma change_synproxy_reads:
  assumes "cda CTA_SYNPROXY = Some x"
    "reads x (Nest CTA_SYNPROXY [Leaf CTA_SYNPROXY_ISN (V_be32 (htonl (sp_isn y))),
       Leaf CTA_SYNPROXY_ITS (V_be32 (htonl (sp_its y))),
       Leaf CTA_SYNPROXY_TSOFF (V_be32 (htonl (sp_tsoff y)))])"
    "ext_synproxy (c_ct s) \<noteq> None"
  shows "ctnetlink_change_synproxy C cda s = (Inr (), s\<lparr>c_ct := (c_ct s)\<lparr>ext_synproxy := Some y\<rparr>\<rparr>)"
  using assms(1,3) parse_words [OF assms(2), of synproxy_policy]
  by (auto simp: ctnetlink_change_synproxy_def synproxy_policy_def need_def)

lemma seqadj_restores:
  assumes tb: "table_of reads CTA_MAX cda (restore_attrs ct)"
    and "ext_seqadj (c_ct s) = None \<longleftrightarrow> ext_seqadj ct = None"
    and adj: "adj \<longleftrightarrow> has_flag (ct_status ct) IPS_SEQ_ADJUST \<and> ext_seqadj ct \<noteq> None"
  shows "act_when (cda CTA_SEQ_ADJ_ORIG \<noteq> None \<or> cda CTA_SEQ_ADJ_REPLY \<noteq> None)
      (ctnetlink_change_seq_adj C cda) s =
    (Inr (), if adj then s\<lparr>c_ct := (c_ct s)\<lparr>ext_seqadj := ext_seqadj ct,
      ct_status := ct_status (c_ct s) OR IPS_SEQ_ADJUST\<rparr>\<rparr> else s)"
proof -
  note e = table_ofD [OF tb]
  show ?thesis
  proof (cases adj)
    case True
    then obtain q0 q1 where q: "has_flag (ct_status ct) IPS_SEQ_ADJUST" "ext_seqadj ct = Some (q0, q1)"
      using adj by auto
    obtain x0 where x0: "cda CTA_SEQ_ADJ_ORIG = Some x0" "reads x0 (seq_attr CTA_SEQ_ADJ_ORIG q0)"
      using e [of CTA_SEQ_ADJ_ORIG] q rel_SomeD unfolding child_restore by fastforce
    obtain x1 where x1: "cda CTA_SEQ_ADJ_REPLY = Some x1" "reads x1 (seq_attr CTA_SEQ_ADJ_REPLY q1)"
      using e [of CTA_SEQ_ADJ_REPLY] q rel_SomeD unfolding child_restore by fastforce
    show ?thesis
      using change_seq_reads [OF x0 x1, of s] True q assms(2) x0 by (simp add: act_when_def)
  next
    case False
    then have "child (restore_attrs ct) CTA_SEQ_ADJ_ORIG = None"
        "child (restore_attrs ct) CTA_SEQ_ADJ_REPLY = None"
      using adj unfolding child_restore by (cases "ext_seqadj ct"; simp)+
    with e [of CTA_SEQ_ADJ_ORIG] e [of CTA_SEQ_ADJ_REPLY]
    have "cda CTA_SEQ_ADJ_ORIG = None" "cda CTA_SEQ_ADJ_REPLY = None" by (simp_all add: rel_NoneD)
    with False show ?thesis by (simp add: act_when_def)
  qed
qed

lemma synproxy_restores:
  assumes tb: "table_of reads CTA_MAX cda (restore_attrs ct)"
    and "ext_synproxy (c_ct s) = None \<longleftrightarrow> ext_synproxy ct = None"
  shows "act_when (cda CTA_SYNPROXY \<noteq> None) (ctnetlink_change_synproxy C cda) s =
    (Inr (), s\<lparr>c_ct := (c_ct s)\<lparr>ext_synproxy := ext_synproxy ct\<rparr>\<rparr>)"
proof -
  note e = table_ofD [OF tb]
  show ?thesis
  proof (cases "ext_synproxy ct")
    case None
    then have "child (restore_attrs ct) CTA_SYNPROXY = None" by (simp add: child_restore)
    with e [of CTA_SYNPROXY] have "cda CTA_SYNPROXY = None" by (simp add: rel_NoneD)
    with None assms(2) show ?thesis by (simp add: act_when_def)
  next
    case (Some y)
    then obtain x where "cda CTA_SYNPROXY = Some x"
      "reads x (Nest CTA_SYNPROXY [Leaf CTA_SYNPROXY_ISN (V_be32 (htonl (sp_isn y))),
         Leaf CTA_SYNPROXY_ITS (V_be32 (htonl (sp_its y))),
         Leaf CTA_SYNPROXY_TSOFF (V_be32 (htonl (sp_tsoff y)))])"
      using e [of CTA_SYNPROXY] rel_SomeD unfolding child_restore by fastforce
    from change_synproxy_reads [where cda = cda and s = s, OF this] this(1) Some assms(2)
    show ?thesis by (simp add: act_when_def)
  qed
qed

lemma change_restores:
  assumes tb: "table_of reads CTA_MAX cda (restore_attrs ct)"
    and ext: "ext_seqadj ct0 = None \<longleftrightarrow> ext_seqadj ct = None"
      "ext_synproxy ct0 = None \<longleftrightarrow> ext_synproxy ct = None"
  shows "ctnetlink_change_conntrack C cda \<lparr>c_ct = ct0, c_calls = cs\<rparr> =
    (Inr (), \<lparr>c_ct = restored ct ct0, c_calls = cs\<rparr>)"
proof -
  note e = table_ofD [OF tb]
  have gone: "cda i = None" if "child (restore_attrs ct) i = None" "0 < i" "i \<le> CTA_MAX" for i
    using e [OF that(2,3)] unfolding that(1) by (rule rel_NoneD)
  have none: "cda i = None"
    if "0 < i" "i \<le> CTA_MAX" "i \<notin> {CTA_MARK, CTA_SEQ_ADJ_ORIG, CTA_SEQ_ADJ_REPLY, CTA_SYNPROXY}" for i
    by (rule gone [OF child_restore(5) [OF that(3)] that(1,2)])
  have n: "cda CTA_NAT_SRC = None" "cda CTA_NAT_DST = None" "cda CTA_TUPLE_MASTER = None"
    "cda CTA_HELP = None" "cda CTA_TIMEOUT = None" "cda CTA_STATUS = None" "cda CTA_PROTOINFO = None"
    "cda CTA_LABELS = None" "cda CTA_MARK_MASK = None"
    by (rule none; simp)+
  obtain xm where m: "cda CTA_MARK = Some xm" "nla_get_be32 C xm = htonl (ct_mark ct)"
    using e [of CTA_MARK] rel_SomeD get_be32 unfolding child_restore by fastforce
  note mark = change_mark_reads [OF m(1) n(9) m(2)]
  let ?adj = "has_flag (ct_status ct) IPS_SEQ_ADJUST \<and> ext_seqadj ct \<noteq> None"
  let ?s1 = "\<lparr>c_ct = ct0\<lparr>ct_mark := ct_mark ct\<rparr>, c_calls = cs\<rparr>"
  let ?s2 = "if ?adj then ?s1\<lparr>c_ct := (c_ct ?s1)\<lparr>ext_seqadj := ext_seqadj ct,
      ct_status := ct_status (c_ct ?s1) OR IPS_SEQ_ADJUST\<rparr>\<rparr> else ?s1"
  have seq: "act_when (cda CTA_SEQ_ADJ_ORIG \<noteq> None \<or> cda CTA_SEQ_ADJ_REPLY \<noteq> None)
      (ctnetlink_change_seq_adj C cda) ?s1 = (Inr (), ?s2)"
    by (rule seqadj_restores [OF tb _ refl]) (simp add: ext(1))
  have syn: "act_when (cda CTA_SYNPROXY \<noteq> None) (ctnetlink_change_synproxy C cda) ?s2 =
      (Inr (), \<lparr>c_ct = restored ct ct0, c_calls = cs\<rparr>)"
  proof -
    have "ext_synproxy (c_ct ?s2) = None \<longleftrightarrow> ext_synproxy ct = None" using ext(2) by simp
    moreover have "?s2\<lparr>c_ct := (c_ct ?s2)\<lparr>ext_synproxy := ext_synproxy ct\<rparr>\<rparr> =
        \<lparr>c_ct = restored ct ct0, c_calls = cs\<rparr>"
      by (cases ?adj) (simp_all only: restored_def Let_def if_True if_False simp_thms
        chg.update_convs chg.select_convs, (cases ct0, simp)+)
    ultimately show ?thesis using synproxy_restores [OF tb, of ?s2] by (simp only:)
  qed
  have skip: "act_when False a s = (Inr (), s)" "act_when True a s = a s" for a and s :: chg
    by (simp_all add: act_when_def)
  have nn: "(cda CTA_MARK \<noteq> None) = True" using m(1) by simp
  show ?thesis
    unfolding ctnetlink_change_conntrack_def n nn
    by (simp only: run_acts.simps skip mark chg.update_convs chg.select_convs seq
        syn [unfolded chg.update_convs chg.select_convs] prod.case
        sum.case simp_thms if_False)
qed

end

section \<open>A reference environment\<close>

text \<open>The status check of the kernel: some bits may not change, some only be set.\<close>

definition plain_status :: "u32 \<Rightarrow> ct_fn" where
  "plain_status status ct =
     (let d = ct_status ct XOR ucast status in
      if d AND 0x209 \<noteq> 0 then (Inl EBUSY, ct)
      else if d AND IPS_SEEN_REPLY \<noteq> 0 \<and> status AND 2 = 0 then (Inl EBUSY, ct)
      else if d AND IPS_ASSURED \<noteq> 0 \<and> status AND 4 = 0 then (Inl EBUSY, ct)
      else (Inr (), ct\<lparr>ct_status := ct_status ct OR (ucast status AND 6)\<rparr>))"

definition plain_tcp :: "nlattr attr_table \<Rightarrow> ct_fn" where
  "plain_tcp tb ct =
     (case tb CTA_PROTOINFO_TCP of
        Some (Nest _ [Leaf _ (V_u8 b)]) \<Rightarrow> (Inr (), ct\<lparr>ct_proto := (ct_proto ct)\<lparr>tcp_state := b\<rparr>\<rparr>)
      | _ \<Rightarrow> (Inl EINVAL, ct))"

definition plain_alloc ::
  "nat \<Rightarrow> nf_conntrack_zone \<Rightarrow> nf_conntrack_tuple \<Rightarrow> nf_conntrack_tuple \<Rightarrow> (nat \<times> nf_conn) option" where
  "plain_alloc net zone ot rt = Some (5, \<lparr>ct_use = 0, ct_timeout = 0, ct_zone = zone, tuple_orig = ot,
     tuple_reply = rt, ct_status = 0, ct_net = net, ct_master = None, ct_mark = 0, ct_secmark = 0,
     ct_proto = zero_proto, ext_help = None, ext_acct = None, ext_tstamp = None, ext_labels = None,
     ext_seqadj = None, ext_synproxy = None\<rparr>)"

definition plain_insert :: "ksys \<Rightarrow> nat \<Rightarrow> nf_conn \<Rightarrow> ksys res" where
  "plain_insert k p ct =
     (if (\<exists>ns\<in>set (k_ht k). \<exists>n\<in>set ns. case k_ct k (fst n) of None \<Rightarrow> False
          | Some c \<Rightarrow> tuple_orig c = tuple_orig ct \<and> zone_id (ct_zone c) = zone_id (ct_zone ct))
      then Inl EEXIST
      else Inr \<lparr>k_ht = [(p, 0), (p, 1)] # k_ht k, k_ct = (k_ct k)(p \<mapsto> ct\<lparr>ct_use := 2\<rparr>)\<rparr>)"

definition ref_new :: "nlattr new_env" where
  "ref_new = chg_env.extend
     (nl_reader.extend tree_reader
       (chg_env.fields (\<lambda>a. case a of Leaf _ (V_bin b) \<Rightarrow> b | _ \<Rightarrow> []) 1000 (\<lambda>_. False) None False
         (\<lambda>l. ''nf-nat-2'') plain_status (\<lambda>t ct. (Inr (), ct\<lparr>ct_timeout := ucast t\<rparr>))
         (\<lambda>p. if p = IPPROTO_TCP then Some plain_tcp else None) (\<lambda>n l p. None) (\<lambda>n l p. None)
         (\<lambda>q. None) (\<lambda>d m n ct. (Inl ENOSPC, ct))))
     (new_env.fields plain_alloc (\<lambda>ct. Some ct) (\<lambda>ct. (Inr (), ct)) id
       (\<lambda>ct. ct\<lparr>ext_tstamp := Some \<lparr>ts_start = 0, ts_stop = 0\<rparr>\<rparr>) id id id id
       (\<lambda>t ct. ct\<lparr>ct_timeout := ucast t\<rparr>) 9 plain_insert)"

lemmas ref_new_sel = ref_new_def nl_reader.defs chg_env.defs new_env.defs

lemma ref_new_reader: "nl_reader_laws ref_new (=) ref_attrs"
  using tree_rd.nl_reader_laws_axioms
  unfolding nl_reader_laws_def by (simp add: ref_new_sel)

interpretation ref_chg: chg_laws ref_new "(=)" ref_attrs
proof (rule chg_laws.intro [OF ref_new_reader], unfold_locales)
  fix p f ct tb
  assume "l4_from_nlattr ref_new p = Some f"
  then show "same_id ct (snd (f tb ct))"
    by (auto simp: ref_new_sel plain_tcp_def split: if_splits option.splits nlattr.splits list.splits
        nla_val.splits)
qed (auto simp: ref_new_sel plain_status_def Let_def same_id_def same_conn_def)

interpretation ref_create: new_laws ref_new "(=)" ref_tab buf_emits buf_grows b_room buf_msgs ref_attrs
  by (rule new_laws.intro [OF ref_chg.chg_laws_axioms ref_lookup.lookup_laws_axioms], unfold_locales)
    (auto simp: ref_new_sel plain_alloc_def plain_insert_def same_id_def same_conn_def split: if_splits)

section \<open>Properties\<close>

text \<open>
  C24. A request that names an existing connection changes this connection only and
  drops the lookup's reference again: tables, all other connections, and the connection's tuples,
  zone, namespace, master and reference count are as before, whatever attributes it has and
  whatever fails. With \<open>NLM_F_EXCL\<close> it is refused as a duplicate, with NAT or master attributes as
  unsupported, with nothing changed. Exactly the successful requests report an event, for this
  connection.
\<close>

theorem update_request:
  assumes "new_laws C reads T emits grows room msgs A" "quiet T (k_ct k)"
    and "new_tuples C cda (nfgen_family info) = Inr (ot, rt, zone)"
    and "fst (new_find T (info_net info) zone ot rt (k_ct k)) = Some p"
    and "ctnetlink_new_conntrack C T info cda k = (r, k', calls)"
  shows "\<exists>ct ct'. k_ct k p = Some ct \<and> k' = k\<lparr>k_ct := (k_ct k)(p \<mapsto> ct')\<rparr> \<and> same_id ct ct' \<and>
    filter is_event calls =
      (if r = Inr () then [Event_report (change_events OR IPCT_LABEL_BIT) p (info_portid info)
         (info_report info)] else []) \<and>
    (nlmsg_flags info AND NLM_F_EXCL \<noteq> 0 \<longrightarrow> r = Inl EEXIST \<and> ct' = ct) \<and>
    (nlmsg_flags info AND NLM_F_EXCL = 0 \<and>
       (cda CTA_NAT_SRC \<noteq> None \<or> cda CTA_NAT_DST \<noteq> None \<or> cda CTA_TUPLE_MASTER \<noteq> None) \<longrightarrow>
     r = Inl EOPNOTSUPP \<and> ct' = ct)"
  by (rule new_laws.update_request_cases [OF assms])

definition demo_change :: "nlattr attr_table" where
  "demo_change = demo_cda(CTA_MARK \<mapsto> Leaf CTA_MARK (V_be32 (htonl 8)))"

lemma demo_change_tuples:
  "new_tuples ref_new demo_change (nfgen_family demo_info) = Inr (Some sample_tuple, None,
     \<lparr>zone_id = 100, zone_flags = NF_CT_ZONE_DIR_ORIG, zone_dir = NF_CT_DEFAULT_ZONE_DIR\<rparr>)"
  "fst (new_find ref_tab (info_net demo_info)
     \<lparr>zone_id = 100, zone_flags = NF_CT_ZONE_DIR_ORIG, zone_dir = NF_CT_DEFAULT_ZONE_DIR\<rparr>
     (Some sample_tuple) None (k_ct demo_sys)) = Some 2"
  by code_simp+

theorem update_request_witness:
  "\<exists>k' calls. ctnetlink_new_conntrack ref_new ref_tab demo_info demo_change demo_sys = (Inr (), k', calls) \<and>
     map_option ct_mark (k_ct k' 2) = Some 8 \<and> k_ht k' = k_ht demo_sys \<and> k_ct k' 3 = k_ct demo_sys 3 \<and>
     filter is_event calls = [Event_report (change_events OR IPCT_LABEL_BIT) 2 5 False]"
proof -
  let ?r = "ctnetlink_new_conntrack ref_new ref_tab demo_info demo_change demo_sys"
  have ok: "fst ?r = Inr ()" "map_option ct_mark (k_ct (fst (snd ?r)) 2) = Some 8" by code_simp+
  have "info_portid demo_info = 5" "info_report demo_info = False" by (simp_all add: demo_info_def)
  with update_request [OF ref_create.new_laws_axioms demo_table_ok(1) demo_change_tuples,
      of "fst ?r" "fst (snd ?r)" "snd (snd ?r)"] ok
  show ?thesis by (intro exI [of _ "fst (snd ?r)"] exI [of _ "snd (snd ?r)"]) (auto simp: prod_eq_iff)
qed

text \<open>
  C25. A request that names no existing connection, with \<open>NLM_F_CREATE\<close> and both
  tuples: if it fails, at whatever step, tables, connections and reference counts are exactly as
  before and no event is reported; if it succeeds, exactly one connection was added, with the
  request's original tuple, zone and namespace, one node per direction and the table's reference
  only, its master (if the request names one) has one reference more, and one event announces it as
  new or as related.
\<close>

theorem create_request:
  assumes "new_laws C reads T emits grows room msgs A" "quiet T (k_ct k)"
    and "case nf_conntrack_alloc C (info_net info) zone ot rt of None \<Rightarrow> True
      | Some (p, ct) \<Rightarrow> k_ct k p = None"
    and "new_tuples C cda (nfgen_family info) = Inr (Some ot, Some rt, zone)"
    and "fst (nf_conntrack_find_get T (k_ct k) (info_net info) zone ot) = None"
    and "nlmsg_flags info AND NLM_F_CREATE \<noteq> 0"
    and "ctnetlink_new_conntrack C T info cda k = (r, k', calls)"
  shows "case r of
      Inl e \<Rightarrow> k' = k \<and> filter is_event calls = []
    | Inr _ \<Rightarrow> dst_protonum ot = dst_protonum rt \<and> (\<exists>p ct m. created cda (info_net info) zone ot 1 k p k' \<and>
        k_ct k' p = Some ct \<and>
        filter is_event calls = [Event_report m p (info_portid info) (info_report info)] \<and>
        m AND (IPCT_NEW_BIT OR IPCT_RELATED_BIT) =
          (if has_flag (ct_status ct) IPS_EXPECTED then IPCT_RELATED_BIT else IPCT_NEW_BIT))"
  by (rule new_laws.create_request_cases [OF assms])

text \<open>A connection on another port, expected by the sample connection.\<close>

definition demo_create :: "nlattr attr_table" where
  "demo_create = [
     CTA_TUPLE_ORIG \<mapsto> Nest CTA_TUPLE_ORIG (tuple_attrs ref_attrs (sample_tuple\<lparr>src_u := 7\<rparr>)),
     CTA_TUPLE_REPLY \<mapsto> Nest CTA_TUPLE_REPLY (tuple_attrs ref_attrs (sample_tuple\<lparr>dst_u := 7\<rparr>)),
     CTA_TUPLE_MASTER \<mapsto> Nest CTA_TUPLE_MASTER (tuple_attrs ref_attrs sample_tuple),
     CTA_TIMEOUT \<mapsto> Leaf CTA_TIMEOUT (V_be32 (htonl 60)),
     CTA_ZONE \<mapsto> Leaf CTA_ZONE (V_be16 (htons 100))]"

definition demo_zone :: nf_conntrack_zone where
  "demo_zone = \<lparr>zone_id = 100, zone_flags = NF_CT_ZONE_DIR_ORIG, zone_dir = NF_CT_DEFAULT_ZONE_DIR\<rparr>"

lemma demo_create_ok:
  "new_tuples ref_new demo_create (nfgen_family (demo_info\<lparr>nlmsg_flags := NLM_F_CREATE\<rparr>)) =
     Inr (Some (sample_tuple\<lparr>src_u := 7\<rparr>), Some (sample_tuple\<lparr>dst_u := 7, dst_dir := 1\<rparr>), demo_zone)"
  "fst (nf_conntrack_find_get ref_tab (k_ct demo_sys)
     (info_net (demo_info\<lparr>nlmsg_flags := NLM_F_CREATE\<rparr>)) demo_zone (sample_tuple\<lparr>src_u := 7\<rparr>)) = None"
  "nlmsg_flags (demo_info\<lparr>nlmsg_flags := NLM_F_CREATE\<rparr>) AND NLM_F_CREATE \<noteq> 0"
  by code_simp+

theorem create_request_witness:
  "\<exists>k' calls p. ctnetlink_new_conntrack ref_new ref_tab (demo_info\<lparr>nlmsg_flags := NLM_F_CREATE\<rparr>)
      demo_create demo_sys = (Inr (), k', calls) \<and>
     created demo_create 0 demo_zone (sample_tuple\<lparr>src_u := 7\<rparr>) 1 demo_sys p k' \<and>
     map_option ct_use (k_ct k' 2) = Some 2"
proof -
  let ?i = "demo_info\<lparr>nlmsg_flags := NLM_F_CREATE\<rparr>"
  let ?r = "ctnetlink_new_conntrack ref_new ref_tab ?i demo_create demo_sys"
  have ok: "fst ?r = Inr ()" "map_option ct_use (k_ct (fst (snd ?r)) 2) = Some 2" by code_simp+
  have net: "info_net ?i = 0" by (simp add: demo_info_def)
  have fr: "case nf_conntrack_alloc ref_new (info_net ?i) demo_zone (sample_tuple\<lparr>src_u := 7\<rparr>)
      (sample_tuple\<lparr>dst_u := 7, dst_dir := 1\<rparr>) of None \<Rightarrow> True | Some (p, ct) \<Rightarrow> k_ct demo_sys p = None"
    by (simp add: ref_new_sel plain_alloc_def demo_sys_def)
  have "?r = (fst ?r, fst (snd ?r), snd (snd ?r))" by simp
  from create_request [OF ref_create.new_laws_axioms demo_table_ok(1) fr demo_create_ok this]
  obtain p where "created demo_create 0 demo_zone (sample_tuple\<lparr>src_u := 7\<rparr>) 1 demo_sys p (fst (snd ?r))"
    unfolding net ok(1) by (simp only: sum.case) blast
  then show ?thesis using ok by (metis prod.collapse)
qed

text \<open>
  C26. Setting the mark changes no other field. Under the request's mask (all bits
  without one), bits inside the mask get the request's value and bits outside keep theirs, flipped
  where the value has a bit there; so when the value lies inside the mask, the new mark is the old
  one outside and the value inside, and a dump filter with the same value and mask accepts it.
\<close>

theorem mark_change_bits:
  assumes "cda CTA_MARK = Some a" "msk = mask_of C (cda CTA_MARK_MASK) 0xffffffff"
    and "v = ntohl (nla_get_be32 C a)"
  shows "\<exists>m. ctnetlink_change_mark C cda s = (Inr (), s\<lparr>c_ct := (c_ct s)\<lparr>ct_mark := m\<rparr>\<rparr>) \<and>
    (\<forall>n. bit m n \<longleftrightarrow> (if bit msk n then bit v n else bit (ct_mark (c_ct s)) n \<noteq> bit v n)) \<and>
    (v AND NOT msk = 0 \<longrightarrow>
       m = (ct_mark (c_ct s) AND NOT msk) OR v \<and> m AND msk = v)"
proof -
  let ?old = "ct_mark (c_ct s)"
  let ?m = "(?old AND NOT msk) XOR v"
  have "NOT (0xffffffff :: u32) = 0" by simp
  then have ones: "x AND NOT (0xffffffff :: u32) = 0" for x by (simp only: and_zero_eq)
  have "new_mark C cda a ?old = ?m"
    using assms(2,3) ones by (cases "cda CTA_MARK_MASK") (simp_all only: new_mark_def mask_of_def Let_def
        option.case and_zero_eq)
  then have 1: "ctnetlink_change_mark C cda s = (Inr (), s\<lparr>c_ct := (c_ct s)\<lparr>ct_mark := ?m\<rparr>\<rparr>)"
    using assms(1) by (auto simp: ctnetlink_change_mark_def need_def Let_def)
  have 2: "bit ?m n \<longleftrightarrow> (if bit msk n then bit v n else bit ?old n \<noteq> bit v n)" for n
    by (cases "n < LENGTH(32)") (auto simp: bit_simps dest: bit_imp_le_length)
  have 3: "?m = (?old AND NOT msk) OR v \<and> ?m AND msk = v" if "v AND NOT msk = 0"
  proof -
    have v: "bit v n \<Longrightarrow> bit msk n" if "n < LENGTH(32)" for n
      using arg_cong [OF \<open>v AND NOT msk = 0\<close>, of "\<lambda>w. bit w n"] that by (simp add: bit_simps)
    then have "\<And>n. n < LENGTH(32) \<Longrightarrow> bit ?m n = bit ((?old AND NOT msk) OR v) n"
        "\<And>n. n < LENGTH(32) \<Longrightarrow> bit (?m AND msk) n = bit v n"
      by (auto simp: bit_simps)
    then show ?thesis by (auto intro!: bit_word_eqI)
  qed
  show ?thesis using 1 2 3 by blast
qed

theorem mark_change_bits_witness:
  "\<exists>m. ctnetlink_change_mark ref_new
      [CTA_MARK \<mapsto> Leaf CTA_MARK (V_be32 (htonl 0x30)), CTA_MARK_MASK \<mapsto> Leaf CTA_MARK_MASK (V_be32 (htonl 0xf0))]
      \<lparr>c_ct = sample_ct, c_calls = []\<rparr> =
      (Inr (), \<lparr>c_ct = sample_ct\<lparr>ct_mark := m\<rparr>, c_calls = []\<rparr>) \<and> m = 0x31"
proof -
  let ?c = "[CTA_MARK \<mapsto> Leaf CTA_MARK (V_be32 (htonl 0x30)),
    CTA_MARK_MASK \<mapsto> Leaf CTA_MARK_MASK (V_be32 (htonl 0xf0))]"
  have g: "0xf0 = mask_of ref_new (?c CTA_MARK_MASK) 0xffffffff"
    "0x30 = ntohl (nla_get_be32 ref_new (Leaf CTA_MARK (V_be32 (htonl 0x30))))"
    by (simp_all add: mask_of_def ref_new_sel tree_reader_def)
  have o: "ct_mark sample_ct = 1" by (simp add: sample_ct_def)
  have "?c CTA_MARK = Some (Leaf CTA_MARK (V_be32 (htonl 0x30)))" by simp
  from mark_change_bits [where cda = ?c and s = "\<lparr>c_ct = sample_ct, c_calls = []\<rparr>", OF this g] o
  show ?thesis by auto
qed

text \<open>
  C27. What a dump wrote about mark, sequence adjustment and SYN proxy of a connection,
  sent back as a change of a connection with the same extension areas, sets exactly these to the
  dumped values: the change succeeds, the dumped adjustments also set the status bit that enables
  them, and every other field keeps its value.
\<close>

theorem dump_restore:
  assumes "chg_laws C reads A" "table_of reads CTA_MAX cda (restore_attrs ct)"
    and "ext_seqadj ct0 = None \<longleftrightarrow> ext_seqadj ct = None"
    and "ext_synproxy ct0 = None \<longleftrightarrow> ext_synproxy ct = None"
  shows "ctnetlink_change_conntrack C cda \<lparr>c_ct = ct0, c_calls = cs\<rparr> =
    (Inr (), \<lparr>c_ct = restored ct ct0, c_calls = cs\<rparr>)"
  by (rule chg_laws.change_restores [OF assms])

definition adjusted_ct :: nf_conn where
  "adjusted_ct = sample_ct\<lparr>ct_status := IPS_CONFIRMED OR IPS_SEQ_ADJUST, ct_mark := 3,
     ext_seqadj := Some (\<lparr>correction_pos = 1, offset_before = 2, offset_after = 3\<rparr>,
       \<lparr>correction_pos = 4, offset_before = 5, offset_after = 6\<rparr>),
     ext_synproxy := Some \<lparr>sp_isn = 7, sp_its = 8, sp_tsoff = 9\<rparr>\<rparr>"

definition blank_ct :: nf_conn where
  "blank_ct = sample_ct\<lparr>
     ext_seqadj := Some (\<lparr>correction_pos = 0, offset_before = 0, offset_after = 0\<rparr>,
       \<lparr>correction_pos = 0, offset_before = 0, offset_after = 0\<rparr>),
     ext_synproxy := Some \<lparr>sp_isn = 0, sp_its = 0, sp_tsoff = 0\<rparr>\<rparr>"

theorem dump_restore_witness:
  "ctnetlink_change_conntrack ref_new (child (restore_attrs adjusted_ct)) \<lparr>c_ct = blank_ct, c_calls = []\<rparr> =
     (Inr (), \<lparr>c_ct = adjusted_ct, c_calls = []\<rparr>)"
proof -
  have "table_of (=) CTA_MAX (child (restore_attrs adjusted_ct)) (restore_attrs adjusted_ct)"
    by (simp add: table_of_def option.rel_eq)
  moreover have "restored adjusted_ct blank_ct = adjusted_ct"
    by (simp add: restored_def adjusted_ct_def blank_ct_def has_flag_def sample_ct_def)
  ultimately show ?thesis
    using dump_restore [OF ref_chg.chg_laws_axioms, of "child (restore_attrs adjusted_ct)" adjusted_ct
        blank_ct "[]"]
    by (simp add: adjusted_ct_def blank_ct_def)
qed

text \<open>
  C28. An adjustment that lacks its last field is refused with \<open>EINVAL\<close>, but
  the fields before it have already been overwritten.
\<close>

theorem seqadj_partial_update:
  assumes "nla_parse_nested_deprecated C CTA_SEQADJ_MAX x seqadj_policy = Inr tb"
    and "tb CTA_SEQADJ_CORRECTION_POS = Some a" "tb CTA_SEQADJ_OFFSET_BEFORE = Some b"
    and "tb CTA_SEQADJ_OFFSET_AFTER = None"
    and "cda CTA_SEQ_ADJ_ORIG = Some x" "ext_seqadj (c_ct s) = Some (q0, q1)"
  shows "ctnetlink_change_seq_adj C cda s =
    (Inl EINVAL, s\<lparr>c_ct := (c_ct s)\<lparr>ext_seqadj := Some (q0\<lparr>correction_pos := ntohl (nla_get_be32 C a),
       offset_before := ntohl (nla_get_be32 C b)\<rparr>, q1)\<rparr>\<rparr>)"
  using assms
  by (simp add: ctnetlink_change_seq_adj_def seq_dir_def change_seq_adj_def seq_field_def Let_def)

theorem seqadj_partial_update_witness:
  "ctnetlink_change_seq_adj ref_new
     [CTA_SEQ_ADJ_ORIG \<mapsto> Nest CTA_SEQ_ADJ_ORIG [Leaf 1 (V_be32 (htonl 5)), Leaf 2 (V_be32 (htonl 6))]]
     \<lparr>c_ct = blank_ct, c_calls = []\<rparr> =
   (Inl EINVAL, \<lparr>c_ct = blank_ct\<lparr>ext_seqadj := Some (\<lparr>correction_pos = 5, offset_before = 6,
      offset_after = 0\<rparr>, \<lparr>correction_pos = 0, offset_before = 0, offset_after = 0\<rparr>)\<rparr>, c_calls = []\<rparr>)"
proof -
  let ?a = "Leaf 1 (V_be32 (htonl 5))" and ?b = "Leaf 2 (V_be32 (htonl 6))"
  let ?x = "Nest CTA_SEQ_ADJ_ORIG [?a, ?b]"
  have p: "nla_parse_nested_deprecated ref_new CTA_SEQADJ_MAX ?x seqadj_policy = Inr (child [?a, ?b])"
    by (simp add: ref_new_sel tree_reader_def policy_ok_def seqadj_policy_def)
  have c: "child [?a, ?b] CTA_SEQADJ_CORRECTION_POS = Some ?a" "child [?a, ?b] CTA_SEQADJ_OFFSET_BEFORE = Some ?b"
    "child [?a, ?b] CTA_SEQADJ_OFFSET_AFTER = None" by simp_all
  have g: "ntohl (nla_get_be32 ref_new ?a) = 5" "ntohl (nla_get_be32 ref_new ?b) = 6"
    by (simp_all add: ref_new_sel tree_reader_def)
  show ?thesis
    using seqadj_partial_update [where cda = "[CTA_SEQ_ADJ_ORIG \<mapsto> ?x]"
        and s = "\<lparr>c_ct = blank_ct, c_calls = []\<rparr>", OF p c] g
    by (simp add: blank_ct_def)
qed

end
