(* ===== verification/Ct_Glue_Spec.thy ===== *)
theory Ct_Glue_Spec
  imports Ct_Glue Ct_Event_Spec Ct_Change_Spec
begin

text \<open>
  The queue hook: by how much what is written next to a packet can exceed the announced size, and
  what a verdict does to a connection: it keeps its identity, and of the status it never clears the
  bits that may only be set.
\<close>

section \<open>Size\<close>

definition glue_attrs ::
  "('skb, 'x) dump_env_scheme \<Rightarrow> cb_attrs \<Rightarrow> nat \<Rightarrow> nf_conn \<Rightarrow> nlattr list" where
  "glue_attrs T A a ct =
     head_attrs A ct @
     [Leaf CTA_ID (V_be32 (nf_ct_get_id T a ct))] @
     [Leaf CTA_STATUS (V_be32 (htonl (ucast (ct_status ct))))] @
     timeout_attrs T ct False @ proto_attrs T A ct False 0 @ acct_attrs ct @ tstamp_attrs ct @
     help_attrs T A ct @
     (if ct_secmark ct \<noteq> 0 then secctx_attrs T ct else []) @
     (if ct_master ct \<noteq> None then master_attrs T A ct else []) @
     (if has_flag (ct_status ct) IPS_SEQ_ADJUST then seqadj_attrs ct else []) @
     synproxy_attrs ct @ mark_attrs ct True @ labels_attrs ct"

context dump_laws
begin

lemma emt_glue_ct:
  assumes m: "master_ok E ct"
  shows "emt (help_strict E ct) (ctnetlink_glue_build_ct E a ct) (glue_attrs E A a ct)"
proof -
  have "emt (help_strict E ct) (ctnetlink_glue_build_ct E a ct)
    (head_attrs A ct @ [Leaf CTA_ID (V_be32 (nf_ct_get_id E a ct))] @
     [Leaf CTA_STATUS (V_be32 (htonl (ucast (ct_status ct))))] @
     timeout_attrs E ct False @ proto_attrs E A ct False 0 @ acct_attrs ct @ tstamp_attrs ct @
     help_attrs E A ct @
     (if ct_secmark ct \<noteq> 0 then secctx_attrs E ct else []) @
     (if ct_master ct \<noteq> None then master_attrs E A ct else []) @
     (if has_flag (ct_status ct) IPS_SEQ_ADJUST then seqadj_attrs ct else []) @
     synproxy_attrs ct @ mark_attrs ct True @ labels_attrs ct @ [])"
    unfolding ctnetlink_glue_build_ct_def using m
    by (intro emt_fail_with emt_acts_Cons emt_when emit_intros) simp_all
  then show ?thesis by (rule emt_cong) (simp add: glue_attrs_def)
qed

lemma emt_glue:
  assumes m: "master_ok E ct"
  shows "emt (help_strict E ct) (ctnetlink_glue_build E a ct ctinfo ct_attr info_attr)
    [Nest ct_attr (glue_attrs E A a ct), Leaf info_attr (V_be32 (htonl (of_nat ctinfo)))]"
proof -
  have "emt (help_strict E ct) (ctnetlink_glue_build E a ct ctinfo ct_attr info_attr)
    ([Nest ct_attr (glue_attrs E A a ct)] @ [Leaf info_attr (V_be32 (htonl (of_nat ctinfo)))] @ [])"
    unfolding ctnetlink_glue_build_def
    by (intro emt_fail_with emt_acts_Cons emt_nest emt_glue_ct [OF m] emit_intros) simp_all
  then show ?thesis by simp
qed

end

context event_laws
begin

lemma glue_size:
  assumes "event_ok T ct"
  shows "attrs_size (glue_attrs T A a ct) \<le> ctnetlink_glue_build_size T ct + 12 + helper_bytes T A ct"
proof -
  note b = small_sizes(2) [of T ct False] small_sizes(3,4) [of ct]
    small_sizes(5) [of ct True] small_sizes(7,8) [of ct]
    proto_attrs_size [of ct False] help_attrs_size [OF assms]
    secctx_attrs_size [of ct] master_attrs_size [OF assms]
  have l: "attrs_size (labels_attrs ct) \<le> 20"
    by (auto simp: labels_attrs_def split: option.splits)
  have head: "attrs_size (head_attrs A ct) \<le> 128 + 2 * tuple_bytes T (ct_protonum ct)"
    by (rule head_size) (use assms in \<open>simp add: event_ok_def\<close>)
  have n: "ctnetlink_glue_build_size T ct = 352 + ctnetlink_acct_size ct + ctnetlink_timestamp_size ct +
      ctnetlink_secctx_size T ct + l4_nlattr_size T (ct_protonum ct) +
      3 * tuple_bytes T (ct_protonum ct)"
    unfolding ctnetlink_glue_build_size_def proto_size_eq by simp
  show ?thesis
    using head b l unfolding n glue_attrs_def by simp
qed

end

section \<open>Verdicts\<close>

lemma flag_zero:
  fixes x :: u64
  shows "x AND 2 = 0 \<longleftrightarrow> \<not> bit x 1" and "x AND 4 = 0 \<longleftrightarrow> \<not> bit x 2"
  using and_exp_eq_0_iff_not_bit [of x 1] and_exp_eq_0_iff_not_bit [of x 2] by auto

text \<open>
  The function that changes status bits sets those it is asked to set and clears those it is asked to
  clear, here for the two bits the hook looks at; the functions for timeouts and for a helper's data
  leave the status alone.
\<close>

locale glue_laws = chg_laws C reads A
  for C :: "('nla, 'x) glue_env_scheme" and reads A +
  assumes change_keeps: "same_id ct (nf_ct_change_status C on off ct)"
    and change_flag: "f = IPS_SEEN_REPLY \<or> f = IPS_ASSURED \<Longrightarrow>
      has_flag (ct_status (nf_ct_change_status C on off ct)) f \<longleftrightarrow>
      ucast on AND f \<noteq> 0 \<or> (ucast off AND f = 0 \<and> has_flag (ct_status ct) f)"
    and timeout_status: "ct_status (snd (nf_ct_change_timeout C t ct)) = ct_status ct"
    and helper_status: "hlp_from_nlattr C q = Some g \<Longrightarrow> ct_status (g a ct) = ct_status ct"
begin

lemma keeps_update_status: "keeps same_id (ctnetlink_update_status C cda)"
  unfolding ctnetlink_update_status_def
  by (intro keep_intros) (simp add: keeps_def Let_def change_keeps)

lemma keeps_glue_parse: "keeps same_id (ctnetlink_glue_parse C attr)"
proof -
  have "keeps same_id (ctnetlink_glue_parse_ct C cda)" for cda
    unfolding ctnetlink_glue_parse_ct_def
    by (intro keep_intros)
      (auto intro!: keep_intros keeps_update_status keeps_change_timeout keeps_change_helper
        keeps_attach_labels keeps_change_mark)
  then show ?thesis by (simp add: keeps_def ctnetlink_glue_parse_def split: sum.splits)
qed

lemma xor_flag: "(x XOR y) AND f \<noteq> 0 \<or> y AND f \<noteq> 0" if "x AND f \<noteq> (0 :: u64)"
proof (rule ccontr)
  assume "\<not> ?thesis"
  then have "(x XOR y) AND f = 0" "y AND f = 0" by auto
  then have "((x XOR y) AND f) XOR (y AND f) = 0" by simp
  moreover have "((x XOR y) AND f) XOR (y AND f) = x AND f"
    by (rule bit_word_eqI) (auto simp: bit_simps)
  ultimately have "x AND f = 0" by simp
  with that show False by simp
qed

lemma update_status_cases:
  assumes "cda CTA_STATUS = Some a" "f = IPS_SEEN_REPLY \<or> f = IPS_ASSURED"
  shows "case ctnetlink_update_status C cda s of
      (Inl _, s') \<Rightarrow> s' = s
    | (Inr _, s') \<Rightarrow> (has_flag (ct_status (c_ct s')) f \<longleftrightarrow> ucast (ntohl (nla_get_be32 C a)) AND f \<noteq> 0) \<and>
        (has_flag (ct_status (c_ct s)) f \<longrightarrow> has_flag (ct_status (c_ct s')) f)"
proof -
  let ?st = "ntohl (nla_get_be32 C a)"
  have not_off: "ucast (NOT ?st) AND f = 0 \<longleftrightarrow> ucast ?st AND f \<noteq> 0"
    using assms(2) by (auto simp: flag_zero bit_simps)
  from xor_flag [of "ct_status (c_ct s)" f "ucast ?st"] assms(2) not_off
    change_flag [OF assms(2), of ?st "NOT ?st" "c_ct s"] show ?thesis
    by (auto simp: ctnetlink_update_status_def need_def assms(1) Let_def has_flag_def)
qed

text \<open>The other changes of a verdict leave the status alone.\<close>

definition same_status :: "nf_conn \<Rightarrow> nf_conn \<Rightarrow> bool" where
  "same_status ct ct' \<longleftrightarrow> ct_status ct' = ct_status ct"

lemma same_status_order: "reflp same_status" "transp same_status"
  by (auto simp: same_status_def intro!: reflpI transpI)

lemma status_timeout: "keeps same_status (act_when c (ctnetlink_change_timeout C cda))"
  using timeout_status by (auto simp: keeps_def act_when_def ctnetlink_change_timeout_def need_def on_ct_def
      same_status_def split: option.splits prod.splits) (metis snd_conv)

lemma status_mark: "keeps same_status (act_when c (ctnetlink_change_mark C cda))"
  by (auto simp: keeps_def act_when_def ctnetlink_change_mark_def need_def same_status_def Let_def
      split: option.splits)

lemma status_labels: "keeps same_status (act_when c (ctnetlink_attach_labels C cda))"
  using attach_labels_status keeps_attach_labels
  by (simp add: keeps_def act_when_def same_status_def)

lemma status_helper: "keeps same_status (act_when c (ctnetlink_change_helper C cda))"
proof -
  have "ct_status (from_nlattr C h i ct) = ct_status ct" for h i ct
    using helper_status by (simp add: from_nlattr_def split: option.splits)
  moreover have "ct_status (set_helper h ct) = ct_status ct" for h ct by (simp add: set_helper_def)
  ultimately show ?thesis
    by (auto simp: keeps_def act_when_def ctnetlink_change_helper_def need_def same_status_def Let_def call_def
        is_event_def split: option.splits sum.splits prod.splits)
qed

lemma status_rest:
  "ct_status (c_ct (snd (run_acts [act_when h (ctnetlink_change_helper C cda),
     act_when l (ctnetlink_attach_labels C cda), act_when m (ctnetlink_change_mark C cda)] s))) =
   ct_status (c_ct s)"
proof -
  have "keeps same_status (run_acts [act_when h (ctnetlink_change_helper C cda),
     act_when l (ctnetlink_attach_labels C cda), act_when m (ctnetlink_change_mark C cda)])"
    by (rule keeps_run_rel [OF same_status_order])
      (auto intro: status_helper status_labels status_mark)
  then show ?thesis by (simp add: keeps_def same_status_def)
qed

text \<open>The status after a verdict, for the two bits that may only be set.\<close>

lemma glue_parse_status:
  assumes "f = IPS_SEEN_REPLY \<or> f = IPS_ASSURED"
  shows "case ctnetlink_glue_parse_ct C cda s of (r, s') \<Rightarrow>
    (has_flag (ct_status (c_ct s)) f \<longrightarrow> has_flag (ct_status (c_ct s')) f) \<and>
    (case cda CTA_STATUS of
       None \<Rightarrow> ct_status (c_ct s') = ct_status (c_ct s)
     | Some a \<Rightarrow> r = Inr () \<longrightarrow>
         (has_flag (ct_status (c_ct s')) f \<longleftrightarrow> ucast (ntohl (nla_get_be32 C a)) AND f \<noteq> 0))"
proof -
  let ?rest = "run_acts [act_when (cda CTA_HELP \<noteq> None) (ctnetlink_change_helper C cda),
     act_when (cda CTA_LABELS \<noteq> None) (ctnetlink_attach_labels C cda),
     act_when (cda CTA_MARK \<noteq> None) (ctnetlink_change_mark C cda)]"
  obtain r1 s1 where 1: "act_when (cda CTA_TIMEOUT \<noteq> None) (ctnetlink_change_timeout C cda) s = (r1, s1)"
    by fastforce
  have st1: "ct_status (c_ct s1) = ct_status (c_ct s)"
    using status_timeout [of "cda CTA_TIMEOUT \<noteq> None" cda] 1
    by (auto simp: keeps_def same_status_def dest: spec [of _ s])
  have rest: "ct_status (c_ct (snd (?rest s2))) = ct_status (c_ct s2)" for s2 by (rule status_rest)
  have parse: "ctnetlink_glue_parse_ct C cda s =
      (case r1 of Inl e \<Rightarrow> (Inl e, s1)
       | Inr _ \<Rightarrow> (case act_when (cda CTA_STATUS \<noteq> None) (ctnetlink_update_status C cda) s1 of
           (Inl e, s2) \<Rightarrow> (Inl e, s2) | (Inr _, s2) \<Rightarrow> ?rest s2))"
    unfolding ctnetlink_glue_parse_ct_def run_acts.simps(2) [of "act_when (cda CTA_TIMEOUT \<noteq> None) _"]
      run_acts.simps(2) [of "act_when (cda CTA_STATUS \<noteq> None) _"] 1 prod.case ..
  show ?thesis
  proof (cases r1)
    case (Inl e)
    then show ?thesis using st1 by (simp add: parse split: option.split)
  next
    case r1: (Inr u)
    show ?thesis
    proof (cases "cda CTA_STATUS")
      case None
      then show ?thesis using st1 rest [of s1]
        by (simp add: parse r1 act_when_def split_def del: run_acts.simps)
    next
      case (Some a)
      obtain r2 s2 where 2: "ctnetlink_update_status C cda s1 = (r2, s2)" by fastforce
      note u = update_status_cases [where cda = cda and a = a and f = f and s = s1, OF Some assms]
      show ?thesis
      proof (cases r2)
        case (Inl e)
        then show ?thesis using u 2 Some st1 by (simp add: parse r1 act_when_def)
      next
        case r2: (Inr v)
        have "snd (ctnetlink_glue_parse_ct C cda s) = snd (?rest s2)"
          using Some 2 by (simp add: parse r1 r2 act_when_def del: run_acts.simps)
        then have "ct_status (c_ct (snd (ctnetlink_glue_parse_ct C cda s))) = ct_status (c_ct s2)"
          by (simp only: rest)
        then show ?thesis using u 2 Some st1 r2 by (auto simp: split_def)
      qed
    qed
  qed
qed

end

text \<open>The reference environment: bits are set and cleared outside the unchangeable ones.\<close>

definition plain_change :: "u32 \<Rightarrow> u32 \<Rightarrow> nf_conn \<Rightarrow> nf_conn" where
  "plain_change on off ct = ct\<lparr>ct_status :=
     ((ct_status ct AND NOT (ucast off AND 6)) OR (ucast on AND 6))\<rparr>"

definition ref_glue :: "nlattr glue_env" where
  "ref_glue = chg_env.extend (chg_env.truncate ref_new) (glue_env.fields plain_change)"

lemmas ref_glue_sel = ref_glue_def ref_new_sel glue_env.defs

lemma ref_glue_chg: "chg_laws ref_glue (=) ref_attrs"
  using ref_chg.chg_laws_axioms
  unfolding chg_laws_def nl_reader_laws_def chg_laws_axioms_def by (simp add: ref_glue_sel)

interpretation ref_glue: glue_laws ref_glue "(=)" ref_attrs
proof (rule glue_laws.intro [OF ref_glue_chg], unfold_locales)
  fix ct :: nf_conn and on off
  show "same_id ct (nf_ct_change_status ref_glue on off ct)"
    by (simp add: ref_glue_sel plain_change_def)
next
  fix f :: u64 and on off :: u32 and ct :: nf_conn
  assume f: "f = IPS_SEEN_REPLY \<or> f = IPS_ASSURED"
  let ?s = "ct_status ct"
  have six: "6 AND f = f" using f by auto
  have off: "(?s AND NOT (ucast off AND 6)) AND f = 0 \<longleftrightarrow> \<not> (ucast off AND f = 0 \<and> ?s AND f \<noteq> 0)"
    using f by (auto simp: flag_zero bit_simps)
  have "((?s AND NOT (ucast off AND 6)) OR (ucast on AND 6)) AND f =
      ((?s AND NOT (ucast off AND 6)) AND f) OR (ucast on AND f)"
    unfolding bit.conj_disj_distrib2 and.assoc six ..
  with off show "has_flag (ct_status (nf_ct_change_status ref_glue on off ct)) f \<longleftrightarrow>
      ucast on AND f \<noteq> 0 \<or> (ucast off AND f = 0 \<and> has_flag (ct_status ct) f)"
    by (auto simp: ref_glue_sel plain_change_def has_flag_def or_eq_0_iff)
qed (auto simp: ref_glue_sel)

section \<open>Properties\<close>

text \<open>
  C31. What the hook writes about a connection in a well-formed state exceeds the size
  it announces by at most 24 bytes, not counting what a helper writes by itself: the announced
  size counts neither labels nor SYN proxy data, nor the nest around everything and the attribute
  with the conntrack info, nor all of the protocol's state. The attributes are written completely if
  the buffer has room for them; if it has not, the hook fails with \<open>ENOSPC\<close>, unless the connection has a
  helper that writes data of its own, whose failure the code ignores. With 24 bytes more than
  announced, and those of the helper, it always succeeds.
\<close>

theorem glue_build_room:
  assumes "event_laws T emits grows room msgs A" "event_ok T ct"
    and "as = [Nest ct_attr (glue_attrs T A a ct), Leaf info_attr (V_be32 (htonl (of_nat ctinfo)))]"
  shows "attrs_size as \<le> ctnetlink_glue_build_size T ct + 24 + helper_bytes T A ct \<and>
    (if attrs_size as \<le> room skb
     then \<exists>skb'. ctnetlink_glue_build T a ct ctinfo ct_attr info_attr skb = (Inr (), skb') \<and> emits skb as skb'
     else (\<exists>skb'. ctnetlink_glue_build T a ct ctinfo ct_attr info_attr skb = (Inl ENOSPC, skb')) \<or>
       (\<not> help_strict T ct \<and>
         (\<exists>skb' bs. ctnetlink_glue_build T a ct ctinfo ct_attr info_attr skb = (Inr (), skb') \<and> emits skb bs skb')))"
proof -
  have d: "dump_laws T emits grows room msgs A"
    using assms(1) by (simp add: event_laws_def lookup_laws_def table_laws_def)
  then have w: "nl_writer_laws T emits grows room msgs" by (simp add: dump_laws_def)
  have "master_ok T ct" using assms(2) by (simp add: event_ok_def)
  note e = dump_laws.emt_glue [OF d this, of a ctinfo ct_attr info_attr, folded assms(3)]
  have size: "attrs_size as \<le> ctnetlink_glue_build_size T ct + 24 + helper_bytes T A ct"
    using event_laws.glue_size [OF assms(1,2), of a] unfolding assms(3) by simp
  show ?thesis
  proof (cases "attrs_size as \<le> room skb")
    case True
    from nl_writer_laws.emt_fits [OF w e True] size True show ?thesis by simp
  next
    case False
    show ?thesis
    proof (rule nl_writer_laws.emt_overflows [OF w e False])
      fix c skb'
      assume "ctnetlink_glue_build T a ct ctinfo ct_attr info_attr skb = (Inl c, skb')" "c \<noteq> OOPS"
      then have "ctnetlink_glue_build T a ct ctinfo ct_attr info_attr skb = (Inl ENOSPC, skb')"
        by (auto simp: ctnetlink_glue_build_def exit_code_def dest!: fail_with_err split: if_splits)
      then show ?thesis using size False by simp
    next
      fix skb' bs
      assume "\<not> help_strict T ct" "emits skb bs skb'"
        "ctnetlink_glue_build T a ct ctinfo ct_attr info_attr skb = (Inr (), skb')"
      then show ?thesis using size False by auto
    qed
  qed
qed

text \<open>
  An IPv6 connection with everything a connection can have. In a buffer of the announced size the
  hook fails; with 24 bytes more it succeeds.
\<close>

definition full_ct :: nf_conn where
  "full_ct = (let t = sample_tuple\<lparr>src_l3num := NFPROTO_IPV6\<rparr> in sample_ct\<lparr>
     tuple_orig := t, tuple_reply := t\<lparr>dst_dir := IP_CT_DIR_REPLY\<rparr>,
     ct_status := IPS_CONFIRMED OR IPS_EXPECTED OR IPS_SEQ_ADJUST, ct_master := Some 2, ct_secmark := 1,
     ext_help := Some \<lparr>help_helper = Some \<lparr>hlp_ptr = 1, hlp_name = ''h12345678901234'', expect_class_max = 0\<rparr>\<rparr>,
     ext_tstamp := Some \<lparr>ts_start = 9, ts_stop = 10\<rparr>, ext_labels := Some (1, 0),
     ext_seqadj := Some (\<lparr>correction_pos = 1, offset_before = 2, offset_after = 3\<rparr>,
       \<lparr>correction_pos = 4, offset_before = 5, offset_after = 6\<rparr>),
     ext_synproxy := Some \<lparr>sp_isn = 1, sp_its = 2, sp_tsoff = 3\<rparr>\<rparr>)"

definition full_event :: "buf event_env" where
  "full_event = ref_event\<lparr>env_store := [2 \<mapsto> full_ct\<lparr>ct_master := None\<rparr>]\<rparr>"

lemma full_event_lookup: "lookup_laws full_event buf_emits buf_grows b_room buf_msgs ref_attrs"
  using ref_event_lookup
  unfolding full_event_def lookup_laws_def table_laws_def dump_laws_def nl_writer_laws_def lookup_laws_axioms_def
    table_laws_axioms_def dump_laws_axioms_def
  by simp

interpretation full_ev: event_laws full_event buf_emits buf_grows b_room buf_msgs ref_attrs
proof (rule event_laws.intro [OF full_event_lookup], unfold_locales)
  fix p and t :: nf_conntrack_tuple
  show "attrs_size (at_tuple ref_attrs p t) \<le> tuple_bytes full_event p"
    using ref_event.tuple_size [of p t] by (simp add: full_event_def tuple_bytes_def)
next
  fix p ct d
  assume "l4_to_nlattr full_event p \<noteq> None"
  then show "attrs_size (at_info ref_attrs p ct d) \<le> l4_nlattr_size full_event p + 12"
    using ref_event.info_size [of p ct d] by (simp add: full_event_def)
qed (auto simp: full_event_def ref_event_sel ref_env_def split: if_splits)

theorem glue_build_room_witness:
  "let n = ctnetlink_glue_build_size full_event full_ct in
     (\<exists>skb. ctnetlink_glue_build full_event 2 full_ct 0 11 12 \<lparr>b_room = n + 24, b_toks = []\<rparr> = (Inr (), skb)) \<and>
     (\<exists>skb. ctnetlink_glue_build full_event 2 full_ct 0 11 12 \<lparr>b_room = n, b_toks = []\<rparr> = (Inl ENOSPC, skb))"
proof -
  let ?as = "[Nest 11 (glue_attrs full_event ref_attrs 2 full_ct), Leaf 12 (V_be32 (htonl (of_nat 0)))]"
  have ok: "event_ok full_event full_ct" by code_simp
  note room = glue_build_room [OF full_ev.event_laws_axioms ok refl, of 11 2 12 0]
  have "helper_bytes full_event ref_attrs full_ct = 0" "help_strict full_event full_ct"
    "\<not> attrs_size ?as \<le> ctnetlink_glue_build_size full_event full_ct"
    by code_simp+
  with room [of "\<lparr>b_room = ctnetlink_glue_build_size full_event full_ct + 24, b_toks = []\<rparr>"]
    room [of "\<lparr>b_room = ctnetlink_glue_build_size full_event full_ct, b_toks = []\<rparr>"]
  show ?thesis by (auto simp: Let_def)
qed

text \<open>
  C32. Whatever a verdict on a queued packet contains, applied or refused half
  way, it leaves tuples, zone, namespace, master and reference count of the connection as they are,
  reports no event and never clears the status bits \<open>SEEN_REPLY\<close> and \<open>ASSURED\<close>. A verdict
  without \<open>CTA_STATUS\<close> leaves the whole status alone. After a successful verdict with
  \<open>CTA_STATUS\<close> the two bits are those of the attribute, so one that asks to clear such a bit is
  refused.
\<close>

theorem verdict_keeps_connection:
  assumes "glue_laws C reads A"
    and "ctnetlink_glue_parse C attr s = (r, s')"
  shows "same_id (c_ct s) (c_ct s') \<and> filter is_event (c_calls s') = filter is_event (c_calls s) \<and>
    (\<forall>f. f = IPS_SEEN_REPLY \<or> f = IPS_ASSURED \<longrightarrow>
       (has_flag (ct_status (c_ct s)) f \<longrightarrow> has_flag (ct_status (c_ct s')) f) \<and>
       (\<forall>cda. nla_parse_nested_deprecated C CTA_MAX attr ct_nla_policy = Inr cda \<longrightarrow>
          (case cda CTA_STATUS of
             None \<Rightarrow> ct_status (c_ct s') = ct_status (c_ct s)
           | Some a \<Rightarrow> r = Inr () \<longrightarrow>
               (has_flag (ct_status (c_ct s')) f \<longleftrightarrow> ucast (ntohl (nla_get_be32 C a)) AND f \<noteq> 0))))"
proof -
  from glue_laws.keeps_glue_parse [OF assms(1), of attr] assms(2)
  have "same_id (c_ct s) (c_ct s') \<and> filter is_event (c_calls s') = filter is_event (c_calls s)"
    by (auto simp: keeps_def dest: spec [of _ s])
  moreover have "(has_flag (ct_status (c_ct s)) f \<longrightarrow> has_flag (ct_status (c_ct s')) f) \<and>
      (\<forall>cda. nla_parse_nested_deprecated C CTA_MAX attr ct_nla_policy = Inr cda \<longrightarrow>
          (case cda CTA_STATUS of
             None \<Rightarrow> ct_status (c_ct s') = ct_status (c_ct s)
           | Some a \<Rightarrow> r = Inr () \<longrightarrow>
               (has_flag (ct_status (c_ct s')) f \<longleftrightarrow> ucast (ntohl (nla_get_be32 C a)) AND f \<noteq> 0)))"
    if "f = IPS_SEEN_REPLY \<or> f = IPS_ASSURED" for f
  proof (cases "nla_parse_nested_deprecated C CTA_MAX attr ct_nla_policy")
    case (Inl e)
    then show ?thesis using assms(2) by (simp add: ctnetlink_glue_parse_def)
  next
    case (Inr cda)
    then show ?thesis using glue_laws.glue_parse_status [OF assms(1) that, where cda = cda and s = s] assms(2)
      by (simp add: ctnetlink_glue_parse_def)
  qed
  ultimately show ?thesis by blast
qed

text \<open>A verdict that sets \<open>ASSURED\<close>, and one that asks to clear \<open>SEEN_REPLY\<close>.\<close>

definition verdict :: "u32 \<Rightarrow> nlattr" where
  "verdict status = Nest 0 [Leaf CTA_STATUS (V_be32 (htonl status)), Leaf CTA_MARK (V_be32 (htonl 7))]"

definition replied :: chg where
  "replied = \<lparr>c_ct = sample_ct\<lparr>ct_status := IPS_SEEN_REPLY\<rparr>, c_calls = []\<rparr>"

theorem verdict_keeps_connection_witness:
  "(\<exists>s'. ctnetlink_glue_parse ref_glue (verdict 6) replied = (Inr (), s') \<and>
      has_flag (ct_status (c_ct s')) IPS_SEEN_REPLY \<and> has_flag (ct_status (c_ct s')) IPS_ASSURED) \<and>
   (\<exists>s'. ctnetlink_glue_parse ref_glue (verdict 4) replied = (Inl EBUSY, s') \<and>
      has_flag (ct_status (c_ct s')) IPS_SEEN_REPLY)"
proof -
  let ?g = "\<lambda>v. ctnetlink_glue_parse ref_glue (verdict v) replied"
  obtain s6 s4 where run: "?g 6 = (Inr (), s6)" "?g 4 = (Inl EBUSY, s4)"
  proof -
    have "fst (?g 6) = Inr ()" "fst (?g 4) = Inl EBUSY" by code_simp+
    then show ?thesis by (metis that prod.collapse)
  qed
  have set: "has_flag (ct_status (c_ct replied)) IPS_SEEN_REPLY" by code_simp
  have "case nla_parse_nested_deprecated ref_glue CTA_MAX (verdict 6) ct_nla_policy of Inl _ \<Rightarrow> False
     | Inr cda \<Rightarrow> cda CTA_STATUS = Some (Leaf CTA_STATUS (V_be32 (htonl 6)))" by code_simp
  then obtain cda where cda: "nla_parse_nested_deprecated ref_glue CTA_MAX (verdict 6) ct_nla_policy = Inr cda"
    "cda CTA_STATUS = Some (Leaf CTA_STATUS (V_be32 (htonl 6)))" by (simp split: sum.splits)
  have six: "ucast (ntohl (nla_get_be32 ref_glue (Leaf CTA_STATUS (V_be32 (htonl 6))))) AND IPS_ASSURED \<noteq> 0"
    by code_simp
  note keep = verdict_keeps_connection [OF ref_glue.glue_laws_axioms]
  from keep [OF run(1)] keep [OF run(2)] set cda six run show ?thesis by auto
qed

end
