(* ===== verification/Ct_Expect_Spec.thy ===== *)
theory Ct_Expect_Spec
  imports Ct_Expect Ct_Glue_Spec
begin

text \<open>
  Correctness of the operations on expectations: what a message about one contains, where the two
  dumps resume and which references they hold, and what the requests do to the expectations and
  to the reference counts of the connections they touch. The locale \<open>exp_laws\<close> states what
  the kernel's expectation functions promise.
\<close>

section \<open>Messages\<close>

definition nat_attrs :: "cb_attrs \<Rightarrow> nf_conntrack_expect \<Rightarrow> nf_conn \<Rightarrow> nlattr list" where
  "nat_attrs A x m =
     (if exp_saved_addr x \<noteq> any_addr \<or> exp_saved_proto x \<noteq> 0
      then [Nest CTA_EXPECT_NAT [Leaf CTA_EXPECT_NAT_DIR (V_be32 (htonl (exp_dir x))),
              Nest CTA_EXPECT_NAT_TUPLE (tuple_attrs A (exp_nat_tuple x m))]]
      else [])"

definition exp_name_attrs :: "('skb, 'x) exp_env_scheme \<Rightarrow> nf_conntrack_expect \<Rightarrow> nf_conn \<Rightarrow> nlattr list" where
  "exp_name_attrs E x m =
     (case Option.bind (ext_help m) help_helper of
        None \<Rightarrow> [] | Some h \<Rightarrow> [Leaf CTA_EXPECT_HELP_NAME (V_string (hlp_name h))]) @
     (case expectfn_find_by_symbol E (exp_expectfn x) of
        None \<Rightarrow> [] | Some name \<Rightarrow> [Leaf CTA_EXPECT_FN (V_string name)])"

definition exp_attrs ::
  "('skb, 'x) exp_env_scheme \<Rightarrow> cb_attrs \<Rightarrow> nat \<Rightarrow> nf_conntrack_expect \<Rightarrow> nf_conn \<Rightarrow> nlattr list" where
  "exp_attrs E A p x m =
     [Nest CTA_EXPECT_TUPLE (tuple_attrs A (exp_tuple x)),
      Nest CTA_EXPECT_MASK (tuple_attrs A (exp_mask_tuple (exp_tuple x) (exp_mask_u3 x) (exp_mask_u x))),
      Nest CTA_EXPECT_MASTER (tuple_attrs A (tuple_orig m))] @
     nat_attrs A x m @
     [Leaf CTA_EXPECT_TIMEOUT (V_be32 (htonl (of_int (exp_seconds E x)))),
      Leaf CTA_EXPECT_ID (V_be32 (nf_expect_get_id E p x)),
      Leaf CTA_EXPECT_FLAGS (V_be32 (htonl (exp_flags x))),
      Leaf CTA_EXPECT_CLASS (V_be32 (htonl (exp_class x)))] @
     exp_name_attrs E x m"

context dump_laws
begin

lemma emt_exp_tuple [emit_intros]: "emt k (ctnetlink_exp_dump_tuple E t n) [Nest n (tuple_attrs A t)]"
  unfolding ctnetlink_exp_dump_tuple_def by (intro emit_intros) simp

lemma emt_exp_mask [emit_intros]:
  "emt k (ctnetlink_exp_dump_mask E t u3 u) [Nest CTA_EXPECT_MASK (tuple_attrs A (exp_mask_tuple t u3 u))]"
proof -
  let ?m = "exp_mask_tuple t u3 u"
  have "emt k (ctnetlink_exp_dump_mask E t u3 u)
    [Nest CTA_EXPECT_MASK ([Nest CTA_TUPLE_IP (ip_attrs ?m)] @ [Nest CTA_TUPLE_PROTO
      ([Leaf CTA_PROTO_NUM (V_u8 (dst_protonum ?m))] @ at_tuple A (dst_protonum ?m) ?m)] @ [])]"
    unfolding ctnetlink_exp_dump_mask_def Let_def by (intro emit_intros) simp
  then show ?thesis by (simp add: tuple_attrs_def)
qed

lemma emt_exp_nat [emit_intros]: "emt k (exp_dump_nat E x m) (nat_attrs A x m)"
proof -
  have "emt k (exp_dump_nat E x m)
    (if exp_saved_addr x \<noteq> any_addr \<or> exp_saved_proto x \<noteq> 0
     then [Nest CTA_EXPECT_NAT ([Leaf CTA_EXPECT_NAT_DIR (V_be32 (htonl (exp_dir x)))] @
        [Nest CTA_EXPECT_NAT_TUPLE (tuple_attrs A (exp_nat_tuple x m))] @ [])] else [])"
    unfolding exp_dump_nat_def by (intro emit_intros)
  then show ?thesis by (rule emt_cong) (simp add: nat_attrs_def)
qed

end

section \<open>Laws\<close>

text \<open>
  Two objects that differ in reference count and timer only; a store all of whose objects are, up
  to that, among those of another.
\<close>

definition same_exp :: "nf_conntrack_expect \<Rightarrow> nf_conntrack_expect \<Rightarrow> bool" where
  "same_exp x y \<longleftrightarrow> y = x\<lparr>exp_use := exp_use y, exp_expires := exp_expires y, exp_pending := exp_pending y\<rparr>"

definition exp_sub :: "exp_store \<Rightarrow> exp_store \<Rightarrow> bool" where
  "exp_sub st st' \<longleftrightarrow> (\<forall>q y. st' q = Some y \<longrightarrow> (\<exists>x. st q = Some x \<and> same_exp x y))"

text \<open>
  A reference is dropped; the last one frees the object. A lookup takes one. New memory has one
  reference, that of the creator. Taking an expectation off its lists drops the reference of the
  hash table; inserting one adds those of the hash table and the timer. Insertion and cleanup may
  remove other expectations but change none.
\<close>

locale exp_laws = lookup_laws E emits grows room msgs A
  for E :: "('skb, 'x) exp_env_scheme" and emits grows room msgs A +
  assumes exp_put: "st p = Some x \<Longrightarrow> 0 < exp_use x \<Longrightarrow> nf_ct_expect_put E st p =
      (if exp_use x = 1 then st(p := None) else st(p \<mapsto> x\<lparr>exp_use := exp_use x - 1\<rparr>))"
    and exp_find_none: "nf_ct_expect_find_get E st net z t = (None, st') \<Longrightarrow> st' = st"
    and exp_find_some: "nf_ct_expect_find_get E st net z t = (Some p, st') \<Longrightarrow>
      st p \<noteq> None \<and> st' = exp_get st p"
    and exp_find: "nf_ct_expect_find E st net z t = Some p \<Longrightarrow> st p \<noteq> None"
    and exp_alloc: "nf_ct_expect_alloc E K m = Some (p, x) \<Longrightarrow> e_exp K p = None \<and> exp_use x = 1"
    and exp_unlink: "e_exp K p = Some x \<Longrightarrow> 1 < exp_use x \<Longrightarrow>
      nf_ct_unlink_expect_report E K p portid report =
        K\<lparr>e_hash := map (filter (\<lambda>q. q \<noteq> p)) (e_hash K), e_of := (\<lambda>m. filter (\<lambda>q. q \<noteq> p) (e_of K m)),
          e_exp := (e_exp K)(p \<mapsto> x\<lparr>exp_use := exp_use x - 1\<rparr>)\<rparr>"
    and exp_relate: "e_exp K p = Some x \<Longrightarrow> nf_ct_expect_related_report E K p portid report = (r, K') \<Longrightarrow>
      e_ct K' = e_ct K \<and> exp_sub (e_exp K) (e_exp K') \<and>
      (\<exists>y. e_exp K' p = Some y \<and> exp_use y = exp_use x + (if r = Inr () then 2 else 0))"
    and exp_iterate: "nf_ct_expect_iterate_net E K net f portid report = Inr K' \<Longrightarrow>
      e_ct K' = e_ct K \<and> exp_sub (e_exp K) (e_exp K')"

lemma exp_laws_store:
  assumes "exp_laws E emits grows room msgs A"
  shows "exp_laws (E\<lparr>env_store := st\<rparr>) emits grows room msgs A"
proof -
  have "dump_laws (E\<lparr>env_store := st\<rparr>) emits grows room msgs A"
    using assms by (simp add: exp_laws_def lookup_laws_def table_laws_def dump_laws_store)
  then have "lookup_laws (E\<lparr>env_store := st\<rparr>) emits grows room msgs A"
    using assms unfolding exp_laws_def lookup_laws_def table_laws_def table_laws_axioms_def
      lookup_laws_axioms_def by simp
  then show ?thesis using assms unfolding exp_laws_def exp_laws_axioms_def by simp
qed

context exp_laws
begin

lemma emt_names: "emt k (run_acts [
    (case Option.bind (ext_help m) help_helper of
       None \<Rightarrow> run_acts [] | Some h \<Rightarrow> put E CTA_EXPECT_HELP_NAME (V_string (hlp_name h))),
    (case expectfn_find_by_symbol E (exp_expectfn x) of
       None \<Rightarrow> run_acts [] | Some name \<Rightarrow> put E CTA_EXPECT_FN (V_string name))])
  (exp_name_attrs E x m)"
proof -
  have c: "emt k (case o' of None \<Rightarrow> run_acts [] | Some h \<Rightarrow> put E n (f h))
      (case o' of None \<Rightarrow> [] | Some h \<Rightarrow> [Leaf n (f h)])" for o' :: "'a option" and n f
    by (cases o') (simp_all only: option.case emt_acts_Nil emt_put)
  have "emt k (run_acts [
      (case Option.bind (ext_help m) help_helper of
         None \<Rightarrow> run_acts [] | Some h \<Rightarrow> put E CTA_EXPECT_HELP_NAME (V_string (hlp_name h))),
      (case expectfn_find_by_symbol E (exp_expectfn x) of
         None \<Rightarrow> run_acts [] | Some name \<Rightarrow> put E CTA_EXPECT_FN (V_string name))])
    ((case Option.bind (ext_help m) help_helper of
        None \<Rightarrow> [] | Some h \<Rightarrow> [Leaf CTA_EXPECT_HELP_NAME (V_string (hlp_name h))]) @
     (case expectfn_find_by_symbol E (exp_expectfn x) of
        None \<Rightarrow> [] | Some name \<Rightarrow> [Leaf CTA_EXPECT_FN (V_string name)]) @ [])"
    by (intro emt_acts_Cons emt_acts_Nil c)
  then show ?thesis by (simp add: exp_name_attrs_def)
qed

lemma emt_expect:
  assumes m: "env_store E (exp_master x) = Some m"
  shows "emt k (ctnetlink_exp_dump_expect E p x) (exp_attrs E A p x m)"
proof -
  have "emt k (ctnetlink_exp_dump_expect E p x)
    ([Nest CTA_EXPECT_TUPLE (tuple_attrs A (exp_tuple x))] @
     [Nest CTA_EXPECT_MASK (tuple_attrs A (exp_mask_tuple (exp_tuple x) (exp_mask_u3 x) (exp_mask_u x)))] @
     ([Nest CTA_EXPECT_MASTER (tuple_attrs A (tuple_orig m))] @ nat_attrs A x m @
      [Leaf CTA_EXPECT_TIMEOUT (V_be32 (htonl (of_int (exp_seconds E x))))] @
      [Leaf CTA_EXPECT_ID (V_be32 (nf_expect_get_id E p x))] @
      [Leaf CTA_EXPECT_FLAGS (V_be32 (htonl (exp_flags x)))] @
      [Leaf CTA_EXPECT_CLASS (V_be32 (htonl (exp_class x)))] @ exp_name_attrs E x m) @ [])"
    unfolding ctnetlink_exp_dump_expect_def m option.case
    by (intro emt_fail_with emt_acts_Cons emt_exp_tuple emt_exp_mask emt_exp_nat emt_put emt_names
        emt_acts_Nil) simp
  then show ?thesis by (rule emt_cong) (simp add: exp_attrs_def)
qed

text \<open>One message, complete or not at all.\<close>

lemma exp_fill_fits:
  assumes "env_store E (exp_master x) = Some m"
    and "NFNL_HDR_SIZE + attrs_size (exp_attrs E A p x m) \<le> room skb"
  shows "\<exists>skb'. ctnetlink_exp_fill_info E portid seq event p x skb = (Inr (w_len E skb'), skb') \<and>
    0 < w_len E skb' \<and> msgs skb' = msgs skb @
      [(exp_msg portid seq event (if portid \<noteq> 0 then NLM_F_MULTI else 0) x, exp_attrs E A p x m)] \<and>
    room skb = room skb' + NFNL_HDR_SIZE + attrs_size (exp_attrs E A p x m)"
  unfolding ctnetlink_exp_fill_info_def
  by (rule message_fits [OF emt_expect [OF assms(1)] assms(2)]) blast

lemma exp_fill_full:
  assumes "env_store E (exp_master x) = Some m"
    and "room skb < NFNL_HDR_SIZE + attrs_size (exp_attrs E A p x m)"
  shows "ctnetlink_exp_fill_info E portid seq event p x skb = (Inl EFAIL, skb)"
  unfolding ctnetlink_exp_fill_info_def
  using message_overflows [OF emt_expect [OF assms(1), of True] assms(2)] by blast

end

section \<open>What is left to dump\<close>

text \<open>
  A guard that looks at the connections and at what does not change while a dump runs. The entries
  of a list that pass it.
\<close>

definition steady :: "(esys \<Rightarrow> nf_conntrack_expect \<Rightarrow> bool res) \<Rightarrow> bool" where
  "steady skips \<longleftrightarrow> (\<forall>K xs x n. skips (K\<lparr>e_exp := xs\<rparr>) (x\<lparr>exp_use := n\<rparr>) = skips K x)"

definition passing :: "(esys \<Rightarrow> nf_conntrack_expect \<Rightarrow> bool res) \<Rightarrow> esys \<Rightarrow> nat \<Rightarrow> bool" where
  "passing skips K p \<longleftrightarrow> (case e_exp K p of None \<Rightarrow> False | Some x \<Rightarrow> skips K x = Inr False)"

text \<open>The rest of a walk over several lists of which the first is taken up at an entry.\<close>

fun exp_left :: "(nat \<Rightarrow> bool) \<Rightarrow> nat option \<Rightarrow> nat list list \<Rightarrow> nat list" where
  "exp_left P lst [] = []"
| "exp_left P lst (ps # bs) = resume lst (filter P ps) @ concat (map (filter P) bs)"

lemma exp_left_None: "exp_left P None bs = concat (map (filter P) bs)"
  by (cases bs) (simp_all add: resume_def)

text \<open>Objects a dump can walk: live, with live masters, on which the guard is defined.\<close>

definition walkable :: "(esys \<Rightarrow> nf_conntrack_expect \<Rightarrow> bool res) \<Rightarrow> esys \<Rightarrow> nat list \<Rightarrow> bool" where
  "walkable skips K ps \<longleftrightarrow> distinct ps \<and> (\<forall>p\<in>set ps. case e_exp K p of None \<Rightarrow> False
     | Some x \<Rightarrow> 0 < exp_use x \<and> e_ct K (exp_master x) \<noteq> None \<and> (\<exists>b. skips K x = Inr b))"

definition exp_hold :: "exp_store \<Rightarrow> nat option \<Rightarrow> exp_store" where
  "exp_hold st lst = (case lst of None \<Rightarrow> st | Some l \<Rightarrow> exp_get st l)"

lemma exp_get_apply:
  "exp_get st p q = (if q = p then map_option (\<lambda>x. x\<lparr>exp_use := Suc (exp_use x)\<rparr>) (st p) else st q)"
  by (auto simp: exp_get_def split: option.splits)

lemma exp_hold_apply:
  "exp_hold st lst q =
     (if lst = Some q then map_option (\<lambda>x. x\<lparr>exp_use := Suc (exp_use x)\<rparr>) (st q) else st q)"
  by (cases lst) (auto simp: exp_hold_def exp_get_apply)

lemma steady_simps:
  assumes "steady skips"
  shows "skips (K\<lparr>e_exp := xs\<rparr>) x = skips K x" "skips K (x\<lparr>exp_use := n\<rparr>) = skips K x"
proof -
  have "skips (K\<lparr>e_exp := xs\<rparr>) (x\<lparr>exp_use := exp_use x\<rparr>) = skips K x"
    "skips (K\<lparr>e_exp := e_exp K\<rparr>) (x\<lparr>exp_use := n\<rparr>) = skips K x"
    using assms unfolding steady_def by blast+
  then show "skips (K\<lparr>e_exp := xs\<rparr>) x = skips K x" "skips K (x\<lparr>exp_use := n\<rparr>) = skips K x" by simp_all
qed

lemma passing_hold:
  assumes "steady skips"
  shows "passing skips (K\<lparr>e_exp := exp_hold (e_exp K) lst\<rparr>) = passing skips K"
  by (rule ext) (auto simp: passing_def exp_hold_apply steady_simps [OF assms] split: option.splits)

lemma walkable_hold:
  assumes "steady skips" "walkable skips K ps"
  shows "walkable skips (K\<lparr>e_exp := exp_hold (e_exp K) lst\<rparr>) ps"
  using assms(2) unfolding walkable_def
  by (auto simp: exp_hold_apply steady_simps [OF assms(1)] split: option.splits dest!: bspec)

lemma walkable_node:
  assumes "walkable skips K ps" "p \<in> set ps"
  obtains x m b where "e_exp K p = Some x" "0 < exp_use x" "e_ct K (exp_master x) = Some m"
    "skips K x = Inr b"
  using assms by (auto simp: walkable_def split: option.splits dest!: bspec)

lemma walkable_Cons: "walkable skips K (p # ps) \<Longrightarrow> walkable skips K ps"
  by (simp add: walkable_def)

lemma passing_guard: "passing skips K p \<Longrightarrow> \<exists>x. e_exp K p = Some x \<and> skips K x = Inr False"
  by (auto simp: passing_def split: option.splits)

text \<open>Writing a list of entries one after the other: the buffer, and what did not fit.\<close>

fun exp_run ::
  "('skb, 'x) exp_env_scheme \<Rightarrow> exp_call \<Rightarrow> esys \<Rightarrow> nat list \<Rightarrow> 'skb \<Rightarrow> 'skb \<times> nat list" where
  "exp_run E c K [] skb = (skb, [])"
| "exp_run E c K (p # ps) skb =
     (case e_exp K p of
        None \<Rightarrow> (skb, p # ps)
      | Some x \<Rightarrow>
          (case ctnetlink_exp_fill_info (E\<lparr>env_store := e_ct K\<rparr>) (ec_portid c) (ec_seq c)
                  IPCTNL_MSG_EXP_NEW p x skb of
             (Inl e, skb') \<Rightarrow> (skb', p # ps)
           | (Inr n, skb') \<Rightarrow> exp_run E c K ps skb'))"

lemma exp_run_append:
  "exp_run E c K (xs @ ys) skb =
     (case exp_run E c K xs skb of (skb', []) \<Rightarrow> exp_run E c K ys skb' | (skb', rem) \<Rightarrow> (skb', rem @ ys))"
  by (induction xs arbitrary: skb) (auto split: option.splits prod.splits sum.splits)

lemma exp_run_suffix: "exp_run E c K ps skb = (skb', rem) \<Longrightarrow> \<exists>done. ps = done @ rem"
  by (induction ps arbitrary: skb) (auto split: option.splits prod.splits sum.splits, metis append_Cons)

text \<open>Where a walk ends: at the end of its list, or in front of the first entry that did not fit.\<close>

definition exp_stop :: "'skb exp_st \<Rightarrow> nat \<Rightarrow> 'skb \<Rightarrow> 'skb exp_st" where
  "exp_stop s p skb = s\<lparr>es_skb := skb, es_args1 := Some p,
     es_sys := (es_sys s)\<lparr>e_exp := exp_get (e_exp (es_sys s)) p\<rparr>\<rparr>"

definition exp_ends :: "'skb exp_st \<Rightarrow> 'skb \<times> nat list \<Rightarrow> bool \<times> 'skb exp_st" where
  "exp_ends s r = (case r of (skb, []) \<Rightarrow> (False, s\<lparr>es_skb := skb, es_args1 := None\<rparr>)
     | (skb, p # ps) \<Rightarrow> (True, exp_stop s p skb))"

text \<open>The message of an entry: header and attributes.\<close>

definition expect_message ::
  "('skb, 'x) exp_env_scheme \<Rightarrow> cb_attrs \<Rightarrow> exp_call \<Rightarrow> esys \<Rightarrow> nat \<Rightarrow> nlmsg \<times> nlattr list" where
  "expect_message E A c K p =
     (case e_exp K p of
        None \<Rightarrow> undefined
      | Some x \<Rightarrow>
          (exp_msg (ec_portid c) (ec_seq c) IPCTNL_MSG_EXP_NEW (if ec_portid c \<noteq> 0 then NLM_F_MULTI else 0) x,
           exp_attrs E A p x (the (e_ct K (exp_master x)))))"

context exp_laws
begin

abbreviation "expect_entry \<equiv> expect_message E A"

lemma exp_fill_ends:
  assumes "st (exp_master x) = Some m"
  obtains (ok) n skb' where
    "ctnetlink_exp_fill_info (E\<lparr>env_store := st\<rparr>) portid seq event p x skb = (Inr n, skb')"
  | (full) "ctnetlink_exp_fill_info (E\<lparr>env_store := st\<rparr>) portid seq event p x skb = (Inl EFAIL, skb)"
proof (cases "NFNL_HDR_SIZE + attrs_size (exp_attrs (E\<lparr>env_store := st\<rparr>) A p x m) \<le> room skb")
  case True
  with exp_laws.exp_fill_fits [OF exp_laws_store [OF exp_laws_axioms], of st x m p skb portid seq event]
    assms that(1) show thesis by auto
next
  case False
  with exp_laws.exp_fill_full [OF exp_laws_store [OF exp_laws_axioms], of st x m skb p portid seq event]
    assms that(2) show thesis by auto
qed

lemma exp_nodes_run:
  assumes "walkable skips (es_sys s) ps" "es_args1 s = None"
  shows "exp_nodes E c skips lst ps s =
    Inr (exp_ends s (exp_run E c (es_sys s) (filter (passing skips (es_sys s)) ps) (es_skb s)))"
  using assms
proof (induction ps arbitrary: s)
  case Nil
  then show ?case by (simp add: exp_ends_def)
next
  case (Cons p ps)
  obtain x m b where x: "e_exp (es_sys s) p = Some x" "0 < exp_use x"
      "e_ct (es_sys s) (exp_master x) = Some m" "skips (es_sys s) x = Inr b"
    using walkable_node [OF Cons.prems(1)] by (metis list.set_intros(1))
  note w = walkable_Cons [OF Cons.prems(1)]
  have s1: "s\<lparr>es_args1 := None\<rparr> = s" using Cons.prems(2) by simp
  show ?case
  proof (cases b)
    case True
    then show ?thesis using Cons.IH [OF w Cons.prems(2)] x by (simp add: passing_def)
  next
    case False
    let ?run = "exp_run E c (es_sys s) (filter (passing skips (es_sys s)) ps)"
    have p: "filter (passing skips (es_sys s)) (p # ps) = p # filter (passing skips (es_sys s)) ps"
      using x False by (simp add: passing_def)
    have step: "exp_nodes E c skips lst (p # ps) s = bind_res (exp_entry E c p x s) (\<lambda>(stop, s1).
        if stop then Inr (True, s1) else exp_nodes E c skips lst ps s1)"
      using x False Cons.prems(2) by (simp add: s1)
    from x(3) show ?thesis
    proof (cases rule: exp_fill_ends [where p = p and portid = "ec_portid c" and seq = "ec_seq c"
          and event = IPCTNL_MSG_EXP_NEW and skb = "es_skb s"])
      case (ok n skb')
      from Cons.IH [of "s\<lparr>es_skb := skb'\<rparr>"] w Cons.prems(2)
      have "exp_nodes E c skips lst ps (s\<lparr>es_skb := skb'\<rparr>) =
          Inr (exp_ends (s\<lparr>es_skb := skb'\<rparr>) (?run skb'))" by simp
      then show ?thesis
        unfolding p step using ok x(1)
        by (auto simp: exp_entry_def exp_ends_def exp_stop_def split: prod.splits list.splits)
    next
      case full
      then show ?thesis
        unfolding p step using x(1,2) by (simp add: exp_entry_def exp_ends_def exp_stop_def)
    qed
  qed
qed

text \<open>A remembered entry that does not pass any more, and one that is still there.\<close>

lemma exp_nodes_gone:
  assumes "walkable skips (es_sys s) ps" "es_args1 s = Some l"
    "l \<notin> set (filter (passing skips (es_sys s)) ps)"
  shows "exp_nodes E c skips (Some l) ps s = Inr (False, s)"
  using assms
proof (induction ps)
  case (Cons p ps)
  obtain x b where x: "e_exp (es_sys s) p = Some x" "skips (es_sys s) x = Inr b"
    using walkable_node [OF Cons.prems(1)] by (metis list.set_intros(1))
  from Cons.prems(3) x have "b \<or> p \<noteq> l" by (auto simp: passing_def)
  then have "exp_nodes E c skips (Some l) (p # ps) s = exp_nodes E c skips (Some l) ps s"
    using x Cons.prems(2) by auto
  moreover have "l \<notin> set (filter (passing skips (es_sys s)) ps)"
    using Cons.prems(3) by (auto split: if_splits)
  ultimately show ?case using Cons.IH [OF walkable_Cons [OF Cons.prems(1)]] Cons.prems(2) by simp
qed simp

lemma exp_nodes_resumed:
  assumes "walkable skips (es_sys s) ps" "es_args1 s = Some l"
    "l \<in> set (filter (passing skips (es_sys s)) ps)"
  shows "exp_nodes E c skips (Some l) ps s =
      exp_nodes E c skips (Some l) (dropWhile (\<lambda>q. q \<noteq> l) ps) (s\<lparr>es_args1 := None\<rparr>)"
  using assms
proof (induction ps)
  case (Cons p ps)
  obtain x b where x: "e_exp (es_sys s) p = Some x" "skips (es_sys s) x = Inr b"
    using walkable_node [OF Cons.prems(1)] by (metis list.set_intros(1))
  show ?case
  proof (cases "p = l")
    case True
    then have "passing skips (es_sys s) p" using Cons.prems(3) by (auto split: if_splits)
    then have "b = False" using x by (simp add: passing_def)
    then show ?thesis using True x by simp
  next
    case False
    then have "exp_nodes E c skips (Some l) (p # ps) s = exp_nodes E c skips (Some l) ps s"
      using x Cons.prems(2) by auto
    moreover have "l \<in> set (filter (passing skips (es_sys s)) ps)"
      using Cons.prems(3) False by (auto split: if_splits)
    ultimately show ?thesis
      using Cons.IH [OF walkable_Cons [OF Cons.prems(1)] Cons.prems(2)] False by simp
  qed
qed simp

lemma filter_from: "P l \<Longrightarrow> filter P (dropWhile (\<lambda>q. q \<noteq> l) ps) = dropWhile (\<lambda>q. q \<noteq> l) (filter P ps)"
  by (induction ps) auto

lemma walkable_drop: "walkable skips K ps \<Longrightarrow> walkable skips K (dropWhile P ps)"
  by (auto simp: walkable_def dest: set_dropWhileD)

text \<open>One list, from where the dump is to go on.\<close>

lemma exp_restart_run:
  assumes "walkable skips (es_sys s) ps"
  shows "exp_restart E c skips (es_args1 s) ps s = Inr (exp_ends s
    (exp_run E c (es_sys s) (resume (es_args1 s) (filter (passing skips (es_sys s)) ps)) (es_skb s)))"
proof -
  let ?f = "filter (passing skips (es_sys s)) ps"
  have ends: "exp_ends (s\<lparr>es_args1 := None\<rparr>) r = exp_ends s r" for r
    by (auto simp: exp_ends_def exp_stop_def split: prod.splits list.splits)
  have fin: "es_args1 s' = None" if "exp_ends s r = (False, s')" for r s'
    using that by (auto simp: exp_ends_def split: prod.splits list.splits)
  have once: "exp_restart E c skips lst qs s0 = Inr (exp_ends s r)"
    if "exp_nodes E c skips lst qs s0 = Inr (exp_ends s r)" for lst qs s0 r
  proof -
    obtain a s1 where e: "exp_ends s r = (a, s1)" by fastforce
    then have "\<not> a \<Longrightarrow> es_args1 s1 = None" using fin by simp
    then show ?thesis using that e by (subst exp_restart.simps) auto
  qed
  have run: "exp_nodes E c skips lst qs (s\<lparr>es_args1 := None\<rparr>) =
      Inr (exp_ends s (exp_run E c (es_sys s) (filter (passing skips (es_sys s)) qs) (es_skb s)))"
    if "walkable skips (es_sys s) qs" for lst qs
    using exp_nodes_run [of skips "s\<lparr>es_args1 := None\<rparr>" qs c lst] that ends by simp
  show ?thesis
  proof (cases "es_args1 s")
    case None
    then have s: "s\<lparr>es_args1 := None\<rparr> = s" by simp
    show ?thesis using once [OF run [OF assms, of None], unfolded s] None by (simp add: resume_def)
  next
    case (Some l)
    show ?thesis
    proof (cases "l \<in> set ?f")
      case False
      then have "exp_restart E c skips (Some l) ps s = exp_restart E c skips (Some l) ps (s\<lparr>es_args1 := None\<rparr>)"
        using exp_nodes_gone [OF assms Some False] Some by (subst exp_restart.simps) simp
      moreover have "resume (Some l) ?f = ?f" using False by (simp only: resume_def option.case if_False)
      ultimately show ?thesis using once [OF run [OF assms, of "Some l"]] Some by simp
    next
      case True
      then have "passing skips (es_sys s) l" by simp
      from filter_from [of "passing skips (es_sys s)", OF this]
      have "filter (passing skips (es_sys s)) (dropWhile (\<lambda>q. q \<noteq> l) ps) = resume (Some l) ?f"
        using True by (simp add: resume_def)
      then show ?thesis
        using once [OF exp_nodes_resumed [OF assms Some True, of c,
            unfolded run [OF walkable_drop [OF assms]]]] Some by simp
    qed
  qed
qed

lemma exp_restart_any:
  assumes "walkable skips (es_sys s) ps" "es_args1 s = None \<or> es_args1 s = lst"
  shows "exp_restart E c skips lst ps s = Inr (exp_ends s
    (exp_run E c (es_sys s) (resume (es_args1 s) (filter (passing skips (es_sys s)) ps)) (es_skb s)))"
proof (cases "es_args1 s")
  case (Some l)
  then show ?thesis using exp_restart_run [OF assms(1), of c] assms(2) by auto
next
  case None
  obtain skb' rem where r: "exp_run E c (es_sys s) (filter (passing skips (es_sys s)) ps) (es_skb s) =
      (skb', rem)" by fastforce
  show ?thesis
    using exp_nodes_run [OF assms(1) None, of c lst] None r
    by (subst exp_restart.simps) (simp add: exp_ends_def resume_def split: list.splits)
qed

text \<open>The entries up to the first one that does not fit are written, one message each.\<close>

lemma exp_run_spec:
  assumes "\<forall>p\<in>set W. \<exists>x m. e_exp K p = Some x \<and> e_ct K (exp_master x) = Some m"
    "exp_run E c K W skb = (skb', rem)"
  shows "\<exists>ws. W = ws @ rem \<and> msgs skb' = msgs skb @ map (expect_entry c K) ws \<and>
    (rem \<noteq> [] \<longrightarrow> room skb' < NFNL_HDR_SIZE + attrs_size (snd (expect_entry c K (hd rem))))"
  using assms
proof (induction W arbitrary: skb)
  case (Cons p ps)
  obtain x m where x: "e_exp K p = Some x" "e_ct K (exp_master x) = Some m" using Cons.prems(1) by auto
  let ?E = "E\<lparr>env_store := e_ct K\<rparr>"
  note L = exp_laws_store [OF exp_laws_axioms, of "e_ct K"]
  have attrs: "exp_attrs ?E A p x m = exp_attrs E A p x m"
    by (simp add: exp_attrs_def exp_name_attrs_def exp_seconds_def nf_expect_get_id_def)
  have entry: "expect_entry c K p = (exp_msg (ec_portid c) (ec_seq c) IPCTNL_MSG_EXP_NEW
      (if ec_portid c \<noteq> 0 then NLM_F_MULTI else 0) x, exp_attrs E A p x m)"
    using x by (simp add: expect_message_def)
  show ?case
  proof (cases "NFNL_HDR_SIZE + attrs_size (exp_attrs E A p x m) \<le> room skb")
    case True
    from exp_laws.exp_fill_fits [OF L, of x m p skb "ec_portid c" "ec_seq c" IPCTNL_MSG_EXP_NEW]
    obtain skb1 where s1: "ctnetlink_exp_fill_info ?E (ec_portid c) (ec_seq c) IPCTNL_MSG_EXP_NEW p x skb =
        (Inr (w_len ?E skb1), skb1)" "msgs skb1 = msgs skb @ [expect_entry c K p]"
      using x True unfolding attrs entry by auto
    then have "exp_run E c K ps skb1 = (skb', rem)" using Cons.prems(2) x by simp
    from Cons.IH [OF _ this] Cons.prems(1) obtain ws where "ps = ws @ rem"
      "msgs skb' = msgs skb1 @ map (expect_entry c K) ws"
      "rem \<noteq> [] \<longrightarrow> room skb' < NFNL_HDR_SIZE + attrs_size (snd (expect_entry c K (hd rem)))" by auto
    then show ?thesis using s1 by (intro exI [of _ "p # ws"]) simp
  next
    case False
    from exp_laws.exp_fill_full [OF L, of x m skb p "ec_portid c" "ec_seq c" IPCTNL_MSG_EXP_NEW]
    have "ctnetlink_exp_fill_info ?E (ec_portid c) (ec_seq c) IPCTNL_MSG_EXP_NEW p x skb = (Inl EFAIL, skb)"
      using x False unfolding attrs by simp
    then have "skb' = skb" "rem = p # ps" using Cons.prems(2) x by auto
    then show ?thesis using False entry by (intro exI [of _ "[]"]) simp
  qed
qed simp

text \<open>Several lists, none of which is being resumed.\<close>

abbreviation bucket_walk :: "exp_call \<Rightarrow> 'skb exp_st \<Rightarrow> nat list list \<Rightarrow> 'skb \<times> nat list \<Rightarrow> 'skb exp_st \<Rightarrow> bool"
  where
  "bucket_walk c s bs r s' \<equiv>
     (case r of
        (skb, []) \<Rightarrow> s' = s\<lparr>es_skb := skb, es_args1 := None, es_args0 := es_args0 s + length bs\<rparr>
      | (skb, p # ps) \<Rightarrow> \<exists>i<length bs. s' = exp_stop (s\<lparr>es_args0 := es_args0 s + i\<rparr>) p skb \<and>
          exp_left (passing (table_skips c) (es_sys s)) (Some p) (drop i bs) = p # ps)"

lemma left_stopped:
  assumes "distinct ps" "exp_run E c K (resume lst (filter P ps)) skb = (skb', p # qs)"
  shows "exp_left P (Some p) (ps # bs) = p # qs @ concat (map (filter P) bs)"
proof -
  obtain us where "filter P ps = us @ resume lst (filter P ps)" using resume_suffix by blast
  moreover obtain ws where "resume lst (filter P ps) = ws @ p # qs"
    using exp_run_suffix [OF assms(2)] by blast
  ultimately have "filter (\<lambda>_. True) (filter P ps) = (us @ ws) @ p # qs" by simp
  from filter_dropWhile [OF distinct_filter [OF assms(1)] this]
  show ?thesis by (simp add: resume_def)
qed

text \<open>The walk over the buckets, the first of which is taken up where \<open>args[1]\<close> says.\<close>

lemma exp_buckets_run:
  assumes "\<forall>ps\<in>set bs. walkable (table_skips c) (es_sys s) ps" "bs \<noteq> []"
    "es_args1 s = None \<or> es_args1 s = lst"
  shows "\<exists>s'. exp_buckets E c lst bs s = Inr s' \<and> bucket_walk c s bs
    (exp_run E c (es_sys s) (exp_left (passing (table_skips c) (es_sys s)) (es_args1 s) bs) (es_skb s)) s'"
  using assms
proof (induction bs arbitrary: s)
  case (Cons ps bs)
  let ?P = "passing (table_skips c) (es_sys s)"
  let ?run = "exp_run E c (es_sys s)"
  obtain skb1 rem where run: "?run (resume (es_args1 s) (filter ?P ps)) (es_skb s) = (skb1, rem)"
    by fastforce
  have w: "walkable (table_skips c) (es_sys s) ps" using Cons.prems(1) by simp
  have one: "exp_restart E c (table_skips c) lst ps s = Inr (exp_ends s (skb1, rem))"
    using exp_restart_any [OF w Cons.prems(3)] run by simp
  show ?case
  proof (cases rem)
    case (Cons p qs)
    have stop: "exp_buckets E c lst (ps # bs) s = Inr (exp_stop s p skb1)"
      using one Cons by (simp add: exp_ends_def)
    have left: "exp_left ?P (Some p) (ps # bs) = p # qs @ concat (map (filter ?P) bs)"
      using left_stopped [where ps = ps] w run Cons unfolding walkable_def by blast
    have runs: "?run (exp_left ?P (es_args1 s) (ps # bs)) (es_skb s) =
        (skb1, p # qs @ concat (map (filter ?P) bs))"
      using run Cons by (simp add: exp_run_append)
    show ?thesis unfolding runs stop
      using left by (intro exI [of _ "exp_stop s p skb1"])
        (auto intro!: exI [of _ 0] simp del: exp_left.simps)
  next
    case Nil
    let ?s1 = "s\<lparr>es_skb := skb1, es_args1 := None, es_args0 := Suc (es_args0 s)\<rparr>"
    have step: "exp_buckets E c lst (ps # bs) s = exp_buckets E c lst bs ?s1"
      using one Nil by (simp add: exp_ends_def)
    have runs: "?run (exp_left ?P (es_args1 s) (ps # bs)) (es_skb s) = ?run (exp_left ?P None bs) skb1"
      using run Nil by (simp add: exp_run_append exp_left_None)
    show ?thesis
    proof (cases "bs = []")
      case True
      then show ?thesis using step runs by (simp add: exp_left_None)
    next
      case False
      from Cons.IH [of ?s1] Cons.prems(1) False obtain s' where
        s': "exp_buckets E c lst bs ?s1 = Inr s'" "bucket_walk c ?s1 bs (?run (exp_left ?P None bs) skb1) s'"
        by auto
      obtain skb2 rem2 where r: "?run (exp_left ?P None bs) skb1 = (skb2, rem2)" by fastforce
      show ?thesis
      proof (cases rem2)
        case rem: Nil
        then show ?thesis using s' r step runs by simp
      next
        case rem: (Cons p qs)
        with s'(2) r obtain i where "i < length bs"
          "s' = exp_stop (?s1\<lparr>es_args0 := Suc (es_args0 s) + i\<rparr>) p skb2"
          "exp_left ?P (Some p) (drop i bs) = p # qs" by auto
        then show ?thesis unfolding runs r rem step s'(1)
          by (intro exI [of _ s']) (auto simp: exp_stop_def intro!: exI [of _ "Suc i"])
      qed
    qed
  qed
qed simp

section \<open>One call of a dump\<close>

lemma put_held:
  assumes "st l = Some x" "0 < exp_use x"
  shows "nf_ct_expect_put E (exp_hold st (Some l)) l = st"
    and "nf_ct_expect_put E (exp_get (exp_hold st (Some l)) p) l = exp_hold st (Some p)"
proof -
  show "nf_ct_expect_put E (exp_hold st (Some l)) l = st"
    using exp_put [of "exp_hold st (Some l)" l "x\<lparr>exp_use := Suc (exp_use x)\<rparr>"] assms
    by (auto simp: exp_hold_apply fun_eq_iff)
  show "nf_ct_expect_put E (exp_get (exp_hold st (Some l)) p) l = exp_hold st (Some p)"
  proof (cases "p = l")
    case True
    then show ?thesis
      using exp_put [of "exp_get (exp_hold st (Some l)) p" l "x\<lparr>exp_use := Suc (Suc (exp_use x))\<rparr>"] assms
      by (auto simp: exp_hold_apply exp_get_apply fun_eq_iff)
  next
    case False
    then show ?thesis
      using exp_put [of "exp_get (exp_hold st (Some l)) p" l "x\<lparr>exp_use := Suc (exp_use x)\<rparr>"] assms
      by (auto simp: exp_hold_apply exp_get_apply fun_eq_iff)
  qed
qed

lemma exp_attrs_use [simp]: "exp_attrs E A p (x\<lparr>exp_use := n\<rparr>) m = exp_attrs E A p x m"
  by (simp add: exp_attrs_def nat_attrs_def exp_nat_tuple_def exp_name_attrs_def exp_seconds_def
      nf_expect_get_id_def)

lemma expect_entry_hold:
  "e_exp K p \<noteq> None \<Longrightarrow> expect_entry c (K\<lparr>e_exp := exp_hold (e_exp K) lst\<rparr>) p = expect_entry c K p"
  by (auto simp: expect_message_def exp_hold_apply exp_msg_def)

lemma steady_guards: "steady (table_skips c)" "steady (list_skips c)"
  by (simp_all add: steady_def table_skips_def list_skips_def)

text \<open>What \<open>exp_out\<close> makes of the end of a walk, when the previous call held a reference.\<close>

lemma exp_out_stop:
  assumes "es_sys s = K\<lparr>e_exp := exp_hold (e_exp K) lst\<rparr>"
    and "\<And>l. lst = Some l \<Longrightarrow> \<exists>x. e_exp K l = Some x \<and> 0 < exp_use x"
  shows "exp_out E lst (exp_stop s p skb) =
      (w_len E skb, s\<lparr>es_skb := skb, es_args1 := Some p, es_sys := K\<lparr>e_exp := exp_hold (e_exp K) (Some p)\<rparr>\<rparr>)"
    and "es_sys s' = es_sys s \<Longrightarrow> exp_out E lst s' = (w_len E (es_skb s'), s'\<lparr>es_sys := K\<rparr>)"
proof -
  have h: "exp_get (exp_hold (e_exp K) None) p = exp_hold (e_exp K) (Some p)" "exp_hold (e_exp K) None = e_exp K"
    by (simp_all add: exp_hold_def)
  show "exp_out E lst (exp_stop s p skb) =
      (w_len E skb, s\<lparr>es_skb := skb, es_args1 := Some p, es_sys := K\<lparr>e_exp := exp_hold (e_exp K) (Some p)\<rparr>\<rparr>)"
    using assms put_held(2) h by (cases lst) (auto simp: exp_out_def exp_stop_def)
  show "exp_out E lst s' = (w_len E (es_skb s'), s'\<lparr>es_sys := K\<rparr>)" if "es_sys s' = es_sys s"
    using assms put_held(1) h that by (cases lst) (auto simp: exp_out_def)
qed

lemma exp_out_end:
  assumes "es_sys s = K\<lparr>e_exp := exp_hold (e_exp K) (es_args1 s)\<rparr>"
    and "\<And>l. es_args1 s = Some l \<Longrightarrow> \<exists>x. e_exp K l = Some x \<and> 0 < exp_use x"
    and W: "\<forall>p\<in>set W. \<exists>x m. e_exp K p = Some x \<and> e_ct K (exp_master x) = Some m"
    and run: "exp_run E c (es_sys s) W (es_skb s) = (skb', rem)"
  shows "\<exists>ws. W = ws @ rem \<and> msgs skb' = msgs (es_skb s) @ map (expect_entry c K) ws \<and>
    (rem \<noteq> [] \<longrightarrow> room skb' < NFNL_HDR_SIZE + attrs_size (snd (expect_entry c K (hd rem))))"
proof -
  have live: "\<forall>p\<in>set W. \<exists>x m. e_exp (es_sys s) p = Some x \<and> e_ct (es_sys s) (exp_master x) = Some m"
    using W unfolding assms(1) by (auto simp: exp_hold_apply)
  from exp_run_spec [OF live run] obtain ws where ws: "W = ws @ rem"
    "msgs skb' = msgs (es_skb s) @ map (expect_entry c (es_sys s)) ws"
    "rem \<noteq> [] \<longrightarrow> room skb' < NFNL_HDR_SIZE + attrs_size (snd (expect_entry c (es_sys s) (hd rem)))"
    by blast
  have eq: "expect_entry c (es_sys s) p = expect_entry c K p" if "p \<in> set W" for p
    using expect_entry_hold [of K p] W that unfolding assms(1) by auto
  have "map (expect_entry c (es_sys s)) ws = map (expect_entry c K) ws"
    using eq ws(1) by (intro map_cong) auto
  moreover have "rem \<noteq> [] \<Longrightarrow> expect_entry c (es_sys s) (hd rem) = expect_entry c K (hd rem)"
    using eq [of "hd rem"] ws(1) by (cases rem) simp_all
  ultimately show ?thesis using ws by (intro exI [of _ ws]) simp
qed

text \<open>The table of all expectations.\<close>

lemma exp_dump_table_call:
  assumes s: "es_sys s = K\<lparr>e_exp := exp_hold (e_exp K) (es_args1 s)\<rparr>"
      "\<And>l. es_args1 s = Some l \<Longrightarrow> \<exists>x. e_exp K l = Some x \<and> 0 < exp_use x"
    and b: "es_args0 s < length (e_hash K)" "\<forall>ps\<in>set (e_hash K). walkable (table_skips c) K ps"
    and W: "W = exp_left (passing (table_skips c) K) (es_args1 s) (drop (es_args0 s) (e_hash K))"
  shows "\<exists>ws rem s'. W = ws @ rem \<and> ctnetlink_exp_dump_table E c s = Inr (w_len E (es_skb s'), s') \<and>
    msgs (es_skb s') = msgs (es_skb s) @ map (expect_entry c K) ws \<and>
    es_sys s' = K\<lparr>e_exp := exp_hold (e_exp K) (es_args1 s')\<rparr> \<and>
    (rem = [] \<longrightarrow> es_args0 s' = length (e_hash K) \<and> es_args1 s' = None) \<and>
    (rem \<noteq> [] \<longrightarrow> es_args0 s' < length (e_hash K) \<and> es_args1 s' = Some (hd rem) \<and>
       exp_left (passing (table_skips c) K) (es_args1 s') (drop (es_args0 s') (e_hash K)) = rem \<and>
       room (es_skb s') < NFNL_HDR_SIZE + attrs_size (snd (expect_entry c K (hd rem))))"
proof -
  let ?bs = "drop (es_args0 s) (e_hash K)"
  have bs: "?bs \<noteq> []" "drop (es_args0 s) (e_hash (es_sys s)) = ?bs" using b(1) s(1) by simp_all
  have w: "\<forall>ps\<in>set ?bs. walkable (table_skips c) (es_sys s) ps"
    unfolding s(1) using b(2) walkable_hold [OF steady_guards(1)] by (auto dest: in_set_dropD)
  have P: "passing (table_skips c) (es_sys s) = passing (table_skips c) K"
    unfolding s(1) by (rule passing_hold [OF steady_guards(1)])
  obtain skb' rem where run: "exp_run E c (es_sys s) W (es_skb s) = (skb', rem)" by fastforce
  obtain s1 where s1: "exp_buckets E c (es_args1 s) ?bs s = Inr s1" "bucket_walk c s ?bs (skb', rem) s1"
    using exp_buckets_run [OF w bs(1), of "es_args1 s"] run W unfolding P by auto
  have sub: "set (exp_left Q lst ms) \<subseteq> {p \<in> \<Union> (set ` set ms). Q p}" for Q lst ms
    by (cases ms) (auto simp: resume_def split: option.splits dest: set_dropWhileD)
  have live: "\<forall>p\<in>set W. \<exists>x m. e_exp K p = Some x \<and> e_ct K (exp_master x) = Some m"
  proof
    fix p
    assume "p \<in> set W"
    then obtain ps where "ps \<in> set (e_hash K)" "p \<in> set ps"
      using sub [of "passing (table_skips c) K" "es_args1 s" ?bs] W by (auto dest: in_set_dropD)
    with b(2) show "\<exists>x m. e_exp K p = Some x \<and> e_ct K (exp_master x) = Some m"
      by (metis walkable_node)
  qed
  from exp_out_end [OF s live run] obtain ws where ws: "W = ws @ rem"
    "msgs skb' = msgs (es_skb s) @ map (expect_entry c K) ws"
    "rem \<noteq> [] \<longrightarrow> room skb' < NFNL_HDR_SIZE + attrs_size (snd (expect_entry c K (hd rem)))" by blast
  have call: "ctnetlink_exp_dump_table E c s = Inr (exp_out E (es_args1 s) s1)"
    using s1(1) bs(2) by (simp add: ctnetlink_exp_dump_table_def)
  show ?thesis
  proof (cases rem)
    case Nil
    then have "s1 = s\<lparr>es_skb := skb', es_args1 := None, es_args0 := length (e_hash K)\<rparr>"
      using s1(2) b(1) by simp
    then show ?thesis unfolding call
      using exp_out_stop(2) [OF s, of s1] ws Nil
      by (intro exI [of _ ws] exI [of _ "[]"] exI [of _ "s1\<lparr>es_sys := K\<rparr>"]) (simp add: exp_hold_def)
  next
    case (Cons p qs)
    with s1(2) obtain i where i: "i < length ?bs" "s1 = exp_stop (s\<lparr>es_args0 := es_args0 s + i\<rparr>) p skb'"
      "exp_left (passing (table_skips c) (es_sys s)) (Some p) (drop i ?bs) = rem" by auto
    let ?s' = "s\<lparr>es_args0 := es_args0 s + i, es_skb := skb', es_args1 := Some p,
      es_sys := K\<lparr>e_exp := exp_hold (e_exp K) (Some p)\<rparr>\<rparr>"
    have "exp_out E (es_args1 s) s1 = (w_len E skb', ?s')"
      unfolding i(2) using exp_out_stop(1) [OF _ s(2), of "s\<lparr>es_args0 := es_args0 s + i\<rparr>"] s(1) by simp
    moreover have "drop i ?bs = drop (es_args0 s + i) (e_hash K)" by (simp add: add.commute)
    ultimately show ?thesis unfolding call
      using ws Cons i(1,3) by (intro exI [of _ ws] exI [of _ rem] exI [of _ ?s']) (simp add: P)
  qed
qed

text \<open>The list of one connection.\<close>

lemma exp_ct_dump_call:
  assumes s: "es_sys s = K\<lparr>e_exp := exp_hold (e_exp K) (es_args1 s)\<rparr>"
      "\<And>l. es_args1 s = Some l \<Longrightarrow> \<exists>x. e_exp K l = Some x \<and> 0 < exp_use x"
    and m: "e_ct K m = Some ct" "ext_help ct \<noteq> None" "es_args0 s = 0" "walkable (list_skips c) K (e_of K m)"
    and W: "W = resume (es_args1 s) (filter (passing (list_skips c) K) (e_of K m))"
  shows "\<exists>ws rem s'. W = ws @ rem \<and> ctnetlink_exp_ct_dump_table E c m s = Inr (w_len E (es_skb s'), s') \<and>
    msgs (es_skb s') = msgs (es_skb s) @ map (expect_entry c K) ws \<and>
    es_sys s' = K\<lparr>e_exp := exp_hold (e_exp K) (es_args1 s')\<rparr> \<and>
    (rem = [] \<longrightarrow> es_args0 s' = 1 \<and> es_args1 s' = None) \<and>
    (rem \<noteq> [] \<longrightarrow> es_args0 s' = 0 \<and> es_args1 s' = Some (hd rem) \<and>
       resume (es_args1 s') (filter (passing (list_skips c) K) (e_of K m)) = rem \<and>
       room (es_skb s') < NFNL_HDR_SIZE + attrs_size (snd (expect_entry c K (hd rem))))"
proof -
  have w: "walkable (list_skips c) (es_sys s) (e_of K m)"
    unfolding s(1) using m(4) by (rule walkable_hold [OF steady_guards(2)])
  have P: "passing (list_skips c) (es_sys s) = passing (list_skips c) K"
    unfolding s(1) by (rule passing_hold [OF steady_guards(2)])
  obtain skb' rem where run: "exp_run E c (es_sys s) W (es_skb s) = (skb', rem)" by fastforce
  have one: "exp_restart E c (list_skips c) (es_args1 s) (e_of K m) s = Inr (exp_ends s (skb', rem))"
    using exp_restart_run [OF w, of c] run W unfolding P by simp
  have live: "\<forall>p\<in>set W. \<exists>x m. e_exp K p = Some x \<and> e_ct K (exp_master x) = Some m"
  proof
    fix p
    assume "p \<in> set W"
    then have "p \<in> set (e_of K m)"
      using W by (auto simp: resume_def split: option.splits if_splits dest: set_dropWhileD)
    with m(4) show "\<exists>x m. e_exp K p = Some x \<and> e_ct K (exp_master x) = Some m" by (metis walkable_node)
  qed
  from exp_out_end [OF s live run] obtain ws where ws: "W = ws @ rem"
    "msgs skb' = msgs (es_skb s) @ map (expect_entry c K) ws"
    "rem \<noteq> [] \<longrightarrow> room skb' < NFNL_HDR_SIZE + attrs_size (snd (expect_entry c K (hd rem)))" by blast
  have K: "e_ct (es_sys s) m = Some ct" "e_of (es_sys s) m = e_of K m" using m(1) s(1) by simp_all
  show ?thesis
  proof (cases rem)
    case Nil
    let ?s1 = "s\<lparr>es_skb := skb', es_args1 := None, es_args0 := 1\<rparr>"
    have "ctnetlink_exp_ct_dump_table E c m s = Inr (exp_out E (es_args1 s) ?s1)"
      using one Nil K m(2,3) by (simp add: ctnetlink_exp_ct_dump_table_def exp_ends_def)
    then show ?thesis
      using exp_out_stop(2) [OF s, of ?s1] ws Nil
      by (intro exI [of _ ws] exI [of _ "[]"] exI [of _ "?s1\<lparr>es_sys := K\<rparr>"]) (simp add: exp_hold_def)
  next
    case (Cons p qs)
    let ?s' = "s\<lparr>es_skb := skb', es_args1 := Some p, es_sys := K\<lparr>e_exp := exp_hold (e_exp K) (Some p)\<rparr>\<rparr>"
    have "ctnetlink_exp_ct_dump_table E c m s = Inr (exp_out E (es_args1 s) (exp_stop s p skb'))"
      using one Cons K m(2,3) by (simp add: ctnetlink_exp_ct_dump_table_def exp_ends_def)
    then have call: "ctnetlink_exp_ct_dump_table E c m s = Inr (w_len E skb', ?s')"
      using exp_out_stop(1) [OF s] by simp
    have "exp_left (passing (list_skips c) K) (Some p) [e_of K m] = p # qs"
      using left_stopped [where ps = "e_of K m" and bs = "[]"] m(4) run W Cons
      unfolding walkable_def by auto
    then show ?thesis unfolding call
      using ws Cons m(3) by (intro exI [of _ ws] exI [of _ rem] exI [of _ ?s']) simp
  qed
qed

end

section \<open>New expectations\<close>

text \<open>
  What a request may leave behind as a new expectation: not marked as created in user space, a class
  its helper has, a registered expectation function, and a live master with a helper area.
\<close>

definition expect_ok :: "('skb, 'x) exp_env_scheme \<Rightarrow> ct_store \<Rightarrow> nf_conntrack_expect \<Rightarrow> bool" where
  "expect_ok E st x \<longleftrightarrow>
     exp_flags x AND NF_CT_EXPECT_USERSPACE = 0 \<and>
     (case exp_helper x of None \<Rightarrow> exp_class x = 0 | Some h \<Rightarrow> exp_class x \<le> expect_class_max h) \<and>
     (case exp_expectfn x of None \<Rightarrow> True | Some f \<Rightarrow> \<exists>name. expectfn_find_by_name E name = Some f) \<and>
     (case st (exp_master x) of None \<Rightarrow> False | Some m \<Rightarrow> ext_help m \<noteq> None)"

lemma same_exp_refl [simp]: "same_exp x x" and same_exp_use [simp]: "same_exp x (x\<lparr>exp_use := n\<rparr>)"
  and same_exp_timer [simp]: "same_exp x (x\<lparr>exp_pending := b\<rparr>)"
    "same_exp x (x\<lparr>exp_expires := t, exp_pending := b\<rparr>)"
  by (simp_all add: same_exp_def)

lemma same_exp_trans: "same_exp x y \<Longrightarrow> same_exp y z \<Longrightarrow> same_exp x z"
  unfolding same_exp_def by (cases x, cases y, cases z) simp

lemma exp_sub_refl [simp]: "exp_sub st st"
  by (auto simp: exp_sub_def)

lemma exp_sub_trans: "exp_sub a b \<Longrightarrow> exp_sub b c \<Longrightarrow> exp_sub a c"
  unfolding exp_sub_def by (meson same_exp_trans)

lemma exp_sub_upd: "exp_sub a b \<Longrightarrow> b p = Some x \<Longrightarrow> same_exp x y \<Longrightarrow> exp_sub a (b(p \<mapsto> y))"
  unfolding exp_sub_def by (metis fun_upd_apply option.inject same_exp_trans)

lemma exp_sub_del: "exp_sub a b \<Longrightarrow> exp_sub a (b(p := None))"
  by (auto simp: exp_sub_def)

lemma expect_ok_same: "same_exp x y \<Longrightarrow> expect_ok E st y = expect_ok E st x"
  unfolding same_exp_def expect_ok_def by (cases x, cases y) (simp split: option.splits)

lemma flags_masked: "(v AND NOT f) AND f = (0 :: u32)"
  by (rule bit_word_eqI) (auto simp: bit_simps)

lemma alloc_flags_ok: "alloc_flags R cda AND NF_CT_EXPECT_USERSPACE = 0"
  unfolding alloc_flags_def
  by (cases "cda CTA_EXPECT_FLAGS") (simp_all only: option.case flags_masked bit.conj_zero_left)

lemma alloc_class_ok:
  "alloc_class R cda helper = Inr class \<Longrightarrow>
     (case helper of None \<Rightarrow> class = 0 | Some h \<Rightarrow> class \<le> expect_class_max h)"
  by (auto simp: alloc_class_def Let_def split: option.splits if_splits)

lemma parse_nat_fields:
  "ctnetlink_parse_expect_nat R attr u3 x = (r, x') \<Longrightarrow>
     x' = x\<lparr>exp_saved_addr := exp_saved_addr x', exp_saved_proto := exp_saved_proto x', exp_dir := exp_dir x'\<rparr>"
  by (auto simp: ctnetlink_parse_expect_nat_def split: sum.splits option.splits prod.splits)

text \<open>The new object: what is known of its fields when everything went well.\<close>

lemma alloc_fill_cases:
  assumes "alloc_fill R E cda m l3 helper tuple msk class x0 = (r, x)"
  shows "exp_use x = exp_use x0" and "r = Inr () \<Longrightarrow>
    exp_flags x = alloc_flags R cda \<and> exp_class x = class \<and> exp_master x = m \<and> exp_helper x = helper \<and>
    exp_tuple x = tuple \<and> exp_mask_u3 x = src_u3 msk \<and> exp_mask_u x = src_u msk \<and>
    (case exp_expectfn x of None \<Rightarrow> True | Some f \<Rightarrow> \<exists>name. expectfn_find_by_name E name = Some f) \<and>
    (cda CTA_EXPECT_NAT = None \<longrightarrow> exp_saved_addr x = exp_saved_addr x0 \<and>
       exp_saved_proto x = exp_saved_proto x0 \<and> exp_dir x = exp_dir x0)"
proof -
  have nat: "exp_use x' = exp_use y \<and> exp_flags x' = exp_flags y \<and> exp_class x' = exp_class y \<and>
      exp_master x' = exp_master y \<and> exp_helper x' = exp_helper y \<and> exp_tuple x' = exp_tuple y \<and>
      exp_mask_u3 x' = exp_mask_u3 y \<and> exp_mask_u x' = exp_mask_u y \<and> exp_expectfn x' = exp_expectfn y"
    if "ctnetlink_parse_expect_nat R a l3 y = (r', x')" for a y r' x'
    by (subst (1 2 3 4 5 6 7 8 9) parse_nat_fields [OF that]) simp
  show "exp_use x = exp_use x0"
    using assms by (auto simp: alloc_fill_def Let_def dest: nat split: option.splits sum.splits)
  show "exp_flags x = alloc_flags R cda \<and> exp_class x = class \<and> exp_master x = m \<and> exp_helper x = helper \<and>
    exp_tuple x = tuple \<and> exp_mask_u3 x = src_u3 msk \<and> exp_mask_u x = src_u msk \<and>
    (case exp_expectfn x of None \<Rightarrow> True | Some f \<Rightarrow> \<exists>name. expectfn_find_by_name E name = Some f) \<and>
    (cda CTA_EXPECT_NAT = None \<longrightarrow> exp_saved_addr x = exp_saved_addr x0 \<and>
       exp_saved_proto x = exp_saved_proto x0 \<and> exp_dir x = exp_dir x0)" if "r = Inr ()"
    using assms that by (auto simp: alloc_fill_def Let_def dest!: nat split: option.splits sum.splits)
qed

context exp_laws
begin

lemma alloc_expect_cases:
  assumes "ctnetlink_alloc_expect R E cda m ct helper tuple msk K = (r, K')"
  shows "case r of Inl e \<Rightarrow> K' = K
    | Inr p \<Rightarrow> \<exists>x x0. K' = K\<lparr>e_exp := (e_exp K)(p \<mapsto> x)\<rparr> \<and> nf_ct_expect_alloc E K m = Some (p, x0) \<and>
        e_exp K p = None \<and> exp_use x = 1 \<and> ext_help ct \<noteq> None \<and> exp_master x = m \<and> exp_tuple x = tuple \<and>
        exp_mask_u3 x = src_u3 msk \<and> exp_mask_u x = src_u msk \<and> exp_helper x = helper \<and>
        (e_ct K m = Some ct \<longrightarrow> expect_ok E (e_ct K) x) \<and>
        (cda CTA_EXPECT_NAT = None \<longrightarrow> exp_saved_addr x = exp_saved_addr x0 \<and>
           exp_saved_proto x = exp_saved_proto x0 \<and> exp_dir x = exp_dir x0)"
proof (cases "ext_help ct = None \<or> (\<exists>e. alloc_class R cda helper = Inl e) \<or> nf_ct_expect_alloc E K m = None")
  case True
  then have "\<exists>e. r = Inl e \<and> K' = K"
    using assms by (elim disjE exE) (auto simp: ctnetlink_alloc_expect_def split: sum.splits if_splits)
  then show ?thesis by auto
next
  case False
  then obtain cls p x0 where c: "alloc_class R cda helper = Inr cls"
      "nf_ct_expect_alloc E K m = Some (p, x0)" "ext_help ct \<noteq> None"
    by (cases "alloc_class R cda helper") auto
  from exp_alloc [OF c(2)] have p: "e_exp K p = None" "exp_use x0 = 1" by simp_all
  obtain r' x where f: "alloc_fill R E cda m (ucast (ct_l3num ct)) helper tuple msk cls x0 = (r', x)"
    by fastforce
  note u = alloc_fill_cases(1) [OF f] and fields = alloc_fill_cases(2) [OF f]
  show ?thesis
  proof (cases r')
    case (Inl e)
    have "nf_ct_expect_put E ((e_exp K)(p \<mapsto> x)) p = e_exp K"
      using exp_put [of "(e_exp K)(p \<mapsto> x)" p x] u p by (auto simp: fun_eq_iff)
    then show ?thesis using assms c f Inl by (auto simp: ctnetlink_alloc_expect_def)
  next
    case (Inr w)
    then have r: "r = Inr p" "K' = K\<lparr>e_exp := (e_exp K)(p \<mapsto> x)\<rparr>"
      using assms c f by (auto simp: ctnetlink_alloc_expect_def)
    have "expect_ok E (e_ct K) x" if "e_ct K m = Some ct"
      using fields that c Inr alloc_class_ok [OF c(1)] alloc_flags_ok [of R cda]
      by (simp add: expect_ok_def split: option.splits)
    then show ?thesis using r c p u fields Inr by auto
  qed
qed

lemma relate_expect_cases:
  assumes "e_exp K p = Some x" "exp_use x = 1" "relate_expect E p portid report K = (r, K')"
  shows "e_ct K' = e_ct K \<and> exp_sub (e_exp K) (e_exp K') \<and>
    (case r of Inl e \<Rightarrow> e_exp K' p = None
     | Inr _ \<Rightarrow> \<exists>y. e_exp K' p = Some y \<and> same_exp x y \<and> exp_use y = 2)"
proof -
  obtain r1 K1 where k: "nf_ct_expect_related_report E K p portid report = (r1, K1)" by fastforce
  from exp_relate [OF assms(1) k] obtain y where y: "e_ct K1 = e_ct K" "exp_sub (e_exp K) (e_exp K1)"
    "e_exp K1 p = Some y" "exp_use y = exp_use x + (if r1 = Inr () then 2 else 0)" by blast
  from assms(3) k have r: "r = r1" "K' = K1\<lparr>e_exp := nf_ct_expect_put E (e_exp K1) p\<rparr>"
    by (simp_all add: relate_expect_def)
  have s: "same_exp x y" using y(2,3) assms(1) unfolding exp_sub_def by (metis option.inject)
  show ?thesis
  proof (cases r)
    case (Inl e)
    then have "e_exp K' = (e_exp K1)(p := None)"
      using exp_put [where st = "e_exp K1", OF y(3)] y(4) r assms(2) by simp
    then show ?thesis using Inl y(1,2) r by (simp add: exp_sub_del)
  next
    case (Inr w)
    then have e: "e_exp K' = (e_exp K1)(p \<mapsto> y\<lparr>exp_use := 2\<rparr>)"
      using exp_put [where st = "e_exp K1", OF y(3)] y(4) r assms(2) by (simp add: numeral_2_eq_2)
    have "same_exp x (y\<lparr>exp_use := 2\<rparr>)" using s by (rule same_exp_trans) simp
    then show ?thesis using Inr y(1,2) r e exp_sub_upd [OF y(2,3)] by simp
  qed
qed

lemma expect_ok_hold [simp]: "expect_ok E (hold st lst) x = expect_ok E st x"
  by (cases "st (exp_master x)") (auto simp: expect_ok_def hold_apply)

lemma exp_sub_absent: "exp_sub (a(p \<mapsto> x)) b \<Longrightarrow> b p = None \<Longrightarrow> exp_sub a b"
  unfolding exp_sub_def by (metis fun_upd_apply option.distinct(1))

lemma exp_sub_present: "exp_sub (a(p \<mapsto> x)) b \<Longrightarrow> same_exp x y \<Longrightarrow> b p = Some y \<Longrightarrow> exp_sub (a(p \<mapsto> y)) b"
  unfolding exp_sub_def by (metis fun_upd_apply option.inject same_exp_refl)

text \<open>A new object, inserted and released by its creator.\<close>

lemma alloc_relate_cases:
  assumes "ctnetlink_alloc_expect R E cda m ct helper tuple msk K = (Inr p, K2)" "e_ct K m = Some ct"
    "relate_expect E p portid report K2 = (r, K3)"
  shows "e_ct K3 = e_ct K \<and> e_exp K p = None \<and>
    (case r of Inl e \<Rightarrow> exp_sub (e_exp K) (e_exp K3)
     | Inr _ \<Rightarrow> \<exists>y. e_exp K3 p = Some y \<and> exp_use y = 2 \<and> exp_sub ((e_exp K)(p \<mapsto> y)) (e_exp K3) \<and>
         expect_ok E (e_ct K) y \<and> exp_tuple y = tuple \<and> exp_mask_u3 y = src_u3 msk \<and>
         exp_mask_u y = src_u msk \<and> exp_master y = m \<and> exp_helper y = helper)"
proof -
  from alloc_expect_cases [OF assms(1)] obtain x where x: "K2 = K\<lparr>e_exp := (e_exp K)(p \<mapsto> x)\<rparr>"
    "e_exp K p = None" "exp_use x = 1" "exp_master x = m" "exp_tuple x = tuple" "exp_helper x = helper"
    "exp_mask_u3 x = src_u3 msk" "exp_mask_u x = src_u msk" "expect_ok E (e_ct K) x"
    using assms(2) by auto
  have "e_exp K2 p = Some x" using x(1) by simp
  from relate_expect_cases [OF this x(3) assms(3)] have rel: "e_ct K3 = e_ct K2"
    "exp_sub (e_exp K2) (e_exp K3)"
    "case r of Inl e \<Rightarrow> e_exp K3 p = None
     | Inr _ \<Rightarrow> \<exists>y. e_exp K3 p = Some y \<and> same_exp x y \<and> exp_use y = 2" by auto
  show ?thesis
  proof (cases r)
    case (Inl e)
    then show ?thesis using rel x(1,2) exp_sub_absent [of "e_exp K" p x] by simp
  next
    case (Inr w)
    with rel(3) obtain y where y: "e_exp K3 p = Some y" "same_exp x y" "exp_use y = 2" by auto
    have f: "exp_tuple y = exp_tuple x \<and> exp_mask_u3 y = exp_mask_u3 x \<and> exp_mask_u y = exp_mask_u x \<and>
        exp_master y = exp_master x \<and> exp_helper y = exp_helper x"
      using y(2) unfolding same_exp_def by (cases x, cases y) simp
    have "exp_sub ((e_exp K)(p \<mapsto> y)) (e_exp K3)"
      using exp_sub_present [of "e_exp K" p x "e_exp K3" y] y(1,2) rel(2) x(1) by simp
    then show ?thesis using Inr y rel(1) x f expect_ok_same [OF y(2), of E] by simp
  qed
qed

text \<open>A creation after its master was found at \<open>m\<close>, with the reference of the lookup.\<close>

lemma create_found:
  assumes "counted (e_ct K)" "e_ct K m = Some ct" "K1 = K\<lparr>e_ct := hold (e_ct K) (Some m)\<rparr>"
    and c: "c = ct\<lparr>ct_use := Suc (ct_use ct)\<rparr>"
    and run: "(case expect_helper C cda u3 c of
         (Inl e, calls) \<Rightarrow> (Inl e, K1\<lparr>e_ct := nf_ct_put E (e_ct K1) m\<rparr>, calls)
       | (Inr helper, calls) \<Rightarrow>
           (case ctnetlink_alloc_expect C E cda m c helper tuple msk K1 of
              (Inl e, K2) \<Rightarrow> (Inl e, K2\<lparr>e_ct := nf_ct_put E (e_ct K2) m\<rparr>, calls)
            | (Inr p, K2) \<Rightarrow>
                (case relate_expect E p portid report K2 of
                   (r, K3) \<Rightarrow> (r, K3\<lparr>e_ct := nf_ct_put E (e_ct K3) m\<rparr>, calls)))) = (r, K', calls)"
  shows "e_ct K' = e_ct K \<and>
    (case r of Inl e \<Rightarrow> exp_sub (e_exp K) (e_exp K')
     | Inr _ \<Rightarrow> \<exists>p y. e_exp K p = None \<and> e_exp K' p = Some y \<and> exp_use y = 2 \<and>
         exp_sub ((e_exp K)(p \<mapsto> y)) (e_exp K') \<and> expect_ok E (e_ct K) y \<and>
         exp_tuple y = tuple \<and> exp_mask_u3 y = src_u3 msk \<and> exp_mask_u y = src_u msk \<and> exp_master y = m)"
proof -
  have K1: "e_ct K1 m = Some c" using assms(2,3) c by (simp add: hold_apply)
  have restored: "nf_ct_put E (e_ct K1) m = e_ct K" using put_found [OF assms(1,2)] assms(3) by simp
  obtain hr calls' where eh: "expect_helper C cda u3 c = (hr, calls')" by fastforce
  show ?thesis
  proof (cases hr)
    case (Inl e)
    then show ?thesis using run eh restored assms(3) by auto
  next
    case hr: (Inr helper)
    obtain ar K2 where al: "ctnetlink_alloc_expect C E cda m c helper tuple msk K1 = (ar, K2)"
      by fastforce
    show ?thesis
    proof (cases ar)
      case (Inl e)
      then have "K2 = K1" using alloc_expect_cases [OF al] by simp
      then show ?thesis using run eh hr al Inl restored assms(3) by auto
    next
      case ar: (Inr p)
      obtain rr K3 where re: "relate_expect E p portid report K2 = (rr, K3)" by fastforce
      from alloc_relate_cases [OF al [unfolded ar] K1 re]
      have rel: "e_ct K3 = e_ct K1" "e_exp K p = None"
        "case rr of Inl e \<Rightarrow> exp_sub (e_exp K) (e_exp K3)
         | Inr _ \<Rightarrow> \<exists>y. e_exp K3 p = Some y \<and> exp_use y = 2 \<and> exp_sub ((e_exp K)(p \<mapsto> y)) (e_exp K3) \<and>
             expect_ok E (e_ct K) y \<and> exp_tuple y = tuple \<and> exp_mask_u3 y = src_u3 msk \<and>
             exp_mask_u y = src_u msk \<and> exp_master y = m \<and> exp_helper y = helper"
        using assms(3) by (cases rr; simp)+
      have res: "r = rr" "K' = K3\<lparr>e_ct := e_ct K\<rparr>"
        using run eh hr al ar re rel(1) restored by auto
      show ?thesis using rel(2,3) res by (cases rr) auto
    qed
  qed
qed

text \<open>A creation: the connections' reference counts are restored on every path.\<close>

lemma create_expect_cases:
  assumes "counted (e_ct K)"
    and "ctnetlink_create_expect C E net zone cda u3 portid report K = (r, K', calls)"
  shows "e_ct K' = e_ct K \<and>
    (case r of Inl e \<Rightarrow> exp_sub (e_exp K) (e_exp K')
     | Inr _ \<Rightarrow> \<exists>tuple msk master z1 z2 z3 p y.
         ctnetlink_parse_tuple C cda CTA_EXPECT_TUPLE u3 None = Inr (tuple, z1) \<and>
         ctnetlink_parse_tuple C cda CTA_EXPECT_MASK u3 None = Inr (msk, z2) \<and>
         ctnetlink_parse_tuple C cda CTA_EXPECT_MASTER u3 None = Inr (master, z3) \<and>
         fst (nf_conntrack_find_get E (e_ct K) net zone master) = Some (exp_master y) \<and>
         e_exp K p = None \<and> e_exp K' p = Some y \<and> exp_use y = 2 \<and>
         exp_sub ((e_exp K)(p \<mapsto> y)) (e_exp K') \<and> expect_ok E (e_ct K) y \<and>
         exp_tuple y = tuple \<and> exp_mask_u3 y = src_u3 msk \<and> exp_mask_u y = src_u msk)"
proof -
  let ?p = "bind_res (ctnetlink_parse_tuple C cda CTA_EXPECT_TUPLE u3 None) (\<lambda>(tuple, _).
           bind_res (ctnetlink_parse_tuple C cda CTA_EXPECT_MASK u3 None) (\<lambda>(msk, _).
           bind_res (ctnetlink_parse_tuple C cda CTA_EXPECT_MASTER u3 None) (\<lambda>(master, _).
             Inr (tuple, msk, master))))"
  show ?thesis
  proof (cases ?p)
    case (Inl e)
    then show ?thesis using assms(2) by (auto simp: ctnetlink_create_expect_def)
  next
    case (Inr w)
    obtain tuple msk master where w: "w = (tuple, msk, master)" by (cases w)
    from Inr w obtain z1 z2 z3 where parsed:
      "ctnetlink_parse_tuple C cda CTA_EXPECT_TUPLE u3 None = Inr (tuple, z1)"
      "ctnetlink_parse_tuple C cda CTA_EXPECT_MASK u3 None = Inr (msk, z2)"
      "ctnetlink_parse_tuple C cda CTA_EXPECT_MASTER u3 None = Inr (master, z3)" by auto
    obtain h st1 where f: "nf_conntrack_find_get E (e_ct K) net zone master = (h, st1)" by fastforce
    show ?thesis
    proof (cases h)
      case None
      then have "(r, K', calls) = (Inl ENOENT, K\<lparr>e_ct := st1\<rparr>, [])" "st1 = e_ct K"
        using assms(2) f find_none unfolding ctnetlink_create_expect_def Inr w by auto
      then show ?thesis by simp
    next
      case (Some m)
      with f find_some obtain ct where ct: "e_ct K m = Some ct" "st1 = hold (e_ct K) (Some m)" by blast
      have "st1 m = Some (ct\<lparr>ct_use := Suc (ct_use ct)\<rparr>)" using ct by (simp add: hold_apply)
      with assms(2) have "(case expect_helper C cda u3 (ct\<lparr>ct_use := Suc (ct_use ct)\<rparr>) of
         (Inl e, calls) \<Rightarrow> (Inl e, K\<lparr>e_ct := st1\<rparr>\<lparr>e_ct := nf_ct_put E (e_ct (K\<lparr>e_ct := st1\<rparr>)) m\<rparr>, calls)
       | (Inr helper, calls) \<Rightarrow>
           (case ctnetlink_alloc_expect C E cda m (ct\<lparr>ct_use := Suc (ct_use ct)\<rparr>) helper tuple msk
                   (K\<lparr>e_ct := st1\<rparr>) of
              (Inl e, K2) \<Rightarrow> (Inl e, K2\<lparr>e_ct := nf_ct_put E (e_ct K2) m\<rparr>, calls)
            | (Inr p, K2) \<Rightarrow>
                (case relate_expect E p portid report K2 of
                   (r, K3) \<Rightarrow> (r, K3\<lparr>e_ct := nf_ct_put E (e_ct K3) m\<rparr>, calls)))) = (r, K', calls)"
        unfolding ctnetlink_create_expect_def Inr w using f Some by (simp add: Let_def)
      from create_found [OF assms(1) ct(1) _ refl this] ct(2)
      have found: "e_ct K' = e_ct K \<and> (case r of Inl e \<Rightarrow> exp_sub (e_exp K) (e_exp K')
         | Inr _ \<Rightarrow> \<exists>p y. e_exp K p = None \<and> e_exp K' p = Some y \<and> exp_use y = 2 \<and>
             exp_sub ((e_exp K)(p \<mapsto> y)) (e_exp K') \<and> expect_ok E (e_ct K) y \<and>
             exp_tuple y = tuple \<and> exp_mask_u3 y = src_u3 msk \<and> exp_mask_u y = src_u msk \<and> exp_master y = m)"
        by simp
      then show ?thesis using parsed f Some by (cases r) auto
    qed
  qed
qed

end

section \<open>Requests\<close>

text \<open>
  An expectation has the references of the hash table and, while its timer runs, of the timer.
\<close>

definition exp_counted :: "exp_store \<Rightarrow> bool" where
  "exp_counted st \<longleftrightarrow>
     (\<forall>p x. st p = Some x \<longrightarrow> 0 < exp_use x \<and> (exp_pending x \<longrightarrow> 2 \<le> exp_use x))"

text \<open>
  The connections are as before, and so is every expectation up to reference count and timer, or it
  is a new one that is well-typed.
\<close>

definition exp_new_ok :: "('skb, 'x) exp_env_scheme \<Rightarrow> esys \<Rightarrow> esys \<Rightarrow> bool" where
  "exp_new_ok E K K' \<longleftrightarrow> e_ct K' = e_ct K \<and>
     (\<forall>q y. e_exp K' q = Some y \<longrightarrow>
        (\<exists>x. e_exp K q = Some x \<and> same_exp x y) \<or> expect_ok E (e_ct K) y)"

lemma exp_new_ok_sub: "e_ct K' = e_ct K \<Longrightarrow> exp_sub (e_exp K) (e_exp K') \<Longrightarrow> exp_new_ok E K K'"
  by (simp add: exp_new_ok_def exp_sub_def)

lemma exp_new_ok_refl [simp]: "exp_new_ok E K K"
  by (simp add: exp_new_ok_sub)

lemma exp_new_ok_new:
  assumes "e_ct K' = e_ct K" "exp_sub ((e_exp K)(p \<mapsto> y)) (e_exp K')" "expect_ok E (e_ct K) y"
  shows "exp_new_ok E K K'"
  unfolding exp_new_ok_def
proof (intro conjI allI impI)
  fix q z
  assume "e_exp K' q = Some z"
  with assms(2) obtain x where x: "((e_exp K)(p \<mapsto> y)) q = Some x" "same_exp x z"
    unfolding exp_sub_def by blast
  show "(\<exists>x. e_exp K q = Some x \<and> same_exp x z) \<or> expect_ok E (e_ct K) z"
  proof (cases "q = p")
    case True
    then show ?thesis using x expect_ok_same [OF x(2), of E] assms(3) by simp
  next
    case False
    then show ?thesis using x by auto
  qed
qed (rule assms(1))

lemma exp_tables [simp]:
  "exp_new_ok E K (K'\<lparr>e_hash := h, e_of := l\<rparr>) = exp_new_ok E K K'"
  by (simp add: exp_new_ok_def)

lemma change_expect_same: "ctnetlink_change_expect C now cda x = (r, x') \<Longrightarrow> same_exp x x'"
  by (auto simp: ctnetlink_change_expect_def del_timer_def split: option.splits if_splits)

context exp_laws
begin

lemma new_expect_ok:
  assumes "counted (e_ct K)" "ctnetlink_new_expect C E info cda K = (r, K', calls)"
  shows "exp_new_ok E K K'"
proof -
  have "exp_new_ok E K K'"
    if c: "ctnetlink_create_expect C E (info_net info) z cda (nfgen_family info) (info_portid info)
        (info_report info) K = (r, K', calls)" for z
    using create_expect_cases [OF assms(1) c]
    by (cases r) (auto intro: exp_new_ok_sub exp_new_ok_new)
  moreover have "exp_new_ok E K (K\<lparr>e_exp := (e_exp K)(p \<mapsto> x')\<rparr>)"
    if "e_exp K p = Some x" "ctnetlink_change_expect C now cda x = (r', x')" for p x x' r' now
    using that change_expect_same [of C now cda x r' x']
    by (intro exp_new_ok_sub) (auto intro: exp_sub_upd [OF exp_sub_refl])
  ultimately show ?thesis
    using assms(2)
    by (auto simp: ctnetlink_new_expect_def split: if_splits sum.splits prod.splits option.splits)
qed

lemma attach_expect_ok:
  assumes "ctnetlink_glue_attach_expect C E attr m portid report K = (r, K')"
  shows "exp_new_ok E K K'"
proof (cases "e_ct K m")
  case None
  then show ?thesis using assms by (simp add: ctnetlink_glue_attach_expect_def)
next
  case (Some ct)
  have "exp_new_ok E K K'"
    if al: "ctnetlink_alloc_expect C E cda m ct helper tuple msk K = (ar, K1)"
      and res: "case ar of Inl e \<Rightarrow> K' = K1 | Inr p \<Rightarrow> (r, K') = relate_expect E p portid report K1"
    for cda helper tuple msk ar K1
  proof (cases ar)
    case (Inl e)
    then show ?thesis using alloc_expect_cases [OF al] res by simp
  next
    case (Inr p)
    from alloc_relate_cases [OF al [unfolded Inr] Some, of portid report r K'] res Inr
    show ?thesis by (cases r) (auto intro: exp_new_ok_sub exp_new_ok_new)
  qed
  then show ?thesis
    using assms Some
    by (auto simp: ctnetlink_glue_attach_expect_def split: sum.splits prod.splits option.splits)
qed

text \<open>Dropping the reference of a lookup.\<close>

lemma exp_put_found:
  assumes "st p = Some x" "0 < exp_use x"
  shows "nf_ct_expect_put E (exp_get st p) p = st"
  using put_held(1) [where st = st, OF assms] by (simp add: exp_hold_def)

text \<open>Taking an expectation with a running timer off its lists drops the references of table, timer and lookup.\<close>

lemma del_running:
  assumes x: "e_exp K p = Some x" "2 \<le> exp_use x" and xs: "xs = exp_get (e_exp K) p"
    and K1: "K1 = nf_ct_unlink_expect_report E
      (K\<lparr>e_exp := xs(p \<mapsto> x\<lparr>exp_use := Suc (exp_use x), exp_pending := False\<rparr>)\<rparr>) p portid report"
  shows "K1\<lparr>e_exp := nf_ct_expect_put E (nf_ct_expect_put E (e_exp K1) p) p\<rparr> =
    K\<lparr>e_hash := map (filter (\<lambda>q. q \<noteq> p)) (e_hash K), e_of := (\<lambda>m. filter (\<lambda>q. q \<noteq> p) (e_of K m)),
      e_exp := (e_exp K)(p := if exp_use x = 2 then None
        else Some (x\<lparr>exp_pending := False, exp_use := exp_use x - 2\<rparr>))\<rparr>"
proof -
  have up: "xs(p := v) = (e_exp K)(p := v)" for v
    by (auto simp: xs exp_get_apply fun_eq_iff)
  let ?x1 = "x\<lparr>exp_use := Suc (exp_use x), exp_pending := False\<rparr>"
  let ?x2 = "x\<lparr>exp_pending := False, exp_use := exp_use x\<rparr>"
  let ?x3 = "x\<lparr>exp_pending := False, exp_use := exp_use x - 1\<rparr>"
  have u: "K1 = K\<lparr>e_hash := map (filter (\<lambda>q. q \<noteq> p)) (e_hash K),
      e_of := (\<lambda>m. filter (\<lambda>q. q \<noteq> p) (e_of K m)), e_exp := xs(p \<mapsto> ?x2)\<rparr>"
    using exp_unlink [of "K\<lparr>e_exp := xs(p \<mapsto> ?x1)\<rparr>" p ?x1] x(2) K1 by simp
  have p1: "nf_ct_expect_put E (xs(p \<mapsto> ?x2)) p = xs(p \<mapsto> ?x3)"
    using exp_put [of "xs(p \<mapsto> ?x2)" p ?x2] x(2) by simp
  have p2: "nf_ct_expect_put E (xs(p \<mapsto> ?x3)) p =
    (e_exp K)(p := if exp_use x = 2 then None else Some (x\<lparr>exp_pending := False, exp_use := exp_use x - 2\<rparr>))"
  proof (cases "exp_use x = 2")
    case False
    with x(2) have "exp_use x - 1 \<noteq> 1" "exp_use x - 1 - 1 = exp_use x - 2" by arith+
    then show ?thesis
      using exp_put [of "xs(p \<mapsto> ?x3)" p ?x3] x(2) False by (simp add: up del: One_nat_def)
  qed (use exp_put [of "xs(p \<mapsto> ?x3)" p ?x3] in \<open>simp add: up\<close>)
  show ?thesis using u p1 p2 by simp
qed

text \<open>Deleting one expectation, by the tuple of the request.\<close>

lemma del_expect_cases:
  assumes "exp_counted (e_exp K)" "cda CTA_EXPECT_TUPLE \<noteq> None"
    and "ctnetlink_parse_zone R (cda CTA_EXPECT_ZONE) = Inr zone"
    and "ctnetlink_parse_tuple R cda CTA_EXPECT_TUPLE (nfgen_family info) None = Inr (tuple, z)"
    and "ctnetlink_del_expect R E info cda K = (r, K')"
  shows "case fst (nf_ct_expect_find_get E (e_exp K) (info_net info) zone tuple) of
      None \<Rightarrow> r = Inl ENOENT \<and> K' = K
    | Some p \<Rightarrow> \<exists>x. e_exp K p = Some x \<and>
        (if (\<exists>a. cda CTA_EXPECT_ID = Some a \<and> ntohl (nla_get_be32 R a) \<noteq> of_nat p)
         then r = Inl ENOENT \<and> K' = K
         else r = Inr () \<and> K' = (if exp_pending x
           then K\<lparr>e_hash := map (filter (\<lambda>q. q \<noteq> p)) (e_hash K),
                  e_of := (\<lambda>m. filter (\<lambda>q. q \<noteq> p) (e_of K m)),
                  e_exp := (e_exp K)(p := if exp_use x = 2 then None
                    else Some (x\<lparr>exp_pending := False, exp_use := exp_use x - 2\<rparr>))\<rparr>
           else K))"
proof (cases "nf_ct_expect_find_get E (e_exp K) (info_net info) zone tuple")
  case (Pair h xs)
  show ?thesis
  proof (cases h)
    case None
    then show ?thesis using assms(2-5) Pair exp_find_none by (auto simp: ctnetlink_del_expect_def)
  next
    case (Some p)
    with Pair exp_find_some obtain x where x: "e_exp K p = Some x" "xs = exp_get (e_exp K) p" by blast
    then have use: "0 < exp_use x" "exp_pending x \<Longrightarrow> 2 \<le> exp_use x"
      using assms(1) by (auto simp: exp_counted_def)
    have xs: "xs p = Some (x\<lparr>exp_use := Suc (exp_use x)\<rparr>)" using x by (simp add: exp_get_apply)
    have restored: "nf_ct_expect_put E xs p = e_exp K"
      using exp_put_found [where st = "e_exp K", OF x(1) use(1)] x(2) by simp
    let ?wrong = "\<exists>a. cda CTA_EXPECT_ID = Some a \<and> ntohl (nla_get_be32 R a) \<noteq> of_nat p"
    show ?thesis
    proof (cases ?wrong)
      case True
      then show ?thesis using assms(2-5) Pair Some xs restored x(1)
        by (auto simp: ctnetlink_del_expect_def)
    next
      case right: False
      show ?thesis
      proof (cases "exp_pending x")
        case False
        then have "x\<lparr>exp_use := Suc (exp_use x), exp_pending := False\<rparr> = x\<lparr>exp_use := Suc (exp_use x)\<rparr>"
          by (cases x) simp
        then have "(r, K') = (Inr (), K)"
          using assms(2-5) Pair Some xs restored right False
          by (auto simp: ctnetlink_del_expect_def del_timer_def fun_upd_idem split: option.splits)
        then show ?thesis using Pair Some x(1) right False by auto
      next
        case True
        note off = del_running [where K = K, OF x(1) use(2) [OF True] x(2) refl,
            of "info_portid info" "info_report info"]
        have "(r, K') = (Inr (), K\<lparr>e_hash := map (filter (\<lambda>q. q \<noteq> p)) (e_hash K),
            e_of := (\<lambda>m. filter (\<lambda>q. q \<noteq> p) (e_of K m)),
            e_exp := (e_exp K)(p := if exp_use x = 2 then None
              else Some (x\<lparr>exp_pending := False, exp_use := exp_use x - 2\<rparr>))\<rparr>)"
          using assms(2-5) Pair Some xs right True unfolding off [symmetric]
          by (auto simp: ctnetlink_del_expect_def del_timer_def Let_def split: option.splits)
        then show ?thesis using Pair Some x(1) right True by simp
      qed
    qed
  qed
qed

lemma del_expect_ok:
  assumes "exp_counted (e_exp K)" "ctnetlink_del_expect R E info cda K = (r, K')"
  shows "exp_new_ok E K K'"
proof (cases "cda CTA_EXPECT_TUPLE = None")
  case True
  then show ?thesis using assms(2) exp_iterate
    by (auto simp: ctnetlink_del_expect_def intro: exp_new_ok_sub split: sum.splits)
next
  case False
  show ?thesis
  proof (cases "ctnetlink_parse_zone R (cda CTA_EXPECT_ZONE)")
    case (Inl e)
    then show ?thesis using assms(2) False by (auto simp: ctnetlink_del_expect_def)
  next
    case (Inr zone)
    show ?thesis
    proof (cases "ctnetlink_parse_tuple R cda CTA_EXPECT_TUPLE (nfgen_family info) None")
      case (Inl e)
      then show ?thesis using assms(2) False Inr by (auto simp: ctnetlink_del_expect_def)
    next
      case t: (Inr tz)
      obtain tuple z where tz: "tz = (tuple, z)" by fastforce
      note d = del_expect_cases [OF assms(1) False Inr t [unfolded tz] assms(2)]
      have sub: "exp_sub (e_exp K) ((e_exp K)(p \<mapsto> x\<lparr>exp_pending := False, exp_use := n\<rparr>))"
        if "e_exp K p = Some x" for p x n
        using exp_sub_upd [where b = "e_exp K", OF exp_sub_refl that] by (simp add: same_exp_def)
      show ?thesis using d
        by (auto split: option.splits if_splits intro!: exp_new_ok_sub sub exp_sub_del exp_sub_refl
            simp del: fun_upd_apply)
    qed
  qed
qed

text \<open>The reply about an expectation that was found: one complete message, or none.\<close>

lemma reply_cases:
  assumes "e_ct K (exp_master x) = Some m"
    and "(case nlmsg_new E NLMSG_DEFAULT_SIZE of
           None \<Rightarrow> (Exp_failed ENOMEM, K)
         | Some skb2 \<Rightarrow>
             (case ctnetlink_exp_fill_info (E\<lparr>env_store := e_ct K\<rparr>) portid seq IPCTNL_MSG_EXP_NEW p
                     (x\<lparr>exp_use := n\<rparr>) skb2 of
                (Inl e, _) \<Rightarrow> (Exp_failed (if e = OOPS then OOPS else ENOMEM), K)
              | (Inr n, skb3) \<Rightarrow>
                  if n = 0 then (Exp_failed ENOMEM, K)
                  else (Exp_sent skb3 (nfnetlink_unicast E skb3 net portid), K))) = (r, K')"
  shows "K' = K \<and> (if nlmsg_new E NLMSG_DEFAULT_SIZE \<noteq> None \<and>
            NFNL_HDR_SIZE + attrs_size (exp_attrs E A p x m) \<le> NLMSG_DEFAULT_SIZE + 16
         then \<exists>skb. r = Exp_sent skb (nfnetlink_unicast E skb net portid) \<and>
           msgs skb = [(exp_msg portid seq IPCTNL_MSG_EXP_NEW (if portid \<noteq> 0 then NLM_F_MULTI else 0) x,
             exp_attrs E A p x m)]
         else r = Exp_failed ENOMEM)"
proof (cases "nlmsg_new E NLMSG_DEFAULT_SIZE")
  case None
  then show ?thesis using assms(2) by auto
next
  case (Some skb)
  note b = new_buf [OF Some]
  let ?x = "x\<lparr>exp_use := n\<rparr>" and ?E = "E\<lparr>env_store := e_ct K\<rparr>"
  have em: "exp_msg a b c d ?x = exp_msg a b c d x" for a b c d by (simp add: exp_msg_def)
  have at: "exp_attrs ?E A p ?x m = exp_attrs E A p x m"
    by (simp add: exp_attrs_def exp_name_attrs_def exp_seconds_def nf_expect_get_id_def nat_attrs_def
        exp_nat_tuple_def)
  have L: "exp_laws ?E emits grows room msgs A" by (rule exp_laws_store [OF exp_laws_axioms])
  have m: "env_store ?E (exp_master ?x) = Some m" using assms(1) by simp
  show ?thesis
  proof (cases "NFNL_HDR_SIZE + attrs_size (exp_attrs E A p x m) \<le> room skb")
    case True
    from exp_laws.exp_fill_fits [where E = ?E, OF L m, of p skb portid seq] True
    obtain skb' where "ctnetlink_exp_fill_info ?E portid seq IPCTNL_MSG_EXP_NEW p ?x skb =
        (Inr (w_len ?E skb'), skb')" "0 < w_len ?E skb'"
      "msgs skb' = msgs skb @ [(exp_msg portid seq IPCTNL_MSG_EXP_NEW
         (if portid \<noteq> 0 then NLM_F_MULTI else 0) x, exp_attrs E A p x m)]"
      unfolding at em by blast
    then show ?thesis using assms(2) Some b True by auto
  next
    case False
    from exp_laws.exp_fill_full [where E = ?E, OF L m, of skb p portid seq] False
    have "ctnetlink_exp_fill_info ?E portid seq IPCTNL_MSG_EXP_NEW p ?x skb = (Inl EFAIL, skb)"
      unfolding at by simp
    then show ?thesis using assms(2) Some b False by auto
  qed
qed

text \<open>Getting one expectation; whatever happens, no reference is left behind.\<close>

lemma get_expect_cases:
  assumes "exp_counted (e_exp K)" "\<And>p x. e_exp K p = Some x \<Longrightarrow> e_ct K (exp_master x) \<noteq> None"
    and "nlmsg_flags info AND NLM_F_DUMP = 0"
    and "exp_request_tuple R cda (nfgen_family info) = Inr (tuple, zone)"
    and "ctnetlink_get_expect R E info cda K = (r, K')"
  shows "K' = K \<and> (case fst (nf_ct_expect_find_get E (e_exp K) (info_net info) zone tuple) of
      None \<Rightarrow> r = Exp_failed ENOENT
    | Some p \<Rightarrow> \<exists>x m. e_exp K p = Some x \<and> e_ct K (exp_master x) = Some m \<and>
        (if \<exists>a. cda CTA_EXPECT_ID = Some a \<and> nla_get_be32 R a \<noteq> nf_expect_get_id E p x
         then r = Exp_failed ENOENT
         else if nlmsg_new E NLMSG_DEFAULT_SIZE \<noteq> None \<and>
            NFNL_HDR_SIZE + attrs_size (exp_attrs E A p x m) \<le> NLMSG_DEFAULT_SIZE + 16
         then \<exists>skb. r = Exp_sent skb (nfnetlink_unicast E skb (info_net info) (info_portid info)) \<and>
           msgs skb = [(exp_msg (info_portid info) (nlmsg_seq info) IPCTNL_MSG_EXP_NEW
             (if info_portid info \<noteq> 0 then NLM_F_MULTI else 0) x, exp_attrs E A p x m)]
         else r = Exp_failed ENOMEM))"
proof (cases "nf_ct_expect_find_get E (e_exp K) (info_net info) zone tuple")
  case (Pair h xs)
  have run: "ctnetlink_get_expect R E info cda K =
    (case h of None \<Rightarrow> (Exp_failed ENOENT, K\<lparr>e_exp := xs\<rparr>)
     | Some p \<Rightarrow> (case xs p of
                    None \<Rightarrow> (Exp_failed OOPS, K\<lparr>e_exp := xs\<rparr>)
                  | Some x \<Rightarrow>
                      (let K1 = K\<lparr>e_exp := nf_ct_expect_put E xs p\<rparr> in
                       if (case cda CTA_EXPECT_ID of None \<Rightarrow> False
                           | Some a \<Rightarrow> nla_get_be32 R a \<noteq> nf_expect_get_id E p x)
                       then (Exp_failed ENOENT, K1)
                       else case nlmsg_new E NLMSG_DEFAULT_SIZE of
                           None \<Rightarrow> (Exp_failed ENOMEM, K1)
                         | Some skb2 \<Rightarrow>
                             (case ctnetlink_exp_fill_info (E\<lparr>env_store := e_ct K\<rparr>) (info_portid info)
                                     (nlmsg_seq info) IPCTNL_MSG_EXP_NEW p x skb2 of
                                (Inl e, _) \<Rightarrow>
                                  (Exp_failed (if e = OOPS then OOPS else ENOMEM), K1)
                              | (Inr n, skb3) \<Rightarrow>
                                  if n = 0 then (Exp_failed ENOMEM, K1)
                                  else (Exp_sent skb3 (nfnetlink_unicast E skb3 (info_net info)
                                                         (info_portid info)), K1)))))"
    using assms(3,4) Pair by (simp add: ctnetlink_get_expect_def)
  show ?thesis
  proof (cases h)
    case None
    then show ?thesis using run assms(5) Pair exp_find_none by auto
  next
    case (Some p)
    with Pair exp_find_some obtain x where x: "e_exp K p = Some x" "xs = exp_get (e_exp K) p" by blast
    then obtain m where m: "e_ct K (exp_master x) = Some m" using assms(2) by blast
    have use: "0 < exp_use x" using assms(1) x(1) by (auto simp: exp_counted_def)
    let ?x = "x\<lparr>exp_use := Suc (exp_use x)\<rparr>"
    have xs: "xs p = Some ?x" using x by (simp add: exp_get_apply)
    have restored: "nf_ct_expect_put E xs p = e_exp K"
      using exp_put_found [where st = "e_exp K", OF x(1) use] x(2) by simp
    have id: "nf_expect_get_id E p ?x = nf_expect_get_id E p x" by (simp add: nf_expect_get_id_def)
    show ?thesis
    proof (cases "\<exists>a. cda CTA_EXPECT_ID = Some a \<and> nla_get_be32 R a \<noteq> nf_expect_get_id E p x")
      case True
      then show ?thesis using run assms(5) Some Pair xs restored x(1) m id by auto
    next
      case right: False
      have wrong: "(case cda CTA_EXPECT_ID of None \<Rightarrow> False
          | Some a \<Rightarrow> nla_get_be32 R a \<noteq> nf_expect_get_id E p ?x) = False"
        using right id by (auto split: option.splits)
      have K: "K\<lparr>e_exp := nf_ct_expect_put E xs p\<rparr> = K" using restored by simp
      from assms(5) [unfolded run Some option.case xs Let_def wrong if_False K]
      show ?thesis using reply_cases [OF m] Some Pair x(1) m right by auto
    qed
  qed
qed

end

end
