(* ===== verification/Ct_Expect_Props.thy ===== *)
theory Ct_Expect_Props
  imports Ct_Expect_Spec
begin

text \<open>
  The properties of the operations on expectations, with a reference instance of the kernel's
  expectation functions on which they are evaluated.
\<close>

section \<open>A reference environment\<close>

definition plain_exp_put :: "exp_store \<Rightarrow> nat \<Rightarrow> exp_store" where
  "plain_exp_put st p = (case st p of None \<Rightarrow> st
     | Some x \<Rightarrow> if 1 < exp_use x then st(p \<mapsto> x\<lparr>exp_use := exp_use x - 1\<rparr>) else st(p := None))"

definition plain_exp_find :: "exp_store \<Rightarrow> nat \<Rightarrow> nf_conntrack_zone \<Rightarrow> nf_conntrack_tuple \<Rightarrow> nat option" where
  "plain_exp_find st net z t =
     List.find (\<lambda>p. case st p of None \<Rightarrow> False | Some x \<Rightarrow> exp_tuple x = t) [0..<16]"

definition plain_exp_find_get ::
  "exp_store \<Rightarrow> nat \<Rightarrow> nf_conntrack_zone \<Rightarrow> nf_conntrack_tuple \<Rightarrow> nat option \<times> exp_store" where
  "plain_exp_find_get st net z t =
     (case plain_exp_find st net z t of None \<Rightarrow> (None, st) | Some p \<Rightarrow> (Some p, exp_get st p))"

text \<open>New memory still holds what an earlier owner left in it.\<close>

definition stale_exp :: nf_conntrack_expect where
  "stale_exp = \<lparr>exp_tuple = zero_tuple, exp_mask_u3 = any_addr, exp_mask_u = 0, exp_expectfn = None,
     exp_helper = None, exp_master = 0, exp_expires = 0, exp_pending = False, exp_use = 1, exp_flags = 0,
     exp_class = 0, exp_saved_addr = any_addr\<lparr>all0 := 0xDEAD\<rparr>, exp_saved_proto = 77, exp_dir = 3\<rparr>"

definition plain_exp_alloc :: "esys \<Rightarrow> nat \<Rightarrow> (nat \<times> nf_conntrack_expect) option" where
  "plain_exp_alloc K m = (case e_exp K 9 of None \<Rightarrow> Some (9, stale_exp) | Some _ \<Rightarrow> None)"

definition off_lists :: "esys \<Rightarrow> nat \<Rightarrow> esys" where
  "off_lists K p = K\<lparr>e_hash := map (filter (\<lambda>q. q \<noteq> p)) (e_hash K),
     e_of := (\<lambda>m. filter (\<lambda>q. q \<noteq> p) (e_of K m))\<rparr>"

definition plain_exp_unlink :: "esys \<Rightarrow> nat \<Rightarrow> esys" where
  "plain_exp_unlink K p = (off_lists K p)\<lparr>e_exp := plain_exp_put (e_exp K) p\<rparr>"

fun plain_exp_iterate :: "nat \<Rightarrow> (nf_conntrack_expect \<Rightarrow> bool res) \<Rightarrow> nat list \<Rightarrow> esys \<Rightarrow> esys res" where
  "plain_exp_iterate net f [] K = Inr K"
| "plain_exp_iterate net f (p # ps) K =
     (case e_exp K p of
        None \<Rightarrow> Inl OOPS
      | Some x \<Rightarrow>
          (case e_ct K (exp_master x) of
             None \<Rightarrow> Inl OOPS
           | Some m \<Rightarrow>
               bind_res (f x) (\<lambda>sel.
                 plain_exp_iterate net f ps
                   (if sel \<and> ct_net m = net \<and> exp_pending x
                    then plain_exp_unlink
                           (K\<lparr>e_exp := plain_exp_put ((e_exp K)(p \<mapsto> x\<lparr>exp_pending := False\<rparr>)) p\<rparr>) p
                    else K))))"

definition plain_exp_relate :: "esys \<Rightarrow> nat \<Rightarrow> unit res \<times> esys" where
  "plain_exp_relate K p =
     (case e_exp K p of
        None \<Rightarrow> (Inl OOPS, K)
      | Some x \<Rightarrow>
          if \<exists>ps\<in>set (e_hash K). \<exists>q\<in>set ps. case e_exp K q of None \<Rightarrow> False
               | Some y \<Rightarrow> exp_tuple y = exp_tuple x
          then (Inl EBUSY, K)
          else (Inr (), K\<lparr>e_hash := (p # hd (e_hash K)) # tl (e_hash K),
                          e_of := (e_of K)(exp_master x := p # e_of K (exp_master x)),
                          e_exp := (e_exp K)(p \<mapsto> x\<lparr>exp_use := exp_use x + 2, exp_expires := 300000,
                                                   exp_pending := True\<rparr>)\<rparr>))"

definition ref_exp :: "buf exp_env" where
  "ref_exp = event_env.extend (event_env.truncate ref_event)
     (exp_env.fields 0 (\<lambda>t. ucast (src_u t)) (\<lambda>a b c d. a + 1)
       (\<lambda>f. if f = Some 9 then Some ''fn'' else None) (\<lambda>n. if n = ''fn'' then Some 9 else None)
       plain_exp_put plain_exp_find_get plain_exp_find plain_exp_alloc
       (\<lambda>K p portid report. plain_exp_unlink K p)
       (\<lambda>K net f portid report. plain_exp_iterate net f (concat (e_hash K)) K)
       (\<lambda>K p portid report. plain_exp_relate K p))"

lemmas ref_exp_sel = ref_exp_def ref_event_sel exp_env.defs

lemma ref_exp_lookup: "lookup_laws ref_exp buf_emits buf_grows b_room buf_msgs ref_attrs"
  using ref_event_lookup
  unfolding lookup_laws_def table_laws_def dump_laws_def nl_writer_laws_def lookup_laws_axioms_def
    table_laws_axioms_def dump_laws_axioms_def
  by (simp add: ref_exp_sel)

lemma plain_exp_find_some: "plain_exp_find st net z t = Some p \<Longrightarrow> st p \<noteq> None"
  by (auto simp: plain_exp_find_def dest!: find_holds split: option.splits
      simp del: upt.simps upt_rec_numeral)

lemma exp_sub_put: "exp_sub a b \<Longrightarrow> exp_sub a (plain_exp_put b p)"
  by (auto simp: plain_exp_put_def exp_sub_del intro: exp_sub_upd split: option.splits)

lemma plain_exp_iterate_sub:
  "plain_exp_iterate net f ps K = Inr K' \<Longrightarrow> e_ct K' = e_ct K \<and> exp_sub (e_exp K) (e_exp K')"
proof (induction ps arbitrary: K)
  case (Cons p ps)
  then obtain x m sel where x: "e_exp K p = Some x" "e_ct K (exp_master x) = Some m" "f x = Inr sel"
    by (auto split: option.splits)
  let ?K1 = "if sel \<and> ct_net m = net \<and> exp_pending x
    then plain_exp_unlink (K\<lparr>e_exp := plain_exp_put ((e_exp K)(p \<mapsto> x\<lparr>exp_pending := False\<rparr>)) p\<rparr>) p else K"
  have "plain_exp_iterate net f ps ?K1 = Inr K'" using Cons.prems x by simp
  note ih = Cons.IH [OF this]
  have "exp_sub (e_exp K) ((e_exp K)(p \<mapsto> x\<lparr>exp_pending := False\<rparr>))"
    using x(1) by (intro exp_sub_upd [OF exp_sub_refl]) auto
  then have "e_ct ?K1 = e_ct K \<and> exp_sub (e_exp K) (e_exp ?K1)"
    by (simp add: plain_exp_unlink_def off_lists_def exp_sub_put)
  then show ?case using ih exp_sub_trans by auto
qed simp

interpretation ref_exp: exp_laws ref_exp buf_emits buf_grows b_room buf_msgs ref_attrs
proof (rule exp_laws.intro [OF ref_exp_lookup], unfold_locales, goal_cases)
  case (1 st p x)
  then show ?case by (simp add: ref_exp_sel plain_exp_put_def)
next
  case (2 st net z t st')
  then show ?case by (auto simp: ref_exp_sel plain_exp_find_get_def split: option.splits)
next
  case (3 st net z t p st')
  then show ?case
    by (auto simp: ref_exp_sel plain_exp_find_get_def dest: plain_exp_find_some split: option.splits)
next
  case (4 st net z t p)
  then show ?case using plain_exp_find_some by (auto simp: ref_exp_sel)
next
  case (5 K m p x)
  then show ?case by (auto simp: ref_exp_sel plain_exp_alloc_def stale_exp_def split: option.splits)
next
  case (6 K p x portid report)
  then show ?case
    by (simp add: ref_exp_sel plain_exp_unlink_def off_lists_def plain_exp_put_def)
next
  case (7 K p x portid report r K')
  then have "exp_sub (e_exp K) ((e_exp K)(p \<mapsto> x\<lparr>exp_use := exp_use x + 2, exp_expires := 300000,
      exp_pending := True\<rparr>))"
    by (intro exp_sub_upd [OF exp_sub_refl]) (auto simp: same_exp_def)
  with 7 show ?case by (auto simp: ref_exp_sel plain_exp_relate_def split: if_splits)
next
  case (8 K net f portid report K')
  then show ?case using plain_exp_iterate_sub by (auto simp: ref_exp_sel)
qed

text \<open>Two expectations of one connection, in two buckets, both with their timers running.\<close>

definition demo_master :: nf_conn where
  "demo_master = sample_ct\<lparr>ext_help := Some \<lparr>help_helper = None\<rparr>\<rparr>"

definition demo_expect :: nf_conntrack_expect where
  "demo_expect = \<lparr>exp_tuple = sample_tuple\<lparr>src_u := 7, dst_dir := IP_CT_DIR_REPLY\<rparr>,
     exp_mask_u3 = any_addr, exp_mask_u = 0, exp_expectfn = None, exp_helper = None, exp_master = 2,
     exp_expires = 60000, exp_pending = True, exp_use = 2, exp_flags = 0, exp_class = 0,
     exp_saved_addr = any_addr, exp_saved_proto = 0, exp_dir = 0\<rparr>"

definition demo_esys :: esys where
  "demo_esys = \<lparr>e_hash = [[4], [5]], e_of = (\<lambda>m. if m = 2 then [5, 4] else []),
     e_exp = [4 \<mapsto> demo_expect,
       5 \<mapsto> demo_expect\<lparr>exp_tuple := sample_tuple\<lparr>src_u := 8, dst_dir := IP_CT_DIR_REPLY\<rparr>\<rparr>],
     e_ct = [2 \<mapsto> demo_master]\<rparr>"

definition demo_exp_call :: exp_call where
  "demo_exp_call = \<lparr>ec_net = 0, ec_portid = 5, ec_seq = 6, ec_family = 0\<rparr>"

definition demo_exp_st :: "nat \<Rightarrow> nat \<Rightarrow> nat option \<Rightarrow> buf exp_st" where
  "demo_exp_st n b lst = \<lparr>es_args0 = b, es_args1 = lst,
     es_sys = demo_esys\<lparr>e_exp := exp_hold (e_exp demo_esys) lst\<rparr>, es_skb = \<lparr>b_room = n, b_toks = []\<rparr>\<rparr>"

lemma demo_esys_ok:
  "exp_counted (e_exp demo_esys)" "counted (e_ct demo_esys)"
  "\<forall>p x. e_exp demo_esys p = Some x \<longrightarrow> e_ct demo_esys (exp_master x) \<noteq> None"
  "\<forall>ps\<in>set (e_hash demo_esys). walkable (table_skips demo_exp_call) demo_esys ps"
  by (auto simp: exp_counted_def counted_def demo_esys_def demo_expect_def demo_master_def sample_ct_def
      walkable_def table_skips_def demo_exp_call_def split: if_splits)

section \<open>Properties\<close>

text \<open>
  C33. One call of the dump of all expectations, on a buffer of any size: it writes the
  selected expectations (of the namespace and family asked for) that are left, one after the other,
  until the first that does not fit, and the callback state describes exactly the rest. Between
  calls exactly one reference is held, on the expectation remembered, and none when the dump is
  finished. This also holds when the remembered expectation itself does not fit.
\<close>

theorem exp_dump_resumes:
  assumes "exp_laws E emits grows room msgs A"
    and "es_sys s = K\<lparr>e_exp := exp_hold (e_exp K) (es_args1 s)\<rparr>"
    and "\<And>l. es_args1 s = Some l \<Longrightarrow> \<exists>x. e_exp K l = Some x \<and> 0 < exp_use x"
    and "es_args0 s < length (e_hash K)" "\<forall>ps\<in>set (e_hash K). walkable (table_skips c) K ps"
    and "W = exp_left (passing (table_skips c) K) (es_args1 s) (drop (es_args0 s) (e_hash K))"
  shows "\<exists>ws rem s'. W = ws @ rem \<and> ctnetlink_exp_dump_table E c s = Inr (w_len E (es_skb s'), s') \<and>
    msgs (es_skb s') = msgs (es_skb s) @ map (expect_message E A c K) ws \<and>
    es_sys s' = K\<lparr>e_exp := exp_hold (e_exp K) (es_args1 s')\<rparr> \<and>
    (rem = [] \<longrightarrow> es_args0 s' = length (e_hash K) \<and> es_args1 s' = None) \<and>
    (rem \<noteq> [] \<longrightarrow> es_args0 s' < length (e_hash K) \<and> es_args1 s' = Some (hd rem) \<and>
       exp_left (passing (table_skips c) K) (es_args1 s') (drop (es_args0 s') (e_hash K)) = rem \<and>
       room (es_skb s') < NFNL_HDR_SIZE + attrs_size (snd (expect_message E A c K (hd rem))))"
  by (rule exp_laws.exp_dump_table_call [OF assms])

lemma demo_exp_st_simps [simp]:
  "es_args0 (demo_exp_st n b lst) = b" "es_args1 (demo_exp_st n b lst) = lst"
  "es_sys (demo_exp_st n b lst) = demo_esys\<lparr>e_exp := exp_hold (e_exp demo_esys) lst\<rparr>"
  "es_skb (demo_exp_st n b lst) = \<lparr>b_room = n, b_toks = []\<rparr>"
  by (simp_all add: demo_exp_st_def)

theorem exp_dump_resumes_witness:
  "\<exists>s'. ctnetlink_exp_dump_table ref_exp demo_exp_call (demo_exp_st 100 1 (Some 5)) =
       Inr (w_len ref_exp (es_skb s'), s') \<and> buf_msgs (es_skb s') = [] \<and>
     es_args0 s' < 2 \<and> es_args1 s' = Some 5 \<and> es_sys s' = es_sys (demo_exp_st 100 1 (Some 5))"
proof -
  let ?s = "demo_exp_st 100 1 (Some 5)"
  have s: "es_sys ?s = demo_esys\<lparr>e_exp := exp_hold (e_exp demo_esys) (es_args1 ?s)\<rparr>"
      "\<And>l. es_args1 ?s = Some l \<Longrightarrow> \<exists>x. e_exp demo_esys l = Some x \<and> 0 < exp_use x"
      "es_args0 ?s < length (e_hash demo_esys)"
    by (auto simp: demo_esys_def demo_expect_def)
  have "exp_left (passing (table_skips demo_exp_call) demo_esys) (Some 5) (drop 1 (e_hash demo_esys)) = [5]"
    by code_simp
  then have w: "[5] = exp_left (passing (table_skips demo_exp_call) demo_esys) (es_args1 ?s)
      (drop (es_args0 ?s) (e_hash demo_esys))" by simp
  from exp_dump_resumes [OF ref_exp.exp_laws_axioms s demo_esys_ok(4) w]
  obtain ws rem s' where r: "[5] = ws @ rem"
    "ctnetlink_exp_dump_table ref_exp demo_exp_call ?s = Inr (w_len ref_exp (es_skb s'), s')"
    "buf_msgs (es_skb s') = buf_msgs (es_skb ?s) @ map (expect_message ref_exp ref_attrs demo_exp_call demo_esys) ws"
    "es_sys s' = demo_esys\<lparr>e_exp := exp_hold (e_exp demo_esys) (es_args1 s')\<rparr>"
    "rem = [] \<longrightarrow> es_args0 s' = length (e_hash demo_esys) \<and> es_args1 s' = None"
    "rem \<noteq> [] \<longrightarrow> es_args0 s' < length (e_hash demo_esys) \<and> es_args1 s' = Some (hd rem)" by blast
  have "es_args1 (snd (projr (ctnetlink_exp_dump_table ref_exp demo_exp_call ?s))) = Some 5" by code_simp
  with r(2) have a: "es_args1 s' = Some 5" by simp
  with r(5) have "rem \<noteq> []" by auto
  with r(1) have "ws = []" "rem = [5]" by (auto simp: Cons_eq_append_conv)
  with r a show ?thesis by (intro exI [of _ s']) (simp add: buf_msgs_def demo_esys_def)
qed

text \<open>
  C34. Whatever a request to create, change or delete expectations contains and
  however it ends, and likewise a verdict that attaches one: all connections are as before with
  their reference counts, and every expectation afterwards is one of before, up to reference count
  and timer, or is well-typed. When all were well-typed before, all are.
\<close>

theorem expectations_well_typed:
  assumes "exp_laws E emits grows room msgs A" "counted (e_ct K)" "exp_counted (e_exp K)"
    and "(\<exists>calls. ctnetlink_new_expect C E info cda K = (r, K', calls)) \<or>
      ctnetlink_del_expect R E info cda K = (r, K') \<or>
      ctnetlink_glue_attach_expect C E attr m portid report K = (r, K')"
  shows "exp_new_ok E K K' \<and>
    ((\<forall>p x. e_exp K p = Some x \<longrightarrow> expect_ok E (e_ct K) x) \<longrightarrow>
     (\<forall>p x. e_exp K' p = Some x \<longrightarrow> expect_ok E (e_ct K') x))"
proof -
  have ok: "exp_new_ok E K K'"
    using assms(4)
  proof (elim disjE exE)
    fix calls
    assume "ctnetlink_new_expect C E info cda K = (r, K', calls)"
    then show ?thesis by (rule exp_laws.new_expect_ok [OF assms(1,2)])
  next
    assume "ctnetlink_del_expect R E info cda K = (r, K')"
    then show ?thesis by (rule exp_laws.del_expect_ok [OF assms(1,3)])
  next
    assume "ctnetlink_glue_attach_expect C E attr m portid report K = (r, K')"
    then show ?thesis by (rule exp_laws.attach_expect_ok [OF assms(1)])
  qed
  have "expect_ok E (e_ct K') y"
    if "\<forall>p x. e_exp K p = Some x \<longrightarrow> expect_ok E (e_ct K) x" "e_exp K' q = Some y" for q y
  proof -
    from ok that(2) have eq: "e_ct K' = e_ct K"
      and "(\<exists>x. e_exp K q = Some x \<and> same_exp x y) \<or> expect_ok E (e_ct K) y"
      unfolding exp_new_ok_def by blast+
    then show ?thesis
    proof (elim disjE exE conjE)
      fix x
      assume "e_exp K q = Some x" "same_exp x y"
      with that(1) eq expect_ok_same [of x y E "e_ct K"] show ?thesis by simp
    qed simp
  qed
  with ok show ?thesis by blast
qed

definition demo_new_expect :: "nlattr attr_table" where
  "demo_new_expect = [
     CTA_EXPECT_TUPLE \<mapsto> Nest CTA_EXPECT_TUPLE (tuple_attrs ref_attrs (sample_tuple\<lparr>src_u := 9\<rparr>)),
     CTA_EXPECT_MASK \<mapsto> Nest CTA_EXPECT_MASK (tuple_attrs ref_attrs sample_tuple),
     CTA_EXPECT_MASTER \<mapsto> Nest CTA_EXPECT_MASTER (tuple_attrs ref_attrs sample_tuple),
     CTA_EXPECT_FLAGS \<mapsto> Leaf CTA_EXPECT_FLAGS (V_be32 (htonl 7)),
     CTA_EXPECT_FN \<mapsto> Leaf CTA_EXPECT_FN (V_string ''fn''),
     CTA_EXPECT_ZONE \<mapsto> Leaf CTA_EXPECT_ZONE (V_be16 (htons 100))]"

definition demo_create_info :: nfnl_info where
  "demo_create_info = Ct_Request_Spec.demo_info\<lparr>nlmsg_flags := NLM_F_CREATE\<rparr>"

theorem expectations_well_typed_witness:
  "\<exists>K' calls x. ctnetlink_new_expect ref_new ref_exp demo_create_info demo_new_expect demo_esys =
      (Inr (), K', calls) \<and> e_exp K' 9 = Some x \<and> exp_flags x = 3 \<and> expect_ok ref_exp (e_ct demo_esys) x"
proof -
  let ?r = "ctnetlink_new_expect ref_new ref_exp demo_create_info demo_new_expect demo_esys"
  have c: "fst ?r = Inr ()" "map_option exp_flags (e_exp (fst (snd ?r)) 9) = Some 3"
    "e_exp demo_esys 9 = None" by code_simp+
  have "\<exists>calls. ?r = (fst ?r, fst (snd ?r), calls)" by (intro exI [of _ "snd (snd ?r)"]) simp
  with expectations_well_typed [OF ref_exp.exp_laws_axioms demo_esys_ok(2,1), of ref_new demo_create_info
      demo_new_expect "fst ?r" "fst (snd ?r)"]
  have "exp_new_ok ref_exp demo_esys (fst (snd ?r))" by blast
  moreover obtain x where x: "e_exp (fst (snd ?r)) 9 = Some x" "exp_flags x = 3" using c(2) by auto
  ultimately have "expect_ok ref_exp (e_ct demo_esys) x"
    using c(3) unfolding exp_new_ok_def by (metis option.distinct(1))
  then show ?thesis using x c(1) by (metis prod.collapse)
qed

text \<open>
  C35. A creation that fails, at whatever step, leaves the connections exactly as
  before and no new expectation; a successful one adds one expectation at an unused address, with
  tuple and mask as the request gave them, the references of the hash table and the timer only, and
  as master the connection the request named, whose reference count is unchanged.
\<close>

theorem create_expect_request:
  assumes "exp_laws E emits grows room msgs A" "counted (e_ct K)"
    and "ctnetlink_create_expect C E net zone cda u3 portid report K = (r, K', calls)"
  shows "e_ct K' = e_ct K \<and>
    (case r of Inl e \<Rightarrow> exp_sub (e_exp K) (e_exp K')
     | Inr _ \<Rightarrow> \<exists>tuple msk master z1 z2 z3 p y.
         ctnetlink_parse_tuple C cda CTA_EXPECT_TUPLE u3 None = Inr (tuple, z1) \<and>
         ctnetlink_parse_tuple C cda CTA_EXPECT_MASK u3 None = Inr (msk, z2) \<and>
         ctnetlink_parse_tuple C cda CTA_EXPECT_MASTER u3 None = Inr (master, z3) \<and>
         fst (nf_conntrack_find_get E (e_ct K) net zone master) = Some (exp_master y) \<and>
         e_exp K p = None \<and> e_exp K' p = Some y \<and> exp_use y = 2 \<and>
         exp_sub ((e_exp K)(p \<mapsto> y)) (e_exp K') \<and> expect_ok E (e_ct K) y \<and>
         exp_tuple y = tuple \<and> exp_mask_u3 y = src_u3 msk \<and> exp_mask_u y = src_u msk)"
  by (rule exp_laws.create_expect_cases [OF assms])

definition demo_exp_zone :: nf_conntrack_zone where
  "demo_exp_zone = \<lparr>zone_id = 100, zone_flags = NF_CT_ZONE_DIR_ORIG, zone_dir = NF_CT_DEFAULT_ZONE_DIR\<rparr>"

theorem create_expect_request_witness:
  "\<exists>K' calls p y. ctnetlink_create_expect ref_new ref_exp 0 demo_exp_zone demo_new_expect 2 5 False demo_esys =
      (Inr (), K', calls) \<and> e_ct K' = e_ct demo_esys \<and> e_exp K' p = Some y \<and> exp_use y = 2 \<and>
      exp_tuple y = sample_tuple\<lparr>src_u := 9, dst_dir := IP_CT_DIR_REPLY\<rparr>"
proof -
  let ?r = "ctnetlink_create_expect ref_new ref_exp 0 demo_exp_zone demo_new_expect 2 5 False demo_esys"
  have c: "fst ?r = Inr ()" "map_sum id fst (ctnetlink_parse_tuple ref_new demo_new_expect CTA_EXPECT_TUPLE 2 None) =
      Inr (sample_tuple\<lparr>src_u := 9, dst_dir := IP_CT_DIR_REPLY\<rparr>)" by code_simp+
  have "?r = (Inr (), fst (snd ?r), snd (snd ?r))" using c(1) by (simp add: prod_eq_iff)
  note run = this
  from create_expect_request [OF ref_exp.exp_laws_axioms demo_esys_ok(2) run]
  obtain tuple z1 p y where y: "e_ct (fst (snd ?r)) = e_ct demo_esys"
    "ctnetlink_parse_tuple ref_new demo_new_expect CTA_EXPECT_TUPLE 2 None = Inr (tuple, z1)"
    "e_exp (fst (snd ?r)) p = Some y" "exp_use y = 2" "exp_tuple y = tuple" by auto
  from y(2) c(2) have "tuple = sample_tuple\<lparr>src_u := 9, dst_dir := IP_CT_DIR_REPLY\<rparr>" by simp
  with run y show ?thesis by blast
qed

text \<open>
  C38. An expectation made without \<open>CTA_EXPECT_NAT\<close> keeps in its NAT fields whatever
  the memory held before: if that is not zero, the new expectation has a NAT part, and every message
  about it sends these bytes to user space.
\<close>

theorem expect_nat_uninitialised:
  assumes "exp_laws E emits grows room msgs A" "cda CTA_EXPECT_NAT = None"
    and "ctnetlink_alloc_expect R E cda m ct helper tuple msk K = (Inr p, K')" "e_ct K m = Some ct"
    and "nf_ct_expect_alloc E K m = Some (p, x0)" "exp_saved_addr x0 \<noteq> any_addr \<or> exp_saved_proto x0 \<noteq> 0"
  shows "\<exists>x as. e_exp K' p = Some x \<and> as = exp_attrs (E\<lparr>env_store := e_ct K'\<rparr>) A p x ct \<and>
    Nest CTA_EXPECT_NAT [Leaf CTA_EXPECT_NAT_DIR (V_be32 (htonl (exp_dir x0))),
      Nest CTA_EXPECT_NAT_TUPLE (tuple_attrs A (exp_nat_tuple x0 ct))] \<in> set as \<and>
    (NFNL_HDR_SIZE + attrs_size as \<le> room skb \<longrightarrow>
      (\<exists>n skb' h. ctnetlink_exp_fill_info (E\<lparr>env_store := e_ct K'\<rparr>) portid seq event p x skb = (Inr n, skb') \<and>
         msgs skb' = msgs skb @ [(h, as)]))"
proof -
  from exp_laws.alloc_expect_cases [OF assms(1,3)] assms(2,5) obtain x where x:
    "K' = K\<lparr>e_exp := (e_exp K)(p \<mapsto> x)\<rparr>" "exp_master x = m" "exp_saved_addr x = exp_saved_addr x0"
    "exp_saved_proto x = exp_saved_proto x0" "exp_dir x = exp_dir x0" by auto
  let ?E = "E\<lparr>env_store := e_ct K'\<rparr>"
  have n: "exp_nat_tuple x ct = exp_nat_tuple x0 ct" using x by (simp add: exp_nat_tuple_def)
  have "Nest CTA_EXPECT_NAT [Leaf CTA_EXPECT_NAT_DIR (V_be32 (htonl (exp_dir x0))),
      Nest CTA_EXPECT_NAT_TUPLE (tuple_attrs A (exp_nat_tuple x0 ct))] \<in> set (exp_attrs ?E A p x ct)"
    using assms(6) x(3-5) by (auto simp: exp_attrs_def nat_attrs_def n)
  moreover have "env_store ?E (exp_master x) = Some ct" using x(1,2) assms(4) by simp
  note exp_laws.exp_fill_fits [where E = ?E, OF exp_laws_store [OF assms(1)] this, of p skb portid seq event]
  ultimately show ?thesis using x(1) by (intro exI [of _ x]) auto
qed

theorem expect_nat_uninitialised_witness:
  "\<exists>x. map_option exp_saved_proto (e_exp (snd (ctnetlink_alloc_expect ref_new ref_exp demo_new_expect 2
       demo_master None sample_tuple sample_tuple demo_esys)) 9) = Some 77 \<and>
     Nest CTA_EXPECT_NAT [Leaf CTA_EXPECT_NAT_DIR (V_be32 (htonl 3)),
       Nest CTA_EXPECT_NAT_TUPLE (tuple_attrs ref_attrs (exp_nat_tuple stale_exp demo_master))]
     \<in> set (exp_attrs (ref_exp\<lparr>env_store := e_ct demo_esys\<rparr>) ref_attrs 9 x demo_master)"
proof -
  let ?r = "ctnetlink_alloc_expect ref_new ref_exp demo_new_expect 2 demo_master None sample_tuple
    sample_tuple demo_esys"
  have c: "fst ?r = Inr 9" "demo_new_expect CTA_EXPECT_NAT = None"
    "map_option exp_saved_proto (e_exp (snd ?r) 9) = Some 77" by code_simp+
  have al: "nf_ct_expect_alloc ref_exp demo_esys 2 = Some (9, stale_exp)"
    by (simp add: ref_exp_sel plain_exp_alloc_def demo_esys_def)
  have g: "exp_saved_addr stale_exp \<noteq> any_addr \<or> exp_saved_proto stale_exp \<noteq> 0"
    "exp_dir stale_exp = 3" by (simp_all add: stale_exp_def)
  have run: "?r = (Inr 9, snd ?r)" using c(1) by (simp add: prod_eq_iff)
  have m: "e_ct demo_esys 2 = Some demo_master" by (simp add: demo_esys_def)
  have st: "e_ct (snd ?r) = e_ct demo_esys" using ref_exp.alloc_expect_cases [OF run] by auto
  from expect_nat_uninitialised [OF ref_exp.exp_laws_axioms c(2) run m al g(1)]
  obtain x where "Nest CTA_EXPECT_NAT [Leaf CTA_EXPECT_NAT_DIR (V_be32 (htonl (exp_dir stale_exp))),
      Nest CTA_EXPECT_NAT_TUPLE (tuple_attrs ref_attrs (exp_nat_tuple stale_exp demo_master))]
    \<in> set (exp_attrs (ref_exp\<lparr>env_store := e_ct (snd ?r)\<rparr>) ref_attrs 9 x demo_master)" by blast
  then show ?thesis using c(3) unfolding g(2) st by blast
qed

text \<open>
  C36. A deletion by tuple: without a match, or when the identifier of the request is not
  the low half of the object's address, it is refused with nothing changed; otherwise it succeeds,
  and if the timer was running the expectation is off the table and off its master's list, and is
  freed unless somebody else holds a reference. The identifier compared is not the one that
  messages about the expectation carry.
\<close>

theorem del_expect_request:
  assumes "exp_laws E emits grows room msgs A" "exp_counted (e_exp K)" "cda CTA_EXPECT_TUPLE \<noteq> None"
    and "ctnetlink_parse_zone R (cda CTA_EXPECT_ZONE) = Inr zone"
    and "ctnetlink_parse_tuple R cda CTA_EXPECT_TUPLE (nfgen_family info) None = Inr (tuple, z)"
    and "ctnetlink_del_expect R E info cda K = (r, K')"
  shows "case fst (nf_ct_expect_find_get E (e_exp K) (info_net info) zone tuple) of
      None \<Rightarrow> r = Inl ENOENT \<and> K' = K
    | Some p \<Rightarrow> \<exists>x. e_exp K p = Some x \<and>
        (if (\<exists>a. cda CTA_EXPECT_ID = Some a \<and> ntohl (nla_get_be32 R a) \<noteq> of_nat p)
         then r = Inl ENOENT \<and> K' = K
         else r = Inr () \<and> K' = (if exp_pending x
           then K\<lparr>e_hash := map (filter (\<lambda>q. q \<noteq> p)) (e_hash K),
                  e_of := (\<lambda>m. filter (\<lambda>q. q \<noteq> p) (e_of K m)),
                  e_exp := (e_exp K)(p := if exp_use x = 2 then None
                    else Some (x\<lparr>exp_pending := False, exp_use := exp_use x - 2\<rparr>))\<rparr>
           else K))"
  by (rule exp_laws.del_expect_cases [OF assms])

text \<open>The identifier that \<open>ref_exp\<close> sends for the expectation at address 4 is 5.\<close>

definition demo_del :: "nlattr attr_table" where
  "demo_del = [CTA_EXPECT_TUPLE \<mapsto> Nest CTA_EXPECT_TUPLE (tuple_attrs ref_attrs (sample_tuple\<lparr>src_u := 7\<rparr>)),
     CTA_EXPECT_ID \<mapsto> Leaf CTA_EXPECT_ID (V_be32 5),
     CTA_EXPECT_ZONE \<mapsto> Leaf CTA_EXPECT_ZONE (V_be16 (htons 100))]"

lemma demo_del_ok:
  "ctnetlink_parse_zone ref_new (demo_del CTA_EXPECT_ZONE) = Inr demo_exp_zone"
  "ctnetlink_parse_tuple ref_new demo_del CTA_EXPECT_TUPLE (nfgen_family demo_create_info) None =
     Inr (sample_tuple\<lparr>src_u := 7, dst_dir := IP_CT_DIR_REPLY\<rparr>, None)"
  "exp_request_tuple ref_new demo_del (nfgen_family demo_create_info) =
     Inr (sample_tuple\<lparr>src_u := 7, dst_dir := IP_CT_DIR_REPLY\<rparr>, demo_exp_zone)"
  "fst (nf_ct_expect_find_get ref_exp (e_exp demo_esys) (info_net demo_create_info) demo_exp_zone
     (sample_tuple\<lparr>src_u := 7, dst_dir := IP_CT_DIR_REPLY\<rparr>)) = Some 4"
  "nf_expect_get_id ref_exp 4 demo_expect = 5"
  "nlmsg_flags demo_create_info AND NLM_F_DUMP = 0"
  by code_simp+

theorem del_expect_request_witness:
  "ctnetlink_del_expect ref_new ref_exp demo_create_info demo_del demo_esys = (Inl ENOENT, demo_esys)"
proof -
  let ?r = "ctnetlink_del_expect ref_new ref_exp demo_create_info demo_del demo_esys"
  have t: "demo_del CTA_EXPECT_TUPLE \<noteq> None"
    and i: "demo_del CTA_EXPECT_ID = Some (Leaf CTA_EXPECT_ID (V_be32 5))" by (simp_all add: demo_del_def)
  have "ntohl (nla_get_be32 ref_new (Leaf CTA_EXPECT_ID (V_be32 5))) \<noteq> of_nat 4" by code_simp
  with del_expect_request [OF ref_exp.exp_laws_axioms demo_esys_ok(1) t demo_del_ok(1,2), of "fst ?r" "snd ?r"]
    i demo_del_ok(4)
  show ?thesis by (auto simp: prod_eq_iff)
qed

text \<open>
  C37. A request for one expectation: found by its tuple and, if given, its identifier,
  it is sent as one complete message when that fits, and the state is in every case exactly as
  before, without a reference left.
\<close>

theorem get_expect_request:
  assumes "exp_laws E emits grows room msgs A" "exp_counted (e_exp K)"
    and "\<forall>p x. e_exp K p = Some x \<longrightarrow> e_ct K (exp_master x) \<noteq> None"
    and "nlmsg_flags info AND NLM_F_DUMP = 0"
    and "exp_request_tuple R cda (nfgen_family info) = Inr (tuple, zone)"
    and "ctnetlink_get_expect R E info cda K = (r, K')"
  shows "K' = K \<and> (case fst (nf_ct_expect_find_get E (e_exp K) (info_net info) zone tuple) of
      None \<Rightarrow> r = Exp_failed ENOENT
    | Some p \<Rightarrow> \<exists>x m. e_exp K p = Some x \<and> e_ct K (exp_master x) = Some m \<and>
        (if \<exists>a. cda CTA_EXPECT_ID = Some a \<and> nla_get_be32 R a \<noteq> nf_expect_get_id E p x
         then r = Exp_failed ENOENT
         else if nlmsg_new E NLMSG_DEFAULT_SIZE \<noteq> None \<and>
            NFNL_HDR_SIZE + attrs_size (exp_attrs E A p x m) \<le> NLMSG_DEFAULT_SIZE + 16
         then \<exists>skb. r = Exp_sent skb (nfnetlink_unicast E skb (info_net info) (info_portid info)) \<and>
           msgs skb = [(exp_msg (info_portid info) (nlmsg_seq info) IPCTNL_MSG_EXP_NEW
             (if info_portid info \<noteq> 0 then NLM_F_MULTI else 0) x, exp_attrs E A p x m)]
         else r = Exp_failed ENOMEM))"
  by (rule exp_laws.get_expect_cases [OF assms(1,2) _ assms(4-6)]) (use assms(3) in blast)

theorem get_expect_request_witness:
  "\<exists>skb. ctnetlink_get_expect ref_new ref_exp demo_create_info demo_del demo_esys =
     (Exp_sent skb (Inr ()), demo_esys) \<and> length (buf_msgs skb) = 1"
proof -
  let ?r = "ctnetlink_get_expect ref_new ref_exp demo_create_info demo_del demo_esys"
  have x: "e_exp demo_esys 4 = Some demo_expect" "e_ct demo_esys (exp_master demo_expect) = Some demo_master"
    by (simp_all add: demo_esys_def demo_expect_def)
  have id: "nla_get_be32 ref_new (Leaf CTA_EXPECT_ID (V_be32 5)) = 5" by code_simp
  have i: "demo_del CTA_EXPECT_ID = Some (Leaf CTA_EXPECT_ID (V_be32 5))" by (simp add: demo_del_def)
  have size: "NFNL_HDR_SIZE + attrs_size (exp_attrs ref_exp ref_attrs 4 demo_expect demo_master)
      \<le> NLMSG_DEFAULT_SIZE + 16" by code_simp
  have new: "nlmsg_new ref_exp NLMSG_DEFAULT_SIZE \<noteq> None"
    "nfnetlink_unicast ref_exp skb n j = Inr ()" for skb n j by (simp_all add: ref_exp_sel)
  from get_expect_request [where r = "fst ?r" and K' = "snd ?r",
      OF ref_exp.exp_laws_axioms demo_esys_ok(1,3) demo_del_ok(6,3)]
    x i id size new demo_del_ok(4,5)
  show ?thesis by (auto simp: prod_eq_iff split: if_splits)
qed

section \<open>Where the code faults or wraps\<close>

text \<open>
  A timeout of 4294968 seconds is cut to 704 ticks; a verdict's expectation without a tuple, a
  connection's dump after the connection is gone, and a deletion by helper name that meets a master
  without a helper area each follow a null or dead pointer.
\<close>

lemma exp_ticks_wraps: "exp_ticks ref_new (Leaf CTA_EXPECT_TIMEOUT (V_be32 (htonl 4294968))) = 704"
  by code_simp

lemma attach_without_tuple:
  "fst (ctnetlink_glue_attach_expect ref_new ref_exp (Nest 5 []) 2 0 False demo_esys) = Inl OOPS"
  by code_simp

lemma exp_ct_dump_dead:
  "e_ct (es_sys s) m = None \<Longrightarrow> ctnetlink_exp_ct_dump_table E c m s = Inl OOPS"
  by (simp add: ctnetlink_exp_ct_dump_table_def)

lemma iter_name_without_help:
  "st (exp_master x) = Some m \<Longrightarrow> ext_help m = None \<Longrightarrow> expect_iter_name st name x = Inl OOPS"
  by (simp add: expect_iter_name_def)

lemma del_by_name_faults:
  "fst (ctnetlink_del_expect ref_new ref_exp demo_create_info
     [CTA_EXPECT_HELP_NAME \<mapsto> Leaf CTA_EXPECT_HELP_NAME (V_string ''ftp'')]
     (demo_esys\<lparr>e_ct := [2 \<mapsto> sample_ct]\<rparr>)) = Inl OOPS"
  by code_simp

end
