(* ===== verification/Gen_Netlink.thy ===== *)
theory Gen_Netlink
  imports Ct_Table_Spec
begin

text \<open>
  The generic netlink interface (\<open>kmod/gen_netlink.c\<close>): a filter names one connection, the reply holds
  the recorded sequence and acknowledgement numbers. With the two structures of the command line
  tool (\<open>cli/cmd/netlink.go\<close>) that travel in the request and in the reply.
\<close>

section \<open>The structures and their memory\<close>

record tcp_seq_filter =
  flt_id :: u32
  flt_zone :: u32
  flt_src_ip :: u32
  flt_dst_ip :: u32
  flt_src_port :: u16
  flt_dst_port :: u16
  flt_protocol :: u8
  flt_dummy :: "u8 \<times> u8 \<times> u8"

record tcp_seq =
  sq_id :: u32
  sq_seq :: u32
  sq_ack :: u32

text \<open>
  Neither structure has padding. \<open>filter_at\<close> reads a filter from memory, which must hold 24 bytes;
  the attribute it is in may be shorter.
\<close>

definition tcp_seq_bytes :: "tcp_seq \<Rightarrow> u8 list" where
  "tcp_seq_bytes r = le32 (sq_id r) @ le32 (sq_seq r) @ le32 (sq_ack r)"

definition filter_at :: "u8 list \<Rightarrow> tcp_seq_filter option" where
  "filter_at m =
     (case (rd32 m 0, rd32 m 4, rd32 m 8, rd32 m 12, rd16 m 16, rd16 m 18, rd8 m 20, rd8 m 21, rd8 m 22,
            rd8 m 23) of
        (Some i, Some z, Some s, Some d, Some sp, Some dp, Some p, Some x, Some y, Some w) \<Rightarrow>
          Some \<lparr>flt_id = i, flt_zone = z, flt_src_ip = s, flt_dst_ip = d, flt_src_port = sp,
            flt_dst_port = dp, flt_protocol = p, flt_dummy = (x, y, w)\<rparr>
      | _ \<Rightarrow> None)"

section \<open>The kernel side\<close>

text \<open>
  Of \<open>genl_info\<close>: namespace, sender, sequence number, and the filter attribute, as its payload and the
  memory that follows it. The generic netlink header has the layout of the netfilter one, with the
  command where that has the address family, then the version of the family and two bytes of
  zero, so \<open>genlmsg_put\<close> is the message builder of before. \<open>genlmsg_unicast\<close> takes the buffer.
\<close>

record genl_info =
  gi_net :: nat
  gi_snd_seq :: u32
  gi_snd_portid :: u32
  gi_filter :: "(u8 list \<times> u8 list) option"

text \<open>A family: its operations are the commands with their policies, all handled by one function.\<close>

record genl_family =
  fam_name :: string
  fam_version :: u8
  fam_maxattr :: nat
  fam_netnsok :: bool
  fam_ops :: "(u16 \<times> nla_policy) list"

record 'skb genl_env = "'skb tab_env" +
  genl_family_id :: nat
  genlmsg_new :: "nat \<Rightarrow> 'skb option"
  genlmsg_unicast :: "'skb \<Rightarrow> nat \<Rightarrow> u32 \<Rightarrow> unit res"
  genl_register_family :: "genl_family \<Rightarrow> unit res"

abbreviation (input) VGW_NL_CT_CMD_DUMP :: u16 where "VGW_NL_CT_CMD_DUMP \<equiv> 1"
abbreviation (input) VGW_NL_CT_ATTR_FILTER :: nat where "VGW_NL_CT_ATTR_FILTER \<equiv> 1"
abbreviation (input) VGW_NL_CT_ATTR_TCP_SEQ :: nat where "VGW_NL_CT_ATTR_TCP_SEQ \<equiv> 2"
abbreviation (input) VGW_NL_CT_ATTR_MAX :: nat where "VGW_NL_CT_ATTR_MAX \<equiv> 2"
abbreviation (input) GENL_HDRLEN :: nat where "GENL_HDRLEN \<equiv> 4"

definition vgw_genl_policy :: nla_policy where
  "vgw_genl_policy = [(VGW_NL_CT_ATTR_FILTER, NLA_BINARY, 24)]"

definition vgw_genl_family :: genl_family where
  "vgw_genl_family = \<lparr>fam_name = ''vgw_nl_ct'', fam_version = 1, fam_maxattr = VGW_NL_CT_ATTR_MAX,
     fam_netnsok = False, fam_ops = [(VGW_NL_CT_CMD_DUMP, vgw_genl_policy)]\<rparr>"

definition filter_zone :: "tcp_seq_filter \<Rightarrow> nf_conntrack_zone" where
  "filter_zone flt = \<lparr>zone_id = ucast (flt_zone flt), zone_flags = 0, zone_dir = NF_CT_ZONE_DIR_ORIG\<rparr>"

definition filter_tuple :: "tcp_seq_filter \<Rightarrow> nf_conntrack_tuple" where
  "filter_tuple flt =
     \<lparr>src_u3 = any_addr\<lparr>all0 := htonl (flt_src_ip flt)\<rparr>, src_u = htons (flt_src_port flt),
      src_l3num = NFPROTO_IPV4, dst_u3 = any_addr\<lparr>all0 := htonl (flt_dst_ip flt)\<rparr>,
      dst_u = htons (flt_dst_port flt), dst_protonum = flt_protocol flt, dst_dir = IP_CT_DIR_ORIGINAL\<rparr>"

definition seq_reply :: "u32 \<Rightarrow> nf_conn \<Rightarrow> tcp_seq" where
  "seq_reply idn ct = \<lparr>sq_id = idn, sq_seq = last_seq (ct_proto ct), sq_ack = last_ack (ct_proto ct)\<rparr>"

text \<open>The function always returns 0; its effects are on the reply and on the reference count.\<close>

definition looup_conntrack_by_filter ::
  "('skb, 'x) genl_env_scheme \<Rightarrow> genl_info \<Rightarrow> tcp_seq_filter \<Rightarrow> 'skb \<Rightarrow> ct_store \<Rightarrow> ('skb \<times> ct_store) res" where
  "looup_conntrack_by_filter E info flt skb st =
     (case nf_conntrack_find_get E st (gi_net info) (filter_zone flt) (filter_tuple flt) of
        (None, st1) \<Rightarrow> Inr (skb, st1)
      | (Some p, st1) \<Rightarrow>
          (case st1 p of
             None \<Rightarrow> Inl OOPS
           | Some ct \<Rightarrow>
               (let idn = ntohl (nf_ct_get_id E p ct) in
                if flt_id flt \<noteq> idn then Inr (skb, nf_ct_put E st1 p)
                else (case put E VGW_NL_CT_ATTR_TCP_SEQ (V_bin (tcp_seq_bytes (seq_reply idn ct))) skb of
                        (_, skb1) \<Rightarrow> Inr (skb1, nf_ct_put E st1 p)))))"

text \<open>
  The code, the store afterwards, the message handed to \<open>genlmsg_unicast\<close>, and a buffer that was
  allocated and then neither sent nor freed.
\<close>

record 'skb genl_out =
  go_ret :: "unit res"
  go_store :: ct_store
  go_sent :: "'skb option"
  go_leaked :: "'skb option"

definition genl_msg :: "('skb, 'x) genl_env_scheme \<Rightarrow> genl_info \<Rightarrow> nlmsg" where
  "genl_msg E info = \<lparr>msg_portid = 0, msg_seq = gi_snd_seq info, msg_type = genl_family_id E, msg_flags = 0,
     msg_family = VGW_NL_CT_CMD_DUMP, msg_version = fam_version vgw_genl_family, msg_res_id = 0\<rparr>"

definition dump_conntrack_tcp_seq ::
  "('skb, 'x) genl_env_scheme \<Rightarrow> genl_info option \<Rightarrow> tcp_seq_filter \<Rightarrow> ct_store \<Rightarrow> 'skb genl_out" where
  "dump_conntrack_tcp_seq E info_ptr flt st =
     (case info_ptr of
        None \<Rightarrow> \<lparr>go_ret = Inl ENOMEM, go_store = st, go_sent = None, go_leaked = None\<rparr>
      | Some info \<Rightarrow>
          (case genlmsg_new E NLMSG_DEFAULT_SIZE of
             None \<Rightarrow> \<lparr>go_ret = Inl ENOMEM, go_store = st, go_sent = None, go_leaked = None\<rparr>
           | Some skb \<Rightarrow>
               (case w_msg_put E skb (genl_msg E info) of
                  None \<Rightarrow> \<lparr>go_ret = Inl ENOMEM, go_store = st, go_sent = None, go_leaked = Some skb\<rparr>
                | Some (skb1, h) \<Rightarrow>
                    (case looup_conntrack_by_filter E info flt skb1 st of
                       Inl e \<Rightarrow> \<lparr>go_ret = Inl e, go_store = st, go_sent = None, go_leaked = None\<rparr>
                     | Inr (skb2, st1) \<Rightarrow>
                         (let skb3 = w_msg_end E skb2 h in
                          \<lparr>go_ret = genlmsg_unicast E skb3 (gi_net info) (gi_snd_portid info),
                           go_store = st1, go_sent = Some skb3, go_leaked = None\<rparr>)))))"

text \<open>The payload is read as a whole filter, whatever its length; beyond the memory is a fault.\<close>

definition vgw_genl_rx_msg ::
  "('skb, 'x) genl_env_scheme \<Rightarrow> genl_info \<Rightarrow> ct_store \<Rightarrow> 'skb genl_out" where
  "vgw_genl_rx_msg E info st =
     (case gi_filter info of
        None \<Rightarrow> \<lparr>go_ret = Inl EINVAL, go_store = st, go_sent = None, go_leaked = None\<rparr>
      | Some (payload, after) \<Rightarrow>
          (case filter_at (payload @ after) of
             None \<Rightarrow> \<lparr>go_ret = Inl OOPS, go_store = st, go_sent = None, go_leaked = None\<rparr>
           | Some flt \<Rightarrow> dump_conntrack_tcp_seq E (Some info) flt st))"

definition vgw_genl_init :: "('skb, 'x) genl_env_scheme \<Rightarrow> bool \<Rightarrow> unit res \<times> bool" where
  "vgw_genl_init E registered =
     (case genl_register_family E vgw_genl_family of
        Inl e \<Rightarrow> (Inl EINVAL, registered) | Inr _ \<Rightarrow> (Inr (), True))"

definition vgw_genl_exit :: "bool \<Rightarrow> bool" where
  "vgw_genl_exit registered = False"

section \<open>The command line tool\<close>

definition TcpSeqFilter_Marshal :: "tcp_seq_filter \<Rightarrow> u8 list" where
  "TcpSeqFilter_Marshal f = le32 (flt_id f) @ le32 (flt_zone f) @ le32 (flt_src_ip f) @ le32 (flt_dst_ip f) @
     le16 (flt_src_port f) @ le16 (flt_dst_port f) @ [flt_protocol f] @ [fst (flt_dummy f)] @
     [fst (snd (flt_dummy f))] @ [snd (snd (flt_dummy f))]"

text \<open>An index past the end panics, here \<open>None\<close>.\<close>

definition TcpSeq_UnMarshal :: "u8 list \<Rightarrow> tcp_seq option" where
  "TcpSeq_UnMarshal b =
     (case (rd32 b 0, rd32 b 4, rd32 b 8) of
        (Some i, Some s, Some a) \<Rightarrow> Some \<lparr>sq_id = i, sq_seq = s, sq_ack = a\<rparr> | _ \<Rightarrow> None)"

section \<open>Layouts agree\<close>

lemma filter_at_Marshal: "filter_at (TcpSeqFilter_Marshal f @ rest) = Some f"
  unfolding filter_at_def TcpSeqFilter_Marshal_def by (simp add: byte_simps)

lemma UnMarshal_tcp_seq: "TcpSeq_UnMarshal (tcp_seq_bytes r @ rest) = Some r"
  unfolding TcpSeq_UnMarshal_def tcp_seq_bytes_def by (simp add: byte_simps)

lemma length_tcp_seq [simp]: "length (tcp_seq_bytes r) = 12"
  by (simp add: tcp_seq_bytes_def)

section \<open>What a request is answered\<close>

definition genl_found ::
  "('skb, 'x) genl_env_scheme \<Rightarrow> genl_info \<Rightarrow> tcp_seq_filter \<Rightarrow> ct_store \<Rightarrow> tcp_seq option" where
  "genl_found E info f st =
     (case fst (nf_conntrack_find_get E st (gi_net info) (filter_zone f) (filter_tuple f)) of
        None \<Rightarrow> None
      | Some p \<Rightarrow>
          (case st p of
             None \<Rightarrow> None
           | Some ct \<Rightarrow>
               if flt_id f = ntohl (nf_ct_get_id E p (ct\<lparr>ct_use := Suc (ct_use ct)\<rparr>))
               then Some (seq_reply (flt_id f) ct) else None))"

definition genl_attrs :: "tcp_seq option \<Rightarrow> nlattr list" where
  "genl_attrs r = (case r of None \<Rightarrow> [] | Some q \<Rightarrow> [Leaf VGW_NL_CT_ATTR_TCP_SEQ (V_bin (tcp_seq_bytes q))])"

text \<open>
  The memory behind a short filter attribute is read as part of the filter: the answer depends on
  payload and following memory together only, wherever the payload ends.
\<close>

lemma genl_short_filter:
  "vgw_genl_rx_msg E (info\<lparr>gi_filter := Some (take n m, drop n m)\<rparr>) st =
   (case filter_at m of
      None \<Rightarrow> \<lparr>go_ret = Inl OOPS, go_store = st, go_sent = None, go_leaked = None\<rparr>
    | Some flt \<Rightarrow> dump_conntrack_tcp_seq E (Some (info\<lparr>gi_filter := Some (take n m, drop n m)\<rparr>)) flt st)"
  by (simp add: vgw_genl_rx_msg_def)

text \<open>A new generic netlink message has room for both headers and the payload.\<close>

locale genl_laws = lookup_laws E emits grows room msgs A
  for E :: "('skb, 'x) genl_env_scheme" and emits grows room msgs A +
  assumes new_genl: "genlmsg_new E n = Some skb \<Longrightarrow> msgs skb = [] \<and> room skb = 16 + GENL_HDRLEN + n"
begin

text \<open>The lookup writes the reply, when there is one, and returns its reference.\<close>

lemma looup_cases:
  assumes "counted st" "attrs_size (genl_attrs (genl_found E info f st)) \<le> room skb"
  shows "\<exists>skb'. looup_conntrack_by_filter E info f skb st = Inr (skb', st) \<and>
    emits skb (genl_attrs (genl_found E info f st)) skb'"
proof (cases "nf_conntrack_find_get E st (gi_net info) (filter_zone f) (filter_tuple f)")
  case (Pair h st1)
  show ?thesis
  proof (cases h)
    case None
    then show ?thesis using Pair find_none emits_refl
      by (auto simp: looup_conntrack_by_filter_def genl_found_def genl_attrs_def)
  next
    case (Some p)
    with Pair find_some obtain ct where ct: "st p = Some ct" "st1 = hold st (Some p)" by blast
    let ?ct = "ct\<lparr>ct_use := Suc (ct_use ct)\<rparr>"
    have st1: "st1 p = Some ?ct" using ct by (simp add: hold_apply)
    have returned: "nf_ct_put E st1 p = st" using put_found [OF assms(1) ct(1)] ct(2) by simp
    have q: "seq_reply i ?ct = seq_reply i ct" for i by (simp add: seq_reply_def)
    show ?thesis
    proof (cases "flt_id f = ntohl (nf_ct_get_id E p ?ct)")
      case False
      then show ?thesis using Pair Some ct(1) st1 returned emits_refl
        by (auto simp: looup_conntrack_by_filter_def genl_found_def genl_attrs_def Let_def)
    next
      case True
      then have fd: "genl_attrs (genl_found E info f st) =
          [Leaf VGW_NL_CT_ATTR_TCP_SEQ (V_bin (tcp_seq_bytes (seq_reply (flt_id f) ct)))]"
        using Pair Some ct(1) by (simp add: genl_found_def genl_attrs_def)
      from emt_fits [OF emt_put assms(2) [unfolded fd]] obtain skb' where
        "put E VGW_NL_CT_ATTR_TCP_SEQ (V_bin (tcp_seq_bytes (seq_reply (flt_id f) ct))) skb = (Inr (), skb')"
        "emits skb [Leaf VGW_NL_CT_ATTR_TCP_SEQ (V_bin (tcp_seq_bytes (seq_reply (flt_id f) ct)))] skb'"
        by blast
      then show ?thesis using Pair Some st1 returned True fd q
        by (auto simp: looup_conntrack_by_filter_def Let_def)
    qed
  qed
qed

lemma found_attrs:
  "case fst (nf_conntrack_find_get E st (gi_net info) (filter_zone f) (filter_tuple f)) of
     None \<Rightarrow> genl_attrs (genl_found E info f st) = []
   | Some p \<Rightarrow> \<exists>ct. st p = Some ct \<and>
       (if ntohl (nf_ct_get_id E p (ct\<lparr>ct_use := Suc (ct_use ct)\<rparr>)) = flt_id f
        then \<exists>b q. genl_attrs (genl_found E info f st) = [Leaf VGW_NL_CT_ATTR_TCP_SEQ (V_bin b)] \<and>
          TcpSeq_UnMarshal b = Some q \<and> sq_id q = flt_id f \<and>
          sq_seq q = last_seq (ct_proto ct) \<and> sq_ack q = last_ack (ct_proto ct)
        else genl_attrs (genl_found E info f st) = [])"
proof (cases "nf_conntrack_find_get E st (gi_net info) (filter_zone f) (filter_tuple f)")
  case (Pair h st1)
  have "TcpSeq_UnMarshal (tcp_seq_bytes q) = Some q" for q using UnMarshal_tcp_seq [of q "[]"] by simp
  moreover obtain ct where "\<forall>p. h = Some p \<longrightarrow> st p = Some ct"
    using find_some [of st "gi_net info" "filter_zone f" "filter_tuple f" _ st1] Pair by (cases h) auto
  ultimately show ?thesis using Pair
    by (cases h) (simp_all add: genl_found_def genl_attrs_def seq_reply_def)
qed

lemma genl_attrs_small: "attrs_size (genl_attrs r) \<le> 16"
  by (simp add: genl_attrs_def nla_total_size_def split: option.split)

lemma dump_tcp_seq_cases:
  assumes "counted st"
  shows "case genlmsg_new E NLMSG_DEFAULT_SIZE of
      None \<Rightarrow> dump_conntrack_tcp_seq E (Some info) f st =
        \<lparr>go_ret = Inl ENOMEM, go_store = st, go_sent = None, go_leaked = None\<rparr>
    | Some _ \<Rightarrow> \<exists>skb. dump_conntrack_tcp_seq E (Some info) f st =
        \<lparr>go_ret = genlmsg_unicast E skb (gi_net info) (gi_snd_portid info), go_store = st,
          go_sent = Some skb, go_leaked = None\<rparr> \<and>
        msgs skb = [(genl_msg E info, genl_attrs (genl_found E info f st))]"
proof (cases "genlmsg_new E NLMSG_DEFAULT_SIZE")
  case None
  then show ?thesis by (simp add: dump_conntrack_tcp_seq_def)
next
  case (Some skb)
  note b = new_genl [OF Some]
  then obtain skb1 h where p: "w_msg_put E skb (genl_msg E info) = Some (skb1, h)"
    using msg_none [of skb "genl_msg E info"] by fastforce
  from msg_some [OF p] b have "attrs_size (genl_attrs (genl_found E info f st)) \<le> room skb1"
    using genl_attrs_small [of "genl_found E info f st"] by simp
  from looup_cases [OF assms this] obtain skb2 where l:
    "looup_conntrack_by_filter E info f skb1 st = Inr (skb2, st)"
    "emits skb1 (genl_attrs (genl_found E info f st)) skb2" by blast
  from msg_emits [OF p l(2)] b show ?thesis using Some p l(1)
    by (simp add: dump_conntrack_tcp_seq_def Let_def)
qed

end

section \<open>A reference environment\<close>

definition ref_genl :: "buf genl_env" where
  "ref_genl = tab_env.extend (tab_env.truncate ref_tab) 
     (genl_env.fields 30 (\<lambda>n. Some \<lparr>b_room = 16 + GENL_HDRLEN + n, b_toks = []\<rparr>) (\<lambda>skb net portid. Inr ())
       (\<lambda>f. Inr ()))"

lemmas ref_genl_sel = ref_genl_def ref_tab_sel genl_env.defs

lemma ref_genl_lookup: "lookup_laws ref_genl buf_emits buf_grows b_room buf_msgs ref_attrs"
  using ref_lookup.lookup_laws_axioms
  unfolding lookup_laws_def table_laws_def dump_laws_def nl_writer_laws_def lookup_laws_axioms_def
    table_laws_axioms_def dump_laws_axioms_def
  by (simp add: ref_genl_sel)

interpretation ref_genl: genl_laws ref_genl buf_emits buf_grows b_room buf_msgs ref_attrs
  by (rule genl_laws.intro [OF ref_genl_lookup], unfold_locales) (auto simp: ref_genl_sel buf_msgs_def)

section \<open>Properties\<close>

text \<open>
  The tuple and zone a filter asks for, read from the side of the kernel: addresses and ports in
  host order are those of the filter, an IPv4 tuple in the original direction with unused address
  words zero; the zone number is the filter's modulo 65536.
\<close>

definition filter_names :: "tcp_seq_filter \<Rightarrow> nf_conntrack_tuple \<Rightarrow> nf_conntrack_zone \<Rightarrow> bool" where
  "filter_names f t z \<longleftrightarrow>
     src_l3num t = NFPROTO_IPV4 \<and> dst_protonum t = flt_protocol f \<and> dst_dir t = IP_CT_DIR_ORIGINAL \<and>
     ntohl (all0 (src_u3 t)) = flt_src_ip f \<and> ntohl (all0 (dst_u3 t)) = flt_dst_ip f \<and>
     ntohs (src_u t) = flt_src_port f \<and> ntohs (dst_u t) = flt_dst_port f \<and>
     (\<forall>u\<in>{src_u3 t, dst_u3 t}. all1 u = 0 \<and> all2 u = 0 \<and> all3 u = 0) \<and>
     unat (zone_id z) = unat (flt_zone f) mod 65536 \<and> zone_flags z = 0 \<and> zone_dir z = NF_CT_ZONE_DIR_ORIG"

lemma filter_names_unique: "filter_names f t z \<Longrightarrow> t = filter_tuple f \<and> z = filter_zone f"
proof
  assume n: "filter_names f t z"
  have "all0 (src_u3 t) = htonl (flt_src_ip f)" "all0 (dst_u3 t) = htonl (flt_dst_ip f)"
    "src_u t = htons (flt_src_port f)" "dst_u t = htons (flt_dst_port f)"
    using n by (auto simp: filter_names_def dest: sym)
  with n show "t = filter_tuple f"
    by (intro nf_conntrack_tuple.equality)
      (simp_all add: filter_names_def filter_tuple_def any_addr_def nf_inet_addr.equality)
  have "zone_id z = ucast (flt_zone f)"
    using n by (intro word_unat_eq_iff [THEN iffD2]) (simp add: filter_names_def unsigned_ucast_eq take_bit_eq_mod)
  with n show "z = filter_zone f"
    by (intro nf_conntrack_zone.equality) (simp_all add: filter_names_def filter_zone_def)
qed

lemma filter_names_code: "filter_names f (filter_tuple f) (filter_zone f)"
  by (simp add: filter_names_def filter_tuple_def filter_zone_def any_addr_def unsigned_ucast_eq take_bit_eq_mod)

text \<open>
  C40. A request whose filter is what the command line tool marshals is answered with one
  message to its sender, whenever a buffer can be had. The connection looked up is that of the tuple
  and zone the filter names. When there is one and it has the identifier of the filter, the message
  holds one attribute, which the tool decodes to that identifier and to the sequence and
  acknowledgement numbers recorded in the connection; otherwise it holds none. Without a buffer the
  request fails. In both cases all reference counts are as before and no buffer is lost.
\<close>

theorem genl_request_answer:
  assumes "genl_laws E emits grows room msgs A" "counted st"
    and "gi_filter info = Some (TcpSeqFilter_Marshal f, after)" and "filter_names f t z"
  shows "case genlmsg_new E NLMSG_DEFAULT_SIZE of
      None \<Rightarrow> vgw_genl_rx_msg E info st =
        \<lparr>go_ret = Inl ENOMEM, go_store = st, go_sent = None, go_leaked = None\<rparr>
    | Some _ \<Rightarrow> \<exists>skb as. vgw_genl_rx_msg E info st =
        \<lparr>go_ret = genlmsg_unicast E skb (gi_net info) (gi_snd_portid info), go_store = st,
          go_sent = Some skb, go_leaked = None\<rparr> \<and>
        msgs skb = [(\<lparr>msg_portid = 0, msg_seq = gi_snd_seq info, msg_type = genl_family_id E, msg_flags = 0,
          msg_family = VGW_NL_CT_CMD_DUMP, msg_version = 1, msg_res_id = 0\<rparr>, as)] \<and>
        (case fst (nf_conntrack_find_get E st (gi_net info) z t) of
           None \<Rightarrow> as = []
         | Some p \<Rightarrow> \<exists>ct. st p = Some ct \<and>
             (if ntohl (nf_ct_get_id E p (ct\<lparr>ct_use := Suc (ct_use ct)\<rparr>)) = flt_id f
              then \<exists>b q. as = [Leaf VGW_NL_CT_ATTR_TCP_SEQ (V_bin b)] \<and> TcpSeq_UnMarshal b = Some q \<and>
                sq_id q = flt_id f \<and> sq_seq q = last_seq (ct_proto ct) \<and> sq_ack q = last_ack (ct_proto ct)
              else as = []))"
proof (cases "genlmsg_new E NLMSG_DEFAULT_SIZE")
  case None
  with genl_laws.dump_tcp_seq_cases [OF assms(1,2), of info f] assms(3) show ?thesis
    by (simp add: vgw_genl_rx_msg_def filter_at_Marshal)
next
  case (Some skb0)
  have t: "t = filter_tuple f" "z = filter_zone f" using filter_names_unique [OF assms(4)] by simp_all
  have msg: "genl_msg E info = \<lparr>msg_portid = 0, msg_seq = gi_snd_seq info, msg_type = genl_family_id E,
      msg_flags = 0, msg_family = VGW_NL_CT_CMD_DUMP, msg_version = 1, msg_res_id = 0\<rparr>"
    by (simp add: genl_msg_def vgw_genl_family_def)
  have rx: "vgw_genl_rx_msg E info st = dump_conntrack_tcp_seq E (Some info) f st"
    using assms(3) by (simp add: vgw_genl_rx_msg_def filter_at_Marshal)
  from genl_laws.dump_tcp_seq_cases [OF assms(1,2), of info f] Some obtain skb where
    skb: "vgw_genl_rx_msg E info st = \<lparr>go_ret = genlmsg_unicast E skb (gi_net info) (gi_snd_portid info),
      go_store = st, go_sent = Some skb, go_leaked = None\<rparr>"
    "msgs skb = [(genl_msg E info, genl_attrs (genl_found E info f st))]" unfolding rx by auto
  have "case fst (nf_conntrack_find_get E st (gi_net info) z t) of
       None \<Rightarrow> genl_attrs (genl_found E info f st) = []
     | Some p \<Rightarrow> \<exists>ct. st p = Some ct \<and>
         (if ntohl (nf_ct_get_id E p (ct\<lparr>ct_use := Suc (ct_use ct)\<rparr>)) = flt_id f
          then \<exists>b q. genl_attrs (genl_found E info f st) = [Leaf VGW_NL_CT_ATTR_TCP_SEQ (V_bin b)] \<and>
            TcpSeq_UnMarshal b = Some q \<and> sq_id q = flt_id f \<and>
            sq_seq q = last_seq (ct_proto ct) \<and> sq_ack q = last_ack (ct_proto ct)
          else genl_attrs (genl_found E info f st) = [])"
    unfolding t by (rule genl_laws.found_attrs [OF assms(1)])
  with Some skb show ?thesis unfolding msg by auto
qed

text \<open>The filter for the sample connection, whose identifier in \<open>ref_genl\<close> is its address 2.\<close>

definition demo_filter :: tcp_seq_filter where
  "demo_filter = \<lparr>flt_id = ntohl 2, flt_zone = 100, flt_src_ip = 0x0A000001, flt_dst_ip = 0x0A000002,
     flt_src_port = 0x3039, flt_dst_port = 80, flt_protocol = 6, flt_dummy = (0, 0, 0)\<rparr>"

definition demo_genl_info :: genl_info where
  "demo_genl_info = \<lparr>gi_net = 0, gi_snd_seq = 8, gi_snd_portid = 5,
     gi_filter = Some (TcpSeqFilter_Marshal demo_filter, [])\<rparr>"

theorem genl_request_answer_witness:
  "\<exists>skb b q. go_sent (vgw_genl_rx_msg ref_genl demo_genl_info (k_ct demo_sys)) = Some skb \<and>
     go_store (vgw_genl_rx_msg ref_genl demo_genl_info (k_ct demo_sys)) = k_ct demo_sys \<and>
     map snd (buf_msgs skb) = [[Leaf VGW_NL_CT_ATTR_TCP_SEQ (V_bin b)]] \<and> TcpSeq_UnMarshal b = Some q \<and>
     sq_id q = ntohl 2 \<and> sq_seq q = 1000 \<and> sq_ack q = 77"
proof -
  have c: "counted (k_ct demo_sys)" by (auto simp: counted_def demo_sys_def sample_ct_def)
  have g: "gi_filter demo_genl_info = Some (TcpSeqFilter_Marshal demo_filter, [])"
    by (simp add: demo_genl_info_def)
  note n = filter_names_code [of demo_filter]
  have found: "fst (nf_conntrack_find_get ref_genl (k_ct demo_sys) (gi_net demo_genl_info)
      (filter_zone demo_filter) (filter_tuple demo_filter)) = Some 2" by code_simp
  have ct: "k_ct demo_sys 2 = Some sample_ct"
    and idn: "ntohl (nf_ct_get_id ref_genl 2 (sample_ct\<lparr>ct_use := Suc (ct_use sample_ct)\<rparr>)) = flt_id demo_filter"
    and num: "last_seq (ct_proto sample_ct) = 1000" "last_ack (ct_proto sample_ct) = 77"
      "flt_id demo_filter = ntohl 2"
    by (simp add: demo_sys_def, code_simp+)
  have new: "genlmsg_new ref_genl NLMSG_DEFAULT_SIZE =
      Some \<lparr>b_room = 16 + GENL_HDRLEN + NLMSG_DEFAULT_SIZE, b_toks = []\<rparr>" by (simp add: ref_genl_sel)
  from genl_request_answer [OF ref_genl.genl_laws_axioms c g n, unfolded new option.case found ct] idn
  obtain skb b q where
    "vgw_genl_rx_msg ref_genl demo_genl_info (k_ct demo_sys) =
      \<lparr>go_ret = genlmsg_unicast ref_genl skb (gi_net demo_genl_info) (gi_snd_portid demo_genl_info),
        go_store = k_ct demo_sys, go_sent = Some skb, go_leaked = None\<rparr>"
    "map snd (buf_msgs skb) = [[Leaf VGW_NL_CT_ATTR_TCP_SEQ (V_bin b)]]" "TcpSeq_UnMarshal b = Some q"
    "sq_id q = flt_id demo_filter" "sq_seq q = last_seq (ct_proto sample_ct)"
    "sq_ack q = last_ack (ct_proto sample_ct)" by auto
  with num show ?thesis by auto
qed

end
