(* ===== verification/Vgw_Module.thy ===== *)
theory Vgw_Module
  imports Ct_Expect
begin

text \<open>
  Loading and unloading the module: the probe of \<open>kmod/kprobe.c\<close>, the tracker's entry points in
  \<open>kmod/tcp_track.c\<close>, and the registrations with nfnetlink, with the network namespaces and with the
  packet queue in \<open>kmod/vgw_ct_netlink.c\<close>, with the tables of callbacks they hand over.
\<close>

section \<open>Tables of callbacks\<close>

text \<open>The functions the tables point to, by name.\<close>

datatype callback =
    CB_new_conntrack | CB_get_conntrack | CB_del_conntrack | CB_stat_ct_cpu | CB_stat_ct
  | CB_get_ct_dying | CB_get_ct_unconfirmed
  | CB_get_expect | CB_new_expect | CB_del_expect | CB_stat_exp_cpu
  | CB_conntrack_event | CB_expect_event
  | CB_glue_build_size | CB_glue_build | CB_glue_parse | CB_glue_attach_expect | CB_glue_seqadj

text \<open>A request callback; without a policy \<open>attr_count\<close> is zero. All run under the subsystem's mutex.\<close>

record nfnl_callback =
  cb_call :: callback
  cb_attr_count :: nat
  cb_policy :: "nla_policy option"

record nfnetlink_subsystem =
  sub_name :: string
  subsys_id :: nat
  sub_cb :: "nfnl_callback option list"

record nf_ct_event_notifier =
  ct_event :: callback
  exp_event :: callback

record nfnl_ct_hook =
  hook_build_size :: callback
  hook_build :: callback
  hook_parse :: callback
  hook_attach_expect :: callback
  hook_seq_adjust :: callback

text \<open>The tables, in the order of the message numbers.\<close>

definition ctnl_cb :: "nfnl_callback option list" where
  "ctnl_cb = map Some
     [\<lparr>cb_call = CB_new_conntrack, cb_attr_count = CTA_MAX, cb_policy = Some ct_nla_policy\<rparr>,
      \<lparr>cb_call = CB_get_conntrack, cb_attr_count = CTA_MAX, cb_policy = Some ct_nla_policy\<rparr>,
      \<lparr>cb_call = CB_del_conntrack, cb_attr_count = CTA_MAX, cb_policy = Some ct_nla_policy\<rparr>,
      \<lparr>cb_call = CB_get_conntrack, cb_attr_count = CTA_MAX, cb_policy = Some ct_nla_policy\<rparr>,
      \<lparr>cb_call = CB_stat_ct_cpu, cb_attr_count = 0, cb_policy = None\<rparr>,
      \<lparr>cb_call = CB_stat_ct, cb_attr_count = 0, cb_policy = None\<rparr>,
      \<lparr>cb_call = CB_get_ct_dying, cb_attr_count = 0, cb_policy = None\<rparr>,
      \<lparr>cb_call = CB_get_ct_unconfirmed, cb_attr_count = 0, cb_policy = None\<rparr>]"

definition ctnl_exp_cb :: "nfnl_callback option list" where
  "ctnl_exp_cb = map Some
     [\<lparr>cb_call = CB_new_expect, cb_attr_count = CTA_EXPECT_MAX, cb_policy = Some exp_nla_policy\<rparr>,
      \<lparr>cb_call = CB_get_expect, cb_attr_count = CTA_EXPECT_MAX, cb_policy = Some exp_nla_policy\<rparr>,
      \<lparr>cb_call = CB_del_expect, cb_attr_count = CTA_EXPECT_MAX, cb_policy = Some exp_nla_policy\<rparr>,
      \<lparr>cb_call = CB_stat_exp_cpu, cb_attr_count = 0, cb_policy = None\<rparr>]"

definition ctnl_subsys :: nfnetlink_subsystem where
  "ctnl_subsys = \<lparr>sub_name = ''conntrack'', subsys_id = NFNL_SUBSYS_CTNETLINK, sub_cb = ctnl_cb\<rparr>"

definition ctnl_exp_subsys :: nfnetlink_subsystem where
  "ctnl_exp_subsys =
     \<lparr>sub_name = ''conntrack_expect'', subsys_id = NFNL_SUBSYS_CTNETLINK_EXP, sub_cb = ctnl_exp_cb\<rparr>"

definition ctnl_notifier :: nf_ct_event_notifier where
  "ctnl_notifier = \<lparr>ct_event = CB_conntrack_event, exp_event = CB_expect_event\<rparr>"

definition ctnetlink_glue_hook :: nfnl_ct_hook where
  "ctnetlink_glue_hook =
     \<lparr>hook_build_size = CB_glue_build_size, hook_build = CB_glue_build, hook_parse = CB_glue_parse,
      hook_attach_expect = CB_glue_attach_expect, hook_seq_adjust = CB_glue_seqadj\<rparr>"

section \<open>The registrations\<close>

text \<open>
  What the kernel keeps of the module: the probe on \<open>ovs_ct_execute\<close>, the subsystems by number, whether
  the namespace operations are registered, the notifier of each namespace, the queue's hook; and
  the namespaces there are.
\<close>

record vgw_sys =
  v_kretprobe :: bool
  v_subsys :: "nat \<Rightarrow> nfnetlink_subsystem option"
  v_pernet :: bool
  v_notifier :: "nat \<Rightarrow> nf_ct_event_notifier option"
  v_hook :: "nfnl_ct_hook option"
  v_nets :: "nat list"

text \<open>The operations a module has for the namespaces that come and go.\<close>

record pernet_operations =
  ops_init :: "nat \<Rightarrow> vgw_sys \<Rightarrow> unit res \<times> vgw_sys"
  ops_pre_exit :: "nat \<Rightarrow> vgw_sys \<Rightarrow> vgw_sys"

text \<open>
  The kernel's registration functions: what the first two answer, and what those for namespaces do,
  which call the operations they are given.
\<close>

record module_env =
  register_kretprobe :: "unit res"
  nfnetlink_subsys_register :: "(nat \<Rightarrow> nfnetlink_subsystem option) \<Rightarrow> nfnetlink_subsystem \<Rightarrow> unit res"
  register_pernet_subsys :: "pernet_operations \<Rightarrow> vgw_sys \<Rightarrow> unit res \<times> vgw_sys"
  unregister_pernet_subsys :: "pernet_operations \<Rightarrow> vgw_sys \<Rightarrow> vgw_sys"

definition kprobe_init :: "module_env \<Rightarrow> vgw_sys \<Rightarrow> unit res \<times> vgw_sys" where
  "kprobe_init E k =
     (case register_kretprobe E of Inl e \<Rightarrow> (Inl e, k) | Inr _ \<Rightarrow> (Inr (), k\<lparr>v_kretprobe := True\<rparr>))"

definition kprobe_exit :: "vgw_sys \<Rightarrow> vgw_sys" where
  "kprobe_exit k = k\<lparr>v_kretprobe := False\<rparr>"

text \<open>The result of \<open>kprobe_init\<close> is not looked at.\<close>

definition vgw_tcptrack_init :: "module_env \<Rightarrow> vgw_sys \<Rightarrow> unit res \<times> vgw_sys" where
  "vgw_tcptrack_init E k = (Inr (), snd (kprobe_init E k))"

definition vgw_tcptrack_exit :: "vgw_sys \<Rightarrow> vgw_sys" where
  "vgw_tcptrack_exit k = kprobe_exit k"

definition ctnetlink_net_init :: "nat \<Rightarrow> vgw_sys \<Rightarrow> unit res \<times> vgw_sys" where
  "ctnetlink_net_init net k = (Inr (), k\<lparr>v_notifier := (v_notifier k)(net \<mapsto> ctnl_notifier)\<rparr>)"

definition ctnetlink_net_pre_exit :: "nat \<Rightarrow> vgw_sys \<Rightarrow> vgw_sys" where
  "ctnetlink_net_pre_exit net k = k\<lparr>v_notifier := (v_notifier k)(net := None)\<rparr>"

definition ctnetlink_net_ops :: pernet_operations where
  "ctnetlink_net_ops = \<lparr>ops_init = ctnetlink_net_init, ops_pre_exit = ctnetlink_net_pre_exit\<rparr>"

definition subsys_register :: "module_env \<Rightarrow> nfnetlink_subsystem \<Rightarrow> vgw_sys \<Rightarrow> unit res \<times> vgw_sys" where
  "subsys_register E s k =
     (case nfnetlink_subsys_register E (v_subsys k) s of
        Inl e \<Rightarrow> (Inl e, k)
      | Inr _ \<Rightarrow> (Inr (), k\<lparr>v_subsys := (v_subsys k)(subsys_id s \<mapsto> s)\<rparr>))"

definition nfnetlink_subsys_unregister :: "nfnetlink_subsystem \<Rightarrow> vgw_sys \<Rightarrow> vgw_sys" where
  "nfnetlink_subsys_unregister s k = k\<lparr>v_subsys := (v_subsys k)(subsys_id s := None)\<rparr>"

text \<open>The labels \<open>err_unreg_exp_subsys\<close> and \<open>err_unreg_subsys\<close> undo what was registered before.\<close>

definition ctnetlink_init :: "module_env \<Rightarrow> vgw_sys \<Rightarrow> unit res \<times> vgw_sys" where
  "ctnetlink_init E k =
     (case vgw_tcptrack_init E k of
        (Inl e, k1) \<Rightarrow> (Inl e, k1)
      | (Inr _, k1) \<Rightarrow>
          (case subsys_register E ctnl_subsys k1 of
             (Inl e, k2) \<Rightarrow> (Inl e, k2)
           | (Inr _, k2) \<Rightarrow>
               (case subsys_register E ctnl_exp_subsys k2 of
                  (Inl e, k3) \<Rightarrow> (Inl e, nfnetlink_subsys_unregister ctnl_subsys k3)
                | (Inr _, k3) \<Rightarrow>
                    (case register_pernet_subsys E ctnetlink_net_ops k3 of
                       (Inl e, k4) \<Rightarrow> (Inl e, nfnetlink_subsys_unregister ctnl_subsys
                                              (nfnetlink_subsys_unregister ctnl_exp_subsys k4))
                     | (Inr _, k4) \<Rightarrow> (Inr (), k4\<lparr>v_hook := Some ctnetlink_glue_hook\<rparr>)))))"

definition ctnetlink_exit :: "module_env \<Rightarrow> vgw_sys \<Rightarrow> vgw_sys" where
  "ctnetlink_exit E k =
     (nfnetlink_subsys_unregister ctnl_subsys
        (nfnetlink_subsys_unregister ctnl_exp_subsys
          (unregister_pernet_subsys E ctnetlink_net_ops (vgw_tcptrack_exit k))))\<lparr>v_hook := None\<rparr>"

end
