(* ===== verification/Vgw_Module_Spec.thy ===== *)
theory Vgw_Module_Spec
  imports Vgw_Module
begin

text \<open>
  What is registered with the kernel over the life of the module: a step relation of loading,
  unloading, and namespaces that come and go, its invariant, and what a failing load leaves behind.
\<close>

section \<open>The kernel's side\<close>

text \<open>
  Registering namespace operations runs \<open>init\<close> for every namespace there is; a registration that fails
  although no \<open>init\<close> does leaves everything as it was. Taking the operations back runs \<open>pre_exit\<close> for
  every namespace.
\<close>

locale module_laws =
  fixes E :: module_env
  assumes pernet_done: "register_pernet_subsys E ops k = (Inr (), k') \<Longrightarrow>
      k' = fold (\<lambda>net k. snd (ops_init ops net k)) (v_nets k) (k\<lparr>v_pernet := True\<rparr>)"
    and pernet_failed: "register_pernet_subsys E ops k = (Inl e, k') \<Longrightarrow>
      \<forall>net k. fst (ops_init ops net k) = Inr () \<Longrightarrow> k' = k"
    and pernet_gone: "unregister_pernet_subsys E ops k = fold (ops_pre_exit ops) (v_nets k) (k\<lparr>v_pernet := False\<rparr>)"

section \<open>The life of the module\<close>

record mod_state =
  ms_loaded :: bool
  ms_sys :: vgw_sys

text \<open>A namespace that appears or disappears runs the registered operations.\<close>

definition net_appears :: "nat \<Rightarrow> vgw_sys \<Rightarrow> vgw_sys" where
  "net_appears n k =
     (let k1 = k\<lparr>v_nets := n # v_nets k\<rparr> in if v_pernet k then snd (ctnetlink_net_init n k1) else k1)"

definition net_vanishes :: "nat \<Rightarrow> vgw_sys \<Rightarrow> vgw_sys" where
  "net_vanishes n k =
     (if v_pernet k then ctnetlink_net_pre_exit n k else k)\<lparr>v_nets := filter (\<lambda>m. m \<noteq> n) (v_nets k)\<rparr>"

inductive mod_step :: "mod_state \<Rightarrow> mod_state \<Rightarrow> bool" where
  load: "\<lbrakk>module_laws E; \<not> ms_loaded s; ctnetlink_init E (ms_sys s) = (Inr (), k)\<rbrakk> \<Longrightarrow>
    mod_step s \<lparr>ms_loaded = True, ms_sys = k\<rparr>"
| load_fails: "\<lbrakk>module_laws E; \<not> ms_loaded s; ctnetlink_init E (ms_sys s) = (Inl e, k)\<rbrakk> \<Longrightarrow>
    mod_step s \<lparr>ms_loaded = False, ms_sys = k\<rparr>"
| unload: "\<lbrakk>module_laws E; ms_loaded s\<rbrakk> \<Longrightarrow> mod_step s \<lparr>ms_loaded = False, ms_sys = ctnetlink_exit E (ms_sys s)\<rparr>"
| net_new: "n \<notin> set (v_nets (ms_sys s)) \<Longrightarrow> mod_step s (s\<lparr>ms_sys := net_appears n (ms_sys s)\<rparr>)"
| net_gone: "n \<in> set (v_nets (ms_sys s)) \<Longrightarrow> mod_step s (s\<lparr>ms_sys := net_vanishes n (ms_sys s)\<rparr>)"

inductive mod_reach :: "mod_state \<Rightarrow> mod_state \<Rightarrow> bool" for s0 where
  start: "mod_reach s0 s0"
| step: "\<lbrakk>mod_reach s0 s; mod_step s s'\<rbrakk> \<Longrightarrow> mod_reach s0 s'"

section \<open>The invariant\<close>

text \<open>
  Both subsystems, the namespace operations, the hook and one notifier per namespace are registered
  while the module is loaded, and none of them otherwise.
\<close>

definition mod_ok :: "mod_state \<Rightarrow> bool" where
  "mod_ok s \<longleftrightarrow> (let k = ms_sys s; on = ms_loaded s in
     v_subsys k NFNL_SUBSYS_CTNETLINK = (if on then Some ctnl_subsys else None) \<and>
     v_subsys k NFNL_SUBSYS_CTNETLINK_EXP = (if on then Some ctnl_exp_subsys else None) \<and>
     v_pernet k = on \<and> v_hook k = (if on then Some ctnetlink_glue_hook else None) \<and>
     (\<forall>n. v_notifier k n = (if on \<and> n \<in> set (v_nets k) then Some ctnl_notifier else None)))"

lemma fold_net_init:
  "fold (\<lambda>net k. snd (ctnetlink_net_init net k)) ns k =
     k\<lparr>v_notifier := (\<lambda>n. if n \<in> set ns then Some ctnl_notifier else v_notifier k n)\<rparr>"
  by (induction ns arbitrary: k) (auto simp: ctnetlink_net_init_def fun_eq_iff)

lemma fold_net_exit:
  "fold ctnetlink_net_pre_exit ns k =
     k\<lparr>v_notifier := (\<lambda>n. if n \<in> set ns then None else v_notifier k n)\<rparr>"
  by (induction ns arbitrary: k) (auto simp: ctnetlink_net_pre_exit_def fun_eq_iff)

lemma subsys_ids [simp]: "subsys_id ctnl_subsys = 1" "subsys_id ctnl_exp_subsys = 2"
  by (simp_all add: ctnl_subsys_def ctnl_exp_subsys_def)

text \<open>The two ends of a load.\<close>

context module_laws
begin

lemma pernet_ends:
  "register_pernet_subsys E ctnetlink_net_ops k = (Inl e, k') \<Longrightarrow> k' = k"
  "register_pernet_subsys E ctnetlink_net_ops k = (Inr u, k') \<Longrightarrow> k' = k\<lparr>v_pernet := True,
     v_notifier := (\<lambda>n. if n \<in> set (v_nets k) then Some ctnl_notifier else v_notifier k n)\<rparr>"
proof -
  have "\<forall>net k. fst (ops_init ctnetlink_net_ops net k) = Inr ()"
    by (simp add: ctnetlink_net_ops_def ctnetlink_net_init_def)
  then show "register_pernet_subsys E ctnetlink_net_ops k = (Inl e, k') \<Longrightarrow> k' = k"
    using pernet_failed by blast
  show "register_pernet_subsys E ctnetlink_net_ops k = (Inr u, k') \<Longrightarrow> k' = k\<lparr>v_pernet := True,
     v_notifier := (\<lambda>n. if n \<in> set (v_nets k) then Some ctnl_notifier else v_notifier k n)\<rparr>"
    using pernet_done [of ctnetlink_net_ops k k'] by (simp add: ctnetlink_net_ops_def fold_net_init cong: if_cong)
qed

lemma init_cases:
  assumes "ctnetlink_init E k = (r, k')"
  shows "case r of
      Inr _ \<Rightarrow> k' = k\<lparr>v_kretprobe := v_kretprobe k \<or> register_kretprobe E = Inr (),
        v_subsys := (v_subsys k)(1 \<mapsto> ctnl_subsys, 2 \<mapsto> ctnl_exp_subsys), v_pernet := True,
        v_notifier := (\<lambda>n. if n \<in> set (v_nets k) then Some ctnl_notifier else v_notifier k n),
        v_hook := Some ctnetlink_glue_hook\<rparr>
    | Inl _ \<Rightarrow> v_subsys k 1 = None \<and> v_subsys k 2 = None \<longrightarrow>
        k' = k\<lparr>v_kretprobe := v_kretprobe k \<or> register_kretprobe E = Inr ()\<rparr>"
proof -
  let ?k1 = "k\<lparr>v_kretprobe := v_kretprobe k \<or> register_kretprobe E = Inr ()\<rparr>"
  let ?k2 = "?k1\<lparr>v_subsys := (v_subsys k)(1 \<mapsto> ctnl_subsys)\<rparr>"
  let ?k3 = "?k2\<lparr>v_subsys := (v_subsys k)(1 \<mapsto> ctnl_subsys, 2 \<mapsto> ctnl_exp_subsys)\<rparr>"
  have p: "snd (kprobe_init E k) = ?k1"
    by (cases "register_kretprobe E") (auto simp: kprobe_init_def)
  have un: "g 1 = None \<Longrightarrow> g(Suc 0 := None) = g" "g 2 = None \<Longrightarrow> g(2 := None) = g" "g 1 = None \<Longrightarrow> g 2 = None \<Longrightarrow> g(2 := None, Suc 0 := None) = g"
    for g :: "nat \<Rightarrow> nfnetlink_subsystem option"
    by (auto simp: fun_eq_iff)
  note defs = ctnetlink_init_def vgw_tcptrack_init_def p subsys_register_def nfnetlink_subsys_unregister_def
  show ?thesis
  proof (cases "nfnetlink_subsys_register E (v_subsys k) ctnl_subsys")
    case (Inl e)
    with assms have "r = Inl e \<and> k' = ?k1" by (simp add: defs)
    then show ?thesis by simp
  next
    case s1: (Inr u)
    show ?thesis
    proof (cases "nfnetlink_subsys_register E ((v_subsys k)(1 \<mapsto> ctnl_subsys)) ctnl_exp_subsys")
      case (Inl e)
      with assms s1 have "r = Inl e \<and> k' = ?k2\<lparr>v_subsys := (v_subsys ?k2)(1 := None)\<rparr>" by (simp add: defs)
      then show ?thesis by (simp add: un)
    next
      case s2: (Inr v)
      obtain r4 k4 where s3: "register_pernet_subsys E ctnetlink_net_ops ?k3 = (r4, k4)" by fastforce
      show ?thesis
      proof (cases r4)
        case (Inl e)
        with assms s1 s2 s3 pernet_ends(1) [of ?k3 e k4]
        have "r = Inl e \<and> k' = ?k3\<lparr>v_subsys := (v_subsys ?k3)(2 := None, 1 := None)\<rparr>" by (simp add: defs)
        then show ?thesis by (simp add: un)
      next
        case (Inr w)
        with assms s1 s2 s3 have "r = Inr () \<and> k' = k4\<lparr>v_hook := Some ctnetlink_glue_hook\<rparr>"
          by (simp add: defs)
        with pernet_ends(2) [of ?k3 w k4] s3 Inr show ?thesis by (simp cong: if_cong)
      qed
    qed
  qed
qed

lemma exit_eq:
  "ctnetlink_exit E k = k\<lparr>v_kretprobe := False, v_subsys := (v_subsys k)(2 := None, 1 := None), v_pernet := False,
     v_notifier := (\<lambda>n. if n \<in> set (v_nets k) then None else v_notifier k n), v_hook := None\<rparr>"
  by (cases k) (auto simp: ctnetlink_exit_def vgw_tcptrack_exit_def kprobe_exit_def pernet_gone ctnetlink_net_ops_def
      nfnetlink_subsys_unregister_def fold_net_exit fun_eq_iff)

end

lemma mod_ok_step:
  assumes "mod_step s s'" "mod_ok s"
  shows "mod_ok s'"
  using assms(1)
proof (cases rule: mod_step.cases)
  case (load E k)
  then show ?thesis using module_laws.init_cases [OF load(2,4)] assms(2) by (auto simp: mod_ok_def Let_def)
next
  case (load_fails E e k)
  then show ?thesis using module_laws.init_cases [OF load_fails(2,4)] assms(2) by (auto simp: mod_ok_def Let_def)
next
  case (unload E)
  then show ?thesis using assms(2) by (auto simp: mod_ok_def module_laws.exit_eq Let_def)
next
  case (net_new n)
  then show ?thesis using assms(2)
    by (auto simp: mod_ok_def net_appears_def ctnetlink_net_init_def Let_def)
next
  case (net_gone n)
  then show ?thesis using assms(2)
    by (auto simp: mod_ok_def net_vanishes_def ctnetlink_net_pre_exit_def Let_def)
qed

lemma mod_ok_reach:
  assumes "mod_reach s0 s" "mod_ok s0"
  shows "mod_ok s"
  using assms(1)
proof (induction rule: mod_reach.induct)
  case start
  show ?case by (rule assms(2))
next
  case (step s s')
  show ?case by (rule mod_ok_step [OF step.hyps(2) step.IH])
qed

section \<open>Properties\<close>

text \<open>
  C39. Over any sequence of loads, failing loads, unloads and namespaces coming and going, the
  request tables, the event notifier of every namespace and the queue's hook are registered exactly
  while the module is loaded. A load that fails, at whatever step, undoes everything but one thing:
  the probe that calls the tracker stays registered, although the module is gone. And a load whose
  probe cannot be registered succeeds all the same.
\<close>

theorem module_lifecycle:
  assumes "mod_ok s0" "mod_reach s0 s"
  shows "mod_ok s \<and> (\<not> ms_loaded s \<longrightarrow> (\<forall>E. module_laws E \<longrightarrow> (case ctnetlink_init E (ms_sys s) of
      (Inl e, k) \<Rightarrow> k = (ms_sys s)\<lparr>v_kretprobe := v_kretprobe (ms_sys s) \<or> register_kretprobe E = Inr ()\<rparr>
    | (Inr _, k) \<Rightarrow> v_kretprobe k = (v_kretprobe (ms_sys s) \<or> register_kretprobe E = Inr ()) \<and>
        mod_ok \<lparr>ms_loaded = True, ms_sys = k\<rparr> \<and> \<not> v_kretprobe (ctnetlink_exit E k))))"
proof -
  have ok: "mod_ok s" by (rule mod_ok_reach [OF assms(2,1)])
  have "case ctnetlink_init E (ms_sys s) of
      (Inl e, k) \<Rightarrow> k = (ms_sys s)\<lparr>v_kretprobe := v_kretprobe (ms_sys s) \<or> register_kretprobe E = Inr ()\<rparr>
    | (Inr _, k) \<Rightarrow> v_kretprobe k = (v_kretprobe (ms_sys s) \<or> register_kretprobe E = Inr ()) \<and>
        mod_ok \<lparr>ms_loaded = True, ms_sys = k\<rparr> \<and> \<not> v_kretprobe (ctnetlink_exit E k)"
    if off: "\<not> ms_loaded s" and E: "module_laws E" for E
  proof (cases "ctnetlink_init E (ms_sys s)")
    case (Pair r k)
    show ?thesis
    proof (cases r)
      case (Inl e)
      then show ?thesis using Pair module_laws.init_cases [OF E Pair] ok off by (simp add: mod_ok_def Let_def)
    next
      case (Inr u)
      then have "mod_step s \<lparr>ms_loaded = True, ms_sys = k\<rparr>" using Pair off E by (auto intro: mod_step.load)
      then have "mod_ok \<lparr>ms_loaded = True, ms_sys = k\<rparr>" using ok by (rule mod_ok_step)
      then show ?thesis using Pair Inr module_laws.init_cases [OF E Pair]
        by (simp add: module_laws.exit_eq [OF E])
    qed
  qed
  with ok show ?thesis by (intro conjI impI allI)
qed

text \<open>Nothing registered; a kernel as it should be, and one where the subsystem number is taken.\<close>

definition unloaded :: mod_state where
  "unloaded = \<lparr>ms_loaded = False, ms_sys = \<lparr>v_kretprobe = False, v_subsys = Map.empty, v_pernet = False,
     v_notifier = Map.empty, v_hook = None, v_nets = [0]\<rparr>\<rparr>"

definition ref_env_mod :: module_env where
  "ref_env_mod = \<lparr>register_kretprobe = Inr (), nfnetlink_subsys_register = (\<lambda>t s. Inr ()),
     register_pernet_subsys = (\<lambda>ops k.
       (Inr (), fold (\<lambda>net k. snd (ops_init ops net k)) (v_nets k) (k\<lparr>v_pernet := True\<rparr>))),
     unregister_pernet_subsys = (\<lambda>ops k. fold (ops_pre_exit ops) (v_nets k) (k\<lparr>v_pernet := False\<rparr>))\<rparr>"

definition taken_env :: module_env where
  "taken_env = ref_env_mod\<lparr>nfnetlink_subsys_register := (\<lambda>t s. Inl EBUSY)\<rparr>"

interpretation ref_mod: module_laws ref_env_mod
  by unfold_locales (auto simp: ref_env_mod_def)

interpretation taken_mod: module_laws taken_env
  by unfold_locales (auto simp: taken_env_def ref_env_mod_def)

theorem module_lifecycle_witness:
  "mod_ok unloaded \<and> mod_reach unloaded unloaded \<and>
   ctnetlink_init taken_env (ms_sys unloaded) = (Inl EBUSY, (ms_sys unloaded)\<lparr>v_kretprobe := True\<rparr>) \<and>
   (\<exists>k. ctnetlink_init ref_env_mod (ms_sys unloaded) = (Inr (), k) \<and>
      mod_ok \<lparr>ms_loaded = True, ms_sys = k\<rparr> \<and> v_kretprobe k)"
proof -
  have ok: "mod_ok unloaded" by (simp add: mod_ok_def unloaded_def)
  have r: "fst (ctnetlink_init taken_env (ms_sys unloaded)) = Inl EBUSY"
    "fst (ctnetlink_init ref_env_mod (ms_sys unloaded)) = Inr ()" by code_simp+
  have e: "register_kretprobe taken_env = Inr ()" "register_kretprobe ref_env_mod = Inr ()"
    "\<not> v_kretprobe (ms_sys unloaded)" and off: "\<not> ms_loaded unloaded"
    by (simp_all add: taken_env_def ref_env_mod_def unloaded_def)
  note * = module_lifecycle [OF ok mod_reach.start, THEN conjunct2, THEN mp, OF off, THEN spec, THEN mp]
  from * [OF taken_mod.module_laws_axioms] * [OF ref_mod.module_laws_axioms] r e ok show ?thesis
    by (cases "ctnetlink_init taken_env (ms_sys unloaded)"; cases "ctnetlink_init ref_env_mod (ms_sys unloaded)")
      (auto intro: mod_reach.start)
qed

end
