(* ===== verification/Spec2Isabelle.thy ===== *)
theory Spec2Isabelle
  imports Tcp_Track_Spec Tcp_Session Ct_Expect_Props Ct_Stats Gen_Netlink Vgw_Module_Spec
begin

text \<open>
  The verification of the kernel module \<open>vgw_driver\<close> (\<open>src/kmod\<close>), with the binary formats it shares
  with its command line tool (\<open>src/cli\<close>).

  THE PROGRAM. The module has two halves. A kretprobe on \<open>ovs_ct_execute\<close> of Open vSwitch runs a tracker
  over every packet that went through connection tracking; the tracker finds the connection and
  records TCP state, timeout and sequence numbers in it. A copy of the kernel's \<open>ctnetlink\<close>,
  extended by the record of the tracker, serves connections and expectations over netlink. Both work
  on the connections of the kernel, and share reference counts on them; the netlink half also
  exports what the tracker recorded, and the command line tool decodes it.

  THE MODEL. Objects of the kernel (connections, expectations) live in stores, maps from addresses to
  records; a pointer is an address, an extension area that may be missing is an option. A call that
  follows a pointer to nothing yields the code \<open>OOPS\<close>, so that a theorem about its result also says
  that this does not happen. Other failures are the negative codes of the source as values of
  \<open>errno\<close>. Machine integers are words of their width. Functions of the kernel are fields of
  environment records that every definition takes as an argument: \<open>ct_kernel\<close> for the tracker,
  \<open>nl_writer\<close>, \<open>dump_env\<close>, \<open>tab_env\<close>, \<open>event_env\<close>, \<open>exp_env\<close> and \<open>genl_env\<close> for what is written and for the
  tables, \<open>nl_reader\<close>, \<open>chg_env\<close>, \<open>new_env\<close> and \<open>glue_env\<close> for what is read and changed, \<open>module_env\<close>
  for the registrations of the module. What the code relies on is stated by locales over these records, and each locale is interpreted on a concrete
  environment, in which the witnesses are evaluated.

  THE THEORIES, each with the code it models.
  \<^item> \<open>Vgw_Prelude\<close>: words, byte order, results, sequences of fallible actions.
  \<^item> \<open>Nf_Types\<close>, \<open>Flow\<close>: the structures of connection tracking and of flow keys (\<open>flow.h\<close>,
    \<open>compatibility.h\<close>).
  \<^item> \<open>Tcp_Track\<close>: \<open>tcp_track.c\<close> and the two handlers of \<open>kprobe.c\<close>; the state is the store and the
    flow key, the operation \<open>vgw_tcptrack_main\<close>. \<open>Tcp_Track_Spec\<close>: the kernel's laws
    (\<open>ct_kernel_laws\<close>) and the properties: reference counts are balanced, early exits are inert,
    what a segment records, repetitions, the state after one life of a connection in closed form
    (\<open>life_state\<close>), and what the two probe handlers do together on the memory they are given.
  \<^item> \<open>Nl_Api\<close>: building attributes and messages, with the laws \<open>nl_writer_laws\<close>: what fits is written
    completely, what does not is taken back. Everything below about "one complete message or none"
    rests on its emitters.
  \<^item> \<open>Tcp_Session\<close>: \<open>tcp_session.c\<close> and the decoder of the tool, a round trip, field by field.
  \<^item> \<open>Ct_Dump\<close>, \<open>Ct_Dump_Spec\<close>: the attribute writers up to \<open>ctnetlink_fill_info\<close>, and the tree of
    attributes a message about a connection has (\<open>ct_attrs\<close>).
  \<^item> \<open>Ct_Parse\<close>, \<open>Ct_Parse_Spec\<close>: tuples, zones and filters of requests; the round trip of tuples and
    the meaning of filters.
  \<^item> \<open>Ct_Table\<close>, \<open>Ct_Table_Spec\<close>, \<open>Ct_Request_Spec\<close>: dumps, get, delete and flush. The callback state of
    a dump is \<open>dump_st\<close>; \<open>work\<close> is the abstract list of what is left to dump, which every call refines.
  \<^item> \<open>Ct_Change\<close>, \<open>Ct_Change_Spec\<close>: change and creation; \<open>keeps\<close> is the frame of a change, \<open>created\<close> the
    effect of a creation.
  \<^item> \<open>Ct_Event\<close>, \<open>Ct_Event_Spec\<close>: event messages, and their size against the announced one. \<open>Ct_Stats\<close>:
    statistics.
  \<^item> \<open>Ct_Glue\<close>, \<open>Ct_Glue_Spec\<close>: the packet queue's hook, by how much it exceeds the size it announces, and
    what a verdict does to the status of a connection.
  \<^item> \<open>Ct_Expect\<close>, \<open>Ct_Expect_Spec\<close>, \<open>Ct_Expect_Props\<close>: expectations. The state is \<open>esys\<close>; \<open>exp_left\<close> is what is
    left to dump, \<open>expect_ok\<close> what a request may leave behind.
  \<^item> \<open>Gen_Netlink\<close>: \<open>gen_netlink.c\<close> and the two structures of \<open>cli/cmd/netlink.go\<close>. \<open>filter_names\<close> says which
    tuple and zone a filter of the tool names, independently of the code that reads it.
  \<^item> \<open>Vgw_Module\<close>, \<open>Vgw_Module_Spec\<close>: loading and unloading, the tables of callbacks, and the step relation
    of the module's life. What the kernel does with the operations for network namespaces is a
    parameter with laws (\<open>module_laws\<close>).

  WHAT THE THEOREMS SHOW. Safety of memory and of reference counts: the tracker, the requests and the
  dumps never follow a dead pointer in a well-formed store and give every reference back, except
  where a theorem says otherwise (\<open>dump_resume_leaks\<close>). Messages: complete or absent, and read
  back by the other side; the size announced for an event suffices unless a helper writes data of
  its own, that of the queue hook falls short by at most 24 bytes. Requests: the exact effect on every branch, errors
  included, with the frame that nothing else changed. Dumps: every selected entry once, in order,
  across any number of calls. The module: what is registered at every moment of its life. Theorems
  of kind \<open>error\<close> state where the code does something it does not mean to: an inverted IPv6 filter, a
  lost reference, lost counts, a partial update, uninitialised memory that is sent out.

  LOOPS AND FUEL. Loops over lists and buckets are structural recursions; the loops with a label
  \<open>restart\<close> (\<open>dump_nodes\<close>, \<open>exp_restart\<close>) and those over CPU numbers are functions with proved
  termination: a second pass cannot ask for a third, since the first one clears the remembered entry.
  The only fuel is the number of calls in \<open>dump_session\<close> and the statistics sessions, which stands for user space
  asking again; the theorems give bounds that are enough (one call more than there are entries,
  as many calls as there are CPU numbers).

  NOT MODELLED. One call runs to its end without interference: locks, RCU sections, interrupts and other
  CPUs are left out, as are memory barriers, log messages other than those the tracker's
  flags select, and the code under \<open>#if 0\<close> or under options the module is not built with. Kernel functions are
  environments with laws, not definitions. Of \<open>flow.h\<close> only what the tracker touches is modelled; the
  generated header \<open>vmlinux-5.14.0-362.8.1.el9_3.h\<close> only where it declares a structure the model
  has. The command line tool and its vendored packages are Go programs around sockets and files; of
  them only the encoders and decoders of the shared formats are modelled.
\<close>

end
